(* ===== verification/Nav_Prelude.thy ===== *)
theory Nav_Prelude
  imports Complex_Main "HOL-Library.Word"
begin

text \<open>
  Shared vocabulary of the development: machine integers, shared pointers, optional values and
  the generic transition-system locale every stateful component is an instance of.

  \<^item> \<open>u64\<close> and \<open>u32\<close> are the C++ unsigned types; \<open>+\<close> wraps as it does in the code.
  \<^item> \<open>i64\<close> is a signed 64-bit value, kept as an \<open>int\<close>: signed overflow is undefined behaviour
    in C++, so the model never wraps and the range tests the code makes are written out.
  \<^item> \<open>'a ptr\<close> is a \<open>std::shared_ptr<const T>\<close>: the address \<open>get()\<close> compares, and the immutable
    object it points to. A nullable pointer is \<open>'a ptr option\<close>.
\<close>

section \<open>Machine integers\<close>

type_synonym u64 = "64 word"
type_synonym u32 = "32 word"
type_synonym u8 = "8 word"
type_synonym i64 = int
type_synonym i32 = int

definition i64_max :: int where
  "i64_max = 9223372036854775807"

definition i64_min :: int where
  "i64_min = - 9223372036854775808"

definition in_i64 :: "int \<Rightarrow> bool" where
  "in_i64 n \<longleftrightarrow> i64_min \<le> n \<and> n \<le> i64_max"

definition i32_max :: int where
  "i32_max = 2147483647"

definition in_i32 :: "int \<Rightarrow> bool" where
  "in_i32 n \<longleftrightarrow> - 2147483648 \<le> n \<and> n \<le> i32_max"

named_theorems i64_simps "the bounds of the signed integer types"

lemmas [i64_simps] = i64_max_def i64_min_def in_i64_def i32_max_def in_i32_def

section \<open>Shared pointers\<close>

datatype 'a ptr = Ptr (addr: nat) (deref: 'a)

definition same_ptr :: "'a ptr option \<Rightarrow> 'a ptr option \<Rightarrow> bool" where
  "same_ptr p q \<longleftrightarrow> map_option addr p = map_option addr q"

lemma same_ptr_refl [simp]: "same_ptr p p"
  by (simp add: same_ptr_def)

lemma same_ptr_None [simp]: "same_ptr None p \<longleftrightarrow> p = None" "same_ptr p None \<longleftrightarrow> p = None"
  by (auto simp: same_ptr_def)

lemma same_ptr_Some [simp]: "same_ptr (Some p) (Some q) \<longleftrightarrow> addr p = addr q"
  by (simp add: same_ptr_def)

section \<open>Transition systems\<close>

text \<open>
  A component with state is an initial-state predicate and a step relation. The locale collects
  what every component's invariant proof and every compare-and-swap argument uses.
\<close>

locale transition_system =
  fixes init :: "'s \<Rightarrow> bool"
    and step :: "'s \<Rightarrow> 's \<Rightarrow> bool"
begin

inductive reachable :: "'s \<Rightarrow> bool" where
  reach_init: "init s \<Longrightarrow> reachable s"
| reach_step: "reachable s \<Longrightarrow> step s t \<Longrightarrow> reachable t"

text \<open>\<open>run n s t\<close>: \<open>t\<close> is reached from \<open>s\<close> in exactly \<open>n\<close> steps.\<close>

inductive run :: "nat \<Rightarrow> 's \<Rightarrow> 's \<Rightarrow> bool" where
  run_refl: "run 0 s s"
| run_step: "run n s t \<Longrightarrow> step t u \<Longrightarrow> run (Suc n) s u"

lemma invariant_reachable:
  assumes "\<And>s. init s \<Longrightarrow> I s" and "\<And>s t. I s \<Longrightarrow> step s t \<Longrightarrow> I t"
  shows "reachable s \<Longrightarrow> I s"
  by (induction rule: reachable.induct) (use assms in auto)

lemma invariant_run:
  assumes "\<And>s t. I s \<Longrightarrow> step s t \<Longrightarrow> I t"
  shows "run n s t \<Longrightarrow> I s \<Longrightarrow> I t"
  by (induction rule: run.induct) (use assms in auto)

lemma reachable_run: "run n s t \<Longrightarrow> reachable s \<Longrightarrow> reachable t"
  by (induction rule: run.induct) (auto intro: reach_step)

lemma run_trans: "run m s t \<Longrightarrow> run n t u \<Longrightarrow> run (m + n) s u"
proof (rotate_tac, induction rule: run.induct)
  case (run_step n t u v)
  then show ?case by (simp add: run.run_step)
qed simp

text \<open>A step-wise reflexive and transitive relation holds between the ends of a run.\<close>

lemma run_relation:
  assumes "\<And>s. R s s" and "\<And>s t u. R s t \<Longrightarrow> R t u \<Longrightarrow> R s u"
    and "\<And>s t. I s \<Longrightarrow> step s t \<Longrightarrow> R s t" and "\<And>s t. I s \<Longrightarrow> step s t \<Longrightarrow> I t"
  shows "run n s t \<Longrightarrow> I s \<Longrightarrow> R s t"
proof (induction rule: run.induct)
  case (run_step n s t u)
  then have "I t" using invariant_run [of I n s t] assms(4) by blast
  with run_step show ?case using assms(2,3) by blast
qed (simp add: assms(1))

end

text \<open>
  A store whose version counter moves, by at most \<open>stride\<close> per step, whenever a part \<open>view\<close> of it
  changes: the contract behind every optimistic "is my snapshot still current?" test of the code.
\<close>

locale versioned_store = transition_system init step
  for init :: "'s \<Rightarrow> bool" and step :: "'s \<Rightarrow> 's \<Rightarrow> bool" +
  fixes version :: "'s \<Rightarrow> u64"
    and view :: "'s \<Rightarrow> 'v"
    and stride :: nat
  assumes version_moves:
    "step s t \<Longrightarrow> (view t = view s \<and> version t = version s) \<or>
       (\<exists>k. 0 < k \<and> k \<le> stride \<and> version t = version s + of_nat k)"
begin

lemma run_version:
  "run n s t \<Longrightarrow> (view t = view s \<and> version t = version s) \<or>
     (\<exists>k. 0 < k \<and> k \<le> n * stride \<and> version t = version s + of_nat k)"
proof (induction rule: run.induct)
  case (run_step n s t u)
  from version_moves [OF run_step.hyps(2)] show ?case
  proof (elim disjE exE conjE)
    assume "view u = view t" "version u = version t"
    with run_step.IH show ?thesis by (auto intro: order.trans)
  next
    fix k assume k: "0 < k" "k \<le> stride" "version u = version t + of_nat k"
    from run_step.IH show ?thesis
    proof (elim disjE exE conjE)
      assume "version t = version s"
      with k show ?thesis by (auto intro!: exI [of _ k])
    next
      fix j assume "0 < j" "j \<le> n * stride" "version t = version s + of_nat j"
      with k show ?thesis
        by (intro disjI2 exI [of _ "j + k"]) (simp add: algebra_simps)
    qed
  qed
qed simp

text \<open>No ABA: over fewer than \<open>2 ^ 64\<close> increments, an equal version means an equal view.\<close>

lemma version_identifies_view:
  assumes "run n s t" and "n * stride < 2 ^ 64" and "version t = version s"
  shows "view t = view s"
proof (rule ccontr)
  assume "view t \<noteq> view s"
  with run_version [OF assms(1)] obtain k where k: "0 < k" "k \<le> n * stride"
    "version t = version s + of_nat k" by auto
  with assms(3) have "(of_nat k :: u64) = 0" by simp
  then have "2 ^ 64 dvd k" by (simp add: word_of_nat_eq_0_iff)
  then show False using k(1,2) assms(2) by (meson dvd_imp_le le_trans not_less)
qed

end

section \<open>Binary search\<close>

text \<open>
  \<open>std::lower_bound\<close> with a predicate: \<open>count\<close> elements from \<open>first\<close> on are still undecided. On a range
  that the predicate partitions it returns the number of elements that satisfy it.
\<close>

function lower_bound_from :: "('a \<Rightarrow> bool) \<Rightarrow> 'a list \<Rightarrow> nat \<Rightarrow> nat \<Rightarrow> nat" where
  "lower_bound_from below xs first count =
     (if count = 0 then first
      else let half = count div 2; middle = first + half
           in if below (xs ! middle) then lower_bound_from below xs (middle + 1) (count - half - 1)
              else lower_bound_from below xs first half)"
  by pat_completeness auto
termination
  by (relation "measure (\<lambda>(_, _, _, count). count)") auto

declare lower_bound_from.simps [simp del]

definition lower_bound :: "('a \<Rightarrow> bool) \<Rightarrow> 'a list \<Rightarrow> nat" where
  "lower_bound below xs = lower_bound_from below xs 0 (length xs)"

definition partitioned :: "('a \<Rightarrow> bool) \<Rightarrow> 'a list \<Rightarrow> bool" where
  "partitioned below xs \<longleftrightarrow> (\<forall>i j. i \<le> j \<longrightarrow> j < length xs \<longrightarrow> below (xs ! j) \<longrightarrow> below (xs ! i))"

lemma lower_bound_from_spec:
  assumes "partitioned below xs" "first + count \<le> length xs" "\<forall>i < first. below (xs ! i)"
    and "\<forall>i. first + count \<le> i \<longrightarrow> i < length xs \<longrightarrow> \<not> below (xs ! i)"
  shows "lower_bound_from below xs first count \<le> length xs \<and>
    (\<forall>i < length xs. below (xs ! i) \<longleftrightarrow> i < lower_bound_from below xs first count)"
  using assms
proof (induction below xs first count rule: lower_bound_from.induct)
  case (1 below xs first count)
  show ?case
  proof (cases "count = 0")
    case True
    then have "lower_bound_from below xs first count = first" by (subst lower_bound_from.simps) simp
    moreover have "i < first" if "i < length xs" "below (xs ! i)" for i
      using 1(6) True that by (auto simp: not_less [symmetric])
    ultimately show ?thesis using 1(4,5) True by auto
  next
    case False
    define half where "half = count div 2"
    have m: "first + half < length xs" "half < count" using False 1(4) by (auto simp: half_def)
    show ?thesis
    proof (cases "below (xs ! (first + half))")
      case True
      have "\<forall>i < first + half + 1. below (xs ! i)"
        using True m(1) 1(3) unfolding partitioned_def by (metis less_Suc_eq_le Suc_eq_plus1)
      then have "lower_bound_from below xs (first + half + 1) (count - half - 1) \<le> length xs \<and>
          (\<forall>i < length xs. below (xs ! i) \<longleftrightarrow> i < lower_bound_from below xs (first + half + 1) (count - half - 1))"
        using 1(1) [OF False half_def refl True 1(3)] 1(4,6) m by simp
      moreover have "lower_bound_from below xs first count = lower_bound_from below xs (first + half + 1) (count - half - 1)"
        using False True by (subst lower_bound_from.simps) (simp add: half_def Let_def)
      ultimately show ?thesis by simp
    next
      case no: False
      have "\<forall>i. first + half \<le> i \<longrightarrow> i < length xs \<longrightarrow> \<not> below (xs ! i)"
        using no 1(3) unfolding partitioned_def by blast
      then have "lower_bound_from below xs first half \<le> length xs \<and>
          (\<forall>i < length xs. below (xs ! i) \<longleftrightarrow> i < lower_bound_from below xs first half)"
        using 1(2) [OF False half_def refl no 1(3) _ 1(5)] m by simp
      moreover have "lower_bound_from below xs first count = lower_bound_from below xs first half"
        using False no by (subst lower_bound_from.simps) (simp add: half_def Let_def)
      ultimately show ?thesis by simp
    qed
  qed
qed

lemma lower_bound_spec:
  assumes "partitioned below xs"
  shows "lower_bound below xs \<le> length xs" "i < length xs \<Longrightarrow> below (xs ! i) \<longleftrightarrow> i < lower_bound below xs"
  using lower_bound_from_spec [OF assms, of 0 "length xs"] by (auto simp: lower_bound_def)

end
