(* ===== verification/Fp_Arith.thy ===== *)
theory Fp_Arith
  imports Nav_Prelude
begin

text \<open>
  The floating-point types of the C++ code. A value of type \<open>fp\<close> is a finite rational, an infinity
  or a NaN; \<open>binary64\<close> is \<open>double\<close> and \<open>extended80\<close> is the x86-64 \<open>long double\<close> (64-bit significand).
  Every arithmetic operation computes the exact rational result and rounds it to the nearest
  representable value, ties to even, with gradual underflow and overflow to infinity, as IEEE 754
  prescribes. Comparisons with a NaN are false. The sign of zero is not modelled: the code under
  verification never divides by a zero or inspects a sign bit.

  The locale \<open>rounding_format\<close> states what a client may rely on (rounding is monotone, odd and the
  identity on representable values) and proves it once for every format; both formats are
  interpretations of it.
\<close>

section \<open>Values and formats\<close>

datatype fp = Fin rat | PInf | NInf | NaN

record fp_format =
  precision :: nat
  unit_exponent :: int
  overflow_exponent :: int

definition binary64 :: fp_format where
  "binary64 = \<lparr>precision = 53, unit_exponent = -1074, overflow_exponent = 1024\<rparr>"

definition extended80 :: fp_format where
  "extended80 = \<lparr>precision = 64, unit_exponent = -16445, overflow_exponent = 16384\<rparr>"

function bit_length :: "int \<Rightarrow> int" where
  "bit_length n = (if n \<le> 0 then 0 else 1 + bit_length (n div 2))"
  by pat_completeness auto
termination
  by (relation "measure nat") auto

declare bit_length.simps [simp del]

definition floor_log2 :: "rat \<Rightarrow> int" where
  "floor_log2 x =
     (let (n, d) = quotient_of x; e = bit_length n - bit_length d
      in if x < 2 powi e then e - 1 else e)"

definition round_even :: "rat \<Rightarrow> int" where
  "round_even x =
     (let f = \<lfloor>x\<rfloor>; r = x - of_int f
      in if r < 1 / 2 then f else if 1 / 2 < r then f + 1 else if even f then f else f + 1)"

definition quantum_exp :: "fp_format \<Rightarrow> rat \<Rightarrow> int" where
  "quantum_exp F x = max (floor_log2 \<bar>x\<bar> - (int (precision F) - 1)) (unit_exponent F)"

definition round_rat :: "fp_format \<Rightarrow> rat \<Rightarrow> rat" where
  "round_rat F x =
     (if x = 0 then 0
      else let q = 2 powi quantum_exp F x in of_int (round_even (x / q)) * q)"

definition fround :: "fp_format \<Rightarrow> rat \<Rightarrow> fp" where
  "fround F x =
     (let r = round_rat F x
      in if r = 0 \<or> floor_log2 \<bar>r\<bar> < overflow_exponent F then Fin r
         else if 0 < r then PInf else NInf)"

definition representable :: "fp_format \<Rightarrow> rat \<Rightarrow> bool" where
  "representable F x \<longleftrightarrow>
     (\<exists>m k. x = of_int m * 2 powi k \<and> \<bar>m\<bar> < 2 ^ precision F \<and> unit_exponent F \<le> k)"

text \<open>A value a variable of the format can hold.\<close>

definition fp_ok :: "fp_format \<Rightarrow> fp \<Rightarrow> bool" where
  "fp_ok F v \<longleftrightarrow>
     (case v of Fin x \<Rightarrow> representable F x \<and> \<bar>x\<bar> < 2 powi overflow_exponent F | _ \<Rightarrow> True)"

section \<open>Operations\<close>

type_synonym double = fp
type_synonym long_double = fp

fun fp_neg :: "fp \<Rightarrow> fp" where
  "fp_neg (Fin x) = Fin (- x)"
| "fp_neg PInf = NInf"
| "fp_neg NInf = PInf"
| "fp_neg NaN = NaN"

fun fp_abs :: "fp \<Rightarrow> fp" where
  "fp_abs (Fin x) = Fin \<bar>x\<bar>"
| "fp_abs PInf = PInf"
| "fp_abs NInf = PInf"
| "fp_abs NaN = NaN"

fun fp_add :: "fp_format \<Rightarrow> fp \<Rightarrow> fp \<Rightarrow> fp" where
  "fp_add F (Fin x) (Fin y) = fround F (x + y)"
| "fp_add F NaN b = NaN"
| "fp_add F a NaN = NaN"
| "fp_add F PInf NInf = NaN"
| "fp_add F NInf PInf = NaN"
| "fp_add F PInf b = PInf"
| "fp_add F NInf b = NInf"
| "fp_add F a PInf = PInf"
| "fp_add F a NInf = NInf"

definition fp_sub :: "fp_format \<Rightarrow> fp \<Rightarrow> fp \<Rightarrow> fp" where
  "fp_sub F a b = fp_add F a (fp_neg b)"

fun fp_mul :: "fp_format \<Rightarrow> fp \<Rightarrow> fp \<Rightarrow> fp" where
  "fp_mul F (Fin x) (Fin y) = fround F (x * y)"
| "fp_mul F NaN b = NaN"
| "fp_mul F a NaN = NaN"
| "fp_mul F (Fin x) PInf = (if x = 0 then NaN else if 0 < x then PInf else NInf)"
| "fp_mul F (Fin x) NInf = (if x = 0 then NaN else if 0 < x then NInf else PInf)"
| "fp_mul F PInf (Fin x) = (if x = 0 then NaN else if 0 < x then PInf else NInf)"
| "fp_mul F NInf (Fin x) = (if x = 0 then NaN else if 0 < x then NInf else PInf)"
| "fp_mul F PInf PInf = PInf"
| "fp_mul F PInf NInf = NInf"
| "fp_mul F NInf PInf = NInf"
| "fp_mul F NInf NInf = PInf"

text \<open>
  Division. Zeros are unsigned here, so a nonzero value over zero is taken as over a positive zero; no
  modelled caller divides by zero.
\<close>

fun fp_div :: "fp_format \<Rightarrow> fp \<Rightarrow> fp \<Rightarrow> fp" where
  "fp_div F (Fin x) (Fin y) =
     (if y = 0 then (if x = 0 then NaN else if 0 < x then PInf else NInf) else fround F (x / y))"
| "fp_div F NaN b = NaN"
| "fp_div F a NaN = NaN"
| "fp_div F (Fin x) b = Fin 0"
| "fp_div F PInf (Fin y) = (if 0 \<le> y then PInf else NInf)"
| "fp_div F NInf (Fin y) = (if 0 \<le> y then NInf else PInf)"
| "fp_div F a b = NaN"

fun fp_less :: "fp \<Rightarrow> fp \<Rightarrow> bool" where
  "fp_less (Fin x) (Fin y) = (x < y)"
| "fp_less NInf b = (b \<noteq> NaN \<and> b \<noteq> NInf)"
| "fp_less a PInf = (a \<noteq> NaN \<and> a \<noteq> PInf)"
| "fp_less a b = False"

fun fp_le :: "fp \<Rightarrow> fp \<Rightarrow> bool" where
  "fp_le (Fin x) (Fin y) = (x \<le> y)"
| "fp_le NInf b = (b \<noteq> NaN)"
| "fp_le a PInf = (a \<noteq> NaN)"
| "fp_le a b = False"

text \<open>\<open>a == b\<close>, \<open>std::isfinite\<close>, \<open>std::min\<close>, \<open>std::max\<close> and \<open>std::clamp\<close> as the library defines them.\<close>

definition fp_eq :: "fp \<Rightarrow> fp \<Rightarrow> bool" where
  "fp_eq a b \<longleftrightarrow> a \<noteq> NaN \<and> a = b"

fun isfinite :: "fp \<Rightarrow> bool" where
  "isfinite (Fin x) = True"
| "isfinite _ = False"

definition fp_min :: "fp \<Rightarrow> fp \<Rightarrow> fp" where
  "fp_min a b = (if fp_less b a then b else a)"

definition fp_max :: "fp \<Rightarrow> fp \<Rightarrow> fp" where
  "fp_max a b = (if fp_less a b then b else a)"

definition fp_clamp :: "fp \<Rightarrow> fp \<Rightarrow> fp \<Rightarrow> fp" where
  "fp_clamp v lo hi = (if fp_less v lo then lo else if fp_less hi v then hi else v)"

text \<open>\<open>std::round\<close>: to the nearest integer, halves away from zero. Exact in either format.\<close>

fun fp_round :: "fp \<Rightarrow> fp" where
  "fp_round (Fin x) = Fin (of_int (if 0 \<le> x then \<lfloor>x + 1 / 2\<rfloor> else \<lceil>x - 1 / 2\<rceil>))"
| "fp_round v = v"

text \<open>\<open>std::ceil\<close>: exact in either format.\<close>

fun fp_ceil :: "fp \<Rightarrow> fp" where
  "fp_ceil (Fin x) = Fin (of_int \<lceil>x\<rceil>)"
| "fp_ceil v = v"

text \<open>\<open>std::remainder\<close>: \<open>x - n * y\<close> for the integer \<open>n\<close> nearest to \<open>x / y\<close>, ties to even; exact by IEEE 754.\<close>

fun fp_remainder :: "fp \<Rightarrow> fp \<Rightarrow> fp" where
  "fp_remainder (Fin x) (Fin y) = (if y = 0 then NaN else Fin (x - of_int (round_even (x / y)) * y))"
| "fp_remainder (Fin x) PInf = Fin x"
| "fp_remainder (Fin x) NInf = Fin x"
| "fp_remainder _ _ = NaN"

text \<open>\<open>2.0 * std::acos(-1.0)\<close>: twice the \<open>double\<close> nearest to pi.\<close>

definition two_pi :: double where
  "two_pi = Fin (884279719003555 / 140737488355328)"

text \<open>Conversions: integers and literals round into the format; a narrowing conversion rounds again.\<close>

definition fp_of_int :: "fp_format \<Rightarrow> int \<Rightarrow> fp" where
  "fp_of_int F n = fround F (of_int n)"

definition fp_convert :: "fp_format \<Rightarrow> fp \<Rightarrow> fp" where
  "fp_convert F v = (case v of Fin x \<Rightarrow> fround F x | _ \<Rightarrow> v)"

text \<open>\<open>static_cast<std::int64_t>\<close> of a floating value truncates towards zero.\<close>

fun fp_trunc :: "fp \<Rightarrow> int" where
  "fp_trunc (Fin x) = (if 0 \<le> x then \<lfloor>x\<rfloor> else \<lceil>x\<rceil>)"
| "fp_trunc _ = 0"

abbreviation dlit :: "rat \<Rightarrow> double" where
  "dlit x \<equiv> fround binary64 x"

abbreviation ldlit :: "rat \<Rightarrow> long_double" where
  "ldlit x \<equiv> fround extended80 x"

abbreviation "dadd \<equiv> fp_add binary64"
abbreviation "dsub \<equiv> fp_sub binary64"
abbreviation "dmul \<equiv> fp_mul binary64"
abbreviation "ddiv \<equiv> fp_div binary64"
abbreviation "ldadd \<equiv> fp_add extended80"
abbreviation "ldsub \<equiv> fp_sub extended80"
abbreviation "ldmul \<equiv> fp_mul extended80"

text \<open>\<open>Eigen::Vector3d\<close>: component-wise operations only; its norm is a parameter of the clients.\<close>

record vec3 =
  vx :: double
  vy :: double
  vz :: double

definition vzero :: vec3 where
  "vzero = \<lparr>vx = Fin 0, vy = Fin 0, vz = Fin 0\<rparr>"

definition vfinite :: "vec3 \<Rightarrow> bool" where
  "vfinite v \<longleftrightarrow> isfinite (vx v) \<and> isfinite (vy v) \<and> isfinite (vz v)"

definition vsub :: "vec3 \<Rightarrow> vec3 \<Rightarrow> vec3" where
  "vsub a b = \<lparr>vx = dsub (vx a) (vx b), vy = dsub (vy a) (vy b), vz = dsub (vz a) (vz b)\<rparr>"

definition vle :: "vec3 \<Rightarrow> vec3 \<Rightarrow> bool" where
  "vle a b \<longleftrightarrow> fp_le (vx a) (vx b) \<and> fp_le (vy a) (vy b) \<and> fp_le (vz a) (vz b)"

section \<open>Rounding: monotone, odd, exact on representable values\<close>

lemma bit_length_nonneg: "0 \<le> bit_length n"
  by (induction n rule: bit_length.induct) (subst bit_length.simps, auto)

lemma bit_length_bounds:
  "0 < n \<Longrightarrow> 0 < bit_length n \<and> 2 ^ nat (bit_length n - 1) \<le> n \<and> n < 2 ^ nat (bit_length n)"
proof (induction n rule: bit_length.induct)
  case (1 n)
  show ?case
  proof (cases "n = 1")
    case True
    then show ?thesis by (simp add: bit_length.simps [of 1] bit_length.simps [of 0])
  next
    case False
    with "1.prems" have pos: "0 < n div 2" by simp
    with "1.IH" "1.prems" have ih: "0 < bit_length (n div 2)"
      "2 ^ nat (bit_length (n div 2) - 1) \<le> n div 2" "n div 2 < 2 ^ nat (bit_length (n div 2))"
      by auto
    define b where "b = bit_length (n div 2)"
    have bl: "bit_length n = 1 + b"
      using "1.prems" by (subst bit_length.simps) (simp add: b_def)
    have suc: "nat b = Suc (nat (b - 1))" "nat (1 + b) = Suc (nat b)"
      using ih(1) by (simp_all add: b_def nat_diff_distrib)
    show ?thesis
      using ih suc by (simp add: bl b_def [symmetric]) linarith
  qed
qed

lemma powi_nat: "0 \<le> k \<Longrightarrow> (2 :: rat) powi k = of_int (2 ^ nat k)"
  by (simp add: power_int_def)

lemma powi2_less_iff [simp]: "(2 :: rat) powi a < 2 powi b \<longleftrightarrow> a < b"
proof
  assume less: "(2 :: rat) powi a < 2 powi b"
  show "a < b"
  proof (rule ccontr)
    assume "\<not> a < b"
    then have "(2 :: rat) powi b \<le> 2 powi a" by (intro power_int_increasing) auto
    with less show False by simp
  qed
qed (rule power_int_strict_increasing, auto)

lemma powi2_le_iff [simp]: "(2 :: rat) powi a \<le> 2 powi b \<longleftrightarrow> a \<le> b"
  using powi2_less_iff [of b a] by linarith

lemma floor_log2_bounds:
  assumes "0 < x"
  shows "2 powi floor_log2 x \<le> x \<and> x < 2 powi (floor_log2 x + 1)"
proof -
  obtain n d where nd: "quotient_of x = (n, d)" by fastforce
  have d: "0 < d" using nd by (rule quotient_of_denom_pos)
  have x: "x = of_int n / of_int d" using nd by (rule quotient_of_div)
  with assms d have n: "0 < n"
    by (simp add: zero_less_divide_iff)
  define a b where "a = bit_length n" and "b = bit_length d"
  have a: "0 < a" "2 ^ nat (a - 1) \<le> n" "n < 2 ^ nat a"
    using bit_length_bounds [OF n] by (auto simp: a_def)
  have b: "0 < b" "2 ^ nat (b - 1) \<le> d" "d < 2 ^ nat b"
    using bit_length_bounds [OF d] by (auto simp: b_def)
  have na: "(2::rat) powi (a - 1) \<le> of_int n" "of_int n < (2::rat) powi a"
    using a by (simp_all only: powi_nat of_int_le_iff of_int_less_iff)
  have db: "(2::rat) powi (b - 1) \<le> of_int d" "of_int d < (2::rat) powi b"
    using b by (simp_all only: powi_nat of_int_le_iff of_int_less_iff)
  have lo: "2 powi (a - b - 1) \<le> x"
  proof -
    have "(2::rat) powi (a - b - 1) = 2 powi (a - 1) / 2 powi b"
      by (simp add: power_int_diff [symmetric] algebra_simps)
    also have "\<dots> \<le> of_int n / of_int d"
      using na db d n by (intro frac_le) auto
    finally show ?thesis using x by simp
  qed
  have hi: "x < 2 powi (a - b + 1)"
  proof -
    have "of_int n / of_int d < (2::rat) powi a / 2 powi (b - 1)"
      using na db d n by (intro frac_less) auto
    also have "\<dots> = 2 powi (a - b + 1)"
      by (simp add: power_int_diff [symmetric] algebra_simps)
    finally show ?thesis using x by simp
  qed
  show ?thesis
    using lo hi nd by (auto simp: floor_log2_def Let_def a_def b_def algebra_simps)
qed

lemma floor_log2_unique:
  assumes "2 powi e \<le> x" "x < 2 powi (e + 1)"
  shows "floor_log2 x = e"
proof -
  have "0 < x" using assms(1) by (meson less_le_trans zero_less_numeral zero_less_power_int)
  note b = floor_log2_bounds [OF this]
  have "2 powi floor_log2 x < (2::rat) powi (e + 1)" and "2 powi e < (2::rat) powi (floor_log2 x + 1)"
    using b assms by (blast intro: le_less_trans)+
  then show ?thesis unfolding powi2_less_iff by simp
qed

lemma floor_log2_less_iff:
  "0 < x \<Longrightarrow> floor_log2 x < e \<longleftrightarrow> x < 2 powi e"
proof
  assume "0 < x" and less: "floor_log2 x < e"
  then have "x < 2 powi (floor_log2 x + 1)" using floor_log2_bounds by blast
  also have "\<dots> \<le> 2 powi e" using less by (intro power_int_increasing) auto
  finally show "x < 2 powi e" .
next
  assume "0 < x" and "x < 2 powi e"
  then have "2 powi floor_log2 x < (2::rat) powi e" using floor_log2_bounds by (meson le_less_trans)
  then show "floor_log2 x < e" by simp
qed

lemma floor_log2_abs_less_iff:
  "x \<noteq> 0 \<Longrightarrow> floor_log2 \<bar>x\<bar> < e \<longleftrightarrow> \<bar>x\<bar> < 2 powi e"
  by (rule floor_log2_less_iff) simp

lemma powi2_split: "(2 :: rat) powi k = of_int (2 ^ nat (k - j)) * 2 powi j" if "j \<le> k"
proof -
  have "(2 :: rat) powi k = 2 powi ((k - j) + j)" by simp
  also have "\<dots> = 2 powi (k - j) * 2 powi j" by (rule power_int_add) simp
  finally show ?thesis using that by (simp add: powi_nat)
qed

lemma round_even_of_int [simp]: "round_even (of_int n) = n"
  by (simp add: round_even_def)

lemma round_even_cases: "round_even x = \<lfloor>x\<rfloor> \<or> round_even x = \<lfloor>x\<rfloor> + 1"
  by (simp add: round_even_def Let_def)

lemma round_even_near: "\<bar>of_int (round_even x) - x\<bar> \<le> 1 / 2"
proof -
  have "of_int \<lfloor>x\<rfloor> \<le> x" "x < of_int \<lfloor>x\<rfloor> + 1" using floor_correct [of x] by auto
  then show ?thesis unfolding round_even_def Let_def abs_if by (simp; linarith)
qed

lemma round_even_mono:
  assumes "x \<le> y" shows "round_even x \<le> round_even y"
proof (cases "\<lfloor>x\<rfloor> = \<lfloor>y\<rfloor>")
  case True
  with assms show ?thesis by (auto simp: round_even_def Let_def)
next
  case False
  with assms have "\<lfloor>x\<rfloor> + 1 \<le> \<lfloor>y\<rfloor>" using floor_mono [OF assms] by linarith
  then show ?thesis using round_even_cases [of x] round_even_cases [of y] by linarith
qed

lemma round_even_minus: "round_even (- x) = - round_even x"
proof (cases "x = of_int \<lfloor>x\<rfloor>")
  case True
  then show ?thesis by (metis of_int_minus round_even_of_int)
next
  case False
  have fl: "\<lfloor>- x\<rfloor> = - \<lfloor>x\<rfloor> - 1"
    using False floor_correct [of x] by (intro floor_unique) (auto simp: less_le)
  show ?thesis by (auto simp: round_even_def Let_def fl)
qed

locale rounding_format =
  fixes F :: fp_format
  assumes precision_pos: "1 \<le> precision F"
begin

lemma round_rat_minus: "round_rat F (- x) = - round_rat F x"
  by (simp add: round_rat_def quantum_exp_def Let_def round_even_minus)

lemma quantum_exp_le:
  assumes "x = of_int m * 2 powi k" "\<bar>m\<bar> < 2 ^ precision F" "unit_exponent F \<le> k" "x \<noteq> 0"
  shows "quantum_exp F x \<le> k"
proof -
  have "\<bar>x\<bar> = of_int \<bar>m\<bar> * 2 powi k" using assms(1) by (simp add: abs_mult)
  also have "\<dots> < of_int (2 ^ precision F) * 2 powi k"
    using assms(2) by (intro mult_strict_right_mono) (auto simp only: of_int_less_iff, simp)
  also have "\<dots> = 2 powi (int (precision F) + k)"
    by (simp add: power_int_add)
  finally have "floor_log2 \<bar>x\<bar> < int (precision F) + k"
    using assms(4) by (simp add: floor_log2_less_iff)
  then show ?thesis using assms(3) by (simp add: quantum_exp_def)
qed

lemma round_rat_exact:
  assumes "representable F x" shows "round_rat F x = x"
proof (cases "x = 0")
  case False
  from assms obtain m k where x: "x = of_int m * 2 powi k" "\<bar>m\<bar> < 2 ^ precision F"
    "unit_exponent F \<le> k" by (auto simp: representable_def)
  define q where "q = quantum_exp F x"
  have "q \<le> k" unfolding q_def using x False by (rule quantum_exp_le)
  then have "x = of_int (m * 2 ^ nat (k - q)) * 2 powi q"
    using x(1) by (simp add: powi2_split [of q k])
  then obtain n where n: "x = of_int n * 2 powi q" by blast
  then have "x / 2 powi q = of_int n" by simp
  then have "round_even (x / 2 powi q) = n" by (simp only: round_even_of_int)
  then have "round_rat F x = of_int n * 2 powi q"
    using False by (simp add: round_rat_def Let_def q_def)
  then show ?thesis using n by simp
qed (simp add: round_rat_def)

lemma round_rat_le_grid:
  assumes "0 < x" "x \<le> 2 powi e" "quantum_exp F x \<le> e"
  shows "round_rat F x \<le> 2 powi e"
proof -
  define q where "q = quantum_exp F x"
  have e: "(2::rat) powi e = of_int (2 ^ nat (e - q)) * 2 powi q"
    using assms(3) by (intro powi2_split) (simp add: q_def)
  then have "x / 2 powi q \<le> of_int (2 ^ nat (e - q))"
    using assms(2) by (simp add: divide_le_eq)
  then have "round_even (x / 2 powi q) \<le> 2 ^ nat (e - q)"
    using round_even_mono round_even_of_int by metis
  then have "of_int (round_even (x / 2 powi q)) \<le> (of_int (2 ^ nat (e - q)) :: rat)"
    by (simp only: of_int_le_iff)
  then show ?thesis
    using assms(1) e by (simp add: round_rat_def Let_def mult_right_mono flip: q_def)
qed

lemma round_rat_ge_grid:
  assumes "0 < x" "2 powi e \<le> x" "quantum_exp F x \<le> e"
  shows "2 powi e \<le> round_rat F x"
proof -
  define q where "q = quantum_exp F x"
  have e: "(2::rat) powi e = of_int (2 ^ nat (e - q)) * 2 powi q"
    using assms(3) by (intro powi2_split) (simp add: q_def)
  then have "of_int (2 ^ nat (e - q)) \<le> x / 2 powi q"
    using assms(2) by (simp add: le_divide_eq)
  then have "2 ^ nat (e - q) \<le> round_even (x / 2 powi q)"
    using round_even_mono round_even_of_int by metis
  then have "of_int (2 ^ nat (e - q)) \<le> (of_int (round_even (x / 2 powi q)) :: rat)"
    by (simp only: of_int_le_iff)
  then show ?thesis
    using assms(1) e by (simp add: round_rat_def Let_def mult_right_mono flip: q_def)
qed

lemma floor_log2_mono: "0 < x \<Longrightarrow> x \<le> y \<Longrightarrow> floor_log2 x \<le> floor_log2 y"
  using floor_log2_bounds [of x] floor_log2_bounds [of y] floor_log2_less_iff [of y "floor_log2 x"]
  by linarith

lemma round_rat_mono_pos:
  assumes "0 < x" "x \<le> y" shows "round_rat F x \<le> round_rat F y"
proof (cases "quantum_exp F x = quantum_exp F y")
  case True
  have "x / 2 powi quantum_exp F y \<le> y / 2 powi quantum_exp F y"
    using assms(2) by (simp add: divide_right_mono)
  then have "of_int (round_even (x / 2 powi quantum_exp F y)) \<le>
      (of_int (round_even (y / 2 powi quantum_exp F y)) :: rat)"
    by (simp add: round_even_mono)
  then show ?thesis
    using assms True by (simp add: round_rat_def Let_def mult_right_mono)
next
  case False
  define e where "e = floor_log2 y"
  have le: "floor_log2 x \<le> e" using assms floor_log2_mono by (simp add: e_def)
  with False assms have lt: "floor_log2 x < e"
    by (auto simp: quantum_exp_def e_def)
  have q: "quantum_exp F x \<le> quantum_exp F y" "quantum_exp F x \<noteq> quantum_exp F y"
    using le assms False by (auto simp: quantum_exp_def e_def)
  have qy: "quantum_exp F y \<le> e"
    using q le assms precision_pos by (auto simp: quantum_exp_def e_def max_def split: if_splits)
  have "x \<le> 2 powi e" using lt assms by (simp add: floor_log2_less_iff less_imp_le)
  then have "round_rat F x \<le> 2 powi e"
    using assms q(1) qy by (intro round_rat_le_grid) auto
  also have "\<dots> \<le> round_rat F y"
    using assms qy floor_log2_bounds [of y] by (intro round_rat_ge_grid) (auto simp: e_def)
  finally show ?thesis .
qed

lemma round_rat_nonneg: "0 \<le> x \<Longrightarrow> 0 \<le> round_rat F x"
proof -
  assume "0 \<le> x"
  then have "0 \<le> x / 2 powi quantum_exp F x" by simp
  then have "round_even 0 \<le> round_even (x / 2 powi quantum_exp F x)" by (rule round_even_mono)
  then have "0 \<le> round_even (x / 2 powi quantum_exp F x)"
    using round_even_of_int [of 0] by simp
  then show ?thesis by (simp add: round_rat_def Let_def)
qed

lemma round_rat_mono: "x \<le> y \<Longrightarrow> round_rat F x \<le> round_rat F y"
proof -
  assume le: "x \<le> y"
  consider "0 < x" | "x \<le> 0" "0 \<le> y" | "y < 0" by linarith
  then show ?thesis
  proof cases
    case 1
    then show ?thesis using le by (rule round_rat_mono_pos)
  next
    case 2
    then have "0 \<le> round_rat F (- x)" "0 \<le> round_rat F y"
      by (auto intro: round_rat_nonneg)
    then show ?thesis by (simp add: round_rat_minus)
  next
    case 3
    then have "round_rat F (- y) \<le> round_rat F (- x)"
      using le by (intro round_rat_mono_pos) auto
    then show ?thesis by (simp add: round_rat_minus)
  qed
qed

lemma fround_exact:
  "representable F x \<Longrightarrow> \<bar>x\<bar> < 2 powi overflow_exponent F \<Longrightarrow> fround F x = Fin x"
  by (cases "x = 0") (simp_all add: fround_def Let_def round_rat_exact floor_log2_abs_less_iff)

lemma fround_alt:
  "fround F x = (if \<bar>round_rat F x\<bar> < 2 powi overflow_exponent F then Fin (round_rat F x)
     else if 0 < round_rat F x then PInf else NInf)"
  by (cases "round_rat F x = 0") (auto simp: fround_def Let_def floor_log2_abs_less_iff)

lemma fround_ok: "fp_ok F (Fin x) \<Longrightarrow> fround F x = Fin x"
  by (simp add: fp_ok_def fround_exact)

lemma fround_Fin: "fround F x = Fin r \<Longrightarrow> r = round_rat F x"
  by (auto simp: fround_def Let_def split: if_splits)

text \<open>A value below a representable bound rounds to a finite value below the same bound.\<close>

lemma fround_bounded:
  assumes "fp_ok F (Fin B)" and "\<bar>x\<bar> \<le> B"
  shows "\<exists>r. fround F x = Fin r \<and> \<bar>r\<bar> \<le> B"
proof -
  have B: "round_rat F B = B" "B < 2 powi overflow_exponent F"
    using assms by (auto simp: fp_ok_def round_rat_exact)
  have "round_rat F x \<le> B" "round_rat F (- x) \<le> B"
    using assms(2) B(1) round_rat_mono [of x B] round_rat_mono [of "- x" B] by auto
  then have r: "\<bar>round_rat F x\<bar> \<le> B" by (simp add: round_rat_minus abs_le_iff)
  then have "round_rat F x = 0 \<or> floor_log2 \<bar>round_rat F x\<bar> < overflow_exponent F"
    using B(2) by (cases "round_rat F x = 0") (simp_all add: floor_log2_abs_less_iff)
  then show ?thesis using r by (auto simp: fround_def Let_def)
qed

lemma fround_mono: "x \<le> y \<Longrightarrow> fround F x = Fin r \<Longrightarrow> fround F y = Fin s \<Longrightarrow> r \<le> s"
  by (auto dest!: fround_Fin intro: round_rat_mono)

lemma fround_Fin_below:
  assumes "0 \<le> x" "x \<le> y" "fround F y = Fin r"
  shows "\<exists>s. fround F x = Fin s \<and> 0 \<le> s \<and> s \<le> r"
proof -
  have r: "r = round_rat F y" using assms(3) by (rule fround_Fin)
  have s: "0 \<le> round_rat F x" "round_rat F x \<le> r"
    using assms(1,2) r by (auto intro: round_rat_nonneg round_rat_mono)
  have "r = 0 \<or> \<bar>r\<bar> < 2 powi overflow_exponent F"
    using assms(3) r by (cases "r = 0") (auto simp: fround_def Let_def floor_log2_abs_less_iff split: if_splits)
  then have "round_rat F x = 0 \<or> floor_log2 \<bar>round_rat F x\<bar> < overflow_exponent F"
    using s by (cases "round_rat F x = 0") (auto simp: floor_log2_less_iff)
  then show ?thesis using s by (auto simp: fround_def Let_def)
qed

lemma fround_ge_exact: "representable F x \<Longrightarrow> x \<le> y \<Longrightarrow> fround F y = Fin r \<Longrightarrow> x \<le> r"
  by (metis fround_Fin round_rat_exact round_rat_mono)

lemma fround_0 [simp]: "fround F 0 = Fin 0"
  by (simp add: fround_def round_rat_def)

lemma fround_nonneg: "0 \<le> x \<Longrightarrow> fround F x = Fin r \<Longrightarrow> 0 \<le> r"
  by (auto dest!: fround_Fin intro: round_rat_nonneg)

text \<open>Rounding never turns a nonnegative value into a negative one, an infinity or a NaN below it.\<close>

lemma fround_nonneg_cases: "0 \<le> x \<Longrightarrow> (\<exists>r\<ge>0. fround F x = Fin r) \<or> fround F x = PInf"
  using round_rat_nonneg [of x] by (auto simp: fround_def Let_def)

text \<open>A finite result of rounding is a value of the format.\<close>

lemma round_rat_representable: "representable F (round_rat F x)"
proof (cases "x = 0")
  case True
  then show ?thesis unfolding representable_def by (intro exI [of _ 0] exI [of _ "unit_exponent F"]) (simp add: round_rat_def)
next
  case False
  define q where "q = quantum_exp F x"
  define n where "n = round_even (x / 2 powi q)"
  have r: "round_rat F x = of_int n * 2 powi q" using False by (simp add: round_rat_def q_def n_def Let_def)
  have q: "unit_exponent F \<le> q" "floor_log2 \<bar>x\<bar> + 1 \<le> q + int (precision F)" by (simp_all add: q_def quantum_exp_def)
  have "\<bar>x\<bar> < 2 powi (floor_log2 \<bar>x\<bar> + 1)" using floor_log2_bounds [of "\<bar>x\<bar>"] False by simp
  also have "\<dots> \<le> 2 powi (q + int (precision F))" using q(2) by (simp only: powi2_le_iff)
  also have "\<dots> = of_int (2 ^ precision F) * 2 powi q" by (simp add: power_int_add)
  finally have "\<bar>x\<bar> / 2 powi q < of_int (2 ^ precision F)" by (simp add: divide_less_eq)
  then have "x / 2 powi q \<le> of_int (2 ^ precision F)" "- of_int (2 ^ precision F) \<le> x / 2 powi q"
    by (auto simp: abs_if field_simps split: if_splits)
  then have "n \<le> 2 ^ precision F" "- (2 ^ precision F) \<le> n"
    using round_even_mono [of "x / 2 powi q" "of_int (2 ^ precision F)"]
      round_even_mono [of "of_int (- (2 ^ precision F))" "x / 2 powi q"]
    unfolding n_def round_even_of_int by auto
  then consider "\<bar>n\<bar> < 2 ^ precision F" | "\<bar>n\<bar> = 2 ^ precision F" by linarith
  then show ?thesis
  proof cases
    case 1
    then show ?thesis unfolding representable_def r using q(1) by blast
  next
    case 2
    obtain p where p: "precision F = Suc p" using precision_pos by (cases "precision F") auto
    define m where "m = (if 0 < n then 2 ^ p else - (2 ^ p) :: int)"
    have "n = 2 * m" using 2 by (auto simp: m_def p abs_if split: if_splits)
    then have "of_int n * 2 powi q = of_int m * (2 :: rat) powi (q + 1)" by (simp add: power_int_add)
    moreover have "\<bar>m\<bar> < 2 ^ precision F" by (simp add: m_def p)
    ultimately show ?thesis unfolding representable_def r using q(1) by (intro exI [of _ m] exI [of _ "q + 1"]) simp
  qed
qed

lemma fround_is_ok: "fp_ok F (fround F x)"
  by (auto simp: fround_alt fp_ok_def round_rat_representable split: fp.split)

lemma zero_ok: "fp_ok F (Fin 0)"
  using fround_is_ok [of 0] by simp

lemma fp_add_ok: "fp_ok F (fp_add F a b)"
  by (cases a; cases b) (simp_all add: fround_is_ok, simp_all add: fp_ok_def)

lemma fp_sub_ok: "fp_ok F (fp_sub F a b)"
  by (simp add: fp_sub_def fp_add_ok)

lemma fp_mul_ok: "fp_ok F (fp_mul F a b)"
  by (cases a; cases b) (simp_all add: fround_is_ok, simp_all add: fp_ok_def)

lemma fp_div_ok: "fp_ok F (fp_div F a b)"
  by (cases a; cases b) (simp_all add: fround_is_ok zero_ok, simp_all add: fp_ok_def)

text \<open>Evaluation: the nearest multiple of the quantum of a positive value's binade.\<close>

lemma fround_nearest:
  assumes "2 powi e \<le> x" "x < 2 powi (e + 1)" "q = e - (int (precision F) - 1)" "unit_exponent F \<le> q"
    and "\<bar>x / 2 powi q - of_int n\<bar> < 1 / 2" "e + 1 < overflow_exponent F"
  shows "fround F x = Fin (of_int n * 2 powi q)"
proof -
  have x: "0 < x" using assms(1) by (meson less_le_trans zero_less_numeral zero_less_power_int)
  have "floor_log2 \<bar>x\<bar> = e" using floor_log2_unique [OF assms(1,2)] x by simp
  then have q: "quantum_exp F x = q" using assms(3,4) by (simp add: quantum_exp_def)
  have "\<bar>of_int (round_even (x / 2 powi q)) - (of_int n :: rat)\<bar> < 1"
    using round_even_near [of "x / 2 powi q"] assms(5) by linarith
  then have "\<bar>round_even (x / 2 powi q) - n\<bar> < 1" by (metis of_int_1 of_int_abs of_int_diff of_int_less_iff)
  then have r: "round_rat F x = of_int n * 2 powi q" using x q by (simp add: round_rat_def)
  have "representable F (2 powi (e + 1))"
    unfolding representable_def using assms(3,4) precision_pos
    by (intro exI [of _ 1] exI [of _ "e + 1"]) auto
  then have "round_rat F x \<le> 2 powi (e + 1)"
    using round_rat_mono [of x "2 powi (e + 1)"] assms(2) by (simp add: round_rat_exact)
  also have "\<dots> < 2 powi overflow_exponent F" using assms(6) by simp
  finally have "round_rat F x < 2 powi overflow_exponent F" .
  then show ?thesis
    using round_rat_nonneg [of x] x floor_log2_abs_less_iff [of "round_rat F x" "overflow_exponent F"]
    by (auto simp: fround_def Let_def r)
qed

lemma representable_int:
  "unit_exponent F \<le> 0 \<Longrightarrow> \<bar>n\<bar> < 2 ^ precision F \<Longrightarrow> representable F (of_int n)"
  unfolding representable_def by (intro exI [of _ n] exI [of _ 0]) simp

lemma fround_int:
  assumes "unit_exponent F \<le> 0" "\<bar>n\<bar> < 2 ^ precision F" "int (precision F) \<le> overflow_exponent F"
  shows "fround F (of_int n) = Fin (of_int n)"
proof (rule fround_exact)
  show "representable F (of_int n)" using assms(1,2) by (rule representable_int)
  have "\<bar>of_int n :: rat\<bar> = of_int \<bar>n\<bar>" by simp
  also have "\<dots> < of_int (2 ^ precision F)" using assms(2) by (simp only: of_int_less_iff)
  also have "\<dots> = 2 powi int (precision F)" by simp
  also have "\<dots> \<le> 2 powi overflow_exponent F" using assms(3) by (simp only: powi2_le_iff)
  finally show "\<bar>of_int n :: rat\<bar> < 2 powi overflow_exponent F" .
qed

text \<open>Rounding is monotone, overflow included.\<close>

lemma fround_le: "x \<le> y \<Longrightarrow> fp_le (fround F x) (fround F y)"
  using round_rat_mono [of x y] by (auto simp: fround_alt)

text \<open>A positive tolerance never makes a sum smaller.\<close>

lemma add_tolerance:
  assumes "fp_ok F (Fin d)" "0 \<le> e" "d' \<le> d"
  shows "\<not> fp_less (fp_add F (Fin d) (fround F e)) (Fin d')" "fp_le (Fin d') (fp_add F (Fin d) (fround F e))"
proof -
  have d: "representable F d" using assms(1) by (simp add: fp_ok_def)
  have cases: "(\<exists>r\<ge>d. fp_add F (Fin d) (fround F e) = Fin r) \<or> fp_add F (Fin d) (fround F e) = PInf"
  proof (cases "fround F e")
    case (Fin x)
    then have x: "0 \<le> x" using fround_nonneg [OF assms(2)] by simp
    have "round_rat F d \<le> round_rat F (d + x)"
      using x by (intro round_rat_mono) simp
    then have ge: "d \<le> round_rat F (d + x)" using d by (simp add: round_rat_exact)
    have ninf: "fround F (d + x) \<noteq> NInf"
    proof
      assume "fround F (d + x) = NInf"
      then have n: "\<not> floor_log2 \<bar>round_rat F (d + x)\<bar> < overflow_exponent F"
        "round_rat F (d + x) < 0"
        by (auto simp: fround_def Let_def split: if_splits)
      then have "2 powi overflow_exponent F \<le> \<bar>round_rat F (d + x)\<bar>"
        using floor_log2_abs_less_iff [of "round_rat F (d + x)" "overflow_exponent F"]
        by simp
      moreover have "\<bar>round_rat F (d + x)\<bar> \<le> \<bar>d\<bar>" using ge n(2) by simp
      moreover have "\<bar>d\<bar> < 2 powi overflow_exponent F" using assms(1) by (simp add: fp_ok_def)
      ultimately show False by simp
    qed
    have nn: "fround F (d + x) \<noteq> NaN" by (simp add: fround_def Let_def)
    show ?thesis
    proof (cases "fround F (d + x)")
      case (Fin r)
      then have "d \<le> r" using ge fround_Fin [OF Fin] by simp
      then show ?thesis using \<open>fround F e = Fin x\<close> Fin by simp
    qed (use \<open>fround F e = Fin x\<close> ninf nn in auto)
  qed (use fround_nonneg_cases [OF assms(2)] in auto)
  then show "\<not> fp_less (fp_add F (Fin d) (fround F e)) (Fin d')" "fp_le (Fin d') (fp_add F (Fin d) (fround F e))"
    using assms(3) by auto
qed

end

interpretation b64: rounding_format binary64
  by unfold_locales (simp add: binary64_def)

interpretation x80: rounding_format extended80
  by unfold_locales (simp add: extended80_def)

section \<open>Consequences for the two formats\<close>

named_theorems fp_simps "rewriting of floating-point terms"

lemma b64_int: "\<bar>n\<bar> < 2 ^ 53 \<Longrightarrow> fround binary64 (of_int n) = Fin (of_int n)"
  using b64.fround_int [of n] by (simp add: binary64_def)

lemma x80_int: "\<bar>n\<bar> < 2 ^ 64 \<Longrightarrow> fround extended80 (of_int n) = Fin (of_int n)"
  using x80.fround_int [of n] by (simp add: extended80_def)

text \<open>Every signed 64-bit integer, and every difference of two, is exact as a \<open>long double\<close>.\<close>

lemma x80_i64 [fp_simps]: "in_i64 n \<Longrightarrow> fp_of_int extended80 n = Fin (of_int n)"
  unfolding fp_of_int_def by (rule x80_int) (auto simp: i64_simps)

lemma x80_i64_diff [fp_simps]:
  assumes "in_i64 a" "in_i64 b"
  shows "fp_sub extended80 (fp_of_int extended80 a) (fp_of_int extended80 b) = Fin (of_int (a - b))"
proof -
  have "\<bar>a - b\<bar> < 2 ^ 64" using assms by (auto simp: i64_simps)
  then have "fround extended80 (of_int (a - b)) = Fin (of_int (a - b))" by (rule x80_int)
  then show ?thesis using assms by (simp add: fp_sub_def x80_i64)
qed

text \<open>A \<open>double\<close> converts to \<open>long double\<close> without rounding.\<close>

lemma representable_b64_x80: "representable binary64 x \<Longrightarrow> representable extended80 x"
  unfolding representable_def binary64_def extended80_def by force

lemma b64_ok_x80: "fp_ok binary64 v \<Longrightarrow> fp_ok extended80 v"
proof (cases v)
  case (Fin x)
  assume ok: "fp_ok binary64 v"
  have "overflow_exponent binary64 \<le> overflow_exponent extended80"
    by (simp add: binary64_def extended80_def)
  then have "(2 :: rat) powi overflow_exponent binary64 \<le> 2 powi overflow_exponent extended80"
    by (simp only: powi2_le_iff)
  moreover have "representable binary64 x" "\<bar>x\<bar> < 2 powi overflow_exponent binary64"
    using ok Fin by (simp_all add: fp_ok_def)
  ultimately have "\<bar>x\<bar> < 2 powi overflow_exponent extended80" "representable extended80 x"
    by (blast intro: less_le_trans representable_b64_x80)+
  then show ?thesis using Fin by (simp add: fp_ok_def)
qed (auto simp: fp_ok_def)

lemma isfinite_iff: "isfinite v \<longleftrightarrow> (\<exists>x. v = Fin x)"
  by (cases v) auto

lemma fp_less_irrefl [simp]: "\<not> fp_less v v"
  by (cases v) auto

lemma fp_less_imp_le: "fp_less a b \<Longrightarrow> fp_le a b"
  by (cases a; cases b) auto

lemma fp_le_trans: "fp_le a b \<Longrightarrow> fp_le b c \<Longrightarrow> fp_le a c"
  by (cases a; cases b; cases c) auto

lemma fp_not_less: "isfinite a \<Longrightarrow> isfinite b \<Longrightarrow> \<not> fp_less a b \<longleftrightarrow> fp_le b a"
  by (cases a; cases b) auto

text \<open>Evaluation of the small integers and tolerances that occur in concrete instances.\<close>

lemma b64_numeral [fp_simps]:
  "(numeral n :: int) < 2 ^ 53 \<Longrightarrow> fround binary64 (numeral n) = Fin (numeral n)"
  using b64_int [of "numeral n"] by simp

lemma x80_numeral [fp_simps]:
  "(numeral n :: int) < 2 ^ 64 \<Longrightarrow> fround extended80 (numeral n) = Fin (numeral n)"
  using x80_int [of "numeral n"] by simp

lemma fround_one [fp_simps]: "fround binary64 1 = Fin 1" "fround extended80 1 = Fin 1"
  using b64_int [of 1] x80_int [of 1] by simp_all

lemma b64_ok_int: "\<bar>n\<bar> < 2 ^ 53 \<Longrightarrow> fp_ok binary64 (Fin (of_int n))"
proof -
  assume n: "\<bar>n\<bar> < 2 ^ 53"
  have "\<bar>of_int n :: rat\<bar> = of_int \<bar>n\<bar>" by simp
  also have "\<dots> < of_int (2 ^ 53)" using n by (simp only: of_int_less_iff)
  also have "\<dots> = 2 powi 53" by simp
  also have "\<dots> \<le> 2 powi overflow_exponent binary64" unfolding powi2_le_iff by (simp add: binary64_def)
  finally show ?thesis
    using b64.representable_int [of n] n by (simp add: fp_ok_def binary64_def)
qed

lemma x80_ok_int: "\<bar>n\<bar> < 2 ^ 64 \<Longrightarrow> fp_ok extended80 (Fin (of_int n))"
proof -
  assume n: "\<bar>n\<bar> < 2 ^ 64"
  have "\<bar>of_int n :: rat\<bar> = of_int \<bar>n\<bar>" by simp
  also have "\<dots> < of_int (2 ^ 64)" using n by (simp only: of_int_less_iff)
  also have "\<dots> = 2 powi 64" by simp
  also have "\<dots> \<le> 2 powi overflow_exponent extended80" unfolding powi2_le_iff by (simp add: extended80_def)
  finally have "\<bar>of_int n :: rat\<bar> < 2 powi overflow_exponent extended80" .
  moreover have "unit_exponent extended80 \<le> 0" "\<bar>n\<bar> < 2 ^ precision extended80" using n by (simp_all add: extended80_def)
  ultimately show ?thesis using x80.representable_int [of n] by (simp add: fp_ok_def)
qed

lemma b64_ok_numeral [fp_simps]: "(numeral n :: int) < 2 ^ 53 \<Longrightarrow> fp_ok binary64 (Fin (numeral n))"
  using b64_ok_int [of "numeral n"] by simp

lemma b64_ok_01 [fp_simps]: "fp_ok binary64 (Fin 0)" "fp_ok binary64 (Fin 1)"
  using b64_ok_int [of 0] b64_ok_int [of 1] by simp_all

text \<open>A positive tolerance is nonnegative after rounding.\<close>

lemma tolerance_le [fp_simps]: "0 \<le> e \<Longrightarrow> fp_le (Fin 0) (dlit e)"
  using b64.fround_nonneg_cases [of e] by auto

lemma tolerance_not_less [fp_simps]: "0 \<le> e \<Longrightarrow> \<not> fp_less (dlit e) (Fin 0)"
  using b64.fround_nonneg_cases [of e] by auto

lemmas dadd_tolerance [fp_simps] = b64.add_tolerance

text \<open>The conversion factor from nanoseconds, and its product with a whole second.\<close>

lemma nano_literal: "dlit (1 / 10 ^ 9) = Fin (4835703278458517 / 2 ^ 82)"
  using b64.fround_nearest [of "- 30" "1 / 10 ^ 9" "- 82" 4835703278458517]
  by (simp add: binary64_def power_int_minus divide_simps)

lemma nano_second: "dmul (Fin 1000000000) (dlit (1 / 10 ^ 9)) = Fin 1"
proof -
  have "fround binary64 (1000000000 * (4835703278458517 / 2 ^ 82)) = Fin 1"
    using b64.fround_nearest [of 0 "1000000000 * (4835703278458517 / 2 ^ 82)" "- 52" "2 ^ 52"]
    by (simp add: binary64_def power_int_minus divide_simps)
  then show ?thesis unfolding nano_literal by simp
qed

text \<open>The same product in extended precision.\<close>

lemma nano_second_x80: "ldmul (Fin 1000000000) (ldlit (1 / 10 ^ 9)) = Fin 1"
proof -
  have f: "unit_exponent extended80 = - 16445" "int (precision extended80) = 64" "overflow_exponent extended80 = 16384"
    by (simp_all add: extended80_def)
  have "ldlit (1 / 10 ^ 9) = Fin (9903520314283042199 / 2 ^ 93)"
    using x80.fround_nearest [of "- 30" "1 / 10 ^ 9" "- 93" 9903520314283042199]
    by (simp add: f power_int_minus divide_simps)
  moreover have "fround extended80 (1000000000 * (9903520314283042199 / 2 ^ 93)) = Fin 1"
    using x80.fround_nearest [of "- 1" "1000000000 * (9903520314283042199 / 2 ^ 93)" "- 64" "2 ^ 64"]
    by (simp add: f power_int_minus divide_simps)
  ultimately show ?thesis by simp
qed

end
