(* ===== verification/Nav_Time.thy ===== *)
theory Nav_Time
  imports Fp_Arith
begin

text \<open>
  \<open>navigation_common/time.hpp\<close>: conversions between integer nanoseconds, PX4 microseconds, ROS
  stamps and user-facing seconds, and \<open>execution_authority\<close>'s clients' freshness classification
  (\<open>timestamp_freshness.hpp\<close>), which rests on the exactness of \<open>long double\<close> on 64-bit integers.
\<close>

section \<open>The conversions\<close>

definition kNanosecondsPerSecond :: i64 where
  "kNanosecondsPerSecond = 1000000000"

definition kNanosecondsPerMicrosecond :: i64 where
  "kNanosecondsPerMicrosecond = 1000"

definition checkedDifference :: "i64 \<Rightarrow> i64 \<Rightarrow> i64 option" where
  "checkedDifference lhs rhs =
     (let difference = lhs - rhs
      in if difference < i64_min \<or> difference > i64_max then None else Some difference)"

definition microsecondsToNanoseconds :: "u64 \<Rightarrow> i64 option" where
  "microsecondsToNanoseconds microseconds =
     (let mx = (word_of_int i64_max :: u64);
          k = (word_of_int kNanosecondsPerMicrosecond :: u64)
      in if microseconds > mx div k then None
         else let nanoseconds = microseconds * k
              in if nanoseconds = 0 then None else Some (sint nanoseconds))"

definition nanosecondsToMicroseconds :: "i64 \<Rightarrow> u64 option" where
  "nanosecondsToMicroseconds nanoseconds =
     (if nanoseconds \<le> 0 then None
      else let microseconds = (word_of_int (nanoseconds div kNanosecondsPerMicrosecond) :: u64)
           in if microseconds = 0 then None else Some microseconds)"

text \<open>The shared tail of the two seconds conversions: round, test the range, cast.\<close>

definition roundedToNanoseconds :: "long_double \<Rightarrow> i64 option" where
  "roundedToNanoseconds product =
     (let rounded = fp_round product
      in if \<not> isfinite rounded \<or> fp_less rounded (Fin 0) \<or>
            fp_less (fp_of_int extended80 i64_max) rounded
         then None else Some (fp_trunc rounded))"

definition secondsToNanoseconds :: "double \<Rightarrow> i64 option" where
  "secondsToNanoseconds seconds =
     (if \<not> isfinite seconds \<or> fp_less seconds (Fin 0) then None
      else roundedToNanoseconds
             (ldmul (fp_convert extended80 seconds) (fp_of_int extended80 kNanosecondsPerSecond)))"

definition secondsSumToNanoseconds :: "double \<Rightarrow> double \<Rightarrow> i64 option" where
  "secondsSumToNanoseconds base_seconds offset_seconds =
     (if \<not> isfinite base_seconds \<or> \<not> isfinite offset_seconds \<or>
         fp_less base_seconds (Fin 0) \<or> fp_less offset_seconds (Fin 0) then None
      else let seconds = ldadd (fp_convert extended80 base_seconds)
                               (fp_convert extended80 offset_seconds)
           in roundedToNanoseconds
                (ldmul seconds (fp_of_int extended80 kNanosecondsPerSecond)))"

text \<open>\<open>builtin_interfaces::msg::Time\<close>: an \<open>int32\<close> of seconds and a \<open>uint32\<close> of nanoseconds.\<close>

record ros_time =
  sec :: i32
  nanosec :: u32

definition rosTimeToNanoseconds :: "ros_time \<Rightarrow> i64 option" where
  "rosTimeToNanoseconds stamp =
     (if nanosec stamp \<ge> word_of_int kNanosecondsPerSecond then None
      else let nanoseconds = sec stamp * kNanosecondsPerSecond + uint (nanosec stamp)
           in if nanoseconds < i64_min \<or> nanoseconds > i64_max then None else Some nanoseconds)"

definition nanosecondsToRosTime :: "i64 \<Rightarrow> ros_time option" where
  "nanosecondsToRosTime nanoseconds =
     (if nanoseconds < 0 then None
      else let seconds = nanoseconds div kNanosecondsPerSecond
           in if seconds > i32_max then None
              else Some \<lparr>sec = seconds,
                         nanosec = word_of_int (nanoseconds mod kNanosecondsPerSecond)\<rparr>)"

definition secondsToRosTime :: "double \<Rightarrow> ros_time option" where
  "secondsToRosTime seconds =
     (if \<not> isfinite seconds \<or> fp_less seconds (Fin 0) \<or>
         fp_less (fp_of_int binary64 i32_max) seconds then None
      else let whole_seconds = fp_trunc seconds;
               fraction = dsub seconds (fp_of_int binary64 whole_seconds)
           in if fp_less fraction (Fin 0) then None
              else let nanoseconds = fp_trunc (dmul fraction (fp_of_int binary64 kNanosecondsPerSecond))
                   in if nanoseconds < 0 \<or> nanoseconds \<ge> kNanosecondsPerSecond then None
                      else nanosecondsToRosTime
                             (whole_seconds * kNanosecondsPerSecond + nanoseconds))"

lemmas time_consts = kNanosecondsPerSecond_def kNanosecondsPerMicrosecond_def

section \<open>Freshness of a timestamp\<close>

datatype TimestampFreshness = FreshnessVALID | FreshnessINVALID | FreshnessSTALE | FreshnessFUTURE

definition classifyTimestampFreshness :: "i64 \<Rightarrow> i64 \<Rightarrow> i64 \<Rightarrow> TimestampFreshness" where
  "classifyTimestampFreshness now_ns stamp_ns maximum_age_ns =
     (if now_ns \<le> 0 \<or> stamp_ns \<le> 0 \<or> maximum_age_ns \<le> 0 then FreshnessINVALID
      else let age_ns = ldsub (fp_of_int extended80 now_ns) (fp_of_int extended80 stamp_ns);
               maximum = fp_of_int extended80 maximum_age_ns
           in if fp_less maximum age_ns then FreshnessSTALE
              else if fp_less age_ns (fp_neg maximum) then FreshnessFUTURE
              else FreshnessVALID)"

section \<open>Round trips\<close>

lemma checkedDifference_eq: "checkedDifference a b = (if in_i64 (a - b) then Some (a - b) else None)"
  by (auto simp: checkedDifference_def i64_simps Let_def)

lemma microseconds_cast:
  assumes "microseconds \<le> (9223372036854775 :: u64)"
  shows "sint (microseconds * 1000 :: u64) = uint microseconds * 1000"
proof -
  have le: "uint microseconds \<le> 9223372036854775"
    using assms by (simp add: word_le_def)
  then have "uint (microseconds * 1000) = uint microseconds * 1000"
    by (simp add: uint_word_ariths)
  moreover have "uint microseconds * 1000 < 2 ^ 63" using le by simp
  moreover have "- (2 ^ 63) \<le> uint microseconds * 1000"
    by (rule order.trans [of _ 0]) simp_all
  ultimately show ?thesis
    by (simp add: sint_uint) (rule signed_take_bit_int_eq_self, simp_all)
qed

lemma microsecondsToNanoseconds_Some:
  "microsecondsToNanoseconds us = Some ns \<longleftrightarrow>
     0 < us \<and> us \<le> 9223372036854775 \<and> ns = uint us * 1000"
proof (cases "us \<le> (9223372036854775 :: u64)")
  case True
  have "us * 1000 = 0 \<longleftrightarrow> us = 0"
    using microseconds_cast [OF True] by (auto simp: uint_0_iff)
  then show ?thesis
    using True microseconds_cast [OF True]
    by (auto simp: microsecondsToNanoseconds_def Let_def i64_simps time_consts not_less word_neq_0_conv)
qed (auto simp: microsecondsToNanoseconds_def Let_def i64_simps time_consts)

text \<open>
  A PX4 microsecond stamp that converts to nanoseconds converts back to itself, without wrap-around, and
  its nanosecond value is a positive 64-bit integer.
\<close>

theorem microseconds_roundtrip:
  assumes "microsecondsToNanoseconds us = Some ns"
  shows "nanosecondsToMicroseconds ns = Some us \<and> in_i64 ns \<and> 0 < ns"
proof -
  from assms have us: "0 < us" "us \<le> 9223372036854775" "ns = uint us * 1000"
    by (simp_all add: microsecondsToNanoseconds_Some)
  moreover have "0 < uint us" "uint us \<le> 9223372036854775"
    using us(1,2) by (simp_all add: word_less_def word_le_def)
  ultimately show ?thesis
    by (auto simp: nanosecondsToMicroseconds_def time_consts i64_simps)
qed

theorem microseconds_roundtrip_witness:
  "microsecondsToNanoseconds 1500 = Some 1500000 \<and> nanosecondsToMicroseconds 1500000 = Some 1500"
proof -
  have "microsecondsToNanoseconds 1500 = Some 1500000"
    by (simp add: microsecondsToNanoseconds_Some)
  with microseconds_roundtrip [OF this] show ?thesis by simp
qed

lemma nanosecondsToRosTime_Some:
  "nanosecondsToRosTime n = Some t \<longleftrightarrow>
     0 \<le> n \<and> n < 2147483648 * 1000000000 \<and>
     sec t = n div 1000000000 \<and> nanosec t = word_of_int (n mod 1000000000)"
proof -
  have "n div 1000000000 > i32_max \<longleftrightarrow> \<not> n < 2147483648 * 1000000000"
    by (simp add: i64_simps) linarith
  then show ?thesis
    by (auto simp: nanosecondsToRosTime_def Let_def time_consts)
qed

lemma ros_time_of_nanoseconds:
  assumes "nanosecondsToRosTime n = Some t"
  shows "rosTimeToNanoseconds t = Some n" "in_i32 (sec t)" "nanosec t < 1000000000" "0 \<le> n"
proof -
  from assms have t: "0 \<le> n" "n < 2147483648 * 1000000000" "sec t = n div 1000000000"
    "nanosec t = word_of_int (n mod 1000000000)"
    by (auto simp: nanosecondsToRosTime_Some)
  have u: "uint (nanosec t) = n mod 1000000000"
    using t(4) by (simp add: uint_word_of_int)
  then have "nanosec t < 1000000000" by (simp add: word_less_def)
  moreover have "in_i32 (sec t)" using t(1-3) by (simp add: i64_simps) linarith
  moreover have "sec t * 1000000000 + uint (nanosec t) = n"
    using t(3) u by simp
  ultimately show "rosTimeToNanoseconds t = Some n" "in_i32 (sec t)" "nanosec t < 1000000000" "0 \<le> n"
    using t(1,2) by (simp_all add: rosTimeToNanoseconds_def time_consts i64_simps not_le)
qed

text \<open>
  A nanosecond stamp that fits a ROS message is recovered exactly from it, and the two fields of the
  message are in range.
\<close>

theorem ros_time_roundtrip:
  assumes "nanosecondsToRosTime n = Some t"
  shows "rosTimeToNanoseconds t = Some n \<and> in_i32 (sec t) \<and> nanosec t < 1000000000"
  using ros_time_of_nanoseconds [OF assms] by simp

theorem ros_time_roundtrip_witness:
  "nanosecondsToRosTime 1500000007 = Some \<lparr>sec = 1, nanosec = 500000007\<rparr> \<and>
   rosTimeToNanoseconds \<lparr>sec = 1, nanosec = 500000007\<rparr> = Some 1500000007"
proof -
  have "nanosecondsToRosTime 1500000007 = Some \<lparr>sec = 1, nanosec = 500000007\<rparr>"
    by (simp add: nanosecondsToRosTime_Some)
  with ros_time_roundtrip [OF this] show ?thesis by simp
qed

text \<open>Conversely, a well-formed nonnegative ROS stamp is recovered from its nanoseconds.\<close>

lemma ros_time_stamp_roundtrip:
  assumes "rosTimeToNanoseconds t = Some n" "in_i32 (sec t)" "0 \<le> sec t"
  shows "nanosecondsToRosTime n = Some t"
proof -
  from assms(1) have n: "nanosec t < 1000000000" "n = sec t * 1000000000 + uint (nanosec t)"
    by (auto simp: rosTimeToNanoseconds_def Let_def time_consts not_le split: if_splits)
  have "uint (nanosec t) < 1000000000" using n(1) by (simp add: word_less_def)
  moreover have "0 \<le> uint (nanosec t)" by simp
  ultimately have "n div 1000000000 = sec t" "n mod 1000000000 = uint (nanosec t)"
    using n(2) by auto
  then show ?thesis
    using assms(2,3) n(2) by (simp add: nanosecondsToRosTime_def time_consts i64_simps)
qed

section \<open>Seconds\<close>

lemma rounded_nonneg:
  "0 \<le> r \<Longrightarrow> roundedToNanoseconds (Fin r) =
     (if \<lfloor>r + 1 / 2\<rfloor> \<le> i64_max then Some \<lfloor>r + 1 / 2\<rfloor> else None)"
proof -
  assume r: "0 \<le> r"
  have "in_i64 i64_max" by (simp add: i64_simps)
  moreover have "(of_int i64_max :: rat) < of_int \<lfloor>r + 1 / 2\<rfloor> \<longleftrightarrow> i64_max < \<lfloor>r + 1 / 2\<rfloor>"
    by (simp only: of_int_less_iff)
  moreover have "0 \<le> \<lfloor>r + 1 / 2\<rfloor>" using r by simp
  ultimately show ?thesis
    using r by (auto simp: roundedToNanoseconds_def Let_def x80_i64)
qed

lemma rounded_int: "0 \<le> n \<Longrightarrow> n \<le> i64_max \<Longrightarrow> roundedToNanoseconds (Fin (of_int n)) = Some n"
proof -
  assume n: "0 \<le> n" "n \<le> i64_max"
  have "\<lfloor>(of_int n :: rat) + 1 / 2\<rfloor> = n" by (rule floor_unique) simp_all
  then show ?thesis using n by (simp add: rounded_nonneg)
qed

lemma rounded_numeral [fp_simps]:
  "(numeral n :: int) \<le> 9223372036854775807 \<Longrightarrow> roundedToNanoseconds (Fin (numeral n)) = Some (numeral n)"
  using rounded_int [of "numeral n"] by (simp add: i64_simps)

lemma rounded_Fin_below:
  assumes "0 \<le> p" "p \<le> q" "roundedToNanoseconds (fround extended80 q) = Some m"
  shows "\<exists>n. roundedToNanoseconds (fround extended80 p) = Some n \<and> 0 \<le> n \<and> n \<le> m \<and> m \<le> i64_max"
proof -
  obtain r where r: "fround extended80 q = Fin r"
    using assms(3) by (cases "fround extended80 q") (auto simp: roundedToNanoseconds_def)
  obtain s where s: "fround extended80 p = Fin s" "0 \<le> s" "s \<le> r"
    using x80.fround_Fin_below [OF assms(1,2) r] by auto
  then have le: "\<lfloor>s + 1 / 2\<rfloor> \<le> \<lfloor>r + 1 / 2\<rfloor>" by (intro floor_mono) simp
  have "m = \<lfloor>r + 1 / 2\<rfloor>" "m \<le> i64_max"
    using assms(3) r s rounded_nonneg [of r] by (auto split: if_splits)
  with le s show ?thesis
    using rounded_nonneg [of s] by auto
qed

lemma kNs_x80 [simp]: "fp_of_int extended80 kNanosecondsPerSecond = Fin 1000000000"
  using x80_i64 [of kNanosecondsPerSecond] by (simp add: time_consts i64_simps)

lemma fp_convert_b64_x80: "fp_ok binary64 v \<Longrightarrow> fp_convert extended80 v = v"
  using b64_ok_x80 [of v] by (cases v) (auto simp: fp_convert_def x80.fround_ok)

lemma secondsToNanoseconds_Fin:
  "fp_ok binary64 (Fin x) \<Longrightarrow> 0 \<le> x \<Longrightarrow>
   secondsToNanoseconds (Fin x) = roundedToNanoseconds (fround extended80 (x * 1000000000))"
  by (simp add: secondsToNanoseconds_def fp_convert_b64_x80)

lemma secondsToNanoseconds_Some:
  "secondsToNanoseconds v = Some n \<Longrightarrow> \<exists>x. v = Fin x \<and> 0 \<le> x"
  by (cases v) (auto simp: secondsToNanoseconds_def not_less split: if_splits)

text \<open>
  The conversion of user-facing seconds is monotone in spite of the two roundings: a smaller
  nonnegative duration converts whenever a larger one does, to no more nanoseconds.
\<close>

theorem seconds_to_nanoseconds_monotone:
  assumes "fp_ok binary64 a" "fp_ok binary64 b" "fp_le (Fin 0) a" "fp_le a b"
    and "secondsToNanoseconds b = Some m"
  shows "\<exists>n. secondsToNanoseconds a = Some n \<and> 0 \<le> n \<and> n \<le> m \<and> m \<le> i64_max"
proof -
  from secondsToNanoseconds_Some [OF assms(5)] obtain y where y: "b = Fin y" "0 \<le> y" by auto
  with assms(3,4) obtain x where x: "a = Fin x" "0 \<le> x" "x \<le> y" by (cases a) auto
  have "roundedToNanoseconds (fround extended80 (y * 1000000000)) = Some m"
    using assms(2,5) y by (simp add: secondsToNanoseconds_Fin)
  then show ?thesis
    using x assms(1) rounded_Fin_below [of "x * 1000000000" "y * 1000000000" m]
    by (simp add: secondsToNanoseconds_Fin)
qed

theorem seconds_to_nanoseconds_monotone_witness:
  "secondsToNanoseconds (Fin 3) = Some 3000000000 \<and>
   (\<exists>n. secondsToNanoseconds (Fin 1) = Some n \<and> 0 \<le> n \<and> n \<le> 3000000000)"
proof -
  have b: "secondsToNanoseconds (Fin 3) = Some 3000000000" by (simp add: secondsToNanoseconds_Fin fp_simps)
  have "fp_ok binary64 (Fin 1)" "fp_ok binary64 (Fin 3)" "fp_le (Fin 0) (Fin 1)" "fp_le (Fin 1) (Fin 3)"
    by (simp_all add: fp_simps)
  from seconds_to_nanoseconds_monotone [OF this b] b show ?thesis by auto
qed

text \<open>
  The declared end of a trajectory is never before its start: adding a nonnegative duration to a start
  time before converting gives at least the converted start.
\<close>

theorem seconds_sum_not_before_base:
  assumes "fp_ok binary64 s" "fp_ok binary64 d" "secondsSumToNanoseconds s d = Some m"
  shows "\<exists>n. secondsToNanoseconds s = Some n \<and> 0 \<le> n \<and> n \<le> m \<and> m \<le> i64_max"
proof -
  from assms(3) obtain x y where xy: "s = Fin x" "d = Fin y" "0 \<le> x" "0 \<le> y"
    by (cases s; cases d) (auto simp: secondsSumToNanoseconds_def not_less split: if_splits)
  have "roundedToNanoseconds (ldmul (fround extended80 (x + y)) (Fin 1000000000)) = Some m"
    using assms xy by (simp add: secondsSumToNanoseconds_def fp_convert_b64_x80 Let_def)
  moreover from this obtain r where r: "fround extended80 (x + y) = Fin r"
    using x80.fround_nonneg_cases [of "x + y"] xy by (auto simp: roundedToNanoseconds_def)
  ultimately have m: "roundedToNanoseconds (fround extended80 (r * 1000000000)) = Some m"
    by simp
  have "representable extended80 x"
    using b64_ok_x80 [OF assms(1)] xy by (simp add: fp_ok_def)
  then have "x \<le> r" using r xy by (intro x80.fround_ge_exact [of x "x + y" r]) auto
  then show ?thesis
    using rounded_Fin_below [of "x * 1000000000" "r * 1000000000" m] xy m assms(1)
    by (simp add: secondsToNanoseconds_Fin)
qed

theorem seconds_sum_not_before_base_witness:
  "secondsSumToNanoseconds (Fin 1) (Fin 4) = Some 5000000000 \<and>
   (\<exists>n. secondsToNanoseconds (Fin 1) = Some n \<and> n \<le> 5000000000)"
proof -
  have s: "secondsSumToNanoseconds (Fin 1) (Fin 4) = Some 5000000000"
    by (simp add: secondsSumToNanoseconds_def fp_convert_def fp_simps)
  have "fp_ok binary64 (Fin 1)" "fp_ok binary64 (Fin 4)" by (simp_all add: fp_simps)
  from seconds_sum_not_before_base [OF this s] s show ?thesis by auto
qed

lemma seconds_sum_zero:
  "fp_ok binary64 s \<Longrightarrow> secondsSumToNanoseconds s (Fin 0) = secondsToNanoseconds s"
proof (cases s)
  case (Fin x)
  assume ok: "fp_ok binary64 s"
  have "fp_ok binary64 (Fin 0)"
    unfolding fp_ok_def representable_def by (auto intro!: exI [of _ 0] simp: binary64_def)
  moreover have "fround extended80 x = Fin x"
    using b64_ok_x80 [OF ok] Fin by (simp add: x80.fround_ok)
  ultimately show ?thesis
    using ok Fin by (simp add: secondsSumToNanoseconds_def secondsToNanoseconds_def fp_convert_b64_x80)
qed (auto simp: secondsSumToNanoseconds_def secondsToNanoseconds_def)

section \<open>Freshness is exact\<close>

lemma freshness_exact:
  assumes "in_i64 now_ns" "in_i64 stamp_ns" "in_i64 maximum_age_ns"
  shows "classifyTimestampFreshness now_ns stamp_ns maximum_age_ns =
     (if now_ns \<le> 0 \<or> stamp_ns \<le> 0 \<or> maximum_age_ns \<le> 0 then FreshnessINVALID
      else if now_ns - stamp_ns > maximum_age_ns then FreshnessSTALE
      else if stamp_ns - now_ns > maximum_age_ns then FreshnessFUTURE
      else FreshnessVALID)"
proof -
  have c: "(of_int maximum_age_ns :: rat) < of_int (now_ns - stamp_ns) \<longleftrightarrow> maximum_age_ns < now_ns - stamp_ns"
    "(of_int (now_ns - stamp_ns) :: rat) < - of_int maximum_age_ns \<longleftrightarrow> now_ns - stamp_ns < - maximum_age_ns"
    by (simp_all only: of_int_less_iff flip: of_int_minus)
  show ?thesis
    unfolding classifyTimestampFreshness_def Let_def x80_i64_diff [OF assms(1,2)] x80_i64 [OF assms(3)]
      fp_neg.simps fp_less.simps c by auto
qed

end
