(* ===== verification/World_Model.thy ===== *)
theory World_Model
  imports Nav_Time
begin

text \<open>
  \<open>navigation_world_model\<close>: cell states and the traversability predicate, axis-aligned boxes, the
  identity of an immutable world snapshot and the order in which identities may advance
  (\<open>ExecutionAuthority::advances\<close>), and the read-only \<open>WorldModelView\<close> interface as a record of
  its virtual methods.
\<close>

section \<open>Cells, boxes and identities\<close>

datatype CellState =
  CellUndefined | CellUnknown | CellOutOfMap | CellOccupied | CellKnownFree | CellFrontier

datatype FreeSpaceEvidence = EvidenceUnknown | EvidenceSensorFree | EvidenceOccupied | EvidenceOutOfMap

datatype HandoverClearanceReason = ClearanceNone | ClearanceNoSensorEvidence | ClearanceOccupiedContradiction

datatype GridLayer = LayerEvidence | LayerInflated

datatype UnknownPolicy = AllowUnknown | RequireKnownFree

definition isStoredCellState :: "CellState \<Rightarrow> bool" where
  "isStoredCellState state \<longleftrightarrow>
     state = CellUnknown \<or> state = CellOccupied \<or> state = CellKnownFree"

fun isCellTraversable :: "CellState \<Rightarrow> UnknownPolicy \<Rightarrow> bool" where
  "isCellTraversable CellKnownFree _ = True"
| "isCellTraversable CellUnknown p = (p = AllowUnknown)"
| "isCellTraversable CellFrontier p = (p = AllowUnknown)"
| "isCellTraversable CellUndefined _ = False"
| "isCellTraversable CellOutOfMap _ = False"
| "isCellTraversable CellOccupied _ = False"

record AxisAlignedBox =
  box_minimum :: vec3
  box_maximum :: vec3

definition box_valid :: "AxisAlignedBox \<Rightarrow> bool" where
  "box_valid b \<longleftrightarrow>
     vfinite (box_minimum b) \<and> vfinite (box_maximum b) \<and> vle (box_minimum b) (box_maximum b)"

record WorldSnapshotIdentity =
  wid_localization_epoch :: u64
  wid_generation :: u64
  wid_revision :: u64
  wid_observation_stamp_ns :: i64

definition default_world_identity :: WorldSnapshotIdentity where
  "default_world_identity =
     \<lparr>wid_localization_epoch = 0, wid_generation = 0, wid_revision = 0, wid_observation_stamp_ns = 0\<rparr>"

definition sameWorldSnapshotIdentity :: "WorldSnapshotIdentity \<Rightarrow> WorldSnapshotIdentity \<Rightarrow> bool" where
  "sameWorldSnapshotIdentity lhs rhs \<longleftrightarrow>
     wid_localization_epoch lhs = wid_localization_epoch rhs \<and>
     wid_generation lhs = wid_generation rhs \<and> wid_revision lhs = wid_revision rhs \<and>
     wid_observation_stamp_ns lhs = wid_observation_stamp_ns rhs"

datatype WorldCommitDecision =
  WorldNotAttempted | WorldCommitted | WorldNoPublishedWorld | WorldWorldAdvanced
| WorldSuperseded | WorldCancelled | WorldCandidateRejected

definition advances :: "WorldSnapshotIdentity \<Rightarrow> WorldSnapshotIdentity \<Rightarrow> bool" where
  "advances current next_id =
     (if wid_localization_epoch next_id \<noteq> wid_localization_epoch current
      then wid_localization_epoch next_id > wid_localization_epoch current
      else if wid_generation next_id \<noteq> wid_generation current
      then wid_generation next_id > wid_generation current
      else wid_revision next_id > wid_revision current \<and>
           wid_observation_stamp_ns next_id \<ge> wid_observation_stamp_ns current)"

section \<open>The read-only view\<close>

record WorldModelView =
  view_identity :: WorldSnapshotIdentity
  view_changedRegionIntersectsSince :: "WorldSnapshotIdentity \<Rightarrow> AxisAlignedBox \<Rightarrow> bool"
  view_classify :: "vec3 \<Rightarrow> GridLayer \<Rightarrow> CellState"
  view_contains :: "vec3 \<Rightarrow> bool"
  view_isSegmentTraversable :: "vec3 \<Rightarrow> vec3 \<Rightarrow> GridLayer \<Rightarrow> UnknownPolicy \<Rightarrow> bool"

definition classifyFreeSpace :: "WorldModelView \<Rightarrow> vec3 \<Rightarrow> GridLayer \<Rightarrow> FreeSpaceEvidence" where
  "classifyFreeSpace view point layer =
     (case view_classify view point layer of
        CellKnownFree \<Rightarrow> EvidenceSensorFree
      | CellOccupied \<Rightarrow> EvidenceOccupied
      | CellOutOfMap \<Rightarrow> EvidenceOutOfMap
      | _ \<Rightarrow> EvidenceUnknown)"

definition handoverClearanceReason :: "WorldModelView \<Rightarrow> vec3 \<Rightarrow> GridLayer \<Rightarrow> HandoverClearanceReason" where
  "handoverClearanceReason view point layer =
     (let state = view_classify view point layer
      in if state = CellOccupied then ClearanceOccupiedContradiction
         else if state = CellKnownFree then ClearanceNone else ClearanceNoSensorEvidence)"

definition isSensorKnownFree :: "WorldModelView \<Rightarrow> vec3 \<Rightarrow> GridLayer \<Rightarrow> bool" where
  "isSensorKnownFree view point layer \<longleftrightarrow> classifyFreeSpace view point layer = EvidenceSensorFree"

definition isOccupiedOrInflated :: "WorldModelView \<Rightarrow> vec3 \<Rightarrow> GridLayer \<Rightarrow> bool" where
  "isOccupiedOrInflated view point layer \<longleftrightarrow> classifyFreeSpace view point layer = EvidenceOccupied"

text \<open>The goal tolerances, which share one value.\<close>

definition kGoalCompletionToleranceM :: double where "kGoalCompletionToleranceM = dlit (20 / 100)"
definition kGoalConnectionToleranceM :: double where "kGoalConnectionToleranceM = kGoalCompletionToleranceM"

definition isGoalSegmentTraversable :: "WorldModelView \<Rightarrow> vec3 \<Rightarrow> vec3 \<Rightarrow> bool" where
  "isGoalSegmentTraversable view start goal =
     (if \<not> vfinite start \<or> \<not> vfinite goal \<or> \<not> view_contains view start \<or> \<not> view_contains view goal
      then False
      else view_isSegmentTraversable view start goal LayerInflated AllowUnknown)"

section \<open>Facts\<close>

lemma sameWorldSnapshotIdentity_eq [simp]: "sameWorldSnapshotIdentity a b \<longleftrightarrow> a = b"
  by (cases a; cases b) (auto simp: sameWorldSnapshotIdentity_def)

text \<open>The order of world identities: what a publisher of identities promises its readers.\<close>

locale identity_order =
  fixes adv :: "'i \<Rightarrow> 'i \<Rightarrow> bool"
  assumes adv_irrefl: "\<not> adv a a"
    and adv_trans: "adv a b \<Longrightarrow> adv b c \<Longrightarrow> adv a c"
begin

lemma adv_asym: "adv a b \<Longrightarrow> \<not> adv b a"
  using adv_irrefl adv_trans by blast

text \<open>\<open>reaches\<close> is the order of published identities: equal or advanced.\<close>

definition reaches :: "'i option \<Rightarrow> 'i option \<Rightarrow> bool" where
  "reaches a b \<longleftrightarrow> (case a of None \<Rightarrow> True | Some x \<Rightarrow>
     (case b of None \<Rightarrow> False | Some y \<Rightarrow> x = y \<or> adv x y))"

lemma reaches_refl [simp]: "reaches a a"
  by (cases a) (auto simp: reaches_def)

lemma reaches_trans: "reaches a b \<Longrightarrow> reaches b c \<Longrightarrow> reaches a c"
  by (auto simp: reaches_def intro: adv_trans split: option.splits)

lemma reaches_antisym: "reaches a b \<Longrightarrow> reaches b a \<Longrightarrow> a = b"
  using adv_asym by (auto simp: reaches_def split: option.splits)

lemma reaches_new: "(\<And>x. a = Some x \<Longrightarrow> adv x y) \<Longrightarrow> reaches a (Some y)"
  by (auto simp: reaches_def split: option.splits)

end

text \<open>A component whose steps may replace the identity it publishes, but never move it back.\<close>

locale monotone_publisher = transition_system init step + identity_order adv
  for init :: "'s \<Rightarrow> bool" and step :: "'s \<Rightarrow> 's \<Rightarrow> bool" and adv :: "'i \<Rightarrow> 'i \<Rightarrow> bool" +
  fixes published :: "'s \<Rightarrow> 'i option"
  assumes step_reaches: "step s t \<Longrightarrow> reaches (published s) (published t)"
begin

lemma run_reaches: "run n s t \<Longrightarrow> reaches (published s) (published t)"
  by (induction rule: run.induct) (auto intro: reaches_trans step_reaches)

lemma run_never_back: "run n s t \<Longrightarrow> published s = Some x \<Longrightarrow> \<exists>y. published t = Some y \<and> (y = x \<or> adv x y) \<and> \<not> adv y x"
  using run_reaches [of n s t] adv_asym adv_irrefl by (auto simp: reaches_def split: option.splits)

end

interpretation world_order: identity_order advances
  by unfold_locales (auto simp: advances_def split: if_splits)

text \<open>
  A cell is traversable for a safety trajectory (known-free policy) exactly when it is known free,
  and the exploratory policy only adds unknown and frontier cells: no policy admits an occupied,
  out-of-map or undefined cell.
\<close>

lemma traversable_known_free: "isCellTraversable s RequireKnownFree \<longleftrightarrow> s = CellKnownFree"
  by (cases s) auto

lemma traversable_mono: "isCellTraversable s RequireKnownFree \<Longrightarrow> isCellTraversable s p"
  by (cases s) auto

lemma never_traversable: "isCellTraversable s p \<Longrightarrow> s \<notin> {CellOccupied, CellOutOfMap, CellUndefined}"
  by (cases s) auto

end
