(* ===== verification/Candidate_Bundle.thy ===== *)
theory Candidate_Bundle
  imports World_Model
begin

text \<open>
  \<open>navigation_planning\<close>: the immutable candidate a planner hands to execution
  (\<open>candidate_bundle.hpp\<close>, \<open>route_boundary.hpp\<close>), its validity contract, its role schedule, and the
  sampling functions that are the only way a command leaves it. The evaluator and the world
  validator are \<open>std::function\<close> members supplied by a planner: they are fields of the record,
  \<open>None\<close> for an empty function; an evaluator that returns false or throws yields \<open>None\<close>.
  \<open>Eigen\<close>'s \<open>norm()\<close> is the parameter \<open>nrm\<close>.
\<close>

section \<open>Data\<close>

datatype CandidateRole = RoleMain | RoleBackup | RoleEmergency

datatype CandidateBundleKind = KindMainWithBackup | KindTerminalStop | KindBackupOnly | KindEmergencyBrake

datatype CandidateSource = SourceDeterministicBaseline | SourceRefined | SourceRetained | SourceEmergency

record CandidateRoleInterval =
  iv_begin_time_s :: double
  iv_end_time_s :: double
  iv_role :: CandidateRole

record TrajectoryValidationResult =
  tv_valid :: bool
  tv_reused_unchanged_certificate :: bool
  tv_pinned_world :: WorldSnapshotIdentity
  tv_validated_world :: WorldSnapshotIdentity
  tv_begin_time_s :: double
  tv_first_blocked_time_s :: double
  tv_first_blocked_position :: vec3
  tv_first_blocked_cell_state :: int
  tv_failure_code :: int
  tv_blocked_role :: int
  tv_sample_count :: u64
  tv_segment_count :: u64
  tv_blocking_cell_observed :: bool
  tv_tube_failure_code :: int
  tv_evaluated_unknown_policy :: int
  tv_evaluated_generation :: u64
  tv_unsafe_interval_end_time_s :: double
  tv_curve_deviation_bound_m :: double
  tv_curve_deviation_tolerance_m :: double

definition default_validation :: TrajectoryValidationResult where
  "default_validation =
     \<lparr>tv_valid = False, tv_reused_unchanged_certificate = False,
      tv_pinned_world = default_world_identity, tv_validated_world = default_world_identity,
      tv_begin_time_s = Fin 0, tv_first_blocked_time_s = Fin 0,
      tv_first_blocked_position = \<lparr>vx = NaN, vy = NaN, vz = NaN\<rparr>,
      tv_first_blocked_cell_state = 0, tv_failure_code = 0, tv_blocked_role = 0,
      tv_sample_count = 0, tv_segment_count = 0, tv_blocking_cell_observed = False,
      tv_tube_failure_code = 0, tv_evaluated_unknown_policy = - 1, tv_evaluated_generation = 0,
      tv_unsafe_interval_end_time_s = NaN, tv_curve_deviation_bound_m = NaN,
      tv_curve_deviation_tolerance_m = NaN\<rparr>"

record CompleteBundleCertificates =
  cert_dynamics :: bool
  cert_flatness :: bool
  cert_world :: bool
  cert_terminal_stop :: bool

definition completeFor :: "CompleteBundleCertificates \<Rightarrow> CandidateBundleKind \<Rightarrow> bool" where
  "completeFor c kind =
     (if \<not> cert_dynamics c \<or> \<not> cert_flatness c \<or> \<not> cert_world c then False
      else kind \<noteq> KindTerminalStop \<or> cert_terminal_stop c)"

record CompleteCandidateQuality =
  q_remaining_main_horizon_s :: double
  q_minimum_clearance_m :: double
  q_maximum_dynamic_utilization :: double
  q_route_progress_m :: double
  q_objective_cost :: double

definition quality_finite :: "CompleteCandidateQuality \<Rightarrow> bool" where
  "quality_finite q \<longleftrightarrow>
     isfinite (q_remaining_main_horizon_s q) \<and>
     isfinite (q_minimum_clearance_m q) \<and> fp_le (Fin 0) (q_minimum_clearance_m q) \<and>
     isfinite (q_maximum_dynamic_utilization q) \<and> fp_le (Fin 0) (q_maximum_dynamic_utilization q) \<and>
     isfinite (q_route_progress_m q) \<and> fp_le (Fin 0) (q_route_progress_m q) \<and>
     isfinite (q_objective_cost q)"

fun candidateRoleValid :: "CandidateRole \<Rightarrow> bool" where
  "candidateRoleValid RoleMain = True"
| "candidateRoleValid RoleBackup = True"
| "candidateRoleValid RoleEmergency = True"

record TrajectoryPoint =
  pt_position_world :: vec3
  pt_velocity_world :: vec3
  pt_acceleration_world :: vec3
  pt_jerk_world :: vec3
  pt_yaw :: double
  pt_yaw_rate :: double
  pt_role :: CandidateRole
  pt_finished :: bool
  pt_trajectory_time_s :: double

definition default_point :: TrajectoryPoint where
  "default_point =
     \<lparr>pt_position_world = vzero, pt_velocity_world = vzero, pt_acceleration_world = vzero,
      pt_jerk_world = vzero, pt_yaw = Fin 0, pt_yaw_rate = Fin 0, pt_role = RoleMain,
      pt_finished = False, pt_trajectory_time_s = Fin 0\<rparr>"

definition point_finite :: "TrajectoryPoint \<Rightarrow> bool" where
  "point_finite p \<longleftrightarrow>
     vfinite (pt_position_world p) \<and> vfinite (pt_velocity_world p) \<and>
     vfinite (pt_acceleration_world p) \<and> vfinite (pt_jerk_world p) \<and>
     isfinite (pt_yaw p) \<and> isfinite (pt_yaw_rate p) \<and> isfinite (pt_trajectory_time_s p)"

section \<open>Route boundaries\<close>

datatype RouteBoundaryEventKind = BoundaryPassThrough | BoundaryTerminalStop

record RouteBoundaryEvent =
  ev_kind :: RouteBoundaryEventKind
  ev_junction_index :: u64
  ev_boundary_stamp_ns :: i64
  ev_position_world :: vec3
  ev_incoming_tangent :: vec3
  ev_outgoing_tangent :: vec3
  ev_corner_speed_mps :: double

definition tangents_unit :: "(vec3 \<Rightarrow> double) \<Rightarrow> vec3 \<Rightarrow> vec3 \<Rightarrow> bool" where
  "tangents_unit nrm incoming outgoing \<longleftrightarrow>
     vfinite incoming \<and> vfinite outgoing \<and>
     isfinite (nrm incoming) \<and> fp_less (dlit (1 / 10 ^ 9)) (nrm incoming) \<and>
     isfinite (nrm outgoing) \<and> fp_less (dlit (1 / 10 ^ 9)) (nrm outgoing) \<and>
     fp_le (fp_abs (dsub (nrm incoming) (Fin 1))) (dlit (1 / 10 ^ 6)) \<and>
     fp_le (fp_abs (dsub (nrm outgoing) (Fin 1))) (dlit (1 / 10 ^ 6))"

definition event_valid :: "(vec3 \<Rightarrow> double) \<Rightarrow> RouteBoundaryEvent \<Rightarrow> bool" where
  "event_valid nrm e \<longleftrightarrow>
     ev_boundary_stamp_ns e > 0 \<and> vfinite (ev_position_world e) \<and>
     tangents_unit nrm (ev_incoming_tangent e) (ev_outgoing_tangent e) \<and>
     isfinite (ev_corner_speed_mps e) \<and> fp_le (Fin 0) (ev_corner_speed_mps e)"

record RouteBoundaryConstraint =
  rc_admissible_volume :: AxisAlignedBox
  rc_junction_index :: u64
  rc_incoming_tangent :: vec3
  rc_outgoing_tangent :: vec3
  rc_corner_speed_mps :: double

definition constraint_valid :: "(vec3 \<Rightarrow> double) \<Rightarrow> RouteBoundaryConstraint \<Rightarrow> bool" where
  "constraint_valid nrm c \<longleftrightarrow>
     box_valid (rc_admissible_volume c) \<and>
     tangents_unit nrm (rc_incoming_tangent c) (rc_outgoing_tangent c) \<and>
     isfinite (rc_corner_speed_mps c) \<and> fp_le (Fin 0) (rc_corner_speed_mps c)"

definition constraint_contains :: "(vec3 \<Rightarrow> double) \<Rightarrow> RouteBoundaryConstraint \<Rightarrow> vec3 \<Rightarrow> bool" where
  "constraint_contains nrm c point \<longleftrightarrow>
     (let k = dlit (1 / 10 ^ 6); lo = box_minimum (rc_admissible_volume c);
          hi = box_maximum (rc_admissible_volume c)
      in constraint_valid nrm c \<and> vfinite point \<and>
         vle \<lparr>vx = dsub (vx lo) k, vy = dsub (vy lo) k, vz = dsub (vz lo) k\<rparr> point \<and>
         vle point \<lparr>vx = dadd (vx hi) k, vy = dadd (vy hi) k, vz = dadd (vz hi) k\<rparr>)"

section \<open>The bundle\<close>

record CandidateBundle =
  cb_pinned_world_identity :: WorldSnapshotIdentity
  cb_world_identity :: WorldSnapshotIdentity
  cb_localization_epoch :: u64
  cb_goal_epoch :: u64
  cb_request_id :: u64
  cb_bundle_generation :: u64
  cb_producer_planning_cycle_id :: u64
  cb_valid_from_ns :: i64
  cb_valid_until_ns :: i64
  cb_activation_stamp_ns :: i64
  cb_role :: CandidateRole
  cb_start_wall_time_s :: double
  cb_duration_s :: double
  cb_declared_start_ns :: i64
  cb_declared_end_ns :: i64
  cb_backup_start_time_s :: double
  cb_backup_available :: bool
  cb_terminal_stop :: bool
  cb_kind :: CandidateBundleKind
  cb_source :: CandidateSource
  cb_certificates :: CompleteBundleCertificates
  cb_protected_region :: AxisAlignedBox
  cb_role_schedule :: "CandidateRoleInterval list"
  cb_quality :: "CompleteCandidateQuality option"
  cb_route_boundary_constraint :: "RouteBoundaryConstraint option"
  cb_route_boundary_event :: "RouteBoundaryEvent option"
  cb_world_validator :: "(WorldModelView \<Rightarrow> double \<Rightarrow> TrajectoryValidationResult option) option"
  cb_evaluator :: "(i64 \<Rightarrow> TrajectoryPoint \<Rightarrow> TrajectoryPoint option) option"

text \<open>The loop of \<open>roleScheduleValid\<close>, with its cursor.\<close>

fun schedule_from :: "double \<Rightarrow> double \<Rightarrow> CandidateRoleInterval list \<Rightarrow> bool" where
  "schedule_from duration cursor [] = fp_le (fp_abs (dsub cursor duration)) (dlit (1 / 10 ^ 6))"
| "schedule_from duration cursor (interval # rest) =
     (if \<not> isfinite (iv_begin_time_s interval) \<or> \<not> isfinite (iv_end_time_s interval) \<or>
         fp_less (dlit (1 / 10 ^ 6)) (fp_abs (dsub (iv_begin_time_s interval) cursor)) \<or>
         fp_le (iv_end_time_s interval) (iv_begin_time_s interval) \<or>
         fp_less (dadd duration (dlit (1 / 10 ^ 6))) (iv_end_time_s interval) \<or>
         \<not> candidateRoleValid (iv_role interval)
      then False else schedule_from duration (iv_end_time_s interval) rest)"

definition roleScheduleValid :: "CandidateBundle \<Rightarrow> bool" where
  "roleScheduleValid b =
     (if \<not> isfinite (cb_duration_s b) \<or> fp_less (cb_duration_s b) (Fin 0) \<or> cb_role_schedule b = []
      then False else schedule_from (cb_duration_s b) (Fin 0) (cb_role_schedule b))"

definition to_offset_ns :: "double \<Rightarrow> i64 option" where
  "to_offset_ns seconds =
     (if \<not> isfinite seconds \<or> fp_less seconds (Fin 0) then None
      else let rounded = fp_round (ldmul (fp_convert extended80 seconds) (ldlit 1000000000))
           in if \<not> isfinite rounded \<or> fp_less (fp_of_int extended80 i64_max) rounded then None
              else Some (fp_trunc rounded))"

fun interval_role_at :: "i64 \<Rightarrow> CandidateRoleInterval list \<Rightarrow> CandidateRole option" where
  "interval_role_at sample_ns [] = None"
| "interval_role_at sample_ns (interval # rest) =
     (case (to_offset_ns (iv_begin_time_s interval), to_offset_ns (iv_end_time_s interval)) of
        (Some begin_ns, Some end_ns) \<Rightarrow>
          if sample_ns \<ge> begin_ns \<and> sample_ns < end_ns then Some (iv_role interval)
          else interval_role_at sample_ns rest
      | _ \<Rightarrow> interval_role_at sample_ns rest)"

definition scheduledRole :: "CandidateBundle \<Rightarrow> double \<Rightarrow> CandidateRole option" where
  "scheduledRole b trajectory_time_s =
     (if \<not> roleScheduleValid b \<or> \<not> isfinite trajectory_time_s \<or> fp_less trajectory_time_s (Fin 0) \<or>
         fp_less (dadd (cb_duration_s b) (dlit (1 / 10 ^ 9))) trajectory_time_s
      then None
      else case to_offset_ns trajectory_time_s of None \<Rightarrow> None
      | Some sample_ns \<Rightarrow>
          (case interval_role_at sample_ns (cb_role_schedule b) of Some r \<Rightarrow> Some r
           | None \<Rightarrow> if to_offset_ns (cb_duration_s b) = Some sample_ns
                     then Some (iv_role (last (cb_role_schedule b))) else None))"

definition sampledRoleAllowed :: "CandidateBundle \<Rightarrow> CandidateRole \<Rightarrow> bool" where
  "sampledRoleAllowed b sampled_role =
     (if \<not> candidateRoleValid sampled_role then False
      else if cb_role b = RoleEmergency then sampled_role = RoleEmergency
      else if cb_role b = RoleBackup then sampled_role = RoleBackup
      else sampled_role = RoleMain \<or> (cb_backup_available b \<and> sampled_role = RoleBackup))"

definition kind_contract :: "CandidateBundle \<Rightarrow> bool" where
  "kind_contract b \<longleftrightarrow>
     (cb_kind b = KindMainWithBackup \<and> cb_role b = RoleMain \<and> cb_backup_available b) \<or>
     (cb_kind b = KindTerminalStop \<and> cb_role b = RoleMain \<and> \<not> cb_backup_available b) \<or>
     (cb_kind b = KindBackupOnly \<and> cb_role b = RoleBackup) \<or>
     (cb_kind b = KindEmergencyBrake \<and> cb_role b = RoleEmergency)"

definition terminal_stop_contract :: "CandidateBundle \<Rightarrow> bool" where
  "terminal_stop_contract b \<longleftrightarrow>
     \<not> cb_terminal_stop b \<or>
     (cb_role b = RoleMain \<and> (cb_kind b = KindTerminalStop \<or> cb_kind b = KindMainWithBackup) \<and>
      cert_terminal_stop (cb_certificates b))"

definition endpoint_metadata_consistent :: "CandidateBundle \<Rightarrow> bool" where
  "endpoint_metadata_consistent b \<longleftrightarrow>
     cb_declared_start_ns b > 0 \<and> cb_declared_end_ns b \<ge> cb_declared_start_ns b \<and>
     secondsToNanoseconds (cb_start_wall_time_s b) = Some (cb_declared_start_ns b) \<and>
     secondsSumToNanoseconds (cb_start_wall_time_s b) (cb_duration_s b) = Some (cb_declared_end_ns b)"

definition world_identity_bound :: "CandidateBundle \<Rightarrow> WorldSnapshotIdentity \<Rightarrow> bool" where
  "world_identity_bound b w \<longleftrightarrow>
     wid_localization_epoch w = cb_localization_epoch b \<and> wid_generation w \<noteq> 0 \<and>
     wid_revision w \<noteq> 0 \<and> wid_observation_stamp_ns w > 0"

definition bundle_valid :: "(vec3 \<Rightarrow> double) \<Rightarrow> CandidateBundle \<Rightarrow> bool" where
  "bundle_valid nrm b \<longleftrightarrow>
     cb_localization_epoch b \<noteq> 0 \<and> cb_goal_epoch b \<noteq> 0 \<and> cb_request_id b \<noteq> 0 \<and>
     cb_bundle_generation b \<noteq> 0 \<and> cb_valid_from_ns b > 0 \<and>
     cb_valid_until_ns b \<ge> cb_valid_from_ns b \<and> cb_evaluator b \<noteq> None \<and>
     candidateRoleValid (cb_role b) \<and> kind_contract b \<and> terminal_stop_contract b \<and>
     completeFor (cb_certificates b) (cb_kind b) \<and> box_valid (cb_protected_region b) \<and>
     cb_activation_stamp_ns b > 0 \<and> cb_activation_stamp_ns b = cb_valid_from_ns b \<and>
     endpoint_metadata_consistent b \<and> roleScheduleValid b \<and>
     (case cb_quality b of None \<Rightarrow> True | Some q \<Rightarrow> quality_finite q) \<and>
     (case cb_route_boundary_constraint b of None \<Rightarrow> True | Some c \<Rightarrow> constraint_valid nrm c) \<and>
     (case cb_route_boundary_event b of None \<Rightarrow> True | Some e \<Rightarrow> event_valid nrm e) \<and>
     (cb_route_boundary_constraint b = None \<or> cb_route_boundary_event b \<noteq> None) \<and>
     world_identity_bound b (cb_pinned_world_identity b) \<and>
     world_identity_bound b (cb_world_identity b)"

definition hasTrajectoryMetadata :: "CandidateBundle \<Rightarrow> bool" where
  "hasTrajectoryMetadata b \<longleftrightarrow>
     isfinite (cb_start_wall_time_s b) \<and> fp_less (Fin 0) (cb_start_wall_time_s b) \<and>
     isfinite (cb_duration_s b) \<and> fp_le (Fin 0) (cb_duration_s b) \<and>
     isfinite (cb_backup_start_time_s b) \<and> fp_le (Fin 0) (cb_backup_start_time_s b) \<and>
     fp_le (cb_backup_start_time_s b) (dadd (cb_duration_s b) (dlit (1 / 10 ^ 9)))"

definition hasDeclaredEndpointMetadata :: "CandidateBundle \<Rightarrow> bool" where
  "hasDeclaredEndpointMetadata b \<longleftrightarrow>
     isfinite (cb_start_wall_time_s b) \<and> fp_less (Fin 0) (cb_start_wall_time_s b) \<and>
     isfinite (cb_duration_s b) \<and> fp_le (Fin 0) (cb_duration_s b)"

section \<open>World validation and sampling\<close>

definition validateWorld ::
  "(vec3 \<Rightarrow> double) \<Rightarrow> CandidateBundle \<Rightarrow> WorldModelView option \<Rightarrow> double \<Rightarrow> TrajectoryValidationResult" where
  "validateWorld nrm b world authorization_wall_time_s =
     (let result = default_validation
            \<lparr>tv_pinned_world := cb_pinned_world_identity b,
             tv_validated_world := (case world of None \<Rightarrow> default_world_identity | Some w \<Rightarrow> view_identity w),
             tv_evaluated_generation := cb_bundle_generation b\<rparr>
      in case (world, cb_world_validator b) of
           (Some w, Some validator) \<Rightarrow>
             if \<not> bundle_valid nrm b \<or> \<not> isfinite authorization_wall_time_s then result
             else (case validator w authorization_wall_time_s of
                     None \<Rightarrow> result
                   | Some validated \<Rightarrow>
                       if tv_evaluated_generation validated \<noteq> 0 \<and>
                          tv_evaluated_generation validated \<noteq> cb_bundle_generation b then result
                       else validated\<lparr>tv_pinned_world := cb_pinned_world_identity b,
                                      tv_validated_world := view_identity w,
                                      tv_evaluated_generation := cb_bundle_generation b\<rparr>)
         | _ \<Rightarrow> result)"

text \<open>Run the evaluator at a stamp, from a point that carries the bundle's role.\<close>

definition evaluate_at :: "CandidateBundle \<Rightarrow> i64 \<Rightarrow> TrajectoryPoint option" where
  "evaluate_at b stamp_ns =
     (case cb_evaluator b of None \<Rightarrow> None
      | Some ev \<Rightarrow> ev stamp_ns (default_point\<lparr>pt_role := cb_role b\<rparr>))"

definition sampleAtDeclaredStamp :: "(vec3 \<Rightarrow> double) \<Rightarrow> CandidateBundle \<Rightarrow> i64 \<Rightarrow> TrajectoryPoint option" where
  "sampleAtDeclaredStamp nrm b stamp_ns =
     (if \<not> bundle_valid nrm b \<or> stamp_ns < cb_declared_start_ns b \<or> stamp_ns > cb_declared_end_ns b
      then None
      else case evaluate_at b stamp_ns of None \<Rightarrow> None
      | Some point \<Rightarrow>
          if \<not> point_finite point \<or> \<not> sampledRoleAllowed b (pt_role point) then None
          else if scheduledRole b (pt_trajectory_time_s point) \<noteq> Some (pt_role point) then None
          else Some point)"

definition bundle_sample :: "(vec3 \<Rightarrow> double) \<Rightarrow> CandidateBundle \<Rightarrow> i64 \<Rightarrow> TrajectoryPoint option" where
  "bundle_sample nrm b stamp_ns =
     (if \<not> bundle_valid nrm b \<or> stamp_ns < cb_valid_from_ns b \<or> stamp_ns > cb_valid_until_ns b
      then None else sampleAtDeclaredStamp nrm b stamp_ns)"

definition sampleAtDeclaredEnd :: "(vec3 \<Rightarrow> double) \<Rightarrow> CandidateBundle \<Rightarrow> TrajectoryPoint option" where
  "sampleAtDeclaredEnd nrm b =
     (if \<not> bundle_valid nrm b \<or> \<not> hasDeclaredEndpointMetadata b then None
      else case (if cb_declared_end_ns b > 0 then Some (cb_declared_end_ns b)
                 else secondsSumToNanoseconds (cb_start_wall_time_s b) (cb_duration_s b)) of
        None \<Rightarrow> None
      | Some end_stamp_ns \<Rightarrow>
          if end_stamp_ns \<le> 0 then None
          else (case evaluate_at b end_stamp_ns of None \<Rightarrow> None
          | Some point \<Rightarrow>
              if \<not> point_finite point \<or> \<not> sampledRoleAllowed b (pt_role point) then None
              else if scheduledRole b (cb_duration_s b) \<noteq> Some (pt_role point) then None
              else Some (point\<lparr>pt_finished := True\<rparr>)))"

section \<open>Handoff between two bundles\<close>

definition kPositionToleranceM :: double where "kPositionToleranceM = dlit (1 / 10 ^ 5)"
definition kVelocityToleranceMps :: double where "kVelocityToleranceMps = dlit (1 / 10 ^ 5)"
definition kAccelerationToleranceMps2 :: double where "kAccelerationToleranceMps2 = dlit (1 / 10 ^ 4)"
definition kJerkToleranceMps3 :: double where "kJerkToleranceMps3 = dlit (1 / 10 ^ 3)"
definition kYawToleranceRad :: double where "kYawToleranceRad = dlit (1 / 10 ^ 6)"
definition kYawRateToleranceRadS :: double where "kYawRateToleranceRadS = dlit (1 / 10 ^ 5)"

definition points_continuous :: "(vec3 \<Rightarrow> double) \<Rightarrow> TrajectoryPoint \<Rightarrow> TrajectoryPoint \<Rightarrow> bool" where
  "points_continuous nrm next_sample previous_sample \<longleftrightarrow>
     fp_le (nrm (vsub (pt_position_world next_sample) (pt_position_world previous_sample))) kPositionToleranceM \<and>
     fp_le (nrm (vsub (pt_velocity_world next_sample) (pt_velocity_world previous_sample))) kVelocityToleranceMps \<and>
     fp_le (nrm (vsub (pt_acceleration_world next_sample) (pt_acceleration_world previous_sample)))
       kAccelerationToleranceMps2 \<and>
     fp_le (nrm (vsub (pt_jerk_world next_sample) (pt_jerk_world previous_sample))) kJerkToleranceMps3 \<and>
     fp_le (fp_abs (fp_remainder (dsub (pt_yaw next_sample) (pt_yaw previous_sample)) two_pi)) kYawToleranceRad \<and>
     fp_le (fp_abs (dsub (pt_yaw_rate next_sample) (pt_yaw_rate previous_sample))) kYawRateToleranceRadS"

definition expired_safety_endpoint :: "(vec3 \<Rightarrow> double) \<Rightarrow> CandidateBundle \<Rightarrow> bool" where
  "expired_safety_endpoint nrm previous =
     (case sampleAtDeclaredEnd nrm previous of None \<Rightarrow> False
      | Some e \<Rightarrow> pt_finished e \<and>
          ((cb_kind previous = KindEmergencyBrake \<and> pt_role e = RoleEmergency) \<or>
           ((cb_kind previous = KindMainWithBackup \<or> cb_kind previous = KindBackupOnly) \<and>
            pt_role e = RoleBackup) \<or>
           (cb_kind previous = KindTerminalStop \<and> cb_terminal_stop previous \<and> pt_role e = RoleMain)))"

text \<open>The second component is the result; the first is the stamp written through the out pointer.\<close>

definition candidateBundleHandoffContinuous ::
  "(vec3 \<Rightarrow> double) \<Rightarrow> CandidateBundle \<Rightarrow> CandidateBundle \<Rightarrow> bool \<Rightarrow> i64 option \<times> bool" where
  "candidateBundleHandoffContinuous nrm previous next_b allow_expired_safety_after_certified_stop =
     (if \<not> bundle_valid nrm previous \<or> \<not> bundle_valid nrm next_b \<or>
         cb_kind next_b = KindEmergencyBrake \<or> \<not> hasDeclaredEndpointMetadata next_b
      then (None, False)
      else case (if cb_declared_start_ns next_b > 0 then Some (cb_declared_start_ns next_b)
                 else secondsToNanoseconds (cb_start_wall_time_s next_b)) of
        None \<Rightarrow> (None, False)
      | Some handoff \<Rightarrow>
          if handoff \<le> 0 then (None, False)
          else if allow_expired_safety_after_certified_stop \<and> cb_declared_end_ns previous > 0 \<and>
                  handoff \<ge> cb_declared_end_ns previous \<and> expired_safety_endpoint nrm previous
          then (Some handoff, True)
          else (case (bundle_sample nrm previous handoff, sampleAtDeclaredStamp nrm next_b handoff) of
                  (Some p, Some n) \<Rightarrow> (Some handoff, points_continuous nrm n p)
                | _ \<Rightarrow> (Some handoff, False)))"

section \<open>What a sample guarantees\<close>

lemma sampleAtDeclaredStamp_Some:
  assumes "sampleAtDeclaredStamp nrm b t = Some p"
  shows "bundle_valid nrm b \<and> cb_declared_start_ns b \<le> t \<and> t \<le> cb_declared_end_ns b \<and>
    point_finite p \<and> sampledRoleAllowed b (pt_role p) \<and>
    scheduledRole b (pt_trajectory_time_s p) = Some (pt_role p)"
  using assms by (auto simp: sampleAtDeclaredStamp_def not_less split: if_splits option.splits)

lemma bundle_sample_Some:
  assumes "bundle_sample nrm b t = Some p"
  shows "cb_valid_from_ns b \<le> t \<and> t \<le> cb_valid_until_ns b \<and> sampleAtDeclaredStamp nrm b t = Some p"
  using assms by (auto simp: bundle_sample_def not_less split: if_splits)

lemma valid_role_kind:
  "bundle_valid nrm b \<Longrightarrow> cb_role b = RoleMain \<longleftrightarrow> cb_kind b \<in> {KindMainWithBackup, KindTerminalStop}"
  "bundle_valid nrm b \<Longrightarrow> cb_role b = RoleBackup \<longleftrightarrow> cb_kind b = KindBackupOnly"
  "bundle_valid nrm b \<Longrightarrow> cb_role b = RoleEmergency \<longleftrightarrow> cb_kind b = KindEmergencyBrake"
  by (auto simp: bundle_valid_def kind_contract_def)

lemma valid_declared_endpoint:
  assumes "bundle_valid nrm b"
  shows "hasDeclaredEndpointMetadata b"
proof -
  have start: "secondsToNanoseconds (cb_start_wall_time_s b) = Some (cb_declared_start_ns b)"
    and dur: "secondsSumToNanoseconds (cb_start_wall_time_s b) (cb_duration_s b) = Some (cb_declared_end_ns b)"
    and pos: "0 < cb_declared_start_ns b"
    using assms by (simp_all add: bundle_valid_def endpoint_metadata_consistent_def)
  from start obtain x where x: "cb_start_wall_time_s b = Fin x" "0 \<le> x"
    by (cases "cb_start_wall_time_s b") (auto simp: secondsToNanoseconds_def split: if_splits)
  have "x \<noteq> 0"
  proof
    assume "x = 0"
    with start x(1) pos show False
      using rounded_int [of 0] by (simp add: secondsToNanoseconds_Fin fp_simps i64_simps)
  qed
  moreover from dur obtain d where "cb_duration_s b = Fin d" "0 \<le> d"
    by (cases "cb_duration_s b") (auto simp: secondsSumToNanoseconds_def split: if_splits)
  ultimately show ?thesis using x by (simp add: hasDeclaredEndpointMetadata_def)
qed

text \<open>
  A sampled command is finite, lies inside both the execution lease and the declared trajectory, and
  its role is the one scheduled at its trajectory time and permitted by the bundle: a BACKUP or
  EMERGENCY bundle never emits MAIN, and MAIN emits BACKUP only when the bundle has a suffix.
\<close>

theorem sample_contract:
  assumes "bundle_sample nrm b t = Some p"
  shows "cb_valid_from_ns b \<le> t \<and> t \<le> cb_valid_until_ns b \<and>
    cb_declared_start_ns b \<le> t \<and> t \<le> cb_declared_end_ns b \<and> point_finite p \<and>
    scheduledRole b (pt_trajectory_time_s p) = Some (pt_role p) \<and>
    (case cb_kind b of
       KindMainWithBackup \<Rightarrow> pt_role p = RoleMain \<or> pt_role p = RoleBackup
     | KindTerminalStop \<Rightarrow> pt_role p = RoleMain
     | KindBackupOnly \<Rightarrow> pt_role p = RoleBackup
     | KindEmergencyBrake \<Rightarrow> pt_role p = RoleEmergency)"
proof -
  have d: "cb_valid_from_ns b \<le> t" "t \<le> cb_valid_until_ns b" "sampleAtDeclaredStamp nrm b t = Some p"
    using bundle_sample_Some [OF assms] by auto
  note s = sampleAtDeclaredStamp_Some [OF d(3)]
  then have "kind_contract b" by (simp add: bundle_valid_def)
  with s have "case cb_kind b of
       KindMainWithBackup \<Rightarrow> pt_role p = RoleMain \<or> pt_role p = RoleBackup
     | KindTerminalStop \<Rightarrow> pt_role p = RoleMain
     | KindBackupOnly \<Rightarrow> pt_role p = RoleBackup
     | KindEmergencyBrake \<Rightarrow> pt_role p = RoleEmergency"
    by (auto simp: kind_contract_def sampledRoleAllowed_def split: CandidateBundleKind.split if_splits)
  with d s show ?thesis by blast
qed

section \<open>A concrete bundle\<close>

text \<open>
  MAIN for two seconds and a certified BACKUP for two more, starting at wall time 1 s. Concrete
  instances in the development are built from it.
\<close>

definition ex_world :: WorldSnapshotIdentity where
  "ex_world = \<lparr>wid_localization_epoch = 1, wid_generation = 1, wid_revision = 1, wid_observation_stamp_ns = 5\<rparr>"

definition ex_evaluator :: "i64 \<Rightarrow> TrajectoryPoint \<Rightarrow> TrajectoryPoint option" where
  "ex_evaluator t p =
     (let s = (of_int t - 1000000000) / 1000000000
      in Some (p\<lparr>pt_trajectory_time_s := Fin s, pt_role := if s < 2 then RoleMain else RoleBackup\<rparr>))"

definition ex_bundle_at :: "u64 \<Rightarrow> i64 \<Rightarrow> CandidateBundle" where
  "ex_bundle_at generation from_ns =
     \<lparr>cb_pinned_world_identity = ex_world, cb_world_identity = ex_world, cb_localization_epoch = 1,
      cb_goal_epoch = 1, cb_request_id = 7, cb_bundle_generation = generation, cb_producer_planning_cycle_id = 0,
      cb_valid_from_ns = from_ns, cb_valid_until_ns = 3000000000, cb_activation_stamp_ns = from_ns,
      cb_role = RoleMain, cb_start_wall_time_s = Fin 1, cb_duration_s = Fin 4,
      cb_declared_start_ns = 1000000000, cb_declared_end_ns = 5000000000,
      cb_backup_start_time_s = Fin 2, cb_backup_available = True, cb_terminal_stop = False,
      cb_kind = KindMainWithBackup, cb_source = SourceDeterministicBaseline,
      cb_certificates = \<lparr>cert_dynamics = True, cert_flatness = True, cert_world = True, cert_terminal_stop = False\<rparr>,
      cb_protected_region = \<lparr>box_minimum = vzero, box_maximum = vzero\<rparr>,
      cb_role_schedule = [\<lparr>iv_begin_time_s = Fin 0, iv_end_time_s = Fin 2, iv_role = RoleMain\<rparr>,
                          \<lparr>iv_begin_time_s = Fin 2, iv_end_time_s = Fin 4, iv_role = RoleBackup\<rparr>],
      cb_quality = None, cb_route_boundary_constraint = None, cb_route_boundary_event = None,
      cb_world_validator = None, cb_evaluator = Some ex_evaluator\<rparr>"

lemma ex_bundle_at_valid:
  assumes "g \<noteq> 0" "0 < t" "t \<le> 3000000000"
  shows "bundle_valid nrm (ex_bundle_at g t)"
proof -
  have s1: "secondsToNanoseconds (Fin 1) = Some 1000000000"
    by (simp add: secondsToNanoseconds_Fin fp_simps)
  have s2: "secondsSumToNanoseconds (Fin 1) (Fin 4) = Some 5000000000"
    by (simp add: secondsSumToNanoseconds_def fp_convert_def fp_simps)
  have r: "roleScheduleValid (ex_bundle_at g t)"
    by (simp add: roleScheduleValid_def ex_bundle_at_def fp_sub_def fp_simps)
  show ?thesis
    using assms s1 s2 r by (simp add: bundle_valid_def ex_bundle_at_def kind_contract_def terminal_stop_contract_def
        completeFor_def box_valid_def vfinite_def vle_def vzero_def endpoint_metadata_consistent_def
        world_identity_bound_def ex_world_def)
qed

text \<open>What the other theories use of the bundle.\<close>

lemma ex_bundle_at_simps [simp]:
  "cb_request_id (ex_bundle_at g t) = 7" "cb_goal_epoch (ex_bundle_at g t) = 1"
  "cb_world_identity (ex_bundle_at g t) = ex_world" "cb_bundle_generation (ex_bundle_at g t) = g"
  "cb_localization_epoch (ex_bundle_at g t) = 1" "cb_role (ex_bundle_at g t) = RoleMain"
  "cb_valid_from_ns (ex_bundle_at g t) = t" "cb_valid_until_ns (ex_bundle_at g t) = 3000000000"
  "cb_activation_stamp_ns (ex_bundle_at g t) = t" "cb_declared_start_ns (ex_bundle_at g t) = 1000000000"
  "cb_declared_end_ns (ex_bundle_at g t) = 5000000000" "cb_kind (ex_bundle_at g t) = KindMainWithBackup"
  "cb_backup_available (ex_bundle_at g t)" "cb_start_wall_time_s (ex_bundle_at g t) = Fin 1"
  "cb_duration_s (ex_bundle_at g t) = Fin 4" "cb_backup_start_time_s (ex_bundle_at g t) = Fin 2"
  "cb_terminal_stop (ex_bundle_at g t) = False" "cb_evaluator (ex_bundle_at g t) = Some ex_evaluator"
  by (simp_all add: ex_bundle_at_def)

lemma ex_offsets: "to_offset_ns (Fin 0) = Some 0" "to_offset_ns (Fin 1) = Some 1000000000"
  "to_offset_ns (Fin 2) = Some 2000000000"
  by (simp_all add: to_offset_ns_def fp_convert_def fp_simps i64_simps floor_eq_iff)

lemma ex_scheduled:
  assumes "g \<noteq> 0" "0 < t" "t \<le> 3000000000"
  shows "scheduledRole (ex_bundle_at g t) (Fin 0) = Some RoleMain"
    "scheduledRole (ex_bundle_at g t) (Fin 1) = Some RoleMain"
proof -
  have v: "roleScheduleValid (ex_bundle_at g t)" using ex_bundle_at_valid [OF assms] by (simp add: bundle_valid_def)
  have r: "cb_role_schedule (ex_bundle_at g t) =
      [\<lparr>iv_begin_time_s = Fin 0, iv_end_time_s = Fin 2, iv_role = RoleMain\<rparr>,
       \<lparr>iv_begin_time_s = Fin 2, iv_end_time_s = Fin 4, iv_role = RoleBackup\<rparr>]"
    by (simp add: ex_bundle_at_def)
  have n: "\<not> fp_less (dadd (Fin 4) (dlit (1 / 10 ^ 9))) (Fin d)" if "d \<le> 4" for d
    using that by (intro dadd_tolerance(1)) (simp_all add: fp_simps)
  show "scheduledRole (ex_bundle_at g t) (Fin 0) = Some RoleMain"
    "scheduledRole (ex_bundle_at g t) (Fin 1) = Some RoleMain"
    using v r n [of 0] n [of 1] by (simp_all add: scheduledRole_def ex_offsets)
qed

definition ex_point :: "double \<Rightarrow> TrajectoryPoint" where
  "ex_point s = default_point\<lparr>pt_trajectory_time_s := s, pt_role := RoleMain\<rparr>"

lemma ex_samples:
  assumes "g \<noteq> 0" "0 < t" "t \<le> 3000000000"
  shows "sampleAtDeclaredStamp nrm (ex_bundle_at g t) 1000000000 = Some (ex_point (Fin 0))"
    "sampleAtDeclaredStamp nrm (ex_bundle_at g t) 2000000000 = Some (ex_point (Fin 1))"
  using ex_scheduled [OF assms] ex_bundle_at_valid [OF assms]
  by (simp_all add: sampleAtDeclaredStamp_def evaluate_at_def ex_evaluator_def ex_point_def point_finite_def
      default_point_def vfinite_def vzero_def sampledRoleAllowed_def)

theorem sample_contract_witness:
  "bundle_sample (\<lambda>_. Fin 1) (ex_bundle_at 1 1000000000) 2000000000 = Some (ex_point (Fin 1)) \<and>
   point_finite (ex_point (Fin 1))"
proof -
  have s: "bundle_sample (\<lambda>_. Fin 1) (ex_bundle_at 1 1000000000) 2000000000 = Some (ex_point (Fin 1))"
    using ex_samples(2) [of 1 1000000000 "\<lambda>_. Fin 1"] ex_bundle_at_valid [of 1 1000000000 "\<lambda>_. Fin 1"]
    by (simp add: bundle_sample_def)
  from sample_contract [OF s] s show ?thesis by blast
qed

end
