(* ===== verification/Execution_Lifecycle.thy ===== *)
theory Execution_Lifecycle
  imports Candidate_Bundle
begin

text \<open>
  \<open>execution_lifecycle.hpp\<close> and \<open>execution_recovery_state.hpp\<close>: the orthogonal lifecycle facts of
  the executing command and the recovery state machine, and \<open>execution_anchor.hpp\<close> (planning and
  execution): the immutable state sampled from the executing command at a future splice instant.
\<close>

section \<open>The recovery state machine\<close>

datatype ExecutionRecoveryState =
  RecoveryInitialHold | RecoveryTrackMain | RecoveryTrackBackup | RecoveryEmergencyBrake
| RecoveryStoppedRecovery | RecoveryPx4Hold

datatype ExecutionRecoveryEvent =
  EventMainCommitted | EventBackupActivated | EventEmergencyCommitted | EventCertifiedStopObserved
| EventTerminalStopCompleted | EventEmergencyCertificationFailed

fun executionRecoveryStateKnown :: "ExecutionRecoveryState \<Rightarrow> bool" where
  "executionRecoveryStateKnown state \<longleftrightarrow>
     state = RecoveryInitialHold \<or> state = RecoveryTrackMain \<or> state = RecoveryTrackBackup \<or>
     state = RecoveryEmergencyBrake \<or> state = RecoveryStoppedRecovery \<or> state = RecoveryPx4Hold"

definition nominalPlanningAllowed :: "ExecutionRecoveryState \<Rightarrow> bool" where
  "nominalPlanningAllowed state \<longleftrightarrow>
     state = RecoveryInitialHold \<or> state = RecoveryTrackMain \<or> state = RecoveryStoppedRecovery"

definition transitionExecutionRecovery ::
  "ExecutionRecoveryState \<Rightarrow> ExecutionRecoveryEvent \<Rightarrow> ExecutionRecoveryState" where
  "transitionExecutionRecovery state event =
     (if \<not> executionRecoveryStateKnown state then RecoveryPx4Hold
      else if state = RecoveryPx4Hold then state
      else if event = EventEmergencyCertificationFailed then RecoveryPx4Hold
      else case state of
        RecoveryInitialHold \<Rightarrow>
          if event = EventMainCommitted then RecoveryTrackMain
          else if event = EventBackupActivated then RecoveryTrackBackup
          else if event = EventEmergencyCommitted then RecoveryEmergencyBrake
          else state
      | RecoveryTrackMain \<Rightarrow>
          if event = EventBackupActivated then RecoveryTrackBackup
          else if event = EventEmergencyCommitted then RecoveryEmergencyBrake
          else if event = EventTerminalStopCompleted then RecoveryStoppedRecovery
          else state
      | RecoveryTrackBackup \<Rightarrow>
          if event = EventCertifiedStopObserved then RecoveryStoppedRecovery else state
      | RecoveryEmergencyBrake \<Rightarrow>
          if event = EventCertifiedStopObserved then RecoveryStoppedRecovery else state
      | RecoveryStoppedRecovery \<Rightarrow>
          if event = EventMainCommitted then RecoveryTrackMain else state
      | RecoveryPx4Hold \<Rightarrow> state)"

section \<open>Lifecycle\<close>

datatype ExecutionPhase = PhaseInitialHold | PhaseTrackingMain | PhaseTrackingBackup | PhaseStoppedHold | PhasePx4Hold

fun executionPhaseTelemetryCodeV1 :: "ExecutionPhase \<Rightarrow> u8" where
  "executionPhaseTelemetryCodeV1 PhaseInitialHold = 0"
| "executionPhaseTelemetryCodeV1 PhaseTrackingMain = 2"
| "executionPhaseTelemetryCodeV1 PhaseTrackingBackup = 3"
| "executionPhaseTelemetryCodeV1 PhaseStoppedHold = 4"
| "executionPhaseTelemetryCodeV1 PhasePx4Hold = 5"

datatype ExecutionExposure = ExposureUnavailable | ExposureAvailable | ExposureSuspended | ExposureFailed

datatype ExecutionSafetyOwnership = SafetyNominal | SafetySuffix

datatype ExecutionRestartRequest = RestartNone | RestartFromRest

record ExecutionLifecycleState =
  lc_phase :: ExecutionPhase
  lc_recovery :: ExecutionRecoveryState
  lc_exposure :: ExecutionExposure
  lc_safety :: ExecutionSafetyOwnership
  lc_restart :: ExecutionRestartRequest

definition initial_lifecycle :: ExecutionLifecycleState where
  "initial_lifecycle =
     \<lparr>lc_phase = PhaseInitialHold, lc_recovery = RecoveryInitialHold, lc_exposure = ExposureUnavailable,
      lc_safety = SafetyNominal, lc_restart = RestartNone\<rparr>"

section \<open>The execution anchor\<close>

record ExecutionAnchor =
  an_active_bundle_generation :: u64
  an_execution_lineage_version :: u64
  an_localization_epoch :: u64
  an_goal_epoch :: u64
  an_request_id :: u64
  an_request_stamp_ns :: i64
  an_activation_stamp_ns :: i64
  an_state :: TrajectoryPoint
  an_active_role :: CandidateRole
  an_active_main_end_ns :: i64
  an_active_bundle_end_ns :: i64
  an_command_world :: WorldSnapshotIdentity

definition anchor_valid :: "ExecutionAnchor \<Rightarrow> bool" where
  "anchor_valid a \<longleftrightarrow>
     an_active_bundle_generation a \<noteq> 0 \<and> an_execution_lineage_version a \<noteq> 0 \<and>
     an_localization_epoch a \<noteq> 0 \<and> an_goal_epoch a \<noteq> 0 \<and> an_request_id a \<noteq> 0 \<and>
     an_request_stamp_ns a > 0 \<and> an_activation_stamp_ns a \<ge> an_request_stamp_ns a \<and>
     point_finite (an_state a) \<and> candidateRoleValid (an_active_role a) \<and>
     an_active_main_end_ns a \<ge> an_activation_stamp_ns a \<and>
     an_active_bundle_end_ns a \<ge> an_active_main_end_ns a \<and>
     wid_localization_epoch (an_command_world a) = an_localization_epoch a \<and>
     wid_generation (an_command_world a) \<noteq> 0 \<and> wid_revision (an_command_world a) \<noteq> 0 \<and>
     wid_observation_stamp_ns (an_command_world a) > 0"

datatype AnchorMatchResult =
  AnchorMatch | AnchorInvalidAnchor | AnchorInvalidCandidate | AnchorNoSample | AnchorPositionMismatch
| AnchorVelocityMismatch | AnchorAccelerationMismatch | AnchorJerkMismatch | AnchorYawMismatch
| AnchorYawRateMismatch

definition candidateMatchesAnchor ::
  "(vec3 \<Rightarrow> double) \<Rightarrow> CandidateBundle \<Rightarrow> ExecutionAnchor \<Rightarrow> AnchorMatchResult" where
  "candidateMatchesAnchor nrm candidate anchor =
     (if \<not> anchor_valid anchor then AnchorInvalidAnchor
      else if \<not> bundle_valid nrm candidate \<or> cb_kind candidate = KindEmergencyBrake then AnchorInvalidCandidate
      else if cb_valid_from_ns candidate \<noteq> an_activation_stamp_ns anchor then AnchorNoSample
      else case bundle_sample nrm candidate (an_activation_stamp_ns anchor) of
        None \<Rightarrow> AnchorNoSample
      | Some s \<Rightarrow>
          let a = an_state anchor
          in if fp_less (dlit (1 / 10 ^ 5)) (nrm (vsub (pt_position_world s) (pt_position_world a)))
             then AnchorPositionMismatch
             else if fp_less (dlit (1 / 10 ^ 5)) (nrm (vsub (pt_velocity_world s) (pt_velocity_world a)))
             then AnchorVelocityMismatch
             else if fp_less (dlit (1 / 10 ^ 4)) (nrm (vsub (pt_acceleration_world s) (pt_acceleration_world a)))
             then AnchorAccelerationMismatch
             else if fp_less (dlit (1 / 10 ^ 3)) (nrm (vsub (pt_jerk_world s) (pt_jerk_world a)))
             then AnchorJerkMismatch
             else if fp_less (dlit (1 / 10 ^ 6)) (fp_abs (fp_remainder (dsub (pt_yaw s) (pt_yaw a)) two_pi))
             then AnchorYawMismatch
             else if fp_less (dlit (1 / 10 ^ 5)) (fp_abs (dsub (pt_yaw_rate s) (pt_yaw_rate a)))
             then AnchorYawRateMismatch
             else AnchorMatch)"

section \<open>Recovery is one-way until a stop is observed\<close>

lemma px4_hold_absorbing [simp]: "transitionExecutionRecovery RecoveryPx4Hold event = RecoveryPx4Hold"
  by (simp add: transitionExecutionRecovery_def)

definition run_recovery :: "ExecutionRecoveryState \<Rightarrow> ExecutionRecoveryEvent list \<Rightarrow> ExecutionRecoveryState" where
  "run_recovery = foldl transitionExecutionRecovery"

lemma run_recovery_px4_hold: "run_recovery RecoveryPx4Hold es = RecoveryPx4Hold"
  by (induction es) (auto simp: run_recovery_def)

lemma moving_safety_step:
  assumes "state \<in> {RecoveryTrackBackup, RecoveryEmergencyBrake}" "event \<noteq> EventCertifiedStopObserved"
  shows "transitionExecutionRecovery state event \<in> {state, RecoveryPx4Hold}"
  using assms by (auto simp: transitionExecutionRecovery_def)

lemma moving_safety_run:
  assumes "state \<in> {RecoveryTrackBackup, RecoveryEmergencyBrake}" "EventCertifiedStopObserved \<notin> set events"
  shows "run_recovery state events \<in> {state, RecoveryPx4Hold}"
  using assms(2)
proof (induction events rule: rev_induct)
  case (snoc e es)
  then have "run_recovery state es \<in> {state, RecoveryPx4Hold}" "e \<noteq> EventCertifiedStopObserved" by auto
  then show ?case
    using moving_safety_step [OF assms(1), of e] by (auto simp: run_recovery_def)
qed (simp add: run_recovery_def)

text \<open>
  C33. While the vehicle moves on a BACKUP or emergency trajectory, no sequence of events without a
  certified stop re-enables nominal planning: late MAIN commits, backup activations and completed
  terminal stops leave the state where it is, and a failed emergency certification only leads to the
  absorbing PX4 hold.
\<close>

theorem safety_recovery_one_way:
  assumes "state \<in> {RecoveryTrackBackup, RecoveryEmergencyBrake}"
    and "EventCertifiedStopObserved \<notin> set events"
  shows "run_recovery state events \<in> {state, RecoveryPx4Hold} \<and>
         \<not> nominalPlanningAllowed (run_recovery state events)"
  using moving_safety_run [OF assms] assms(1) by (auto simp: nominalPlanningAllowed_def)

theorem safety_recovery_one_way_witness:
  "run_recovery RecoveryTrackBackup [EventMainCommitted, EventTerminalStopCompleted] = RecoveryTrackBackup \<and>
   \<not> nominalPlanningAllowed (run_recovery RecoveryTrackBackup [EventMainCommitted, EventTerminalStopCompleted])"
proof -
  have "run_recovery RecoveryTrackBackup [EventMainCommitted, EventTerminalStopCompleted] = RecoveryTrackBackup"
    by (simp add: run_recovery_def transitionExecutionRecovery_def)
  then show ?thesis
    using safety_recovery_one_way [of RecoveryTrackBackup "[EventMainCommitted, EventTerminalStopCompleted]"]
    by simp
qed

lemma anchor_matches_continuous:
  assumes "candidateMatchesAnchor nrm c a = AnchorMatch"
  shows "anchor_valid a \<and> bundle_valid nrm c \<and> cb_kind c \<noteq> KindEmergencyBrake \<and>
    cb_valid_from_ns c = an_activation_stamp_ns a \<and>
    (\<exists>s. bundle_sample nrm c (an_activation_stamp_ns a) = Some s)"
  using assms by (auto simp: candidateMatchesAnchor_def split: if_splits option.splits)

end
