(* ===== verification/Execution_Authority.thy ===== *)
theory Execution_Authority
  imports Execution_Lifecycle
begin

text \<open>
  \<open>navigation_execution/execution_authority.hpp\<close>: the sole owner of the command that may reach the
  sampler. The record is the class's guarded state; every public member function is one definition
  from the state to its result and the next state. Each one runs under the class's mutex, so it is one
  atomic step; the two operations that release the mutex in between (world publication and anchor
  reservation) are split into the part that pins a snapshot and the part that commits, so that other
  steps can be interleaved between them.

  Callbacks are arguments: the finalizers and admission predicates are the Boolean they return
  (\<open>False\<close> when they throw), and the address a successful \<open>std::make_shared\<close> returns is an
  argument (\<open>None\<close> when it throws). The diagnostic \<open>publish_lock_wait_us_\<close> is not part of the state.
\<close>

section \<open>State\<close>

record RouteSnapshot =
  rt_mission_id :: string
  rt_frame_id :: string
  rt_route_revision :: u64
  rt_request_id :: u64
  rt_active_waypoint_index :: u32
  rt_waypoint_positions :: "vec3 list"
  rt_waypoint_ids :: "string list"
  rt_waypoint_acceptance_radii_m :: "double list"
  rt_waypoint_behaviors :: "u8 list"
  rt_measured_progress_valid :: bool
  rt_measured_segment_index :: u32
  rt_measured_progress_arc_m :: double
  rt_measured_projection_arc_m :: double
  rt_measured_lateral_error_m :: double

definition default_route_snapshot :: RouteSnapshot where
  "default_route_snapshot = \<lparr>rt_mission_id = [], rt_frame_id = [], rt_route_revision = 0, rt_request_id = 0,
     rt_active_waypoint_index = 0, rt_waypoint_positions = [], rt_waypoint_ids = [], rt_waypoint_acceptance_radii_m = [],
     rt_waypoint_behaviors = [], rt_measured_progress_valid = False, rt_measured_segment_index = 0,
     rt_measured_progress_arc_m = Fin 0, rt_measured_projection_arc_m = Fin 0, rt_measured_lateral_error_m = Fin 0\<rparr>"

record NavigationGoal =
  ng_mission_id :: string
  ng_waypoint_index :: u32
  ng_request_id :: u64
  ng_target :: vec3
  ng_acceptance_radius_m :: double
  ng_behavior :: u8
  ng_has_next_target :: bool
  ng_next_target :: vec3
  ng_route :: RouteSnapshot

record CommitToken =
  tok_world_identity :: WorldSnapshotIdentity
  tok_goal_epoch :: u64
  tok_transaction_id :: u64

datatype ConditionalExecutionMutation = MutationApplied | MutationStale | MutationAlreadyFailed

datatype CommitDecision =
  CommitCommitted | CommitNoActiveGoal | CommitWorldAdvanced | CommitGoalAdvanced | CommitInvalidCandidate
| CommitCancelled | CommitFinalizationFailed | CommitPredecessorAdvanced | CommitAdmissionRejected

datatype StageDecision =
  StageStaged | StageNoActiveGoal | StageWorldAdvanced | StageGoalAdvanced | StageInvalidCandidate
| StageInvalidAnchor | StageActivationTooLate | StageCancelled | StageFinalizationFailed
| StagePredecessorAdvanced

record ExecutionAuthority =
  ea_admission_goal_epoch :: u64
  ea_admission_localization_epoch :: u64
  ea_timeline_version :: u64
  ea_active_lineage_version :: u64
  ea_last_transaction_id :: u64
  ea_world_identity :: "WorldSnapshotIdentity option"
  ea_active_goal :: "NavigationGoal ptr option"
  ea_active_bundle :: "CandidateBundle ptr option"
  ea_staged_goal :: "NavigationGoal ptr option"
  ea_staged_bundle :: "CandidateBundle ptr option"
  ea_staged_activation_ns :: i64
  ea_lifecycle :: ExecutionLifecycleState

definition initial_authority :: ExecutionAuthority where
  "initial_authority =
     \<lparr>ea_admission_goal_epoch = 0, ea_admission_localization_epoch = 0, ea_timeline_version = 0,
      ea_active_lineage_version = 0, ea_last_transaction_id = 0, ea_world_identity = None,
      ea_active_goal = None, ea_active_bundle = None, ea_staged_goal = None, ea_staged_bundle = None,
      ea_staged_activation_ns = 0, ea_lifecycle = initial_lifecycle\<rparr>"

record ExecutionAuthoritySnapshot =
  sn_version :: u64
  sn_world_identity :: "WorldSnapshotIdentity option"
  sn_active :: "CandidateBundle ptr option"
  sn_pending :: "CandidateBundle ptr option"
  sn_pending_activation_ns :: i64
  sn_active_goal :: "NavigationGoal ptr option"
  sn_pending_goal :: "NavigationGoal ptr option"
  sn_active_lineage :: u64
  sn_admission_goal_epoch :: u64
  sn_admission_localization_epoch :: u64
  sn_lifecycle :: ExecutionLifecycleState

section \<open>Queries of a snapshot\<close>

definition sn_commandAvailable :: "ExecutionAuthoritySnapshot \<Rightarrow> bool" where
  "sn_commandAvailable sn \<longleftrightarrow> lc_exposure (sn_lifecycle sn) = ExposureAvailable"

definition sn_failed :: "ExecutionAuthoritySnapshot \<Rightarrow> bool" where
  "sn_failed sn \<longleftrightarrow> lc_exposure (sn_lifecycle sn) = ExposureFailed"

definition sn_safetySuffixActive :: "ExecutionAuthoritySnapshot \<Rightarrow> bool" where
  "sn_safetySuffixActive sn \<longleftrightarrow> lc_safety (sn_lifecycle sn) = SafetySuffix"

definition sn_restartFromRest :: "ExecutionAuthoritySnapshot \<Rightarrow> bool" where
  "sn_restartFromRest sn \<longleftrightarrow> lc_restart (sn_lifecycle sn) = RestartFromRest"

definition sn_activeGeneration :: "ExecutionAuthoritySnapshot \<Rightarrow> u64" where
  "sn_activeGeneration sn = (case sn_active sn of None \<Rightarrow> 0 | Some p \<Rightarrow> cb_bundle_generation (deref p))"

definition sn_activeGoalEpoch :: "ExecutionAuthoritySnapshot \<Rightarrow> u64" where
  "sn_activeGoalEpoch sn = (case sn_active sn of None \<Rightarrow> 0 | Some p \<Rightarrow> cb_goal_epoch (deref p))"

definition sn_activeRequestId :: "ExecutionAuthoritySnapshot \<Rightarrow> u64" where
  "sn_activeRequestId sn = (case sn_active sn of None \<Rightarrow> 0 | Some p \<Rightarrow> cb_request_id (deref p))"

definition sn_admissionRequestId :: "ExecutionAuthoritySnapshot \<Rightarrow> u64" where
  "sn_admissionRequestId sn =
     (case sn_active sn of None \<Rightarrow> 0
      | Some p \<Rightarrow> if cb_goal_epoch (deref p) = sn_admission_goal_epoch sn then cb_request_id (deref p) else 0)"

definition authority_snapshot :: "ExecutionAuthority \<Rightarrow> ExecutionAuthoritySnapshot" where
  "authority_snapshot s =
     \<lparr>sn_version = ea_timeline_version s, sn_world_identity = ea_world_identity s,
      sn_active = ea_active_bundle s, sn_pending = ea_staged_bundle s,
      sn_pending_activation_ns = ea_staged_activation_ns s, sn_active_goal = ea_active_goal s,
      sn_pending_goal = ea_staged_goal s, sn_active_lineage = ea_active_lineage_version s,
      sn_admission_goal_epoch = ea_admission_goal_epoch s,
      sn_admission_localization_epoch = ea_admission_localization_epoch s,
      sn_lifecycle = ea_lifecycle s\<rparr>"

section \<open>Private helpers\<close>

definition bumpTimeline :: "ExecutionAuthority \<Rightarrow> ExecutionAuthority" where
  "bumpTimeline s = s\<lparr>ea_timeline_version := ea_timeline_version s + 1\<rparr>"

definition bumpLineage :: "ExecutionAuthority \<Rightarrow> ExecutionAuthority" where
  "bumpLineage s = s\<lparr>ea_active_lineage_version := ea_active_lineage_version s + 1\<rparr>"

definition noteLifecycleChangeLocked :: "ExecutionLifecycleState \<Rightarrow> ExecutionAuthority \<Rightarrow> ExecutionAuthority" where
  "noteLifecycleChangeLocked before s = (if \<not> (ea_lifecycle s = before) then bumpTimeline s else s)"

definition activeBundleIdentityMatchesLocked :: "ExecutionAuthority \<Rightarrow> CandidateBundle \<Rightarrow> bool" where
  "activeBundleIdentityMatchesLocked s bundle =
     (case (ea_active_bundle s, ea_active_goal s) of
        (Some a, Some g) \<Rightarrow>
          cb_localization_epoch bundle \<noteq> 0 \<and> cb_goal_epoch bundle \<noteq> 0 \<and>
          cb_request_id bundle \<noteq> 0 \<and> cb_bundle_generation bundle \<noteq> 0 \<and>
          cb_localization_epoch (deref a) = cb_localization_epoch bundle \<and>
          cb_goal_epoch (deref a) = cb_goal_epoch bundle \<and>
          cb_request_id (deref a) = cb_request_id bundle \<and>
          cb_bundle_generation (deref a) = cb_bundle_generation bundle
      | _ \<Rightarrow> False)"

definition failClosedLifecycleLocked :: "ExecutionAuthority \<Rightarrow> ExecutionAuthority" where
  "failClosedLifecycleLocked s =
     s\<lparr>ea_lifecycle := (ea_lifecycle s)
         \<lparr>lc_phase := PhasePx4Hold, lc_recovery := RecoveryPx4Hold, lc_exposure := ExposureFailed,
          lc_safety := SafetyNominal, lc_restart := RestartNone\<rparr>\<rparr>"

definition committedLifecycleLocked :: "CandidateBundle \<Rightarrow> u64 \<Rightarrow> ExecutionAuthority \<Rightarrow> ExecutionAuthority" where
  "committedLifecycleLocked bundle previous_generation s =
     (let lc = ea_lifecycle s
      in if lc_exposure lc = ExposureFailed \<or>
            cb_bundle_generation bundle \<le> previous_generation \<or>
            cb_localization_epoch bundle \<noteq> ea_admission_localization_epoch s \<or>
            cb_goal_epoch bundle \<noteq> ea_admission_goal_epoch s \<or>
            (case ea_active_goal s of None \<Rightarrow> True | Some g \<Rightarrow> ng_request_id (deref g) \<noteq> cb_request_id bundle)
         then s
         else s\<lparr>ea_lifecycle := lc
                 \<lparr>lc_exposure := ExposureAvailable,
                  lc_safety := (if cb_role bundle = RoleBackup \<or> cb_role bundle = RoleEmergency
                                then SafetySuffix else SafetyNominal),
                  lc_phase := (if cb_role bundle = RoleBackup \<or> cb_role bundle = RoleEmergency
                               then PhaseTrackingBackup else PhaseTrackingMain),
                  lc_recovery := transitionExecutionRecovery (lc_recovery lc)
                    (if cb_role bundle = RoleEmergency then EventEmergencyCommitted
                     else if cb_role bundle = RoleBackup then EventBackupActivated
                     else EventMainCommitted)\<rparr>\<rparr>)"

definition goalMatchesCandidate :: "NavigationGoal ptr option \<Rightarrow> CandidateBundle ptr option \<Rightarrow> bool" where
  "goalMatchesCandidate goal candidate =
     (case (goal, candidate) of
        (Some g, Some c) \<Rightarrow> ng_mission_id (deref g) \<noteq> [] \<and> ng_request_id (deref g) \<noteq> 0 \<and>
                           ng_request_id (deref g) = cb_request_id (deref c)
      | _ \<Rightarrow> False)"

definition clearActiveLocked :: "ExecutionAuthority \<Rightarrow> ExecutionAuthority" where
  "clearActiveLocked s =
     (let s1 = s\<lparr>ea_active_goal := None, ea_active_bundle := None\<rparr>
      in if lc_exposure (ea_lifecycle s1) = ExposureAvailable
         then s1\<lparr>ea_lifecycle := (ea_lifecycle s1)\<lparr>lc_exposure := ExposureUnavailable\<rparr>\<rparr> else s1)"

definition clearStagedLocked :: "ExecutionAuthority \<Rightarrow> ExecutionAuthority" where
  "clearStagedLocked s = s\<lparr>ea_staged_goal := None, ea_staged_bundle := None, ea_staged_activation_ns := 0\<rparr>"

definition enforceInvariantLocked :: "ExecutionAuthority \<Rightarrow> ExecutionAuthority" where
  "enforceInvariantLocked s = (if ea_active_bundle s = None then clearStagedLocked s else s)"

definition anchor_main_end :: "CandidateBundle \<Rightarrow> i64 \<Rightarrow> i64 option" where
  "anchor_main_end predecessor end_ns =
     (if cb_backup_available predecessor
      then secondsSumToNanoseconds (cb_start_wall_time_s predecessor) (cb_backup_start_time_s predecessor)
      else Some end_ns)"

definition anchor_bundle_end :: "CandidateBundle \<Rightarrow> i64" where
  "anchor_bundle_end predecessor =
     (if cb_declared_end_ns predecessor > 0 then cb_declared_end_ns predecessor
      else cb_valid_until_ns predecessor)"

definition predecessorMatchesAnchor :: "(vec3 \<Rightarrow> double) \<Rightarrow> CandidateBundle \<Rightarrow> ExecutionAnchor \<Rightarrow> bool" where
  "predecessorMatchesAnchor nrm predecessor anchor =
     (if \<not> anchor_valid anchor \<or> \<not> bundle_valid nrm predecessor \<or>
         cb_bundle_generation predecessor \<noteq> an_active_bundle_generation anchor \<or>
         cb_localization_epoch predecessor \<noteq> an_localization_epoch anchor \<or>
         cb_goal_epoch predecessor \<noteq> an_goal_epoch anchor \<or>
         cb_request_id predecessor \<noteq> an_request_id anchor \<or>
         \<not> sameWorldSnapshotIdentity (cb_world_identity predecessor) (an_command_world anchor)
      then False
      else let end_ns = anchor_bundle_end predecessor
           in case (secondsToNanoseconds (cb_start_wall_time_s predecessor), anchor_main_end predecessor end_ns) of
                (Some start_ns, Some main_end_ns) \<Rightarrow>
                  if an_activation_stamp_ns anchor < cb_valid_from_ns predecessor \<or>
                     an_activation_stamp_ns anchor > cb_valid_until_ns predecessor \<or>
                     start_ns > an_activation_stamp_ns anchor \<or>
                     main_end_ns \<noteq> an_active_main_end_ns anchor \<or>
                     end_ns \<noteq> an_active_bundle_end_ns anchor \<or>
                     an_activation_stamp_ns anchor > end_ns
                  then False
                  else let elapsed_ns = an_activation_stamp_ns anchor - start_ns
                       in if elapsed_ns < 0 then False
                          else scheduledRole predecessor
                                 (dmul (fp_of_int binary64 elapsed_ns) (dlit (1 / 10 ^ 9))) =
                               Some (an_active_role anchor)
              | _ \<Rightarrow> False)"

section \<open>Goals, lifecycle facets and failure\<close>

definition setAdmissionGoalEpoch :: "u64 \<Rightarrow> bool \<Rightarrow> ExecutionAuthority \<Rightarrow> bool \<times> ExecutionAuthority" where
  "setAdmissionGoalEpoch goal_epoch retain_committed_bundle s =
     (if goal_epoch = 0 then (False, s)
      else if goal_epoch < ea_admission_goal_epoch s then (False, s)
      else let s1 = s\<lparr>ea_admission_goal_epoch := goal_epoch\<rparr>;
               s2 = (case ea_world_identity s1 of None \<Rightarrow> s1
                     | Some w \<Rightarrow> s1\<lparr>ea_admission_localization_epoch := wid_localization_epoch w\<rparr>);
               s3 = (if \<not> retain_committed_bundle \<and> ea_active_bundle s2 \<noteq> None
                     then bumpLineage (clearActiveLocked s2) else s2);
               s4 = (if \<not> retain_committed_bundle then s3\<lparr>ea_lifecycle := initial_lifecycle\<rparr> else s3)
           in (True, bumpTimeline (enforceInvariantLocked (clearStagedLocked s4))))"

definition beginGoal :: "u64 \<Rightarrow> u64 \<Rightarrow> bool \<Rightarrow> ExecutionAuthority \<Rightarrow> bool \<times> ExecutionAuthority" where
  "beginGoal localization_epoch goal_epoch retain_active s =
     (if localization_epoch = 0 \<or> goal_epoch = 0 then (False, s)
      else if goal_epoch < ea_admission_goal_epoch s \<or>
              localization_epoch < ea_admission_localization_epoch s then (False, s)
      else let retain = retain_active \<and> ea_active_goal s \<noteq> None \<and>
                 lc_exposure (ea_lifecycle s) = ExposureAvailable \<and>
                 (case ea_active_bundle s of None \<Rightarrow> False
                  | Some a \<Rightarrow> cb_localization_epoch (deref a) = localization_epoch);
               s1 = s\<lparr>ea_admission_localization_epoch := localization_epoch,
                      ea_admission_goal_epoch := goal_epoch\<rparr>;
               s2 = (if retain then s1
                     else let s3 = (if ea_active_bundle s1 \<noteq> None then bumpLineage s1 else s1)
                          in (clearActiveLocked s3)\<lparr>ea_lifecycle := initial_lifecycle\<rparr>)
           in (True, bumpTimeline (clearStagedLocked s2)))"

definition authority_reset :: "u64 \<Rightarrow> ExecutionAuthority \<Rightarrow> ExecutionAuthority" where
  "authority_reset localization_epoch s =
     (let s1 = (if ea_active_bundle s \<noteq> None then bumpLineage s else s);
          s2 = clearStagedLocked (clearActiveLocked s1)
      in bumpTimeline (s2\<lparr>ea_admission_localization_epoch := localization_epoch,
                           ea_admission_goal_epoch := 0, ea_lifecycle := initial_lifecycle\<rparr>))"

definition clearGoal :: "u64 \<Rightarrow> ExecutionAuthority \<Rightarrow> ExecutionAuthority" where
  "clearGoal localization_epoch s = authority_reset localization_epoch s"

definition failClosed :: "ExecutionAuthority \<Rightarrow> ExecutionAuthority" where
  "failClosed s = noteLifecycleChangeLocked (ea_lifecycle s) (failClosedLifecycleLocked s)"

text \<open>Assign the lifecycle and note the change: the tail of every facet operation.\<close>

definition updateLifecycle ::
  "(ExecutionLifecycleState \<Rightarrow> ExecutionLifecycleState) \<Rightarrow> ExecutionAuthority \<Rightarrow> ExecutionAuthority" where
  "updateLifecycle f s =
     noteLifecycleChangeLocked (ea_lifecycle s) (s\<lparr>ea_lifecycle := f (ea_lifecycle s)\<rparr>)"

definition suspendCommand :: "ExecutionAuthority \<Rightarrow> ExecutionAuthority" where
  "suspendCommand s =
     (if lc_exposure (ea_lifecycle s) \<noteq> ExposureFailed
      then updateLifecycle (\<lambda>lc. lc\<lparr>lc_exposure := ExposureSuspended\<rparr>) s else s)"

definition observeRetainedCommand ::
  "CandidateBundle \<Rightarrow> bool \<Rightarrow> ExecutionAuthority \<Rightarrow> bool \<times> ExecutionAuthority" where
  "observeRetainedCommand bundle safety_suffix_active s =
     (if lc_exposure (ea_lifecycle s) = ExposureFailed \<or> \<not> activeBundleIdentityMatchesLocked s bundle
      then (False, s)
      else (True, updateLifecycle (\<lambda>lc. lc
        \<lparr>lc_exposure := ExposureAvailable,
         lc_safety := (if safety_suffix_active then SafetySuffix else SafetyNominal),
         lc_phase := (if cb_role bundle = RoleEmergency \<or> cb_role bundle = RoleBackup
                      then PhaseTrackingBackup else PhaseTrackingMain)\<rparr>) s))"

definition observeSampledSafetyRole ::
  "CandidateBundle \<Rightarrow> CandidateRole \<Rightarrow> ExecutionAuthority \<Rightarrow> bool \<times> ExecutionAuthority" where
  "observeSampledSafetyRole bundle sampled_role s =
     (if lc_exposure (ea_lifecycle s) = ExposureFailed \<or> \<not> activeBundleIdentityMatchesLocked s bundle \<or>
         (sampled_role \<noteq> RoleBackup \<and> sampled_role \<noteq> RoleEmergency)
      then (False, s)
      else (True, updateLifecycle (\<lambda>lc. lc
        \<lparr>lc_phase := PhaseTrackingBackup, lc_safety := SafetySuffix,
         lc_recovery := transitionExecutionRecovery (lc_recovery lc)
           (if sampled_role = RoleEmergency then EventEmergencyCommitted else EventBackupActivated)\<rparr>) s))"

definition preserveSafetySuffix :: "CandidateBundle \<Rightarrow> ExecutionAuthority \<Rightarrow> bool \<times> ExecutionAuthority" where
  "preserveSafetySuffix bundle s =
     (if lc_exposure (ea_lifecycle s) \<noteq> ExposureAvailable \<or> \<not> activeBundleIdentityMatchesLocked s bundle
      then (False, s)
      else (True, updateLifecycle (\<lambda>lc. lc\<lparr>lc_safety := SafetySuffix\<rparr>) s))"

definition requestRestartFromRest :: "CandidateBundle \<Rightarrow> ExecutionAuthority \<Rightarrow> bool \<times> ExecutionAuthority" where
  "requestRestartFromRest bundle s =
     (if lc_exposure (ea_lifecycle s) = ExposureFailed \<or> \<not> activeBundleIdentityMatchesLocked s bundle
      then (False, s)
      else (True, updateLifecycle (\<lambda>lc. lc\<lparr>lc_restart := RestartFromRest\<rparr>) s))"

definition clearRestartFromRest :: "ExecutionAuthority \<Rightarrow> ExecutionAuthority" where
  "clearRestartFromRest s =
     (if lc_restart (ea_lifecycle s) \<noteq> RestartNone
      then updateLifecycle (\<lambda>lc. lc\<lparr>lc_restart := RestartNone\<rparr>) s else s)"

definition applyRecoveryEvent ::
  "ExecutionRecoveryEvent \<Rightarrow> CandidateBundle \<Rightarrow> ExecutionAuthority \<Rightarrow> bool \<times> ExecutionAuthority" where
  "applyRecoveryEvent event bundle s =
     (if lc_exposure (ea_lifecycle s) = ExposureFailed \<or> \<not> activeBundleIdentityMatchesLocked s bundle
      then (False, s)
      else (True, updateLifecycle (\<lambda>lc. lc\<lparr>lc_recovery := transitionExecutionRecovery (lc_recovery lc) event\<rparr>) s))"

definition stoppedHold :: "CandidateBundle \<Rightarrow> ExecutionAuthority \<Rightarrow> bool \<times> ExecutionAuthority" where
  "stoppedHold bundle s =
     (if lc_exposure (ea_lifecycle s) = ExposureFailed \<or> \<not> activeBundleIdentityMatchesLocked s bundle
      then (False, s)
      else (True, updateLifecycle (\<lambda>lc. lc
        \<lparr>lc_phase := PhaseStoppedHold, lc_exposure := ExposureAvailable, lc_safety := SafetyNominal\<rparr>) s))"

section \<open>Queries of the store\<close>

definition authority_load :: "ExecutionAuthority \<Rightarrow> CandidateBundle ptr option" where
  "authority_load s = ea_active_bundle s"

definition executingGoal :: "ExecutionAuthority \<Rightarrow> NavigationGoal ptr option" where
  "executingGoal s = ea_active_goal s"

definition matchesActive :: "NavigationGoal \<Rightarrow> u64 \<Rightarrow> u64 \<Rightarrow> u64 \<Rightarrow> ExecutionAuthority \<Rightarrow> bool" where
  "matchesActive goal goal_epoch localization_epoch bundle_generation s =
     (case (ea_active_goal s, ea_active_bundle s) of
        (Some g, Some a) \<Rightarrow>
          ng_mission_id (deref g) = ng_mission_id goal \<and>
          ng_waypoint_index (deref g) = ng_waypoint_index goal \<and>
          ng_request_id (deref g) = ng_request_id goal \<and>
          cb_goal_epoch (deref a) = goal_epoch \<and>
          cb_localization_epoch (deref a) = localization_epoch \<and>
          cb_request_id (deref a) = ng_request_id goal \<and>
          (bundle_generation = 0 \<or> cb_bundle_generation (deref a) = bundle_generation)
      | _ \<Rightarrow> False)"

definition matchesActiveSnapshot :: "ExecutionAuthoritySnapshot \<Rightarrow> ExecutionAuthority \<Rightarrow> bool" where
  "matchesActiveSnapshot expected s \<longleftrightarrow>
     sn_active expected \<noteq> None \<and> sn_active_goal expected \<noteq> None \<and>
     ea_active_bundle s \<noteq> None \<and> ea_active_goal s \<noteq> None \<and>
     same_ptr (ea_active_bundle s) (sn_active expected) \<and>
     same_ptr (ea_active_goal s) (sn_active_goal expected) \<and>
     ea_active_lineage_version s = sn_active_lineage expected"

definition matchesAuthorityIdentity :: "ExecutionAuthoritySnapshot \<Rightarrow> ExecutionAuthority \<Rightarrow> bool" where
  "matchesAuthorityIdentity expected s \<longleftrightarrow>
     same_ptr (ea_active_bundle s) (sn_active expected) \<and>
     same_ptr (ea_active_goal s) (sn_active_goal expected) \<and>
     ea_active_lineage_version s = sn_active_lineage expected \<and>
     ea_admission_goal_epoch s = sn_admission_goal_epoch expected \<and>
     ea_admission_localization_epoch s = sn_admission_localization_epoch expected"

definition isCurrentSnapshot :: "ExecutionAuthoritySnapshot \<Rightarrow> ExecutionAuthority \<Rightarrow> bool" where
  "isCurrentSnapshot expected s \<longleftrightarrow>
     ea_timeline_version s = sn_version expected \<and> matchesAuthorityIdentity expected s"

definition failClosedIfCurrentSnapshot ::
  "ExecutionAuthoritySnapshot \<Rightarrow> ExecutionAuthority \<Rightarrow> ConditionalExecutionMutation \<times> ExecutionAuthority" where
  "failClosedIfCurrentSnapshot expected s =
     (if \<not> isCurrentSnapshot expected s then (MutationStale, s)
      else if lc_exposure (ea_lifecycle s) = ExposureFailed then (MutationAlreadyFailed, s)
      else (MutationApplied, noteLifecycleChangeLocked (ea_lifecycle s) (failClosedLifecycleLocked s)))"

definition suspendIfCurrentSnapshot ::
  "ExecutionAuthoritySnapshot \<Rightarrow> ExecutionAuthority \<Rightarrow> bool \<times> ExecutionAuthority" where
  "suspendIfCurrentSnapshot expected s =
     (if sn_active expected = None \<or> sn_active_goal expected = None \<or>
         ea_timeline_version s \<noteq> sn_version expected \<or>
         \<not> same_ptr (ea_active_bundle s) (sn_active expected) \<or>
         \<not> same_ptr (ea_active_goal s) (sn_active_goal expected) \<or>
         ea_active_lineage_version s \<noteq> sn_active_lineage expected \<or>
         lc_exposure (ea_lifecycle s) = ExposureFailed
      then (False, s)
      else (True, updateLifecycle (\<lambda>lc. lc\<lparr>lc_exposure := ExposureSuspended\<rparr>) s))"

definition executingGoalEpoch :: "ExecutionAuthority \<Rightarrow> u64" where
  "executingGoalEpoch s = (case ea_active_bundle s of None \<Rightarrow> 0 | Some a \<Rightarrow> cb_goal_epoch (deref a))"

definition invariantHolds :: "ExecutionAuthority \<Rightarrow> bool" where
  "invariantHolds s \<longleftrightarrow>
     (ea_staged_bundle s = None \<or> ea_active_bundle s \<noteq> None) \<and>
     (ea_active_goal s \<noteq> None) = (ea_active_bundle s \<noteq> None) \<and>
     (ea_staged_goal s \<noteq> None) = (ea_staged_bundle s \<noteq> None)"

section \<open>Anchor reservation\<close>

text \<open>
  \<open>reserveAnchor\<close> pins the predecessor under the mutex, samples it outside, and takes the mutex again
  to confirm that the timeline it sampled is still current.
\<close>

record AnchorPin =
  pin_predecessor :: "CandidateBundle ptr"
  pin_world :: WorldSnapshotIdentity
  pin_version :: u64
  pin_lineage :: u64

definition reserveAnchor_pin :: "i64 \<Rightarrow> i64 \<Rightarrow> ExecutionAuthority \<Rightarrow> AnchorPin option" where
  "reserveAnchor_pin request_stamp_ns activation_stamp_ns s =
     (if request_stamp_ns \<le> 0 \<or> activation_stamp_ns < request_stamp_ns then None
      else case (ea_active_bundle s, ea_world_identity s) of
        (Some a, Some w) \<Rightarrow>
          if \<not> sameWorldSnapshotIdentity w (cb_world_identity (deref a)) \<or>
             activation_stamp_ns < cb_valid_from_ns (deref a) \<or>
             activation_stamp_ns > cb_valid_until_ns (deref a)
          then None
          else Some \<lparr>pin_predecessor = a, pin_world = w, pin_version = ea_timeline_version s,
                      pin_lineage = ea_active_lineage_version s\<rparr>
      | _ \<Rightarrow> None)"

definition reserveAnchor_sample :: "(vec3 \<Rightarrow> double) \<Rightarrow> i64 \<Rightarrow> i64 \<Rightarrow> AnchorPin \<Rightarrow> ExecutionAnchor option" where
  "reserveAnchor_sample nrm request_stamp_ns activation_stamp_ns pin =
     (let predecessor = deref (pin_predecessor pin)
      in case bundle_sample nrm predecessor activation_stamp_ns of None \<Rightarrow> None
      | Some point \<Rightarrow>
          let end_ns = anchor_bundle_end predecessor
          in case anchor_main_end predecessor end_ns of None \<Rightarrow> None
          | Some main_end_ns \<Rightarrow>
              if main_end_ns < activation_stamp_ns \<or> end_ns < activation_stamp_ns then None
              else let anchor = \<lparr>an_active_bundle_generation = cb_bundle_generation predecessor,
                     an_execution_lineage_version = pin_lineage pin,
                     an_localization_epoch = cb_localization_epoch predecessor,
                     an_goal_epoch = cb_goal_epoch predecessor, an_request_id = cb_request_id predecessor,
                     an_request_stamp_ns = request_stamp_ns, an_activation_stamp_ns = activation_stamp_ns,
                     an_state = point, an_active_role = pt_role point, an_active_main_end_ns = main_end_ns,
                     an_active_bundle_end_ns = end_ns, an_command_world = cb_world_identity predecessor\<rparr>
                   in if anchor_valid anchor then Some anchor else None)"

definition reserveAnchor_confirm :: "AnchorPin \<Rightarrow> ExecutionAuthority \<Rightarrow> bool" where
  "reserveAnchor_confirm pin s \<longleftrightarrow>
     ea_timeline_version s = pin_version pin \<and>
     same_ptr (ea_active_bundle s) (Some (pin_predecessor pin)) \<and>
     (case ea_world_identity s of None \<Rightarrow> False | Some w \<Rightarrow> sameWorldSnapshotIdentity w (pin_world pin))"

text \<open>\<open>s\<close> is the state at the first lock, \<open>s'\<close> the state at the second.\<close>

definition reserveAnchor ::
  "(vec3 \<Rightarrow> double) \<Rightarrow> i64 \<Rightarrow> i64 \<Rightarrow> ExecutionAuthority \<Rightarrow> ExecutionAuthority \<Rightarrow> ExecutionAnchor option" where
  "reserveAnchor nrm request_stamp_ns activation_stamp_ns s s' =
     (case reserveAnchor_pin request_stamp_ns activation_stamp_ns s of None \<Rightarrow> None
      | Some pin \<Rightarrow>
          (case reserveAnchor_sample nrm request_stamp_ns activation_stamp_ns pin of None \<Rightarrow> None
           | Some anchor \<Rightarrow> if reserveAnchor_confirm pin s' then Some anchor else None))"

section \<open>Staging and activation\<close>

definition stage_decision ::
  "(vec3 \<Rightarrow> double) \<Rightarrow> CommitToken \<Rightarrow> ExecutionAnchor \<Rightarrow> NavigationGoal ptr option \<Rightarrow>
   CandidateBundle ptr option \<Rightarrow> ExecutionAuthority \<Rightarrow> StageDecision" where
  "stage_decision nrm expected anchor goal candidate s =
     (case candidate of None \<Rightarrow> StageInvalidCandidate
      | Some c \<Rightarrow>
        if \<not> goalMatchesCandidate goal candidate \<or> \<not> bundle_valid nrm (deref c) \<or>
           tok_goal_epoch expected = 0 \<or> tok_transaction_id expected = 0 then StageInvalidCandidate
        else if \<not> anchor_valid anchor \<or>
           cb_valid_from_ns (deref c) \<noteq> an_activation_stamp_ns anchor \<or>
           cb_activation_stamp_ns (deref c) \<noteq> an_activation_stamp_ns anchor \<or>
           cb_localization_epoch (deref c) \<noteq> an_localization_epoch anchor \<or>
           \<not> sameWorldSnapshotIdentity (cb_world_identity (deref c)) (tok_world_identity expected)
        then StageInvalidAnchor
        else if ea_admission_goal_epoch s = 0 then StageNoActiveGoal
        else if lc_exposure (ea_lifecycle s) = ExposureFailed then StageCancelled
        else if ea_admission_goal_epoch s \<noteq> tok_goal_epoch expected \<or>
           cb_goal_epoch (deref c) \<noteq> tok_goal_epoch expected then StageGoalAdvanced
        else if ea_world_identity s \<noteq> Some (tok_world_identity expected) then StageWorldAdvanced
        else if tok_transaction_id expected \<le> ea_last_transaction_id s then StageCancelled
        else if an_active_main_end_ns anchor < an_activation_stamp_ns anchor \<or>
           cb_valid_until_ns (deref c) < an_activation_stamp_ns anchor then StageActivationTooLate
        else if ea_active_lineage_version s \<noteq> an_execution_lineage_version anchor \<or>
           (case ea_active_bundle s of None \<Rightarrow> True
            | Some a \<Rightarrow> \<not> predecessorMatchesAnchor nrm (deref a) anchor) then StagePredecessorAdvanced
        else StageStaged)"

definition stage_install ::
  "CommitToken \<Rightarrow> ExecutionAnchor \<Rightarrow> NavigationGoal ptr option \<Rightarrow> CandidateBundle ptr option \<Rightarrow>
   ExecutionAuthority \<Rightarrow> ExecutionAuthority" where
  "stage_install expected anchor goal candidate s =
     bumpTimeline (s\<lparr>ea_staged_goal := goal, ea_staged_bundle := candidate,
                     ea_staged_activation_ns := an_activation_stamp_ns anchor,
                     ea_last_transaction_id := tok_transaction_id expected\<rparr>)"

definition stagePending ::
  "(vec3 \<Rightarrow> double) \<Rightarrow> CommitToken \<Rightarrow> ExecutionAnchor \<Rightarrow> NavigationGoal ptr option \<Rightarrow>
   CandidateBundle ptr option \<Rightarrow> ExecutionAuthority \<Rightarrow> StageDecision \<times> ExecutionAuthority" where
  "stagePending nrm expected anchor goal candidate s =
     (case stage_decision nrm expected anchor goal candidate s of
        StageStaged \<Rightarrow> (StageStaged, stage_install expected anchor goal candidate s)
      | d \<Rightarrow> (d, s))"

definition stagePendingAndFinalize ::
  "(vec3 \<Rightarrow> double) \<Rightarrow> CommitToken \<Rightarrow> ExecutionAnchor \<Rightarrow> NavigationGoal ptr option \<Rightarrow>
   CandidateBundle ptr option \<Rightarrow> bool \<Rightarrow> ExecutionAuthority \<Rightarrow> StageDecision \<times> ExecutionAuthority" where
  "stagePendingAndFinalize nrm expected anchor goal candidate finalized s =
     (case stage_decision nrm expected anchor goal candidate s of
        StageStaged \<Rightarrow>
          let s1 = stage_install expected anchor goal candidate s
          in if finalized then (StageStaged, s1)
             else (StageFinalizationFailed,
                   bumpTimeline (s1\<lparr>ea_staged_goal := ea_staged_goal s, ea_staged_bundle := ea_staged_bundle s,
                                   ea_staged_activation_ns := ea_staged_activation_ns s,
                                   ea_last_transaction_id := ea_last_transaction_id s\<rparr>))
      | d \<Rightarrow> (d, s))"

text \<open>The certificate and identity conditions under which a due successor may replace its predecessor.\<close>

definition successor_current :: "(vec3 \<Rightarrow> double) \<Rightarrow> i64 \<Rightarrow> ExecutionAuthority \<Rightarrow> bool" where
  "successor_current nrm now_ns s =
     (case (ea_staged_goal s, ea_staged_bundle s, ea_active_goal s, ea_active_bundle s, ea_world_identity s) of
        (Some sg, Some sb, Some ag, Some ab, Some w) \<Rightarrow>
          ng_request_id (deref sg) = cb_request_id (deref sb) \<and>
          sameWorldSnapshotIdentity w (cb_world_identity (deref sb)) \<and>
          ea_admission_goal_epoch s = cb_goal_epoch (deref sb) \<and>
          now_ns \<le> cb_valid_until_ns (deref sb) \<and> bundle_valid nrm (deref sb) \<and>
          bundle_valid nrm (deref ab) \<and> sameWorldSnapshotIdentity w (cb_world_identity (deref ab))
      | _ \<Rightarrow> False)"

definition activatePendingIfDueAndFinalizeLocked ::
  "(vec3 \<Rightarrow> double) \<Rightarrow> i64 \<Rightarrow> CandidateBundle ptr option \<Rightarrow> u64 \<Rightarrow> i64 \<Rightarrow> bool \<Rightarrow> (u64 \<Rightarrow> bool) \<Rightarrow>
   ExecutionAuthority \<Rightarrow> bool \<times> ExecutionAuthority" where
  "activatePendingIfDueAndFinalizeLocked nrm now_ns expected_pending expected_version expected_activation_ns
     require_exact_token finalize s =
     (if lc_exposure (ea_lifecycle s) = ExposureFailed then (False, s)
      else if ea_staged_bundle s \<noteq> None \<and> ea_active_bundle s = None
      then (False, bumpTimeline (clearStagedLocked s))
      else case ea_staged_bundle s of None \<Rightarrow> (False, s)
      | Some sb \<Rightarrow>
        if ea_staged_activation_ns s \<le> 0 \<or> now_ns < ea_staged_activation_ns s then (False, s)
        else if require_exact_token \<and> (ea_timeline_version s \<noteq> expected_version \<or>
                ea_staged_activation_ns s \<noteq> expected_activation_ns) then (False, s)
        else if (case expected_pending of None \<Rightarrow> False
                 | Some e \<Rightarrow> addr sb \<noteq> addr e \<or>
                     cb_bundle_generation (deref sb) \<noteq> cb_bundle_generation (deref e)) then (False, s)
        else if \<not> successor_current nrm now_ns s then (False, bumpTimeline (clearStagedLocked s))
        else let s1 = bumpTimeline (clearStagedLocked
                        (s\<lparr>ea_active_goal := ea_staged_goal s, ea_active_bundle := Some sb\<rparr>))
             in if \<not> finalize (cb_bundle_generation (deref sb))
                then (False, bumpTimeline (enforceInvariantLocked (clearStagedLocked
                        (s1\<lparr>ea_lifecycle := ea_lifecycle s, ea_active_goal := ea_active_goal s,
                            ea_active_bundle := ea_active_bundle s\<rparr>))))
                else (True, bumpLineage (committedLifecycleLocked (deref sb)
                        (case ea_active_bundle s of None \<Rightarrow> 0 | Some p \<Rightarrow> cb_bundle_generation (deref p)) s1)))"

definition activatePendingIfDueAndFinalize ::
  "(vec3 \<Rightarrow> double) \<Rightarrow> i64 \<Rightarrow> ExecutionAuthoritySnapshot \<Rightarrow> (u64 \<Rightarrow> bool) \<Rightarrow> ExecutionAuthority \<Rightarrow>
   bool \<times> ExecutionAuthority" where
  "activatePendingIfDueAndFinalize nrm now_ns expected finalize s =
     activatePendingIfDueAndFinalizeLocked nrm now_ns (sn_pending expected) (sn_version expected)
       (sn_pending_activation_ns expected) True finalize s"

section \<open>Exposure, revocation and commits\<close>

definition publishIfCurrent ::
  "CandidateBundle ptr option \<Rightarrow> u64 \<Rightarrow> (ExecutionLifecycleState \<Rightarrow> bool) \<Rightarrow> ExecutionAuthority \<Rightarrow> bool" where
  "publishIfCurrent expected expected_goal_epoch expose s =
     (case (expected, ea_active_bundle s, ea_world_identity s) of
        (Some e, Some a, Some w) \<Rightarrow>
          if addr a \<noteq> addr e \<or> lc_exposure (ea_lifecycle s) \<noteq> ExposureAvailable \<or>
             cb_goal_epoch (deref a) \<noteq> expected_goal_epoch \<or>
             \<not> sameWorldSnapshotIdentity w (cb_world_identity (deref e))
          then False else expose (ea_lifecycle s)
      | _ \<Rightarrow> False)"

definition invalidateIfCurrent :: "ExecutionAuthoritySnapshot \<Rightarrow> ExecutionAuthority \<Rightarrow> bool \<times> ExecutionAuthority" where
  "invalidateIfCurrent expected s =
     (if ea_timeline_version s \<noteq> sn_version expected \<or> \<not> same_ptr (ea_active_bundle s) (sn_active expected)
      then (False, s)
      else (True, bumpTimeline (clearStagedLocked (bumpLineage (clearActiveLocked s)))))"

text \<open>The admission checks the three commit operations share, in the order the code makes them.\<close>

definition commit_decision ::
  "(vec3 \<Rightarrow> double) \<Rightarrow> CommitToken \<Rightarrow> NavigationGoal ptr option \<Rightarrow> CandidateBundle ptr option \<Rightarrow>
   ExecutionAuthority \<Rightarrow> CommitDecision" where
  "commit_decision nrm expected goal candidate s =
     (case candidate of None \<Rightarrow> CommitInvalidCandidate
      | Some c \<Rightarrow>
        if \<not> goalMatchesCandidate goal candidate \<or> \<not> bundle_valid nrm (deref c) \<or>
           tok_goal_epoch expected = 0 \<or> tok_transaction_id expected = 0 then CommitInvalidCandidate
        else if ea_admission_goal_epoch s = 0 then CommitNoActiveGoal
        else if lc_exposure (ea_lifecycle s) = ExposureFailed then CommitCancelled
        else if ea_admission_goal_epoch s \<noteq> tok_goal_epoch expected \<or>
           cb_goal_epoch (deref c) \<noteq> tok_goal_epoch expected then CommitGoalAdvanced
        else if (case ea_world_identity s of None \<Rightarrow> True
                 | Some w \<Rightarrow> \<not> sameWorldSnapshotIdentity w (tok_world_identity expected) \<or>
                     \<not> sameWorldSnapshotIdentity w (cb_world_identity (deref c))) then CommitWorldAdvanced
        else if tok_transaction_id expected \<le> ea_last_transaction_id s then CommitCancelled
        else if (case ea_active_bundle s of None \<Rightarrow> False
                 | Some a \<Rightarrow> cb_bundle_generation (deref c) < cb_bundle_generation (deref a))
        then CommitPredecessorAdvanced
        else CommitCommitted)"

definition prior_generation :: "ExecutionAuthority \<Rightarrow> u64" where
  "prior_generation s = (case ea_active_bundle s of None \<Rightarrow> 0 | Some a \<Rightarrow> cb_bundle_generation (deref a))"

text \<open>Replace the active record, clear the successor, consume the transaction.\<close>

definition commit_install ::
  "CommitToken \<Rightarrow> NavigationGoal ptr option \<Rightarrow> CandidateBundle ptr \<Rightarrow> ExecutionAuthority \<Rightarrow> ExecutionAuthority" where
  "commit_install expected goal c s =
     (let s1 = committedLifecycleLocked (deref c) (prior_generation s)
                 (s\<lparr>ea_active_goal := goal, ea_active_bundle := Some c\<rparr>)
      in bumpTimeline ((clearStagedLocked s1)\<lparr>ea_last_transaction_id := tok_transaction_id expected\<rparr>))"

definition tryCommit ::
  "(vec3 \<Rightarrow> double) \<Rightarrow> CommitToken \<Rightarrow> NavigationGoal ptr option \<Rightarrow> CandidateBundle ptr option \<Rightarrow>
   ExecutionAuthority \<Rightarrow> CommitDecision \<times> ExecutionAuthority" where
  "tryCommit nrm expected goal candidate s =
     (case (commit_decision nrm expected goal candidate s, candidate) of
        (CommitCommitted, Some c) \<Rightarrow> (CommitCommitted, bumpLineage (commit_install expected goal c s))
      | (d, _) \<Rightarrow> (d, s))"

definition tryCommitIfCurrent ::
  "(vec3 \<Rightarrow> double) \<Rightarrow> CommitToken \<Rightarrow> ExecutionAuthoritySnapshot \<Rightarrow> NavigationGoal ptr option \<Rightarrow>
   CandidateBundle ptr option \<Rightarrow> bool \<Rightarrow> ExecutionAuthority \<Rightarrow> CommitDecision \<times> ExecutionAuthority" where
  "tryCommitIfCurrent nrm expected predecessor goal candidate admit s =
     (case (commit_decision nrm expected goal candidate s, candidate) of
        (CommitCommitted, Some c) \<Rightarrow>
          if ea_timeline_version s \<noteq> sn_version predecessor \<or>
             \<not> same_ptr (ea_active_bundle s) (sn_active predecessor) \<or>
             \<not> same_ptr (ea_staged_bundle s) (sn_pending predecessor) \<or>
             ea_staged_activation_ns s \<noteq> sn_pending_activation_ns predecessor
          then (CommitPredecessorAdvanced, s)
          else if \<not> admit then (CommitAdmissionRejected, s)
          else (CommitCommitted, bumpLineage (commit_install expected goal c s))
      | (d, _) \<Rightarrow> (d, s))"

definition tryCommitAndFinalize ::
  "(vec3 \<Rightarrow> double) \<Rightarrow> CommitToken \<Rightarrow> NavigationGoal ptr option \<Rightarrow> CandidateBundle ptr option \<Rightarrow> bool \<Rightarrow>
   ExecutionAuthority \<Rightarrow> CommitDecision \<times> ExecutionAuthority" where
  "tryCommitAndFinalize nrm expected goal candidate finalized s =
     (case (commit_decision nrm expected goal candidate s, candidate) of
        (CommitCommitted, Some c) \<Rightarrow>
          let s1 = commit_install expected goal c s
          in if \<not> finalized
             then (CommitFinalizationFailed,
                   bumpTimeline (s1\<lparr>ea_lifecycle := ea_lifecycle s, ea_active_goal := ea_active_goal s,
                     ea_active_bundle := ea_active_bundle s, ea_staged_goal := ea_staged_goal s,
                     ea_staged_bundle := ea_staged_bundle s,
                     ea_staged_activation_ns := ea_staged_activation_ns s,
                     ea_last_transaction_id := ea_last_transaction_id s\<rparr>))
             else (CommitCommitted, bumpLineage s1)
      | (d, _) \<Rightarrow> (d, s))"

definition authority_invalidate :: "ExecutionAuthority \<Rightarrow> ExecutionAuthority" where
  "authority_invalidate s =
     (let s1 = (if ea_active_bundle s \<noteq> None then bumpLineage s else s);
          s2 = s1\<lparr>ea_lifecycle := initial_lifecycle\<rparr>
      in bumpTimeline (enforceInvariantLocked (clearStagedLocked (clearActiveLocked s2))))"

section \<open>World publication\<close>

text \<open>
  \<open>publishWorldIdentityIfCurrentAndFinalizeRevocation\<close> pins the timeline under the mutex, prepares
  the recertified copies outside it, and takes the mutex again to commit. \<open>alloc_active\<close> and
  \<open>alloc_pending\<close> are the addresses the two \<open>make_shared\<close> calls return, \<open>None\<close> when they throw.
\<close>

record WorldPin =
  wp_prior_world :: "WorldSnapshotIdentity option"
  wp_observed_active :: "CandidateBundle ptr option"
  wp_observed_pending :: "CandidateBundle ptr option"

record WorldRequest =
  wr_identity :: WorldSnapshotIdentity
  wr_expected_timeline_version :: u64
  wr_expected_bundle :: "CandidateBundle ptr option"
  wr_retain_validated_bundle :: bool
  wr_refreshed_valid_until_ns :: i64
  wr_expected_pending :: "CandidateBundle ptr option"
  wr_retain_validated_pending :: bool

definition world_request_wellformed :: "WorldSnapshotIdentity \<Rightarrow> bool" where
  "world_request_wellformed identity \<longleftrightarrow>
     \<not> (wid_localization_epoch identity = 0 \<or> wid_generation identity = 0 \<or>
        wid_revision identity = 0 \<or> wid_observation_stamp_ns identity \<le> 0)"

definition prepareRecertification ::
  "(vec3 \<Rightarrow> double) \<Rightarrow> nat option \<Rightarrow> CandidateBundle \<Rightarrow> WorldSnapshotIdentity \<Rightarrow> i64 \<Rightarrow> CandidateBundle ptr option" where
  "prepareRecertification nrm alloc source next_id refreshed_until_ns =
     (case alloc of None \<Rightarrow> None
      | Some address \<Rightarrow>
          let copy = source\<lparr>cb_world_identity := next_id\<rparr>;
              renewed =
                (if refreshed_until_ns > cb_valid_until_ns copy
                 then if hasDeclaredEndpointMetadata copy
                      then (case secondsSumToNanoseconds (cb_start_wall_time_s copy) (cb_duration_s copy) of
                              None \<Rightarrow> None
                            | Some endpoint_ns \<Rightarrow>
                                if endpoint_ns \<le> 0 then None
                                else Some (copy\<lparr>cb_valid_until_ns := min refreshed_until_ns endpoint_ns\<rparr>))
                      else Some (copy\<lparr>cb_valid_until_ns := refreshed_until_ns\<rparr>)
                 else Some copy)
          in case renewed of None \<Rightarrow> None
             | Some c \<Rightarrow> if bundle_valid nrm c then Some (Ptr address c) else None)"

definition world_pin :: "WorldRequest \<Rightarrow> ExecutionAuthority \<Rightarrow> WorldCommitDecision + WorldPin" where
  "world_pin r s =
     (if ea_timeline_version s \<noteq> wr_expected_timeline_version r then Inl WorldSuperseded
      else if (case ea_world_identity s of None \<Rightarrow> False | Some w \<Rightarrow> \<not> advances w (wr_identity r))
      then Inl WorldWorldAdvanced
      else Inr \<lparr>wp_prior_world = ea_world_identity s, wp_observed_active = ea_active_bundle s,
                 wp_observed_pending = ea_staged_bundle s\<rparr>)"

definition exact_active_owner :: "WorldRequest \<Rightarrow> WorldPin \<Rightarrow> bool" where
  "exact_active_owner r pin =
     (case (wr_expected_bundle r, wp_observed_active pin, wp_prior_world pin) of
        (Some e, Some a, Some w) \<Rightarrow> addr e = addr a \<and> sameWorldSnapshotIdentity w (cb_world_identity (deref a))
      | _ \<Rightarrow> False)"

definition prepare_active :: "WorldRequest \<Rightarrow> WorldPin \<Rightarrow> bool" where
  "prepare_active r pin \<longleftrightarrow> wr_retain_validated_bundle r \<and> exact_active_owner r pin"

definition prepare_pending :: "WorldRequest \<Rightarrow> WorldPin \<Rightarrow> bool" where
  "prepare_pending r pin \<longleftrightarrow>
     prepare_active r pin \<and> wr_retain_validated_pending r \<and>
     (case (wr_expected_pending r, wp_observed_pending pin, wp_prior_world pin) of
        (Some e, Some p, Some w) \<Rightarrow> addr e = addr p \<and> sameWorldSnapshotIdentity (cb_world_identity (deref p)) w
      | _ \<Rightarrow> False)"

definition recertified_active ::
  "(vec3 \<Rightarrow> double) \<Rightarrow> WorldRequest \<Rightarrow> WorldPin \<Rightarrow> nat option \<Rightarrow> CandidateBundle ptr option" where
  "recertified_active nrm r pin alloc =
     (if prepare_active r pin
      then (case wp_observed_active pin of None \<Rightarrow> None
            | Some a \<Rightarrow> prepareRecertification nrm alloc (deref a) (wr_identity r) (wr_refreshed_valid_until_ns r))
      else None)"

definition active_preparation_failed :: "(vec3 \<Rightarrow> double) \<Rightarrow> WorldRequest \<Rightarrow> WorldPin \<Rightarrow> nat option \<Rightarrow> bool" where
  "active_preparation_failed nrm r pin alloc \<longleftrightarrow>
     prepare_active r pin \<and> recertified_active nrm r pin alloc = None"

definition recertified_pending ::
  "(vec3 \<Rightarrow> double) \<Rightarrow> WorldRequest \<Rightarrow> WorldPin \<Rightarrow> nat option \<Rightarrow> nat option \<Rightarrow> CandidateBundle ptr option" where
  "recertified_pending nrm r pin alloc_active alloc_pending =
     (if prepare_pending r pin \<and> \<not> active_preparation_failed nrm r pin alloc_active
      then (case wp_observed_pending pin of None \<Rightarrow> None
            | Some p \<Rightarrow> prepareRecertification nrm alloc_pending (deref p) (wr_identity r) 0)
      else None)"

text \<open>Move the active record out, and fail closed when there was one.\<close>

definition retireActiveLocked :: "ExecutionAuthority \<Rightarrow> ExecutionAuthority" where
  "retireActiveLocked s =
     (let s1 = s\<lparr>ea_active_goal := None, ea_active_bundle := None\<rparr>
      in if ea_active_bundle s \<noteq> None then failClosedLifecycleLocked (bumpLineage s1) else s1)"

text \<open>The second critical section; the Boolean tells whether \<open>finalize_revocation\<close> was invoked.\<close>

definition world_commit ::
  "(vec3 \<Rightarrow> double) \<Rightarrow> WorldRequest \<Rightarrow> WorldPin \<Rightarrow> nat option \<Rightarrow> nat option \<Rightarrow> ExecutionAuthority \<Rightarrow>
   WorldCommitDecision \<times> bool \<times> ExecutionAuthority" where
  "world_commit nrm r pin alloc_active alloc_pending s =
     (let prior_world_still_current = (ea_world_identity s = wp_prior_world pin);
          failed = active_preparation_failed nrm r pin alloc_active;
          revoke = exact_active_owner r pin \<and> (\<not> prepare_active r pin \<or> failed)
      in if ea_timeline_version s \<noteq> wr_expected_timeline_version r \<or>
            \<not> same_ptr (ea_active_bundle s) (wp_observed_active pin) \<or>
            \<not> same_ptr (ea_staged_bundle s) (wp_observed_pending pin) \<or>
            \<not> prior_world_still_current
         then (WorldSuperseded, False, s)
         else if (case ea_world_identity s of None \<Rightarrow> False | Some w \<Rightarrow> \<not> advances w (wr_identity r))
         then (WorldWorldAdvanced, False, s)
         else if failed
         then (WorldCandidateRejected, revoke, bumpTimeline (clearStagedLocked (retireActiveLocked s)))
         else let s1 = (if prepare_active r pin
                        then s\<lparr>ea_active_bundle := recertified_active nrm r pin alloc_active\<rparr>
                        else retireActiveLocked s);
                  fresh_pending = recertified_pending nrm r pin alloc_active alloc_pending;
                  s2 = (if prepare_active r pin \<and> fresh_pending \<noteq> None
                        then s1\<lparr>ea_staged_bundle := fresh_pending\<rparr>
                        else clearStagedLocked s1);
                  s3 = (if ea_active_bundle s2 = None then clearStagedLocked s2 else s2)
              in (WorldCommitted, revoke, bumpTimeline (s3\<lparr>ea_world_identity := Some (wr_identity r)\<rparr>)))"

text \<open>\<open>s\<close> is the state at the first lock, \<open>s'\<close> the state at the second.\<close>

definition publishWorldIdentityIfCurrentAndFinalizeRevocation ::
  "(vec3 \<Rightarrow> double) \<Rightarrow> WorldRequest \<Rightarrow> nat option \<Rightarrow> nat option \<Rightarrow> ExecutionAuthority \<Rightarrow> ExecutionAuthority \<Rightarrow>
   WorldCommitDecision \<times> bool \<times> ExecutionAuthority" where
  "publishWorldIdentityIfCurrentAndFinalizeRevocation nrm r alloc_active alloc_pending s s' =
     (if \<not> world_request_wellformed (wr_identity r) then (WorldCandidateRejected, False, s')
      else case world_pin r s of
        Inl decision \<Rightarrow> (decision, False, s')
      | Inr pin \<Rightarrow> world_commit nrm r pin alloc_active alloc_pending s')"

definition publishWorldIdentityIfCurrent ::
  "(vec3 \<Rightarrow> double) \<Rightarrow> WorldRequest \<Rightarrow> nat option \<Rightarrow> nat option \<Rightarrow> ExecutionAuthority \<Rightarrow> ExecutionAuthority \<Rightarrow>
   WorldCommitDecision \<times> ExecutionAuthority" where
  "publishWorldIdentityIfCurrent nrm r alloc_active alloc_pending s s' =
     (case publishWorldIdentityIfCurrentAndFinalizeRevocation nrm r alloc_active alloc_pending s s' of
        (decision, _, t) \<Rightarrow> (decision, t))"

end
