(* ===== verification/Authority_Invariants.thy ===== *)
theory Authority_Invariants
  imports Execution_Authority
begin

text \<open>
  The execution authority as a transition system. A step is any public operation with any arguments;
  operations of concurrent callers interleave because each critical section is one step. The theory
  interprets the locales of the prelude on this relation and proves the safety invariants of the
  store and the guarantees its optimistic callers rely on.
\<close>

section \<open>Steps\<close>

text \<open>
  Two live shared pointers that compare equal point to the same object: the caller of a two-phase
  operation holds the pointers it pinned, so their addresses are not reused before it commits.
\<close>

definition pin_alive :: "ExecutionAuthority \<Rightarrow> ExecutionAuthority \<Rightarrow> bool" where
  "pin_alive s s' \<longleftrightarrow>
     (same_ptr (ea_active_bundle s') (ea_active_bundle s) \<longrightarrow> ea_active_bundle s' = ea_active_bundle s) \<and>
     (same_ptr (ea_staged_bundle s') (ea_staged_bundle s) \<longrightarrow> ea_staged_bundle s' = ea_staged_bundle s)"

inductive authority_step :: "(vec3 \<Rightarrow> double) \<Rightarrow> ExecutionAuthority \<Rightarrow> ExecutionAuthority \<Rightarrow> bool"
  for nrm where
  step_setAdmission: "authority_step nrm s (snd (setAdmissionGoalEpoch e retain s))"
| step_beginGoal: "authority_step nrm s (snd (beginGoal l e retain s))"
| step_reset: "authority_step nrm s (authority_reset l s)"
| step_clearGoal: "authority_step nrm s (clearGoal l s)"
| step_failClosed: "authority_step nrm s (failClosed s)"
| step_suspend: "authority_step nrm s (suspendCommand s)"
| step_observeRetained: "authority_step nrm s (snd (observeRetainedCommand b suffix s))"
| step_observeRole: "authority_step nrm s (snd (observeSampledSafetyRole b role s))"
| step_preserveSuffix: "authority_step nrm s (snd (preserveSafetySuffix b s))"
| step_requestRestart: "authority_step nrm s (snd (requestRestartFromRest b s))"
| step_clearRestart: "authority_step nrm s (clearRestartFromRest s)"
| step_recovery: "authority_step nrm s (snd (applyRecoveryEvent event b s))"
| step_stoppedHold: "authority_step nrm s (snd (stoppedHold b s))"
| step_failIfCurrent: "authority_step nrm s (snd (failClosedIfCurrentSnapshot sn s))"
| step_suspendIfCurrent: "authority_step nrm s (snd (suspendIfCurrentSnapshot sn s))"
| step_stage: "authority_step nrm s (snd (stagePending nrm tok anchor g c s))"
| step_stageFinalize: "authority_step nrm s (snd (stagePendingAndFinalize nrm tok anchor g c ok s))"
| step_activate: "authority_step nrm s (snd (activatePendingIfDueAndFinalize nrm now sn fin s))"
| step_invalidateIfCurrent: "authority_step nrm s (snd (invalidateIfCurrent sn s))"
| step_commit: "authority_step nrm s (snd (tryCommit nrm tok g c s))"
| step_commitIfCurrent: "authority_step nrm s (snd (tryCommitIfCurrent nrm tok sn g c admit s))"
| step_commitFinalize: "authority_step nrm s (snd (tryCommitAndFinalize nrm tok g c ok s))"
| step_invalidate: "authority_step nrm s (authority_invalidate s)"
| step_publishWorld: "pin_alive s0 s \<Longrightarrow>
    authority_step nrm s (snd (snd (publishWorldIdentityIfCurrentAndFinalizeRevocation nrm r aa ap s0 s)))"

section \<open>The invariant\<close>

definition active_ok :: "(vec3 \<Rightarrow> double) \<Rightarrow> ExecutionAuthority \<Rightarrow> bool" where
  "active_ok nrm s =
     (case ea_active_bundle s of None \<Rightarrow> ea_active_goal s = None
      | Some a \<Rightarrow> bundle_valid nrm (deref a) \<and> ea_world_identity s = Some (cb_world_identity (deref a)) \<and>
          goalMatchesCandidate (ea_active_goal s) (Some a) \<and>
          cb_goal_epoch (deref a) \<le> ea_admission_goal_epoch s)"

definition staged_ok :: "(vec3 \<Rightarrow> double) \<Rightarrow> ExecutionAuthority \<Rightarrow> bool" where
  "staged_ok nrm s =
     (case ea_staged_bundle s of None \<Rightarrow> ea_staged_goal s = None \<and> ea_staged_activation_ns s = 0
      | Some c \<Rightarrow> ea_active_bundle s \<noteq> None \<and> bundle_valid nrm (deref c) \<and>
          ea_world_identity s = Some (cb_world_identity (deref c)) \<and>
          goalMatchesCandidate (ea_staged_goal s) (Some c) \<and>
          cb_goal_epoch (deref c) = ea_admission_goal_epoch s \<and>
          ea_staged_activation_ns s = cb_valid_from_ns (deref c))"

definition failed_lifecycle :: ExecutionLifecycleState where
  "failed_lifecycle =
     \<lparr>lc_phase = PhasePx4Hold, lc_recovery = RecoveryPx4Hold, lc_exposure = ExposureFailed,
      lc_safety = SafetyNominal, lc_restart = RestartNone\<rparr>"

definition lifecycle_ok :: "ExecutionAuthority \<Rightarrow> bool" where
  "lifecycle_ok s \<longleftrightarrow>
     (lc_exposure (ea_lifecycle s) = ExposureAvailable \<longrightarrow> ea_active_bundle s \<noteq> None) \<and>
     (lc_exposure (ea_lifecycle s) = ExposureFailed \<longrightarrow> ea_lifecycle s = failed_lifecycle)"

definition authority_ok :: "(vec3 \<Rightarrow> double) \<Rightarrow> ExecutionAuthority \<Rightarrow> bool" where
  "authority_ok nrm s \<longleftrightarrow> active_ok nrm s \<and> staged_ok nrm s \<and> lifecycle_ok s"

lemmas ok_defs = active_ok_def staged_ok_def lifecycle_ok_def authority_ok_def

lemma authority_ok_invariantHolds: "authority_ok nrm s \<Longrightarrow> invariantHolds s"
  by (auto simp: ok_defs invariantHolds_def goalMatchesCandidate_def split: option.splits)

lemma failClosedLifecycle_failed: "ea_lifecycle (failClosedLifecycleLocked s) = failed_lifecycle"
  by (simp add: failClosedLifecycleLocked_def failed_lifecycle_def)

section \<open>Version accounting\<close>

lemmas helper_defs = bumpTimeline_def bumpLineage_def noteLifecycleChangeLocked_def clearActiveLocked_def
  clearStagedLocked_def enforceInvariantLocked_def failClosedLifecycleLocked_def updateLifecycle_def
  retireActiveLocked_def Let_def

text \<open>\<open>moved s t\<close>: nothing changed, or the timeline version moved by one or two.\<close>

definition moved :: "ExecutionAuthority \<Rightarrow> ExecutionAuthority \<Rightarrow> bool" where
  "moved s t \<longleftrightarrow> t = s \<or> ea_timeline_version t = ea_timeline_version s + 1 \<or>
     ea_timeline_version t = ea_timeline_version s + 2"

lemma version_helpers [simp]:
  "ea_timeline_version (bumpTimeline s) = ea_timeline_version s + 1"
  "ea_timeline_version (bumpLineage s) = ea_timeline_version s"
  "ea_timeline_version (clearActiveLocked s) = ea_timeline_version s"
  "ea_timeline_version (clearStagedLocked s) = ea_timeline_version s"
  "ea_timeline_version (enforceInvariantLocked s) = ea_timeline_version s"
  "ea_timeline_version (failClosedLifecycleLocked s) = ea_timeline_version s"
  "ea_timeline_version (retireActiveLocked s) = ea_timeline_version s"
  "ea_timeline_version (committedLifecycleLocked b g s) = ea_timeline_version s"
  by (simp_all add: helper_defs committedLifecycleLocked_def)

lemma moved_refl [simp, intro]: "moved s s"
  by (simp add: moved_def)

lemma moved_bump [intro]: "ea_timeline_version u = ea_timeline_version s \<Longrightarrow> moved s (bumpTimeline u)"
  by (simp add: moved_def)

lemma moved_lifecycle: "moved s (updateLifecycle f s)"
  by (cases "f (ea_lifecycle s) = ea_lifecycle s")
     (simp_all add: moved_def updateLifecycle_def noteLifecycleChangeLocked_def)

lemma moved_failClosed: "moved s (noteLifecycleChangeLocked (ea_lifecycle s) (failClosedLifecycleLocked s))"
  by (simp add: moved_def noteLifecycleChangeLocked_def failClosedLifecycleLocked_def)

lemma version_install [simp]:
  "ea_timeline_version (stage_install tok anchor g c s) = ea_timeline_version s + 1"
  "ea_timeline_version (commit_install tok g p s) = ea_timeline_version s + 1"
  by (simp_all add: stage_install_def commit_install_def)

lemma moved_commits:
  "moved s (snd (tryCommit nrm tok g c s))"
  "moved s (snd (tryCommitIfCurrent nrm tok sn g c admit s))"
  "moved s (snd (tryCommitAndFinalize nrm tok g c ok s))"
  by (auto simp: tryCommit_def tryCommitIfCurrent_def tryCommitAndFinalize_def moved_def Let_def
      split: CommitDecision.split option.split)

lemma moved_stages:
  "moved s (snd (stagePending nrm tok anchor g c s))"
  "moved s (snd (stagePendingAndFinalize nrm tok anchor g c ok s))"
  by (auto simp: stagePending_def stagePendingAndFinalize_def moved_def Let_def split: StageDecision.split)

lemma moved_activate: "moved s (snd (activatePendingIfDueAndFinalize nrm now sn fin s))"
  by (simp add: activatePendingIfDueAndFinalize_def activatePendingIfDueAndFinalizeLocked_def Let_def moved_def
      split: option.split)

lemma moved_publish:
  "moved s (snd (snd (publishWorldIdentityIfCurrentAndFinalizeRevocation nrm r aa ap s0 s)))"
  by (simp add: publishWorldIdentityIfCurrentAndFinalizeRevocation_def world_commit_def Let_def moved_def
      split: sum.split option.split)

lemma moved_admission:
  "moved s (snd (setAdmissionGoalEpoch e retain s))"
  "moved s (snd (beginGoal l e retain s))"
  "moved s (authority_reset l s)"
  "moved s (authority_invalidate s)"
  by (simp_all add: setAdmissionGoalEpoch_def beginGoal_def authority_reset_def authority_invalidate_def
      Let_def moved_def split: option.split)

lemma step_moved: "authority_step nrm s t \<Longrightarrow> moved s t"
proof (induction rule: authority_step.induct)
  case (step_invalidateIfCurrent s sn)
  show ?case by (auto simp: invalidateIfCurrent_def moved_def)
qed (simp_all add: moved_commits moved_stages moved_activate moved_publish moved_admission moved_lifecycle
    moved_failClosed clearGoal_def failClosed_def suspendCommand_def observeRetainedCommand_def
    observeSampledSafetyRole_def preserveSafetySuffix_def requestRestartFromRest_def clearRestartFromRest_def
    applyRecoveryEvent_def stoppedHold_def failClosedIfCurrentSnapshot_def suspendIfCurrentSnapshot_def)

interpretation authority: versioned_store "\<lambda>s. s = initial_authority" "authority_step nrm" ea_timeline_version
  "\<lambda>s. s" 2 for nrm
proof
  fix s t assume "authority_step nrm s t"
  then have "moved s t" by (rule step_moved)
  moreover have "ea_timeline_version s + 1 = ea_timeline_version s + of_nat 1"
    "ea_timeline_version s + 2 = ea_timeline_version s + of_nat 2" by simp_all
  ultimately show "(t = s \<and> ea_timeline_version t = ea_timeline_version s) \<or>
    (\<exists>k. 0 < k \<and> k \<le> 2 \<and> ea_timeline_version t = ea_timeline_version s + of_nat k)"
    unfolding moved_def by (metis le_refl one_le_numeral zero_less_numeral zero_less_one)
qed

section \<open>Preservation\<close>

named_theorems frame_simps "what the helpers leave unchanged"

lemma ok_frame [frame_simps]:
  "active_ok nrm (bumpTimeline s) = active_ok nrm s"
  "active_ok nrm (bumpLineage s) = active_ok nrm s"
  "active_ok nrm (s\<lparr>ea_lifecycle := lc\<rparr>) = active_ok nrm s"
  "staged_ok nrm (bumpTimeline s) = staged_ok nrm s"
  "staged_ok nrm (bumpLineage s) = staged_ok nrm s"
  "staged_ok nrm (s\<lparr>ea_lifecycle := lc\<rparr>) = staged_ok nrm s"
  "lifecycle_ok (bumpTimeline s) = lifecycle_ok s"
  "lifecycle_ok (bumpLineage s) = lifecycle_ok s"
  by (simp_all add: ok_defs helper_defs split: option.split)

lemma staged_cleared [frame_simps]:
  "staged_ok nrm (clearStagedLocked s)"
  "active_ok nrm (clearStagedLocked s) = active_ok nrm s"
  "lifecycle_ok (clearStagedLocked s) = lifecycle_ok s"
  "ea_lifecycle (clearStagedLocked s) = ea_lifecycle s"
  "ea_active_bundle (clearStagedLocked s) = ea_active_bundle s"
  by (simp_all add: ok_defs clearStagedLocked_def split: option.split)

lemma active_cleared [frame_simps]:
  "active_ok nrm (clearActiveLocked s)"
  "ea_active_bundle (clearActiveLocked s) = None"
  "active_ok nrm (retireActiveLocked s)"
  "ea_active_bundle (retireActiveLocked s) = None"
  by (simp_all add: ok_defs helper_defs)

lemma lifecycle_cleared [frame_simps]:
  "lifecycle_ok s \<Longrightarrow> lifecycle_ok (clearActiveLocked s)"
  "lifecycle_ok s \<Longrightarrow> lifecycle_ok (retireActiveLocked s)"
  by (auto simp: ok_defs helper_defs failed_lifecycle_def)

lemma lifecycle_initial [frame_simps]: "lifecycle_ok (s\<lparr>ea_lifecycle := initial_lifecycle\<rparr>)"
  by (simp add: lifecycle_ok_def initial_lifecycle_def)

lemma enforce_cleared [frame_simps]: "enforceInvariantLocked (clearStagedLocked s) = clearStagedLocked s"
  by (simp add: enforceInvariantLocked_def clearStagedLocked_def)

lemma ok_lifecycle_update:
  assumes "authority_ok nrm s"
    and "lc_exposure (f (ea_lifecycle s)) = ExposureAvailable \<Longrightarrow> ea_active_bundle s \<noteq> None"
    and "lc_exposure (f (ea_lifecycle s)) = ExposureFailed \<Longrightarrow> f (ea_lifecycle s) = failed_lifecycle"
  shows "authority_ok nrm (updateLifecycle f s)"
  using assms by (cases "f (ea_lifecycle s) = ea_lifecycle s")
    (auto simp: ok_defs updateLifecycle_def noteLifecycleChangeLocked_def bumpTimeline_def split: option.splits)

lemma identity_matches_active: "activeBundleIdentityMatchesLocked s b \<Longrightarrow> ea_active_bundle s \<noteq> None"
  by (auto simp: activeBundleIdentityMatchesLocked_def split: option.splits)

lemma ok_failClosed:
  "authority_ok nrm s \<Longrightarrow>
    authority_ok nrm (noteLifecycleChangeLocked (ea_lifecycle s) (failClosedLifecycleLocked s))"
  by (simp add: noteLifecycleChangeLocked_def failClosedLifecycleLocked_def)
     (auto simp: ok_defs failed_lifecycle_def bumpTimeline_def split: option.splits)

text \<open>The shape of every guarded facet operation.\<close>

lemma ok_guarded:
  assumes "authority_ok nrm s"
    and "\<not> P \<Longrightarrow> ea_active_bundle s \<noteq> None"
    and "\<not> P \<Longrightarrow> lc_exposure (f (ea_lifecycle s)) \<noteq> ExposureFailed"
  shows "authority_ok nrm (snd (if P then (False, s) else (True, updateLifecycle f s)))"
  using assms ok_lifecycle_update [OF assms(1), of f] by (cases P) auto

lemma ok_facets:
  assumes "authority_ok nrm s"
  shows "authority_ok nrm (snd (observeRetainedCommand b suffix s))"
    "authority_ok nrm (snd (observeSampledSafetyRole b role s))"
    "authority_ok nrm (snd (preserveSafetySuffix b s))"
    "authority_ok nrm (snd (requestRestartFromRest b s))"
    "authority_ok nrm (snd (applyRecoveryEvent event b s))"
    "authority_ok nrm (snd (stoppedHold b s))"
  unfolding observeRetainedCommand_def observeSampledSafetyRole_def preserveSafetySuffix_def
    requestRestartFromRest_def applyRecoveryEvent_def stoppedHold_def
  by (rule ok_guarded [OF assms]; use identity_matches_active in force)+

lemma ok_not_available:
  assumes "authority_ok nrm s" and "lc_exposure (f (ea_lifecycle s)) \<noteq> ExposureAvailable"
    and "lc_exposure (ea_lifecycle s) = ExposureFailed \<Longrightarrow> f (ea_lifecycle s) = ea_lifecycle s"
    and "lc_exposure (ea_lifecycle s) \<noteq> ExposureFailed \<Longrightarrow> lc_exposure (f (ea_lifecycle s)) \<noteq> ExposureFailed"
  shows "authority_ok nrm (updateLifecycle f s)"
  using assms ok_lifecycle_update [OF assms(1), of f] by (metis authority_ok_def lifecycle_ok_def)

lemma ok_suspends:
  assumes "authority_ok nrm s"
  shows "authority_ok nrm (suspendCommand s)" "authority_ok nrm (snd (suspendIfCurrentSnapshot sn s))"
  using assms ok_not_available [OF assms, of "\<lambda>lc. lc\<lparr>lc_exposure := ExposureSuspended\<rparr>"]
  by (auto simp: suspendCommand_def suspendIfCurrentSnapshot_def)

lemma ok_clearRestart:
  assumes "authority_ok nrm s" shows "authority_ok nrm (clearRestartFromRest s)"
proof -
  have "lc_exposure (ea_lifecycle s) = ExposureFailed \<Longrightarrow> lc_restart (ea_lifecycle s) = RestartNone"
    "lc_exposure (ea_lifecycle s) = ExposureAvailable \<Longrightarrow> ea_active_bundle s \<noteq> None"
    using assms by (auto simp: authority_ok_def lifecycle_ok_def failed_lifecycle_def)
  then show ?thesis
    using assms ok_lifecycle_update [OF assms, of "\<lambda>lc. lc\<lparr>lc_restart := RestartNone\<rparr>"]
    by (auto simp: clearRestartFromRest_def)
qed

text \<open>A store that holds no command satisfies the invariant whatever its identities are.\<close>

lemma ok_empty:
  assumes "ea_active_bundle s = None" "ea_active_goal s = None" "ea_staged_bundle s = None"
    "ea_staged_goal s = None" "ea_staged_activation_ns s = 0" "lifecycle_ok s"
  shows "authority_ok nrm s"
  using assms by (simp add: ok_defs)

lemma ok_admission:
  assumes "authority_ok nrm s"
  shows "authority_ok nrm (snd (setAdmissionGoalEpoch e retain s))"
    "authority_ok nrm (snd (beginGoal l e retain s))"
    "authority_ok nrm (authority_reset l s)"
    "authority_ok nrm (authority_invalidate s)"
    "authority_ok nrm (snd (invalidateIfCurrent sn s))"
proof -
  have lc: "lifecycle_ok s" using assms by (simp add: authority_ok_def)
  show "authority_ok nrm (authority_reset l s)" "authority_ok nrm (authority_invalidate s)"
    by (rule ok_empty; simp add: authority_reset_def authority_invalidate_def helper_defs lifecycle_ok_def
        initial_lifecycle_def)+
  show "authority_ok nrm (snd (invalidateIfCurrent sn s))"
    using assms lc by (simp add: invalidateIfCurrent_def authority_ok_def frame_simps)
  show "authority_ok nrm (snd (setAdmissionGoalEpoch e retain s))"
    using assms by (auto simp: setAdmissionGoalEpoch_def ok_defs helper_defs initial_lifecycle_def
        split: option.splits)
  show "authority_ok nrm (snd (beginGoal l e retain s))"
    using assms by (auto simp: beginGoal_def ok_defs helper_defs initial_lifecycle_def split: option.splits)
qed

lemma commit_decision_Committed:
  assumes "commit_decision nrm tok g c s = CommitCommitted"
  shows "\<exists>p. c = Some p \<and> goalMatchesCandidate g (Some p) \<and> bundle_valid nrm (deref p) \<and>
    ea_world_identity s = Some (cb_world_identity (deref p)) \<and>
    cb_goal_epoch (deref p) = ea_admission_goal_epoch s \<and> tok_goal_epoch tok = ea_admission_goal_epoch s \<and>
    ea_last_transaction_id s < tok_transaction_id tok \<and> prior_generation s \<le> cb_bundle_generation (deref p) \<and>
    lc_exposure (ea_lifecycle s) \<noteq> ExposureFailed"
proof (cases c)
  case (Some p)
  show ?thesis
  proof (cases "ea_active_bundle s")
    case None
    with Some assms show ?thesis
      by (simp add: commit_decision_def prior_generation_def not_le split: option.splits if_splits)
  next
    case (Some a)
    with \<open>c = Some p\<close> assms show ?thesis
      by (simp add: commit_decision_def prior_generation_def not_le not_less split: option.splits if_splits)
  qed
qed (use assms in \<open>simp add: commit_decision_def\<close>)

lemma stage_decision_Staged:
  assumes "stage_decision nrm tok anchor g c s = StageStaged"
  shows "\<exists>p a. c = Some p \<and> goalMatchesCandidate g (Some p) \<and> bundle_valid nrm (deref p) \<and>
    ea_world_identity s = Some (cb_world_identity (deref p)) \<and>
    cb_goal_epoch (deref p) = ea_admission_goal_epoch s \<and> tok_goal_epoch tok = ea_admission_goal_epoch s \<and>
    ea_last_transaction_id s < tok_transaction_id tok \<and>
    cb_valid_from_ns (deref p) = an_activation_stamp_ns anchor \<and> ea_active_bundle s = Some a \<and>
    predecessorMatchesAnchor nrm (deref a) anchor \<and>
    ea_active_lineage_version s = an_execution_lineage_version anchor \<and>
    lc_exposure (ea_lifecycle s) \<noteq> ExposureFailed"
proof (cases c)
  case (Some p)
  with assms show ?thesis
    by (cases "ea_active_bundle s") (simp_all add: stage_decision_def not_le split: if_splits)
qed (use assms in \<open>simp add: stage_decision_def\<close>)

lemma committedLifecycle_frame [simp]:
  "ea_active_bundle (committedLifecycleLocked b n s) = ea_active_bundle s"
  "ea_active_goal (committedLifecycleLocked b n s) = ea_active_goal s"
  "ea_staged_bundle (committedLifecycleLocked b n s) = ea_staged_bundle s"
  "ea_staged_goal (committedLifecycleLocked b n s) = ea_staged_goal s"
  "ea_staged_activation_ns (committedLifecycleLocked b n s) = ea_staged_activation_ns s"
  "ea_world_identity (committedLifecycleLocked b n s) = ea_world_identity s"
  "ea_last_transaction_id (committedLifecycleLocked b n s) = ea_last_transaction_id s"
  "ea_active_lineage_version (committedLifecycleLocked b n s) = ea_active_lineage_version s"
  "ea_admission_goal_epoch (committedLifecycleLocked b n s) = ea_admission_goal_epoch s"
  "ea_admission_localization_epoch (committedLifecycleLocked b n s) = ea_admission_localization_epoch s"
  by (simp_all add: committedLifecycleLocked_def Let_def)

lemma committedLifecycle_ok [intro]:
  assumes "lifecycle_ok s" "ea_active_bundle s \<noteq> None"
  shows "lifecycle_ok (committedLifecycleLocked b n s)"
  using assms by (simp add: committedLifecycleLocked_def lifecycle_ok_def Let_def)

lemma ok_stages:
  assumes "authority_ok nrm s"
  shows "authority_ok nrm (snd (stagePending nrm tok anchor g c s))"
    "authority_ok nrm (snd (stagePendingAndFinalize nrm tok anchor g c ok s))"
proof -
  have "authority_ok nrm (stage_install tok anchor g c s)"
    if "stage_decision nrm tok anchor g c s = StageStaged"
    using stage_decision_Staged [OF that] assms
    by (auto simp: stage_install_def bumpTimeline_def ok_defs)
  moreover have "authority_ok nrm (bumpTimeline
      ((stage_install tok anchor g c s)\<lparr>ea_staged_goal := ea_staged_goal s, ea_staged_bundle := ea_staged_bundle s,
          ea_staged_activation_ns := ea_staged_activation_ns s, ea_last_transaction_id := ea_last_transaction_id s\<rparr>))"
    using assms by (auto simp: stage_install_def bumpTimeline_def ok_defs split: option.splits)
  ultimately show "authority_ok nrm (snd (stagePending nrm tok anchor g c s))"
    "authority_ok nrm (snd (stagePendingAndFinalize nrm tok anchor g c ok s))"
    using assms by (auto simp: stagePending_def stagePendingAndFinalize_def Let_def split: StageDecision.splits)
qed

lemma ok_commit_install:
  assumes "authority_ok nrm s" "commit_decision nrm tok g (Some p) s = CommitCommitted"
  shows "authority_ok nrm (commit_install tok g p s)"
proof -
  have "lifecycle_ok (committedLifecycleLocked (deref p) (prior_generation s)
      (s\<lparr>ea_active_goal := g, ea_active_bundle := Some p\<rparr>))"
    using assms(1) by (intro committedLifecycle_ok) (auto simp: authority_ok_def lifecycle_ok_def)
  with commit_decision_Committed [OF assms(2)] show ?thesis
    by (auto simp: commit_install_def Let_def bumpTimeline_def clearStagedLocked_def ok_defs)
qed

lemma ok_commit_rollback:
  assumes "authority_ok nrm s"
  shows "authority_ok nrm (bumpTimeline ((commit_install tok g p s)
     \<lparr>ea_lifecycle := ea_lifecycle s, ea_active_goal := ea_active_goal s, ea_active_bundle := ea_active_bundle s,
      ea_staged_goal := ea_staged_goal s, ea_staged_bundle := ea_staged_bundle s,
      ea_staged_activation_ns := ea_staged_activation_ns s, ea_last_transaction_id := ea_last_transaction_id s\<rparr>))"
  using assms by (auto simp: commit_install_def Let_def bumpTimeline_def clearStagedLocked_def ok_defs
      split: option.splits)

lemma ok_commits:
  assumes "authority_ok nrm s"
  shows "authority_ok nrm (snd (tryCommit nrm tok g c s))"
    "authority_ok nrm (snd (tryCommitIfCurrent nrm tok sn g c admit s))"
    "authority_ok nrm (snd (tryCommitAndFinalize nrm tok g c ok s))"
proof -
  have lin: "authority_ok nrm (bumpLineage t) = authority_ok nrm t" for t
    by (simp add: authority_ok_def frame_simps)
  show "authority_ok nrm (snd (tryCommit nrm tok g c s))"
    "authority_ok nrm (snd (tryCommitIfCurrent nrm tok sn g c admit s))"
    "authority_ok nrm (snd (tryCommitAndFinalize nrm tok g c ok s))"
    using assms by (auto simp: tryCommit_def tryCommitIfCurrent_def tryCommitAndFinalize_def Let_def lin
        ok_commit_install ok_commit_rollback split: CommitDecision.splits option.splits)
qed

lemma successor_current_staged:
  assumes "successor_current nrm now s"
  shows "\<exists>g b a. ea_staged_goal s = Some g \<and> ea_staged_bundle s = Some b \<and> ea_active_bundle s = Some a \<and>
    bundle_valid nrm (deref b) \<and> ea_world_identity s = Some (cb_world_identity (deref b)) \<and>
    cb_goal_epoch (deref b) = ea_admission_goal_epoch s \<and> now \<le> cb_valid_until_ns (deref b) \<and>
    ng_request_id (deref g) = cb_request_id (deref b)"
  using assms by (auto simp: successor_current_def split: option.splits)

lemma ok_activate:
  assumes "authority_ok nrm s"
  shows "authority_ok nrm (snd (activatePendingIfDueAndFinalize nrm now sn fin s))"
proof -
  define s1 where "s1 sb = bumpTimeline (clearStagedLocked
      (s\<lparr>ea_active_goal := ea_staged_goal s, ea_active_bundle := Some sb\<rparr>))" for sb
  have parts: "active_ok nrm s" "staged_ok nrm s" "lifecycle_ok s" using assms by (auto simp: authority_ok_def)
  have cleared: "authority_ok nrm (bumpTimeline (clearStagedLocked s))"
    using parts by (simp add: authority_ok_def frame_simps)
  have rolled: "authority_ok nrm (bumpTimeline (enforceInvariantLocked (clearStagedLocked ((s1 sb)
      \<lparr>ea_lifecycle := ea_lifecycle s, ea_active_goal := ea_active_goal s, ea_active_bundle := ea_active_bundle s\<rparr>))))" for sb
    using parts(1,3) by (auto simp: s1_def authority_ok_def frame_simps lifecycle_ok_def active_ok_def
        bumpTimeline_def clearStagedLocked_def staged_ok_def enforceInvariantLocked_def split: option.splits)
  have completed: "authority_ok nrm (bumpLineage (committedLifecycleLocked (deref sb) n (s1 sb)))"
    if "successor_current nrm now s" "ea_staged_bundle s = Some sb" for sb n
  proof -
    have "lifecycle_ok (committedLifecycleLocked (deref sb) n (s1 sb))"
      using parts(3) by (intro committedLifecycle_ok)
        (auto simp: s1_def lifecycle_ok_def bumpTimeline_def clearStagedLocked_def)
    moreover have "active_ok nrm (committedLifecycleLocked (deref sb) n (s1 sb))"
      using successor_current_staged [OF that(1)] parts(2) that(2)
      by (auto simp: s1_def active_ok_def staged_ok_def bumpTimeline_def clearStagedLocked_def)
    moreover have "staged_ok nrm (committedLifecycleLocked (deref sb) n (s1 sb))"
      by (simp add: s1_def staged_ok_def bumpTimeline_def clearStagedLocked_def)
    ultimately show ?thesis by (simp add: authority_ok_def frame_simps)
  qed
  show ?thesis
    using assms cleared rolled completed
    by (simp add: activatePendingIfDueAndFinalize_def activatePendingIfDueAndFinalizeLocked_def Let_def
        s1_def [symmetric] split: option.split)
qed

text \<open>
  A recertified copy differs from its source in the world identity and the end of its lease only, is
  valid, and its lease is not extended beyond the declared end of the trajectory.
\<close>

lemma prepareRecertification_Some:
  assumes "prepareRecertification nrm alloc b w t = Some p"
  shows "\<exists>u. deref p = b\<lparr>cb_world_identity := w, cb_valid_until_ns := u\<rparr> \<and> bundle_valid nrm (deref p) \<and>
    (u = cb_valid_until_ns b \<or> t > cb_valid_until_ns b \<and> u \<le> t \<and> u \<le> cb_declared_end_ns b)"
proof -
  define c where "c = b\<lparr>cb_world_identity := w\<rparr>"
  have copy: "deref p = c \<and> bundle_valid nrm c" if "\<not> t > cb_valid_until_ns b"
    using assms that by (auto simp: prepareRecertification_def c_def Let_def split: option.splits if_splits)
  have same: "hasDeclaredEndpointMetadata (c\<lparr>cb_valid_until_ns := u\<rparr>) = hasDeclaredEndpointMetadata c" for u
    by (simp add: hasDeclaredEndpointMetadata_def)
  have renewed: "\<exists>u. deref p = c\<lparr>cb_valid_until_ns := u\<rparr> \<and> bundle_valid nrm (deref p) \<and> u \<le> t \<and>
      u \<le> cb_declared_end_ns b" if "t > cb_valid_until_ns b"
  proof (cases "hasDeclaredEndpointMetadata c")
    case True
    with assms that obtain e where e:
      "secondsSumToNanoseconds (cb_start_wall_time_s c) (cb_duration_s c) = Some e"
      "deref p = c\<lparr>cb_valid_until_ns := min t e\<rparr>" "bundle_valid nrm (deref p)"
      by (auto simp: prepareRecertification_def c_def [symmetric] Let_def split: option.splits if_splits)
         (auto simp: c_def)
    moreover from e have "e = cb_declared_end_ns b"
      by (simp add: bundle_valid_def endpoint_metadata_consistent_def c_def)
    ultimately show ?thesis by (intro exI [of _ "min t e"]) auto
  next
    case False
    with assms that same valid_declared_endpoint show ?thesis
      by (auto simp: prepareRecertification_def c_def [symmetric] Let_def split: option.splits if_splits)
  qed
  show ?thesis
  proof (cases "t > cb_valid_until_ns b")
    case True
    from renewed [OF True] show ?thesis using True by (auto simp: c_def)
  next
    case False
    from copy [OF False] show ?thesis by (intro exI [of _ "cb_valid_until_ns b"]) (simp add: c_def)
  qed
qed

lemma world_pin_Inr:
  "world_pin r s = Inr pin \<Longrightarrow>
    wp_prior_world pin = ea_world_identity s \<and> wp_observed_active pin = ea_active_bundle s \<and>
    wp_observed_pending pin = ea_staged_bundle s \<and> ea_timeline_version s = wr_expected_timeline_version r"
  by (auto simp: world_pin_def split: if_splits option.splits)

lemma matches_recertified [simp]:
  "deref p = (deref a)\<lparr>cb_world_identity := w, cb_valid_until_ns := u\<rparr> \<Longrightarrow>
   goalMatchesCandidate g (Some p) = goalMatchesCandidate g (Some a)"
  by (simp add: goalMatchesCandidate_def split: option.split)

text \<open>The three outcomes of a commit that is not superseded, each keeping the invariant.\<close>

lemma ok_world_recertified:
  assumes "authority_ok nrm s" "ea_active_bundle s = Some a"
    and p: "deref p = (deref a)\<lparr>cb_world_identity := w, cb_valid_until_ns := u\<rparr>" "bundle_valid nrm (deref p)"
    and q: "\<And>c q. fresh = Some q \<Longrightarrow> ea_staged_bundle s = Some c \<Longrightarrow>
      bundle_valid nrm (deref q) \<and> (\<exists>v. deref q = (deref c)\<lparr>cb_world_identity := w, cb_valid_until_ns := v\<rparr>)"
      "fresh \<noteq> None \<Longrightarrow> ea_staged_bundle s \<noteq> None"
  shows "authority_ok nrm (bumpTimeline ((if fresh \<noteq> None
     then s\<lparr>ea_active_bundle := Some p, ea_staged_bundle := fresh\<rparr>
     else clearStagedLocked (s\<lparr>ea_active_bundle := Some p\<rparr>))\<lparr>ea_world_identity := Some w\<rparr>))"
proof -
  have "active_ok nrm (s\<lparr>ea_active_bundle := Some p, ea_world_identity := Some w\<rparr>)"
    using assms(1,2) p by (simp add: ok_defs)
  moreover have "staged_ok nrm (s\<lparr>ea_active_bundle := Some p, ea_staged_bundle := fresh, ea_world_identity := Some w\<rparr>)"
    if "fresh \<noteq> None"
  proof -
    from that q(2) obtain x c where x: "fresh = Some x" "ea_staged_bundle s = Some c" by auto
    with q(1) obtain v where "bundle_valid nrm (deref x)"
      "deref x = (deref c)\<lparr>cb_world_identity := w, cb_valid_until_ns := v\<rparr>" by blast
    with assms(1) x show ?thesis by (simp add: ok_defs)
  qed
  ultimately show ?thesis
    using assms(1,2) by (auto simp: ok_defs bumpTimeline_def clearStagedLocked_def)
qed

lemma ok_world_retired:
  assumes "authority_ok nrm s"
  shows "authority_ok nrm (bumpTimeline (clearStagedLocked (retireActiveLocked s)))"
    "authority_ok nrm (bumpTimeline ((clearStagedLocked (retireActiveLocked s))\<lparr>ea_world_identity := w\<rparr>))"
proof -
  have lc: "lifecycle_ok (retireActiveLocked s)" using assms by (simp add: authority_ok_def frame_simps)
  show "authority_ok nrm (bumpTimeline (clearStagedLocked (retireActiveLocked s)))"
    using lc by (simp add: authority_ok_def frame_simps)
  have "lifecycle_ok (t\<lparr>ea_world_identity := w\<rparr>) = lifecycle_ok t" for t
    by (simp add: lifecycle_ok_def)
  then show "authority_ok nrm (bumpTimeline ((clearStagedLocked (retireActiveLocked s))\<lparr>ea_world_identity := w\<rparr>))"
    using lc by (simp add: authority_ok_def frame_simps)
      (simp add: ok_defs helper_defs)
qed

lemma clear_twice [simp]: "clearStagedLocked (clearStagedLocked s) = clearStagedLocked s"
  by (simp add: clearStagedLocked_def)

definition world_retired :: "WorldRequest \<Rightarrow> ExecutionAuthority \<Rightarrow> ExecutionAuthority" where
  "world_retired r s =
     bumpTimeline ((clearStagedLocked (retireActiveLocked s))\<lparr>ea_world_identity := Some (wr_identity r)\<rparr>)"

definition world_recertified ::
  "WorldRequest \<Rightarrow> CandidateBundle ptr \<Rightarrow> CandidateBundle ptr option \<Rightarrow> ExecutionAuthority \<Rightarrow> ExecutionAuthority" where
  "world_recertified r p fresh s =
     bumpTimeline ((if fresh \<noteq> None then s\<lparr>ea_active_bundle := Some p, ea_staged_bundle := fresh\<rparr>
       else clearStagedLocked (s\<lparr>ea_active_bundle := Some p\<rparr>))\<lparr>ea_world_identity := Some (wr_identity r)\<rparr>)"

text \<open>The ways the second critical section of a world publication ends.\<close>

lemma world_commit_cases:
  fixes nrm r aa ap pin s
  assumes "pin_alive s0 s" "world_pin r s0 = Inr pin"
  obtains (unchanged) d where "world_commit nrm r pin aa ap s = (d, False, s)" "d \<noteq> WorldCommitted"
  | (rejected) "world_commit nrm r pin aa ap s =
      (WorldCandidateRejected, True, bumpTimeline (clearStagedLocked (retireActiveLocked s)))"
      "ea_active_bundle s \<noteq> None"
  | (retired) rv where "world_commit nrm r pin aa ap s = (WorldCommitted, rv, world_retired r s)"
      "\<And>w. ea_world_identity s = Some w \<Longrightarrow> advances w (wr_identity r)"
  | (recertified) a p fresh where "world_commit nrm r pin aa ap s = (WorldCommitted, False, world_recertified r p fresh s)"
      "ea_active_bundle s = Some a"
      "prepareRecertification nrm aa (deref a) (wr_identity r) (wr_refreshed_valid_until_ns r) = Some p"
      "\<And>q. fresh = Some q \<Longrightarrow> \<exists>c. ea_staged_bundle s = Some c \<and>
          prepareRecertification nrm ap (deref c) (wr_identity r) 0 = Some q"
      "\<And>w. ea_world_identity s = Some w \<Longrightarrow> advances w (wr_identity r)"
proof -
  let ?stale = "ea_timeline_version s \<noteq> wr_expected_timeline_version r \<or>
            \<not> same_ptr (ea_active_bundle s) (wp_observed_active pin) \<or>
            \<not> same_ptr (ea_staged_bundle s) (wp_observed_pending pin) \<or>
            ea_world_identity s \<noteq> wp_prior_world pin"
  let ?behind = "case ea_world_identity s of None \<Rightarrow> False | Some w \<Rightarrow> \<not> advances w (wr_identity r)"
  consider "?stale" | "\<not> ?stale" "?behind"
    | "\<not> ?stale" "\<not> ?behind" "active_preparation_failed nrm r pin aa"
    | "\<not> ?stale" "\<not> ?behind" "\<not> prepare_active r pin"
    | p where "\<not> ?stale" "\<not> ?behind" "prepare_active r pin" "recertified_active nrm r pin aa = Some p"
    unfolding active_preparation_failed_def by (cases "recertified_active nrm r pin aa") blast+
  then show thesis
  proof cases
    case 1
    then have "world_commit nrm r pin aa ap s = (WorldSuperseded, False, s)"
      by (auto simp: world_commit_def Let_def)
    then show ?thesis by (rule unchanged) simp
  next
    case 2
    then have "world_commit nrm r pin aa ap s = (WorldWorldAdvanced, False, s)"
      by (simp add: world_commit_def Let_def)
    then show ?thesis by (rule unchanged) simp
  next
    case 3
    then have "prepare_active r pin" by (simp add: active_preparation_failed_def)
    with 3 have "exact_active_owner r pin" "ea_active_bundle s \<noteq> None"
      by (auto simp: prepare_active_def exact_active_owner_def same_ptr_def split: option.splits)
    with 3 show ?thesis by (intro rejected) (simp_all add: world_commit_def Let_def)
  next
    case 4
    then have "\<not> active_preparation_failed nrm r pin aa" by (simp add: active_preparation_failed_def)
    with 4 show ?thesis
      by (intro retired) (auto simp: world_commit_def Let_def world_retired_def frame_simps split: option.splits)
  next
    case 5
    then have obs: "wp_observed_active pin = ea_active_bundle s" "wp_observed_pending pin = ea_staged_bundle s"
      using assms(1) world_pin_Inr [OF assms(2)] by (auto simp: pin_alive_def)
    have ok: "\<not> active_preparation_failed nrm r pin aa" using 5 by (simp add: active_preparation_failed_def)
    from 5 obs obtain a where a: "ea_active_bundle s = Some a"
      "prepareRecertification nrm aa (deref a) (wr_identity r) (wr_refreshed_valid_until_ns r) = Some p"
      by (auto simp: recertified_active_def split: option.splits if_splits)
    show ?thesis
    proof (rule recertified [of p "recertified_pending nrm r pin aa ap" a])
      show "world_commit nrm r pin aa ap s =
          (WorldCommitted, False, world_recertified r p (recertified_pending nrm r pin aa ap) s)"
        using 5 ok by (auto simp: world_commit_def Let_def world_recertified_def clearStagedLocked_def)
      show "\<exists>c. ea_staged_bundle s = Some c \<and> prepareRecertification nrm ap (deref c) (wr_identity r) 0 = Some q"
        if "recertified_pending nrm r pin aa ap = Some q" for q
        using that obs by (cases "ea_staged_bundle s") (auto simp: recertified_pending_def split: if_splits)
      show "advances w (wr_identity r)" if "ea_world_identity s = Some w" for w
        using 5(2) that by simp
    qed (rule a)+
  qed
qed

lemma ok_publish:
  assumes "authority_ok nrm s" "pin_alive s0 s"
  shows "authority_ok nrm (snd (snd (publishWorldIdentityIfCurrentAndFinalizeRevocation nrm r aa ap s0 s)))"
proof (cases "world_pin r s0")
  case (Inr pin)
  have "authority_ok nrm (snd (snd (world_commit nrm r pin aa ap s)))"
  proof (rule world_commit_cases [OF assms(2) Inr, of nrm aa ap])
    fix a p fresh
    assume c: "world_commit nrm r pin aa ap s = (WorldCommitted, False, world_recertified r p fresh s)"
      and a: "ea_active_bundle s = Some a"
        "prepareRecertification nrm aa (deref a) (wr_identity r) (wr_refreshed_valid_until_ns r) = Some p"
      and f: "\<And>q. fresh = Some q \<Longrightarrow> \<exists>c. ea_staged_bundle s = Some c \<and>
        prepareRecertification nrm ap (deref c) (wr_identity r) 0 = Some q"
    from prepareRecertification_Some [OF a(2)] obtain u where
      u: "deref p = (deref a)\<lparr>cb_world_identity := wr_identity r, cb_valid_until_ns := u\<rparr>" "bundle_valid nrm (deref p)"
      by blast
    have "authority_ok nrm (world_recertified r p fresh s)"
      unfolding world_recertified_def
    proof (rule ok_world_recertified [OF assms(1) a(1) u])
      fix q c assume "fresh = Some q" "ea_staged_bundle s = Some c"
      with f prepareRecertification_Some show
        "bundle_valid nrm (deref q) \<and> (\<exists>v. deref q = (deref c)\<lparr>cb_world_identity := wr_identity r, cb_valid_until_ns := v\<rparr>)"
        by fastforce
    qed (use f in auto)
    then show ?thesis by (simp add: c)
  qed (use assms(1) ok_world_retired [OF assms(1)] in \<open>simp_all add: world_retired_def\<close>)
  with assms(1) Inr show ?thesis by (simp add: publishWorldIdentityIfCurrentAndFinalizeRevocation_def)
qed (use assms(1) in \<open>simp add: publishWorldIdentityIfCurrentAndFinalizeRevocation_def\<close>)

lemma step_ok: "authority_step nrm s t \<Longrightarrow> authority_ok nrm s \<Longrightarrow> authority_ok nrm t"
  by (induction rule: authority_step.induct)
     (simp_all add: ok_facets ok_suspends ok_clearRestart ok_admission ok_stages ok_commits ok_activate ok_publish
       ok_failClosed clearGoal_def failClosed_def failClosedIfCurrentSnapshot_def)

lemma initial_ok: "authority_ok nrm initial_authority"
  by (simp add: initial_authority_def ok_defs initial_lifecycle_def)

lemma reachable_ok: "authority.reachable nrm s \<Longrightarrow> authority_ok nrm s"
  using authority.invariant_reachable [of "authority_ok nrm" nrm s] step_ok initial_ok by blast

section \<open>Lineage\<close>

text \<open>
  The part of the active bundle that only a commit, an activation or a revocation may change: a
  recertification rewrites the world identity and the end of the lease and nothing else.
\<close>

definition bundle_core :: "CandidateBundle \<Rightarrow> CandidateBundle" where
  "bundle_core b = b\<lparr>cb_world_identity := default_world_identity, cb_valid_until_ns := 0\<rparr>"

definition active_core :: "ExecutionAuthority \<Rightarrow> (NavigationGoal ptr option \<times> CandidateBundle option)" where
  "active_core s = (ea_active_goal s, map_option (\<lambda>p. bundle_core (deref p)) (ea_active_bundle s))"

definition lineage_kept :: "ExecutionAuthority \<Rightarrow> ExecutionAuthority \<Rightarrow> bool" where
  "lineage_kept s t \<longleftrightarrow>
     (active_core t = active_core s \<and> ea_active_lineage_version t = ea_active_lineage_version s) \<or>
     (ea_staged_bundle t = None \<and> ea_active_lineage_version t = ea_active_lineage_version s + 1)"

lemma lineage_kept_refl [simp]: "lineage_kept s s"
  by (simp add: lineage_kept_def)

lemmas lineage_defs = lineage_kept_def active_core_def helper_defs

lemma lineage_facets:
  "lineage_kept s (updateLifecycle f s)"
  "lineage_kept s (noteLifecycleChangeLocked (ea_lifecycle s) (failClosedLifecycleLocked s))"
  by (simp_all add: lineage_defs)

lemma lineage_commits:
  "lineage_kept s (snd (tryCommit nrm tok g c s))"
  "lineage_kept s (snd (tryCommitIfCurrent nrm tok sn g c admit s))"
  "lineage_kept s (snd (tryCommitAndFinalize nrm tok g c ok s))"
  by (auto simp: tryCommit_def tryCommitIfCurrent_def tryCommitAndFinalize_def commit_install_def lineage_defs
      split: CommitDecision.split option.split)

lemma lineage_stages:
  "lineage_kept s (snd (stagePending nrm tok anchor g c s))"
  "lineage_kept s (snd (stagePendingAndFinalize nrm tok anchor g c ok s))"
  by (auto simp: stagePending_def stagePendingAndFinalize_def stage_install_def lineage_defs
      split: StageDecision.split)

lemma lineage_activate: "lineage_kept s (snd (activatePendingIfDueAndFinalize nrm now sn fin s))"
  by (simp add: activatePendingIfDueAndFinalize_def activatePendingIfDueAndFinalizeLocked_def lineage_defs
      split: option.split)

lemma lineage_admission:
  assumes "authority_ok nrm s"
  shows "lineage_kept s (snd (setAdmissionGoalEpoch e retain s))" "lineage_kept s (snd (beginGoal l e retain s))"
    "lineage_kept s (authority_reset l s)" "lineage_kept s (authority_invalidate s)"
    "lineage_kept s (snd (invalidateIfCurrent sn s))"
  using assms by (auto simp: setAdmissionGoalEpoch_def beginGoal_def authority_reset_def authority_invalidate_def
      invalidateIfCurrent_def lineage_defs authority_ok_def active_ok_def split: option.splits)

lemma bundle_core_recertified [simp]:
  "bundle_core (b\<lparr>cb_world_identity := w, cb_valid_until_ns := u\<rparr>) = bundle_core b"
  by (simp add: bundle_core_def)

lemma lineage_retired:
  assumes "authority_ok nrm s"
  shows "lineage_kept s (bumpTimeline (clearStagedLocked (retireActiveLocked s)))"
    "lineage_kept s (bumpTimeline ((clearStagedLocked (retireActiveLocked s))\<lparr>ea_world_identity := w\<rparr>))"
  using assms by (auto simp: lineage_defs authority_ok_def active_ok_def split: option.splits)

lemma lineage_publish:
  assumes "authority_ok nrm s" "pin_alive s0 s"
  shows "lineage_kept s (snd (snd (publishWorldIdentityIfCurrentAndFinalizeRevocation nrm r aa ap s0 s)))"
proof (cases "world_pin r s0")
  case (Inr pin)
  have "lineage_kept s (snd (snd (world_commit nrm r pin aa ap s)))"
  proof (rule world_commit_cases [OF assms(2) Inr, of nrm aa ap])
    fix a p fresh
    assume "world_commit nrm r pin aa ap s = (WorldCommitted, False, world_recertified r p fresh s)"
      and "ea_active_bundle s = Some a"
      and "prepareRecertification nrm aa (deref a) (wr_identity r) (wr_refreshed_valid_until_ns r) = Some p"
    with prepareRecertification_Some [of nrm aa "deref a" "wr_identity r" "wr_refreshed_valid_until_ns r" p]
    show ?thesis by (auto simp: world_recertified_def lineage_defs bundle_core_def)
  qed (use lineage_retired [OF assms(1)] in \<open>simp_all add: world_retired_def\<close>)
  with Inr show ?thesis by (simp add: publishWorldIdentityIfCurrentAndFinalizeRevocation_def)
qed (simp add: publishWorldIdentityIfCurrentAndFinalizeRevocation_def)

lemma step_lineage: "authority_step nrm s t \<Longrightarrow> authority_ok nrm s \<Longrightarrow> lineage_kept s t"
  by (induction rule: authority_step.induct)
     (simp_all add: lineage_facets lineage_commits lineage_stages lineage_activate lineage_admission lineage_publish
       clearGoal_def failClosed_def failClosedIfCurrentSnapshot_def suspendCommand_def observeRetainedCommand_def
       observeSampledSafetyRole_def preserveSafetySuffix_def requestRestartFromRest_def clearRestartFromRest_def
       applyRecoveryEvent_def stoppedHold_def suspendIfCurrentSnapshot_def)

interpretation lineage: versioned_store "\<lambda>s. s = initial_authority"
  "\<lambda>s t. authority_ok nrm s \<and> authority_step nrm s t" ea_active_lineage_version active_core 1 for nrm
proof
  fix s t assume "authority_ok nrm s \<and> authority_step nrm s t"
  then have "lineage_kept s t" using step_lineage by blast
  then show "(active_core t = active_core s \<and> ea_active_lineage_version t = ea_active_lineage_version s) \<or>
    (\<exists>k. 0 < k \<and> k \<le> 1 \<and> ea_active_lineage_version t = ea_active_lineage_version s + of_nat k)"
    by (auto simp: lineage_kept_def intro!: exI [of _ 1])
qed

lemma run_ok: "authority.run nrm n s t \<Longrightarrow> authority_ok nrm s \<Longrightarrow> authority_ok nrm t"
  using authority.invariant_run [of "authority_ok nrm" nrm n s t] step_ok by blast

lemma run_lineage: "authority.run nrm n s t \<Longrightarrow> authority_ok nrm s \<Longrightarrow> lineage.run nrm n s t"
proof (induction rule: authority.run.induct)
  case (run_step n s t u)
  then show ?case using run_ok [of nrm n s t] lineage.run_step by blast
qed (rule lineage.run_refl)

end
