(* ===== verification/Authority_Properties.thy ===== *)
theory Authority_Properties
  imports Authority_Invariants
begin

text \<open>
  The guarantees of the execution authority, stated over runs of its step relation, and the concrete
  run (a goal is begun, a world is published, a bundle is committed, a successor is staged) on which
  they are exercised.
\<close>

section \<open>A concrete run\<close>

definition ex_goal :: "NavigationGoal ptr" where
  "ex_goal = Ptr 50 \<lparr>ng_mission_id = ''m1'', ng_waypoint_index = 0, ng_request_id = 7, ng_target = vzero,
     ng_acceptance_radius_m = Fin 1, ng_behavior = 0, ng_has_next_target = False, ng_next_target = vzero,
     ng_route = default_route_snapshot\<rparr>"

definition ex_token :: "u64 \<Rightarrow> CommitToken" where
  "ex_token n = \<lparr>tok_world_identity = ex_world, tok_goal_epoch = 1, tok_transaction_id = n\<rparr>"

definition ex_begun :: ExecutionAuthority where
  "ex_begun = snd (beginGoal 1 1 False initial_authority)"

definition ex_request :: WorldRequest where
  "ex_request = \<lparr>wr_identity = ex_world, wr_expected_timeline_version = 1, wr_expected_bundle = None,
     wr_retain_validated_bundle = False, wr_refreshed_valid_until_ns = 0, wr_expected_pending = None,
     wr_retain_validated_pending = False\<rparr>"

definition ex_published :: ExecutionAuthority where
  "ex_published =
     \<lparr>ea_admission_goal_epoch = 1, ea_admission_localization_epoch = 1, ea_timeline_version = 2,
      ea_active_lineage_version = 0, ea_last_transaction_id = 0, ea_world_identity = Some ex_world,
      ea_active_goal = None, ea_active_bundle = None, ea_staged_goal = None, ea_staged_bundle = None,
      ea_staged_activation_ns = 0, ea_lifecycle = initial_lifecycle\<rparr>"

text \<open>The state after the commit of a bundle of generation \<open>g\<close> at address 100.\<close>

definition ex_committed :: "u64 \<Rightarrow> ExecutionAuthority" where
  "ex_committed g =
     \<lparr>ea_admission_goal_epoch = 1, ea_admission_localization_epoch = 1, ea_timeline_version = 3,
      ea_active_lineage_version = 1, ea_last_transaction_id = 1, ea_world_identity = Some ex_world,
      ea_active_goal = Some ex_goal, ea_active_bundle = Some (Ptr 100 (ex_bundle_at g 1000000000)), ea_staged_goal = None,
      ea_staged_bundle = None, ea_staged_activation_ns = 0,
      ea_lifecycle = \<lparr>lc_phase = PhaseTrackingMain, lc_recovery = RecoveryTrackMain,
        lc_exposure = ExposureAvailable, lc_safety = SafetyNominal, lc_restart = RestartNone\<rparr>\<rparr>"

lemma ex_begun_eq: "ex_begun =
     \<lparr>ea_admission_goal_epoch = 1, ea_admission_localization_epoch = 1, ea_timeline_version = 1,
      ea_active_lineage_version = 0, ea_last_transaction_id = 0, ea_world_identity = None,
      ea_active_goal = None, ea_active_bundle = None, ea_staged_goal = None, ea_staged_bundle = None,
      ea_staged_activation_ns = 0, ea_lifecycle = initial_lifecycle\<rparr>"
  by (simp add: ex_begun_def beginGoal_def initial_authority_def helper_defs initial_lifecycle_def)

lemma ex_publish:
  "publishWorldIdentityIfCurrentAndFinalizeRevocation nrm ex_request aa ap ex_begun ex_begun =
     (WorldCommitted, False, ex_published)"
  by (simp add: publishWorldIdentityIfCurrentAndFinalizeRevocation_def ex_request_def world_request_wellformed_def
      ex_world_def world_pin_def ex_begun_eq world_commit_def active_preparation_failed_def prepare_active_def
      exact_active_owner_def helper_defs ex_published_def)

lemma ex_commit:
  assumes "g \<noteq> 0"
  shows "tryCommit nrm (ex_token 1) (Some ex_goal) (Some (Ptr 100 (ex_bundle_at g 1000000000))) ex_published =
     (CommitCommitted, ex_committed g)"
  using ex_bundle_at_valid [OF assms, of 1000000000 nrm] assms
  by (simp add: tryCommit_def commit_decision_def goalMatchesCandidate_def ex_goal_def ex_token_def
      ex_published_def commit_install_def committedLifecycleLocked_def prior_generation_def helper_defs
      initial_lifecycle_def transitionExecutionRecovery_def ex_committed_def)

lemma ex_published_reachable: "authority.reachable nrm ex_published"
proof -
  have b: "authority.reachable nrm ex_begun"
    using authority.reach_step [OF authority.reach_init [OF refl], of nrm] step_beginGoal
    by (auto simp: ex_begun_def)
  have "pin_alive ex_begun ex_begun" by (simp add: pin_alive_def)
  from step_publishWorld [OF this, of nrm ex_request None None] show ?thesis
    using authority.reach_step [OF b] by (simp add: ex_publish)
qed

lemma ex_committed_reachable:
  "g \<noteq> 0 \<Longrightarrow> authority.reachable nrm (ex_committed g)"
  using authority.reach_step [OF ex_published_reachable step_commit [of nrm ex_published "ex_token 1" "Some ex_goal"
      "Some (Ptr 100 (ex_bundle_at g 1000000000))"]] by (simp add: ex_commit)

section \<open>Invariant and snapshots\<close>

text \<open>
  C1. In every reachable state the class's own invariant holds; the active command is a valid bundle bound
  to the current world and to the goal it was committed for; a staged successor is also bound to the
  current goal epoch and to its own activation instant; and the command is exposed only if there is one.
\<close>

theorem authority_safety_invariant:
  assumes "authority.reachable nrm s"
  shows "invariantHolds s \<and>
    (\<forall>a. ea_active_bundle s = Some a \<longrightarrow> bundle_valid nrm (deref a) \<and>
       ea_world_identity s = Some (cb_world_identity (deref a)) \<and>
       cb_goal_epoch (deref a) \<le> ea_admission_goal_epoch s \<and>
       (\<exists>g. ea_active_goal s = Some g \<and> ng_request_id (deref g) = cb_request_id (deref a))) \<and>
    (\<forall>c. ea_staged_bundle s = Some c \<longrightarrow> bundle_valid nrm (deref c) \<and>
       ea_world_identity s = Some (cb_world_identity (deref c)) \<and>
       cb_goal_epoch (deref c) = ea_admission_goal_epoch s \<and>
       ea_staged_activation_ns s = cb_valid_from_ns (deref c) \<and>
       (\<exists>g. ea_staged_goal s = Some g \<and> ng_request_id (deref g) = cb_request_id (deref c))) \<and>
    (lc_exposure (ea_lifecycle s) = ExposureAvailable \<longrightarrow> ea_active_bundle s \<noteq> None)"
proof -
  have ok: "authority_ok nrm s" using assms by (rule reachable_ok)
  then have "active_ok nrm s" "staged_ok nrm s" "lifecycle_ok s" by (auto simp: authority_ok_def)
  then show ?thesis using authority_ok_invariantHolds [OF ok]
    by (auto simp: active_ok_def staged_ok_def lifecycle_ok_def goalMatchesCandidate_def split: option.splits)
qed

theorem authority_safety_invariant_witness:
  "authority.reachable (\<lambda>_. Fin 1) (ex_committed 1) \<and> invariantHolds (ex_committed 1) \<and>
   bundle_valid (\<lambda>_. Fin 1) (ex_bundle_at 1 1000000000)"
  using authority_safety_invariant [OF ex_committed_reachable [of 1 "\<lambda>_. Fin 1"]]
    ex_committed_reachable [of 1 "\<lambda>_. Fin 1"] by (simp add: ex_committed_def)

text \<open>
  C6. A snapshot is current exactly when nothing at all has changed since it was taken: the version
  counter rules out an ABA change over fewer than \<open>2 ^ 63\<close> operations.
\<close>

theorem current_snapshot_identifies_state:
  assumes "authority.run nrm n s t" "n < 2 ^ 63"
  shows "isCurrentSnapshot (authority_snapshot s) t \<longleftrightarrow> t = s"
proof
  assume "isCurrentSnapshot (authority_snapshot s) t"
  then have "ea_timeline_version t = ea_timeline_version s"
    by (simp add: isCurrentSnapshot_def authority_snapshot_def)
  with authority.version_identifies_view [OF assms(1)] assms(2) show "t = s" by simp
qed (simp add: isCurrentSnapshot_def matchesAuthorityIdentity_def authority_snapshot_def)

lemma ex_run_commit: "g \<noteq> 0 \<Longrightarrow> authority.run nrm 1 ex_published (ex_committed g)"
  using authority.run_step [OF authority.run_refl step_commit [of nrm ex_published "ex_token 1" "Some ex_goal"
      "Some (Ptr 100 (ex_bundle_at g 1000000000))"]] by (simp add: ex_commit)

theorem current_snapshot_identifies_state_witness:
  "authority.run (\<lambda>_. Fin 1) 1 ex_published (ex_committed 1) \<and>
   \<not> isCurrentSnapshot (authority_snapshot ex_published) (ex_committed 1)"
  using current_snapshot_identifies_state [OF ex_run_commit [of 1 "\<lambda>_. Fin 1"]]
    ex_run_commit [of 1 "\<lambda>_. Fin 1"] by (simp add: ex_committed_def ex_published_def)

section \<open>Failure\<close>

lemma failed_updateLifecycle:
  "lc_exposure (f (ea_lifecycle s)) = lc_exposure (ea_lifecycle s) \<Longrightarrow>
   lc_exposure (ea_lifecycle (updateLifecycle f s)) = lc_exposure (ea_lifecycle s)"
  by (simp add: updateLifecycle_def noteLifecycleChangeLocked_def bumpTimeline_def)

lemma failed_decisions:
  assumes "lc_exposure (ea_lifecycle s) = ExposureFailed"
  shows "commit_decision nrm tok g c s \<noteq> CommitCommitted" "stage_decision nrm tok anchor g c s \<noteq> StageStaged"
  using commit_decision_Committed [of nrm tok g c s] stage_decision_Staged [of nrm tok anchor g c s] assms by auto

lemma commits_unchanged:
  assumes "commit_decision nrm tok g c s \<noteq> CommitCommitted"
  shows "tryCommit nrm tok g c s = (commit_decision nrm tok g c s, s)"
    "tryCommitIfCurrent nrm tok sn g c admit s = (commit_decision nrm tok g c s, s)"
    "tryCommitAndFinalize nrm tok g c ok s = (commit_decision nrm tok g c s, s)"
  using assms by (auto simp: tryCommit_def tryCommitIfCurrent_def tryCommitAndFinalize_def
      split: CommitDecision.splits option.splits)

lemma stages_unchanged:
  assumes "stage_decision nrm tok anchor g c s \<noteq> StageStaged"
  shows "stagePending nrm tok anchor g c s = (stage_decision nrm tok anchor g c s, s)"
    "stagePendingAndFinalize nrm tok anchor g c ok s = (stage_decision nrm tok anchor g c s, s)"
  using assms by (auto simp: stagePending_def stagePendingAndFinalize_def split: StageDecision.splits)

text \<open>
  C5. Once execution has failed closed, no candidate is committed or staged, no successor is activated and
  no command is exposed, and the rejected operations leave the store exactly as it was.
\<close>

theorem failed_blocks_commands:
  assumes "lc_exposure (ea_lifecycle s) = ExposureFailed"
  shows "fst (tryCommit nrm tok g c s) \<noteq> CommitCommitted \<and> snd (tryCommit nrm tok g c s) = s \<and>
    fst (tryCommitIfCurrent nrm tok sn g c admit s) \<noteq> CommitCommitted \<and>
    snd (tryCommitIfCurrent nrm tok sn g c admit s) = s \<and>
    fst (tryCommitAndFinalize nrm tok g c ok s) \<noteq> CommitCommitted \<and>
    snd (tryCommitAndFinalize nrm tok g c ok s) = s \<and>
    fst (stagePending nrm tok anchor g c s) \<noteq> StageStaged \<and> snd (stagePending nrm tok anchor g c s) = s \<and>
    fst (stagePendingAndFinalize nrm tok anchor g c ok s) \<noteq> StageStaged \<and>
    snd (stagePendingAndFinalize nrm tok anchor g c ok s) = s \<and>
    activatePendingIfDueAndFinalize nrm now sn fin s = (False, s) \<and>
    \<not> publishIfCurrent e epoch expose s"
  using assms failed_decisions [OF assms]
  by (simp add: commits_unchanged stages_unchanged activatePendingIfDueAndFinalize_def
      activatePendingIfDueAndFinalizeLocked_def publishIfCurrent_def split: option.split)

theorem failed_blocks_commands_witness:
  "lc_exposure (ea_lifecycle (failClosed (ex_committed 1))) = ExposureFailed \<and>
   fst (tryCommit (\<lambda>_. Fin 1) (ex_token 2) (Some ex_goal) (Some (Ptr 101 (ex_bundle_at 2 1000000000)))
     (failClosed (ex_committed 1))) \<noteq> CommitCommitted"
proof -
  have "lc_exposure (ea_lifecycle (failClosed (ex_committed 1))) = ExposureFailed"
    by (simp add: failClosed_def helper_defs ex_committed_def)
  with failed_blocks_commands [OF this] show ?thesis by blast
qed

text \<open>
  The ways out of a failed execution: a goal admission that does not retain the command
  (\<open>setAdmissionGoalEpoch\<close>, \<open>beginGoal\<close>), the reset of the admission (\<open>reset\<close>, \<open>clearGoal\<close>) and
  \<open>invalidate\<close>, which keeps the admitted goal epoch.
\<close>

definition rearms :: "ExecutionAuthority \<Rightarrow> ExecutionAuthority \<Rightarrow> bool" where
  "rearms s t \<longleftrightarrow> (\<exists>e. setAdmissionGoalEpoch e False s = (True, t)) \<or>
     (\<exists>l e r. beginGoal l e r s = (True, t)) \<or>
     (\<exists>l. t = authority_reset l s) \<or> t = authority_invalidate s"

text \<open>None of them carries a command over: what the rearmed store holds is its initial lifecycle.\<close>

definition emptied :: "ExecutionAuthority \<Rightarrow> bool" where
  "emptied t \<longleftrightarrow> ea_active_bundle t = None \<and> ea_active_goal t = None \<and> ea_staged_bundle t = None \<and>
     ea_staged_goal t = None \<and> ea_lifecycle t = initial_lifecycle"

lemma rearm_admission:
  assumes "lc_exposure (ea_lifecycle s) = ExposureFailed"
    and "lc_exposure (ea_lifecycle (snd (setAdmissionGoalEpoch e retain s))) \<noteq> ExposureFailed"
    and inv: "invariantHolds s"
  shows "rearms s (snd (setAdmissionGoalEpoch e retain s)) \<and> emptied (snd (setAdmissionGoalEpoch e retain s))"
proof -
  have "lc_exposure (ea_lifecycle (snd (setAdmissionGoalEpoch e retain s))) = ExposureFailed"
    if "retain \<or> e = 0 \<or> e < ea_admission_goal_epoch s"
    using that assms(1) by (auto simp: setAdmissionGoalEpoch_def helper_defs split: option.split)
  with assms(2) have r: "\<not> retain" "e \<noteq> 0" "\<not> e < ea_admission_goal_epoch s" by blast+
  then have "fst (setAdmissionGoalEpoch e False s)" by (simp add: setAdmissionGoalEpoch_def Let_def)
  then have "rearms s (snd (setAdmissionGoalEpoch e False s))"
    unfolding rearms_def by (metis prod.collapse)
  moreover have "emptied (snd (setAdmissionGoalEpoch e False s))"
    using r inv by (auto simp: setAdmissionGoalEpoch_def emptied_def invariantHolds_def helper_defs split: option.splits)
  ultimately show ?thesis using r(1) by simp
qed

lemma rearm_beginGoal:
  assumes "lc_exposure (ea_lifecycle s) = ExposureFailed"
    and "lc_exposure (ea_lifecycle (snd (beginGoal l e retain s))) \<noteq> ExposureFailed"
  shows "rearms s (snd (beginGoal l e retain s)) \<and> emptied (snd (beginGoal l e retain s))"
proof -
  have r: "fst (beginGoal l e retain s)" using assms by (auto simp: beginGoal_def Let_def split: if_splits)
  then have "rearms s (snd (beginGoal l e retain s))" unfolding rearms_def by (metis prod.collapse)
  moreover have "emptied (snd (beginGoal l e retain s))"
    using r assms(1) by (auto simp: beginGoal_def emptied_def helper_defs split: if_splits)
  ultimately show ?thesis ..
qed

lemma rearm_others:
  "rearms s (authority_reset l s)" "emptied (authority_reset l s)"
  "rearms s (authority_invalidate s)" "emptied (authority_invalidate s)"
  unfolding rearms_def
  by (auto simp: emptied_def authority_reset_def authority_invalidate_def helper_defs initial_lifecycle_def)

lemma failed_publish:
  assumes "pin_alive s0 s" "lc_exposure (ea_lifecycle s) = ExposureFailed"
  shows "lc_exposure (ea_lifecycle (snd (snd
    (publishWorldIdentityIfCurrentAndFinalizeRevocation nrm r aa ap s0 s)))) = ExposureFailed"
proof (cases "world_pin r s0")
  case (Inr pin)
  have "lc_exposure (ea_lifecycle (snd (snd (world_commit nrm r pin aa ap s)))) = ExposureFailed"
    by (rule world_commit_cases [OF assms(1) Inr, of nrm aa ap])
       (use assms(2) in \<open>auto simp: world_retired_def world_recertified_def helper_defs\<close>)
  with Inr assms(2) show ?thesis by (simp add: publishWorldIdentityIfCurrentAndFinalizeRevocation_def)
qed (use assms(2) in \<open>simp add: publishWorldIdentityIfCurrentAndFinalizeRevocation_def\<close>)

text \<open>
  C4. A failed execution stays failed under every operation of the store except a goal admission that does
  not retain the command, the reset of the admission, and \<open>invalidate\<close>; and these leave neither an active
  command nor a successor behind, in the initial lifecycle. In particular no retained command, sampled
  role, recovery event or world refresh resurrects a failed execution.
\<close>

theorem failed_is_sticky:
  assumes "authority.reachable nrm s" "authority_step nrm s t" "lc_exposure (ea_lifecycle s) = ExposureFailed"
  shows "lc_exposure (ea_lifecycle t) = ExposureFailed \<or> rearms s t \<and> emptied t"
proof -
  have inv: "invariantHolds s" using reachable_ok [OF assms(1)] by (rule authority_ok_invariantHolds)
  show ?thesis
    using assms(2,3) inv
  proof (induction rule: authority_step.induct)
    case (step_setAdmission s e retain)
    then show ?case using rearm_admission by blast
  next
    case (step_publishWorld s0 s r aa ap)
    then show ?case by (simp add: failed_publish)
  next
    case (step_beginGoal s l e retain)
    then show ?case using rearm_beginGoal by blast
  next
    case (step_invalidateIfCurrent s sn)
    then show ?case by (simp add: invalidateIfCurrent_def helper_defs)
  qed (auto simp: rearm_others failed_decisions commits_unchanged stages_unchanged clearGoal_def
      failClosed_def failClosedIfCurrentSnapshot_def suspendCommand_def observeRetainedCommand_def
      observeSampledSafetyRole_def preserveSafetySuffix_def requestRestartFromRest_def clearRestartFromRest_def
      applyRecoveryEvent_def stoppedHold_def suspendIfCurrentSnapshot_def activatePendingIfDueAndFinalize_def
      activatePendingIfDueAndFinalizeLocked_def helper_defs)
qed

theorem failed_is_sticky_witness:
  "authority.reachable (\<lambda>_. Fin 1) (failClosed (ex_committed 1)) \<and>
   lc_exposure (ea_lifecycle (failClosed (ex_committed 1))) = ExposureFailed \<and>
   lc_exposure (ea_lifecycle (suspendCommand (failClosed (ex_committed 1)))) = ExposureFailed"
proof -
  have f: "lc_exposure (ea_lifecycle (failClosed (ex_committed 1))) = ExposureFailed"
    by (simp add: failClosed_def helper_defs ex_committed_def)
  have r: "authority.reachable (\<lambda>_. Fin 1) (failClosed (ex_committed 1))"
    using authority.reach_step [OF ex_committed_reachable [OF one_neq_zero] step_failClosed] .
  have "\<not> emptied (suspendCommand (failClosed (ex_committed 1)))"
    by (simp add: emptied_def suspendCommand_def failClosed_def helper_defs ex_committed_def)
  with failed_is_sticky [OF r step_suspend f] f r show ?thesis by blast
qed

section \<open>Transactions\<close>

lemma transaction_commits:
  "ea_last_transaction_id s \<le> ea_last_transaction_id (snd (tryCommit nrm tok g c s))"
  "ea_last_transaction_id s \<le> ea_last_transaction_id (snd (tryCommitIfCurrent nrm tok sn g c admit s))"
  "ea_last_transaction_id s \<le> ea_last_transaction_id (snd (tryCommitAndFinalize nrm tok g c ok s))"
proof (atomize (full), cases "commit_decision nrm tok g c s = CommitCommitted")
  case True
  with commit_decision_Committed [OF True]
  show "ea_last_transaction_id s \<le> ea_last_transaction_id (snd (tryCommit nrm tok g c s)) \<and>
    ea_last_transaction_id s \<le> ea_last_transaction_id (snd (tryCommitIfCurrent nrm tok sn g c admit s)) \<and>
    ea_last_transaction_id s \<le> ea_last_transaction_id (snd (tryCommitAndFinalize nrm tok g c ok s))"
    by (auto simp: tryCommit_def tryCommitIfCurrent_def tryCommitAndFinalize_def commit_install_def helper_defs)
qed (simp add: commits_unchanged)

lemma transaction_stages:
  "ea_last_transaction_id s \<le> ea_last_transaction_id (snd (stagePending nrm tok anchor g c s))"
  "ea_last_transaction_id s \<le> ea_last_transaction_id (snd (stagePendingAndFinalize nrm tok anchor g c ok s))"
proof (atomize (full), cases "stage_decision nrm tok anchor g c s = StageStaged")
  case True
  with stage_decision_Staged [OF True]
  show "ea_last_transaction_id s \<le> ea_last_transaction_id (snd (stagePending nrm tok anchor g c s)) \<and>
    ea_last_transaction_id s \<le> ea_last_transaction_id (snd (stagePendingAndFinalize nrm tok anchor g c ok s))"
    by (auto simp: stagePending_def stagePendingAndFinalize_def stage_install_def helper_defs)
qed (simp add: stages_unchanged)

lemma step_transaction: "authority_step nrm s t \<Longrightarrow> ea_last_transaction_id s \<le> ea_last_transaction_id t"
proof (induction rule: authority_step.induct)
  case (step_publishWorld s0 s r aa ap)
  then show ?case
    by (auto simp: publishWorldIdentityIfCurrentAndFinalizeRevocation_def world_commit_def helper_defs
        split: sum.split option.split)
next
  case (step_activate s now sn fin)
  then show ?case
    by (simp add: activatePendingIfDueAndFinalize_def activatePendingIfDueAndFinalizeLocked_def helper_defs
        split: option.split)
next
  case (step_setAdmission s e retain)
  then show ?case by (simp add: setAdmissionGoalEpoch_def helper_defs split: option.split)
qed (simp_all add: transaction_commits transaction_stages clearGoal_def failClosed_def
    failClosedIfCurrentSnapshot_def suspendCommand_def observeRetainedCommand_def observeSampledSafetyRole_def preserveSafetySuffix_def requestRestartFromRest_def
    clearRestartFromRest_def applyRecoveryEvent_def stoppedHold_def suspendIfCurrentSnapshot_def beginGoal_def
    authority_reset_def authority_invalidate_def invalidateIfCurrent_def helper_defs)

lemma run_transaction: "authority.run nrm n s t \<Longrightarrow> ea_last_transaction_id s \<le> ea_last_transaction_id t"
  using authority.run_relation [of "\<lambda>s t. ea_last_transaction_id s \<le> ea_last_transaction_id t" "\<lambda>_. True" nrm n s t]
    step_transaction by (auto intro: order.trans)

lemma commit_decision_None: "commit_decision nrm tok g None s = CommitInvalidCandidate"
  by (simp add: commit_decision_def)

text \<open>Every operation that succeeds with a token records its transaction.\<close>

lemma transaction_recorded:
  "tryCommit nrm tok g c s = (CommitCommitted, s1) \<Longrightarrow> ea_last_transaction_id s1 = tok_transaction_id tok"
  "tryCommitIfCurrent nrm tok sn g c admit s = (CommitCommitted, s1) \<Longrightarrow>
     ea_last_transaction_id s1 = tok_transaction_id tok"
  "tryCommitAndFinalize nrm tok g c fin s = (CommitCommitted, s1) \<Longrightarrow>
     ea_last_transaction_id s1 = tok_transaction_id tok"
  "stagePending nrm tok anchor g c s = (StageStaged, s1) \<Longrightarrow> ea_last_transaction_id s1 = tok_transaction_id tok"
  "stagePendingAndFinalize nrm tok anchor g c fin s = (StageStaged, s1) \<Longrightarrow>
     ea_last_transaction_id s1 = tok_transaction_id tok"
  by (auto simp: tryCommit_def tryCommitIfCurrent_def tryCommitAndFinalize_def stagePending_def
      stagePendingAndFinalize_def commit_install_def stage_install_def helper_defs commit_decision_None
      split: CommitDecision.splits StageDecision.splits option.splits if_splits)

text \<open>
  C11. A transaction is consumed once: after any commit (\<open>tryCommit\<close>, \<open>tryCommitIfCurrent\<close>,
  \<open>tryCommitAndFinalize\<close>) or staging (\<open>stagePending\<close>, \<open>stagePendingAndFinalize\<close>) that succeeds, however many
  operations run in between, no later commit or staging with the same or an older transaction id succeeds.
\<close>

theorem transaction_never_replayed:
  assumes "tryCommit nrm tok g c s = (CommitCommitted, s1) \<or>
      tryCommitIfCurrent nrm tok sn0 g c admit0 s = (CommitCommitted, s1) \<or>
      tryCommitAndFinalize nrm tok g c ok0 s = (CommitCommitted, s1) \<or>
      stagePending nrm tok anchor0 g c s = (StageStaged, s1) \<or>
      stagePendingAndFinalize nrm tok anchor0 g c ok0 s = (StageStaged, s1)"
    and "authority.run nrm n s1 t" "tok_transaction_id tok' \<le> tok_transaction_id tok"
  shows "fst (tryCommit nrm tok' g' c' t) \<noteq> CommitCommitted \<and>
    fst (tryCommitIfCurrent nrm tok' sn g' c' admit t) \<noteq> CommitCommitted \<and>
    fst (tryCommitAndFinalize nrm tok' g' c' ok t) \<noteq> CommitCommitted \<and>
    fst (stagePending nrm tok' anchor g' c' t) \<noteq> StageStaged \<and>
    fst (stagePendingAndFinalize nrm tok' anchor g' c' ok t) \<noteq> StageStaged"
proof -
  have "ea_last_transaction_id s1 = tok_transaction_id tok"
    using assms(1) by (elim disjE) (rule transaction_recorded, assumption)+
  then have "tok_transaction_id tok' \<le> ea_last_transaction_id t"
    using run_transaction [OF assms(2)] assms(3) by simp
  then have "commit_decision nrm tok' g' c' t \<noteq> CommitCommitted" "stage_decision nrm tok' anchor g' c' t \<noteq> StageStaged"
    using commit_decision_Committed [of nrm tok' g' c' t] stage_decision_Staged [of nrm tok' anchor g' c' t]
    by (meson leD)+
  then show ?thesis by (simp add: commits_unchanged stages_unchanged)
qed

lemma ex_commitIfCurrent:
  assumes "g \<noteq> 0"
  shows "tryCommitIfCurrent nrm (ex_token 1) (authority_snapshot ex_published) (Some ex_goal)
     (Some (Ptr 100 (ex_bundle_at g 1000000000))) True ex_published = (CommitCommitted, ex_committed g)"
proof -
  have d: "commit_decision nrm (ex_token 1) (Some ex_goal) (Some (Ptr 100 (ex_bundle_at g 1000000000))) ex_published =
      CommitCommitted"
    using ex_commit [OF assms, of nrm] by (auto simp: tryCommit_def split: CommitDecision.splits)
  then have "bumpLineage (commit_install (ex_token 1) (Some ex_goal) (Ptr 100 (ex_bundle_at g 1000000000)) ex_published) =
      ex_committed g"
    using ex_commit [OF assms, of nrm] by (simp add: tryCommit_def)
  then show ?thesis using d by (simp add: tryCommitIfCurrent_def authority_snapshot_def)
qed

theorem transaction_never_replayed_witness:
  "tryCommitIfCurrent (\<lambda>_. Fin 1) (ex_token 1) (authority_snapshot ex_published) (Some ex_goal)
     (Some (Ptr 100 (ex_bundle_at 1 1000000000))) True ex_published = (CommitCommitted, ex_committed 1) \<and>
   fst (tryCommit (\<lambda>_. Fin 1) (ex_token 1) (Some ex_goal) (Some (Ptr 101 (ex_bundle_at 2 1000000000))) (ex_committed 1))
     \<noteq> CommitCommitted"
  using transaction_never_replayed [OF disjI2 [OF disjI1 [OF ex_commitIfCurrent [of 1 "\<lambda>_. Fin 1"]]] authority.run_refl,
      of "ex_token 1"] ex_commitIfCurrent [of 1 "\<lambda>_. Fin 1"] by simp



definition rolled_back :: "ExecutionAuthority \<Rightarrow> ExecutionAuthority" where
  "rolled_back s = s\<lparr>ea_timeline_version := ea_timeline_version s + 2\<rparr>"

text \<open>
  A commit or a staging whose finalizer refuses is undone exactly: only the timeline version differs
  afterwards, so that optimistic readers notice that something happened in between.
\<close>

theorem finalization_rollback:
  "snd (tryCommitAndFinalize nrm tok g c False s) =
     (if commit_decision nrm tok g c s = CommitCommitted then rolled_back s else s) \<and>
   fst (tryCommitAndFinalize nrm tok g c False s) \<noteq> CommitCommitted \<and>
   snd (stagePendingAndFinalize nrm tok anchor g c False s) =
     (if stage_decision nrm tok anchor g c s = StageStaged then rolled_back s else s) \<and>
   fst (stagePendingAndFinalize nrm tok anchor g c False s) \<noteq> StageStaged"
proof (cases s)
  case (fields a b tv lv lt w ag ab sg sb sa lc)
  have "tryCommitAndFinalize nrm tok g c False s = (CommitFinalizationFailed, rolled_back s)"
    if "commit_decision nrm tok g c s = CommitCommitted"
  proof -
    from commit_decision_Committed [OF that] obtain p where "c = Some p" by blast
    then show ?thesis using that
      by (simp add: tryCommitAndFinalize_def commit_install_def helper_defs rolled_back_def)
  qed
  moreover have "stagePendingAndFinalize nrm tok anchor g c False s = (StageFinalizationFailed, rolled_back s)"
    if "stage_decision nrm tok anchor g c s = StageStaged"
    using that by (simp add: stagePendingAndFinalize_def stage_install_def helper_defs rolled_back_def fields)
  ultimately show ?thesis
    by (cases "commit_decision nrm tok g c s = CommitCommitted";
        cases "stage_decision nrm tok anchor g c s = StageStaged")
       (simp_all add: commits_unchanged stages_unchanged)
qed

section \<open>World publication\<close>

lemma publish_cases:
  fixes nrm r aa ap s s0
  defines "res \<equiv> publishWorldIdentityIfCurrentAndFinalizeRevocation nrm r aa ap s0 s"
  assumes "pin_alive s0 s"
  obtains (unchanged) d where "res = (d, False, s)" "d \<noteq> WorldCommitted"
  | (rejected) "res = (WorldCandidateRejected, True, bumpTimeline (clearStagedLocked (retireActiveLocked s)))"
      "ea_active_bundle s \<noteq> None"
  | (retired) rv where "res = (WorldCommitted, rv, world_retired r s)"
      "\<And>w. ea_world_identity s = Some w \<Longrightarrow> advances w (wr_identity r)"
  | (recertified) a p fresh where "res = (WorldCommitted, False, world_recertified r p fresh s)"
      "ea_active_bundle s = Some a"
      "prepareRecertification nrm aa (deref a) (wr_identity r) (wr_refreshed_valid_until_ns r) = Some p"
      "\<And>w. ea_world_identity s = Some w \<Longrightarrow> advances w (wr_identity r)"
proof (cases "world_request_wellformed (wr_identity r)")
  case True
  show ?thesis
  proof (cases "world_pin r s0")
    case (Inl d)
    then have "d \<noteq> WorldCommitted" by (auto simp: world_pin_def split: if_splits option.splits)
    with True Inl show ?thesis
      by (intro unchanged [of d]) (simp_all add: res_def publishWorldIdentityIfCurrentAndFinalizeRevocation_def)
  next
    case (Inr pin)
    then have r: "res = world_commit nrm r pin aa ap s"
      using True by (simp add: res_def publishWorldIdentityIfCurrentAndFinalizeRevocation_def)
    show ?thesis
      by (rule world_commit_cases [OF assms(2) Inr, of nrm aa ap])
         (rule unchanged rejected retired recertified; (simp add: r; fail)?; assumption?; blast?)+
  qed
next
  case False
  then show ?thesis
    by (intro unchanged [of WorldCandidateRejected])
       (simp_all add: res_def publishWorldIdentityIfCurrentAndFinalizeRevocation_def)
qed

lemma publish_world:
  assumes "pin_alive s0 s" "publishWorldIdentityIfCurrentAndFinalizeRevocation nrm r aa ap s0 s = (d, rv, t)"
  shows "d \<noteq> WorldCommitted \<and> ea_world_identity t = ea_world_identity s \<or>
    d = WorldCommitted \<and> ea_world_identity t = Some (wr_identity r) \<and>
    (\<forall>w. ea_world_identity s = Some w \<longrightarrow> advances w (wr_identity r))"
  using publish_cases [OF assms(1), of nrm r aa ap]
  by cases (use assms(2) in \<open>auto simp: world_retired_def world_recertified_def helper_defs\<close>)

text \<open>Only a committed world publication changes the published identity.\<close>

lemma step_world_kept:
  "authority_step nrm s t \<Longrightarrow> ea_world_identity t = ea_world_identity s \<or>
     (\<exists>s0 r aa ap revoked. pin_alive s0 s \<and> ea_world_identity t = Some (wr_identity r) \<and>
        (\<forall>w. ea_world_identity s = Some w \<longrightarrow> advances w (wr_identity r)) \<and>
        publishWorldIdentityIfCurrentAndFinalizeRevocation nrm r aa ap s0 s = (WorldCommitted, revoked, t))"
proof (induction rule: authority_step.induct)
  case (step_publishWorld s0 s r aa ap)
  obtain d rv t where res: "publishWorldIdentityIfCurrentAndFinalizeRevocation nrm r aa ap s0 s = (d, rv, t)"
    by (metis prod_cases3)
  show ?case using publish_world [OF step_publishWorld res] step_publishWorld res by (metis snd_conv)
next
  case (step_activate s now sn fin)
  then show ?case
    by (simp add: activatePendingIfDueAndFinalize_def activatePendingIfDueAndFinalizeLocked_def helper_defs
        split: option.split)
next
  case (step_setAdmission s e retain)
  then show ?case by (simp add: setAdmissionGoalEpoch_def helper_defs split: option.split)
qed (simp_all add: tryCommit_def tryCommitIfCurrent_def tryCommitAndFinalize_def commit_install_def
    stagePending_def stagePendingAndFinalize_def stage_install_def clearGoal_def failClosed_def
    failClosedIfCurrentSnapshot_def suspendCommand_def observeRetainedCommand_def observeSampledSafetyRole_def
    preserveSafetySuffix_def requestRestartFromRest_def clearRestartFromRest_def applyRecoveryEvent_def
    stoppedHold_def suspendIfCurrentSnapshot_def beginGoal_def authority_reset_def authority_invalidate_def
    invalidateIfCurrent_def helper_defs split: CommitDecision.split StageDecision.split option.split)

interpretation world_publisher: monotone_publisher "\<lambda>s. s = initial_authority" "authority_step nrm" advances ea_world_identity
  for nrm
  by unfold_locales (drule step_world_kept, auto simp: world_order.reaches_def split: option.splits)

text \<open>
  The published world only moves forward: after any interleaving of operations the identity is the
  same one or one that advances it, and a published world is never withdrawn.
\<close>

theorem world_identity_only_advances:
  assumes "authority.run nrm n s t" "ea_world_identity s = Some w"
  shows "\<exists>w'. ea_world_identity t = Some w' \<and> (w' = w \<or> advances w w') \<and> \<not> advances w' w"
proof -
  have "world_order.reaches (ea_world_identity s) (ea_world_identity t)" using world_publisher.run_reaches [OF assms(1)] .
  with assms(2) show ?thesis
    using world_order.adv_asym world_order.adv_irrefl by (auto simp: world_order.reaches_def split: option.splits)
qed

theorem world_identity_only_advances_witness:
  "authority.run (\<lambda>_. Fin 1) 1 ex_published (ex_committed 1) \<and> ea_world_identity ex_published = Some ex_world \<and>
   (\<exists>w'. ea_world_identity (ex_committed 1) = Some w' \<and> \<not> advances w' ex_world)"
proof -
  have "ea_world_identity ex_published = Some ex_world" by (simp add: ex_published_def)
  with world_identity_only_advances [OF ex_run_commit [of 1 "\<lambda>_. Fin 1"] this] ex_run_commit [of 1 "\<lambda>_. Fin 1"]
  show ?thesis by auto
qed

text \<open>
  A world refresh that was pinned before any other change of the store is a no-op when it commits:
  it neither installs its world nor revokes the command that won the race.
\<close>

theorem stale_world_publication_noop:
  assumes "authority.run nrm n s0 s" "n < 2 ^ 63" "s \<noteq> s0"
  shows "\<exists>d. publishWorldIdentityIfCurrentAndFinalizeRevocation nrm r aa ap s0 s = (d, False, s) \<and> d \<noteq> WorldCommitted"
proof (cases "world_request_wellformed (wr_identity r)")
  case True
  have v: "ea_timeline_version s \<noteq> ea_timeline_version s0"
    using authority.version_identifies_view [OF assms(1)] assms(2,3) by auto
  show ?thesis
  proof (cases "world_pin r s0")
    case (Inl d)
    then have "d \<noteq> WorldCommitted" by (auto simp: world_pin_def split: if_splits option.splits)
    with True Inl show ?thesis by (simp add: publishWorldIdentityIfCurrentAndFinalizeRevocation_def)
  next
    case (Inr pin)
    with world_pin_Inr [OF Inr] v True show ?thesis
      by (simp add: publishWorldIdentityIfCurrentAndFinalizeRevocation_def world_commit_def Let_def)
  qed
qed (simp add: publishWorldIdentityIfCurrentAndFinalizeRevocation_def)

theorem stale_world_publication_noop_witness:
  "authority.run (\<lambda>_. Fin 1) 1 ex_published (ex_committed 1) \<and> ex_committed 1 \<noteq> ex_published \<and>
   (\<exists>d. publishWorldIdentityIfCurrentAndFinalizeRevocation (\<lambda>_. Fin 1)
      (ex_request\<lparr>wr_expected_timeline_version := 2\<rparr>) None None ex_published (ex_committed 1) =
      (d, False, ex_committed 1) \<and> d \<noteq> WorldCommitted)"
proof -
  have ne: "ex_committed 1 \<noteq> ex_published" by (simp add: ex_committed_def ex_published_def)
  have "(1 :: nat) < 2 ^ 63" by simp
  from stale_world_publication_noop [OF ex_run_commit [OF one_neq_zero, of "\<lambda>_. Fin 1"] this ne] ne
    ex_run_commit [OF one_neq_zero, of "\<lambda>_. Fin 1"] show ?thesis by blast
qed

text \<open>
  The caller asks to keep the exact active bundle, under the certificate it has for the world the bundle is
  bound to.
\<close>

definition retains_active :: "WorldRequest \<Rightarrow> ExecutionAuthority \<Rightarrow> CandidateBundle ptr \<Rightarrow> bool" where
  "retains_active r s a \<longleftrightarrow> wr_retain_validated_bundle r \<and> ea_active_bundle s = Some a \<and>
     (\<exists>e. wr_expected_bundle r = Some e \<and> addr e = addr a) \<and>
     ea_world_identity s = Some (cb_world_identity (deref a))"

lemma publish_retains:
  assumes "pin_alive s0 s" "retains_active r s a"
    and "publishWorldIdentityIfCurrentAndFinalizeRevocation nrm r aa ap s0 s = (d, rv, t)"
  defines "p \<equiv> prepareRecertification nrm aa (deref a) (wr_identity r) (wr_refreshed_valid_until_ns r)"
  shows "(d = WorldCommitted \<longrightarrow> p \<noteq> None \<and> ea_active_bundle t = p \<and> \<not> rv) \<and>
    (p = None \<longrightarrow> d \<noteq> WorldCommitted \<and> ea_world_identity t = ea_world_identity s \<and>
       (t = s \<and> \<not> rv \<or> d = WorldCandidateRejected \<and> rv \<and> ea_active_bundle t = None \<and>
          ea_lifecycle t = failed_lifecycle))"
proof (cases "world_request_wellformed (wr_identity r)")
  case True
  show ?thesis
  proof (cases "world_pin r s0")
    case (Inl d')
    then have "d' \<noteq> WorldCommitted" by (auto simp: world_pin_def split: if_splits option.splits)
    with True Inl assms(3) show ?thesis by (auto simp: publishWorldIdentityIfCurrentAndFinalizeRevocation_def)
  next
    case (Inr pin)
    then have c: "world_commit nrm r pin aa ap s = (d, rv, t)"
      using True assms(3) by (simp add: publishWorldIdentityIfCurrentAndFinalizeRevocation_def)
    let ?stale = "ea_timeline_version s \<noteq> wr_expected_timeline_version r \<or>
            \<not> same_ptr (ea_active_bundle s) (wp_observed_active pin) \<or>
            \<not> same_ptr (ea_staged_bundle s) (wp_observed_pending pin) \<or>
            ea_world_identity s \<noteq> wp_prior_world pin"
    show ?thesis
    proof (cases ?stale)
      case True
      with c show ?thesis by (auto simp: world_commit_def)
    next
      case False
      then have obs: "wp_observed_active pin = Some a" "ea_active_bundle s = Some a" "wp_prior_world pin = Some (cb_world_identity (deref a))"
        using assms(1,2) world_pin_Inr [OF Inr] by (auto simp: pin_alive_def retains_active_def)
      have own: "exact_active_owner r pin" "prepare_active r pin"
        using assms(2) obs by (auto simp: prepare_active_def exact_active_owner_def retains_active_def)
      then have p: "recertified_active nrm r pin aa = p" "active_preparation_failed nrm r pin aa \<longleftrightarrow> p = None"
        using obs by (simp_all add: recertified_active_def active_preparation_failed_def p_def)
      show ?thesis
        using c False own p obs(2) unfolding world_commit_def Let_def
        by (auto simp: helper_defs failed_lifecycle_def split: if_splits option.splits)
    qed
  qed
qed (use assms(3) in \<open>auto simp: publishWorldIdentityIfCurrentAndFinalizeRevocation_def\<close>)

text \<open>
  C3. A committed world refresh leaves no command bound to the old world. Either the exact active bundle
  is recertified (it differs in its world identity and the end of its lease only, is valid, and the
  lease does not pass the declared end of the trajectory nor the refreshed bound), or there is no
  command left, no successor, and execution has failed closed if a command was revoked. When the caller
  retains the active bundle, a commit means that the bundle was recertified and its recertified copy is
  the active one; if the copy could not be prepared, the world is not consumed: the publication is
  refused with the old world in place, and either nothing has changed or the command is revoked and
  execution has failed closed.
\<close>

theorem world_publication_outcome:
  assumes "pin_alive s0 s"
    and "publishWorldIdentityIfCurrentAndFinalizeRevocation nrm r aa ap s0 s = (d, revoked, t)"
  shows "(d = WorldCommitted \<longrightarrow> ea_world_identity t = Some (wr_identity r)) \<and>
    (d \<noteq> WorldCommitted \<longrightarrow> ea_world_identity t = ea_world_identity s) \<and>
    (t = s \<or> ea_active_bundle t = None \<and> ea_staged_bundle t = None \<and>
       (ea_active_bundle s \<noteq> None \<longrightarrow> ea_lifecycle t = failed_lifecycle) \<or>
     d = WorldCommitted \<and> ea_lifecycle t = ea_lifecycle s \<and>
     (\<exists>a p u. ea_active_bundle s = Some a \<and> ea_active_bundle t = Some p \<and> bundle_valid nrm (deref p) \<and>
        deref p = (deref a)\<lparr>cb_world_identity := wr_identity r, cb_valid_until_ns := u\<rparr> \<and>
        (u = cb_valid_until_ns (deref a) \<or> u \<le> wr_refreshed_valid_until_ns r \<and> u \<le> cb_declared_end_ns (deref a)))) \<and>
    (revoked \<longrightarrow> ea_active_bundle t = None) \<and>
    (\<forall>a. retains_active r s a \<longrightarrow>
      (let p = prepareRecertification nrm aa (deref a) (wr_identity r) (wr_refreshed_valid_until_ns r)
       in (d = WorldCommitted \<longrightarrow> p \<noteq> None \<and> ea_active_bundle t = p \<and> \<not> revoked) \<and>
          (p = None \<longrightarrow> d \<noteq> WorldCommitted \<and> ea_world_identity t = ea_world_identity s \<and>
             (t = s \<and> \<not> revoked \<or> d = WorldCandidateRejected \<and> revoked \<and> ea_active_bundle t = None \<and>
                ea_lifecycle t = failed_lifecycle))))"
    (is "?a \<and> ?b \<and> ?c \<and> ?d \<and> _")
proof -
  have "?a \<and> ?b \<and> ?c \<and> ?d"
    using publish_cases [OF assms(1), of nrm r aa ap]
  proof cases
    case (4 a p fresh)
    with assms(2) have eqs: "d = WorldCommitted" "revoked = False" "t = world_recertified r p fresh s" by auto
    have "ea_world_identity t = Some (wr_identity r)" "ea_lifecycle t = ea_lifecycle s" "ea_active_bundle t = Some p"
      by (simp_all add: eqs world_recertified_def helper_defs)
    with eqs 4(2) prepareRecertification_Some [OF 4(3)] show ?thesis by blast
  qed (use assms(2) in \<open>auto simp: world_retired_def helper_defs failed_lifecycle_def\<close>)
  then show ?thesis using publish_retains [OF assms(1) _ assms(2)] unfolding Let_def by blast
qed

definition ex_world2 :: WorldSnapshotIdentity where
  "ex_world2 = ex_world\<lparr>wid_revision := 2, wid_observation_stamp_ns := 6\<rparr>"

definition ex_refresh :: WorldRequest where
  "ex_refresh = \<lparr>wr_identity = ex_world2, wr_expected_timeline_version = 3,
     wr_expected_bundle = Some (Ptr 100 (ex_bundle_at 1 1000000000)), wr_retain_validated_bundle = True,
     wr_refreshed_valid_until_ns = 0, wr_expected_pending = None, wr_retain_validated_pending = False\<rparr>"

lemma ex_refresh_prepares:
  "prepareRecertification nrm (Some 200) (ex_bundle_at 1 1000000000) ex_world2 0 =
     Some (Ptr 200 ((ex_bundle_at 1 1000000000)\<lparr>cb_world_identity := ex_world2\<rparr>))"
proof -
  have "bundle_valid nrm (ex_bundle_at 1 1000000000)" by (rule ex_bundle_at_valid) simp_all
  then have "bundle_valid nrm ((ex_bundle_at 1 1000000000)\<lparr>cb_world_identity := ex_world2\<rparr>)"
    by (simp add: bundle_valid_def kind_contract_def terminal_stop_contract_def endpoint_metadata_consistent_def
        roleScheduleValid_def world_identity_bound_def ex_world_def ex_world2_def split: if_splits)
  then show ?thesis by (simp add: prepareRecertification_def)
qed

lemma ex_refresh_commits:
  "\<exists>t. publishWorldIdentityIfCurrentAndFinalizeRevocation nrm ex_refresh (Some 200) None
     (ex_committed 1) (ex_committed 1) = (WorldCommitted, False, t)"
  "\<exists>t. publishWorldIdentityIfCurrentAndFinalizeRevocation nrm ex_refresh None None
     (ex_committed 1) (ex_committed 1) = (WorldCandidateRejected, True, t)"
proof -
  let ?pin = "\<lparr>wp_prior_world = Some ex_world, wp_observed_active = Some (Ptr 100 (ex_bundle_at 1 1000000000)),
      wp_observed_pending = None\<rparr>"
  have w: "world_request_wellformed (wr_identity ex_refresh)" "advances ex_world (wr_identity ex_refresh)"
    by (simp_all add: world_request_wellformed_def ex_refresh_def ex_world2_def ex_world_def advances_def)
  have pin: "world_pin ex_refresh (ex_committed 1) = Inr ?pin"
    using w(2) by (simp add: world_pin_def ex_committed_def) (simp add: ex_refresh_def)
  have o: "exact_active_owner ex_refresh ?pin" "prepare_active ex_refresh ?pin"
    by (simp_all add: exact_active_owner_def prepare_active_def ex_refresh_def)
  have f: "recertified_active nrm ex_refresh ?pin aa =
      prepareRecertification nrm aa (ex_bundle_at 1 1000000000) ex_world2 0" for aa
    using o(2) by (simp add: recertified_active_def) (simp add: ex_refresh_def)
  have g: "active_preparation_failed nrm ex_refresh ?pin None" "\<not> active_preparation_failed nrm ex_refresh ?pin (Some 200)"
    using o(2) by (simp_all add: active_preparation_failed_def f ex_refresh_prepares)
       (simp add: prepareRecertification_def)
  have v: "wr_expected_timeline_version ex_refresh = 3" by (simp add: ex_refresh_def)
  show "\<exists>t. publishWorldIdentityIfCurrentAndFinalizeRevocation nrm ex_refresh (Some 200) None
     (ex_committed 1) (ex_committed 1) = (WorldCommitted, False, t)"
    "\<exists>t. publishWorldIdentityIfCurrentAndFinalizeRevocation nrm ex_refresh None None
     (ex_committed 1) (ex_committed 1) = (WorldCandidateRejected, True, t)"
    using w pin o g v
    by (simp_all add: publishWorldIdentityIfCurrentAndFinalizeRevocation_def world_commit_def Let_def ex_committed_def)
qed

theorem world_publication_outcome_witness:
  "retains_active ex_refresh (ex_committed 1) (Ptr 100 (ex_bundle_at 1 1000000000)) \<and>
   (\<exists>t. publishWorldIdentityIfCurrentAndFinalizeRevocation (\<lambda>_. Fin 1) ex_refresh (Some 200) None
       (ex_committed 1) (ex_committed 1) = (WorldCommitted, False, t) \<and> ea_world_identity t = Some ex_world2 \<and>
     ea_active_bundle t = Some (Ptr 200 ((ex_bundle_at 1 1000000000)\<lparr>cb_world_identity := ex_world2\<rparr>))) \<and>
   (\<exists>t. publishWorldIdentityIfCurrentAndFinalizeRevocation (\<lambda>_. Fin 1) ex_refresh None None
       (ex_committed 1) (ex_committed 1) = (WorldCandidateRejected, True, t) \<and>
     ea_world_identity t = Some ex_world \<and> ea_active_bundle t = None \<and> ea_lifecycle t = failed_lifecycle)"
proof -
  have p: "pin_alive (ex_committed 1) (ex_committed 1)" by (simp add: pin_alive_def)
  have r: "retains_active ex_refresh (ex_committed 1) (Ptr 100 (ex_bundle_at 1 1000000000))"
    by (simp add: retains_active_def ex_refresh_def ex_committed_def)
  from ex_refresh_commits obtain t u where
    t: "publishWorldIdentityIfCurrentAndFinalizeRevocation (\<lambda>_. Fin 1) ex_refresh (Some 200) None
       (ex_committed 1) (ex_committed 1) = (WorldCommitted, False, t)" and
    u: "publishWorldIdentityIfCurrentAndFinalizeRevocation (\<lambda>_. Fin 1) ex_refresh None None
       (ex_committed 1) (ex_committed 1) = (WorldCandidateRejected, True, u)" by blast
  have n: "prepareRecertification (\<lambda>_. Fin 1) None (ex_bundle_at 1 1000000000) ex_world2 0 = None"
    "wr_identity ex_refresh = ex_world2" "wr_refreshed_valid_until_ns ex_refresh = 0"
    "ea_world_identity (ex_committed 1) = Some ex_world"
    by (simp_all add: prepareRecertification_def ex_refresh_def ex_committed_def)
  show ?thesis
    using r t u n ex_refresh_prepares [of "\<lambda>_. Fin 1"]
      world_publication_outcome [OF p t, THEN conjunct1]
      world_publication_outcome [OF p t, THEN conjunct2, THEN conjunct2, THEN conjunct2, THEN conjunct2,
        THEN spec, THEN mp, OF r]
      world_publication_outcome [OF p u, THEN conjunct2, THEN conjunct2, THEN conjunct2, THEN conjunct2,
        THEN spec, THEN mp, OF r]
    by (auto simp: Let_def)
qed

section \<open>Exposure, activation and anchors\<close>

text \<open>
  C2. \<open>publishIfCurrent\<close> runs the exposure callback and succeeds exactly when the offered bundle is the
  active one, of the requested goal epoch, in an available lifecycle that the callback accepts; and then
  the bundle is valid and bound to the current world. (The hypothesis on addresses is that of two live
  shared pointers. Readers that load a snapshot pass through no such test; the sampler's own tests are
  in \<open>Command_Sampling\<close>.)
\<close>

theorem exposed_command_is_current:
  assumes "authority.reachable nrm s"
    and "\<And>a. ea_active_bundle s = Some a \<Longrightarrow> addr a = addr e \<Longrightarrow> a = e"
  shows "(publishIfCurrent (Some e) epoch expose s \<longleftrightarrow>
      ea_active_bundle s = Some e \<and> cb_goal_epoch (deref e) = epoch \<and>
      lc_exposure (ea_lifecycle s) = ExposureAvailable \<and> expose (ea_lifecycle s)) \<and>
    (publishIfCurrent (Some e) epoch expose s \<longrightarrow>
      bundle_valid nrm (deref e) \<and> ea_world_identity s = Some (cb_world_identity (deref e)))"
proof -
  have "active_ok nrm s" using reachable_ok [OF assms(1)] by (simp add: authority_ok_def)
  with assms(2) show ?thesis
    by (auto simp: publishIfCurrent_def active_ok_def split: option.splits if_splits)
qed

theorem exposed_command_is_current_witness:
  "authority.reachable (\<lambda>_. Fin 1) (ex_committed 1) \<and>
   publishIfCurrent (Some (Ptr 100 (ex_bundle_at 1 1000000000))) 1 (\<lambda>_. True) (ex_committed 1) \<and>
   bundle_valid (\<lambda>_. Fin 1) (ex_bundle_at 1 1000000000)"
proof -
  have p: "publishIfCurrent (Some (Ptr 100 (ex_bundle_at 1 1000000000))) 1 (\<lambda>_. True) (ex_committed 1)"
    by (simp add: publishIfCurrent_def ex_committed_def)
  have "\<And>a. ea_active_bundle (ex_committed 1) = Some a \<Longrightarrow> addr a = addr (Ptr 100 (ex_bundle_at 1 1000000000)) \<Longrightarrow>
      a = Ptr 100 (ex_bundle_at 1 1000000000)" by (simp add: ex_committed_def)
  from exposed_command_is_current [OF ex_committed_reachable [of 1 "\<lambda>_. Fin 1"] this, of 1 "\<lambda>_. True"] p
    ex_committed_reachable [of 1 "\<lambda>_. Fin 1"] show ?thesis by simp
qed

text \<open>
  C9. Whenever the lineage of the active command changes, the staged successor is gone: a successor can
  only replace the predecessor its anchor was sampled from.
\<close>

theorem lineage_change_drops_successor:
  assumes "authority.reachable nrm s" "authority_step nrm s t" "ea_staged_bundle t \<noteq> None"
  shows "ea_active_lineage_version t = ea_active_lineage_version s \<and> active_core t = active_core s"
  using step_lineage [OF assms(2) reachable_ok [OF assms(1)]] assms(3) by (auto simp: lineage_kept_def)

text \<open>
  C7. An anchor is sampled from the command that was active when it was reserved. If a successor built on
  it is accepted later, after any interleaving of other operations, then the command in force is still
  that one, up to recertification against newer worlds.
\<close>

theorem anchor_pins_predecessor:
  assumes "authority.reachable nrm s" "authority.run nrm m s s'" "authority.run nrm n s' t" "m + n < 2 ^ 64"
    and "reserveAnchor nrm request_ns activation_ns s s' = Some anchor"
    and "stagePending nrm tok anchor g c t = (StageStaged, u)"
  shows "active_core t = active_core s \<and>
    (\<exists>a. ea_active_bundle s = Some a \<and>
       bundle_sample nrm (deref a) activation_ns = Some (an_state anchor)) \<and>
    ea_active_bundle u = ea_active_bundle t \<and> ea_staged_bundle u = c \<and>
    ea_staged_activation_ns u = activation_ns"
proof -
  have ok: "authority_ok nrm s" "authority_ok nrm s'"
    using reachable_ok [OF assms(1)] run_ok [OF assms(2)] by blast+
  have lin: "lineage.run nrm m s s'" "lineage.run nrm n s' t"
    using run_lineage assms(2,3) ok by blast+
  from assms(5) obtain a w where a: "ea_active_bundle s = Some a"
    "bundle_sample nrm (deref a) activation_ns = Some (an_state anchor)"
    "an_execution_lineage_version anchor = ea_active_lineage_version s"
    "an_activation_stamp_ns anchor = activation_ns"
    by (auto simp: reserveAnchor_def reserveAnchor_pin_def reserveAnchor_sample_def Let_def
        split: option.splits if_splits)
  have d: "stage_decision nrm tok anchor g c t = StageStaged"
    using assms(6) stages_unchanged(1) [of nrm tok anchor g c t] by auto
  then have u: "u = stage_install tok anchor g c t" using assms(6) by (simp add: stagePending_def)
  have "ea_active_lineage_version t = ea_active_lineage_version s"
    using stage_decision_Staged [OF d] a(3) by auto
  moreover have "lineage.run nrm (m + n) s t" using lin by (rule lineage.run_trans)
  ultimately have "active_core t = active_core s"
    using lineage.version_identifies_view assms(4) by simp
  then show ?thesis using a u by (simp add: stage_install_def helper_defs)
qed

text \<open>
  C8. Activation is one atomic hand-over: exactly the staged bundle and goal become active, at or after
  its activation instant and before its lease ends, with a valid successor bound to the current world
  and goal, and no successor is left behind. A refused activation keeps the predecessor.
\<close>

theorem activation_hands_over:
  assumes "authority.reachable nrm s" "activatePendingIfDueAndFinalize nrm now sn fin s = (ok, t)"
  shows "(ok \<longrightarrow> (\<exists>b. ea_staged_bundle s = Some b \<and> ea_active_bundle t = Some b \<and>
      ea_active_goal t = ea_staged_goal s \<and> ea_staged_bundle t = None \<and> bundle_valid nrm (deref b) \<and>
      cb_valid_from_ns (deref b) \<le> now \<and> now \<le> cb_valid_until_ns (deref b) \<and>
      ea_world_identity t = Some (cb_world_identity (deref b)) \<and>
      fin (cb_bundle_generation (deref b)) \<and> ea_timeline_version s = sn_version sn)) \<and>
    (\<not> ok \<longrightarrow> ea_active_bundle t = ea_active_bundle s \<and> ea_active_goal t = ea_active_goal s \<and>
      ea_lifecycle t = ea_lifecycle s)"
proof -
  have st: "staged_ok nrm s" using reachable_ok [OF assms(1)] by (simp add: authority_ok_def)
  show ?thesis
  proof (cases "ea_staged_bundle s")
    case None
    with assms(2) show ?thesis
      by (auto simp: activatePendingIfDueAndFinalize_def activatePendingIfDueAndFinalizeLocked_def split: if_splits)
  next
    case (Some b)
    have eqs: "(ok, t) = activatePendingIfDueAndFinalizeLocked nrm now (sn_pending sn) (sn_version sn)
        (sn_pending_activation_ns sn) True fin s"
      using assms(2) by (simp add: activatePendingIfDueAndFinalize_def)
    have fr: "cb_valid_from_ns (deref b) = ea_staged_activation_ns s" using st Some by (simp add: staged_ok_def)
    show ?thesis
    proof (cases "successor_current nrm now s")
      case True
      with eqs Some fr successor_current_staged [OF True] show ?thesis
        unfolding activatePendingIfDueAndFinalizeLocked_def Let_def
        by (auto simp: helper_defs not_le not_less split: if_splits option.splits)
    next
      case False
      with eqs Some show ?thesis
        unfolding activatePendingIfDueAndFinalizeLocked_def Let_def
        by (auto simp: helper_defs split: if_splits option.splits)
    qed
  qed
qed

section \<open>A staged successor on the concrete run\<close>

definition ex_anchor :: "u64 \<Rightarrow> ExecutionAnchor" where
  "ex_anchor g =
     \<lparr>an_active_bundle_generation = g, an_execution_lineage_version = 1, an_localization_epoch = 1,
      an_goal_epoch = 1, an_request_id = 7, an_request_stamp_ns = 1500000000,
      an_activation_stamp_ns = 2000000000, an_state = ex_point (Fin 1), an_active_role = RoleMain,
      an_active_main_end_ns = 3000000000, an_active_bundle_end_ns = 5000000000, an_command_world = ex_world\<rparr>"

lemma ex_times: "secondsToNanoseconds (Fin 1) = Some 1000000000"
  "secondsSumToNanoseconds (Fin 1) (Fin 2) = Some 3000000000"
  by (simp_all add: secondsToNanoseconds_Fin secondsSumToNanoseconds_def fp_convert_def fp_simps)

lemma ex_anchor_valid: "g \<noteq> 0 \<Longrightarrow> anchor_valid (ex_anchor g)"
  by (simp add: anchor_valid_def ex_anchor_def ex_point_def point_finite_def default_point_def vfinite_def
      vzero_def ex_world_def)

lemma ex_reserve:
  assumes "g \<noteq> 0"
  shows "reserveAnchor nrm 1500000000 2000000000 (ex_committed g) (ex_committed g) = Some (ex_anchor g)"
proof -
  let ?b = "ex_bundle_at g 1000000000"
  have v: "bundle_valid nrm ?b" using assms by (intro ex_bundle_at_valid) auto
  have s: "bundle_sample nrm ?b 2000000000 = Some (ex_point (Fin 1))"
    using ex_samples(2) [OF assms, of 1000000000] v by (simp add: bundle_sample_def)
  show ?thesis
    using ex_anchor_valid [OF assms] s
    by (simp add: reserveAnchor_def reserveAnchor_pin_def reserveAnchor_sample_def reserveAnchor_confirm_def
        ex_committed_def anchor_bundle_end_def anchor_main_end_def ex_times ex_anchor_def)
       (simp add: ex_point_def reserveAnchor_confirm_def)
qed

definition ex_staged :: "u64 \<Rightarrow> u64 \<Rightarrow> ExecutionAuthority" where
  "ex_staged g h = (ex_committed g)
     \<lparr>ea_timeline_version := 4, ea_last_transaction_id := 2, ea_staged_goal := Some ex_goal,
      ea_staged_bundle := Some (Ptr 101 (ex_bundle_at h 2000000000)), ea_staged_activation_ns := 2000000000\<rparr>"

lemma ex_stage:
  assumes "g \<noteq> 0" "h \<noteq> 0"
  shows "stagePending nrm (ex_token 2) (ex_anchor g) (Some ex_goal) (Some (Ptr 101 (ex_bundle_at h 2000000000)))
     (ex_committed g) = (StageStaged, ex_staged g h)"
proof -
  have v: "bundle_valid nrm (ex_bundle_at h 2000000000)" "bundle_valid nrm (ex_bundle_at g 1000000000)"
    using assms by (auto intro!: ex_bundle_at_valid)
  have n: "dmul (fp_of_int binary64 1000000000) (dlit (1 / 10 ^ 9)) = Fin 1"
    using nano_second by (simp add: fp_of_int_def b64_numeral)
  have m: "predecessorMatchesAnchor nrm (ex_bundle_at g 1000000000) (ex_anchor g)"
    using ex_anchor_valid [OF assms(1)] v ex_scheduled(2) [OF assms(1), of 1000000000] n
    by (simp add: predecessorMatchesAnchor_def anchor_bundle_end_def anchor_main_end_def ex_times)
       (simp add: ex_anchor_def)
  have "stage_decision nrm (ex_token 2) (ex_anchor g) (Some ex_goal) (Some (Ptr 101 (ex_bundle_at h 2000000000)))
     (ex_committed g) = StageStaged"
    using v m ex_anchor_valid [OF assms(1)]
    by (simp add: stage_decision_def goalMatchesCandidate_def ex_goal_def ex_token_def ex_committed_def)
       (simp add: ex_anchor_def word_le_def)
  then show ?thesis
    by (simp add: stagePending_def stage_install_def helper_defs ex_staged_def ex_token_def ex_anchor_def ex_committed_def)
qed

lemma ex_staged_reachable:
  assumes "g \<noteq> 0" "h \<noteq> 0" shows "authority.reachable nrm (ex_staged g h)"
  using authority.reach_step [OF ex_committed_reachable [OF assms(1)] step_stage [of nrm "ex_committed g" "ex_token 2"
      "ex_anchor g" "Some ex_goal" "Some (Ptr 101 (ex_bundle_at h 2000000000))"]] ex_stage [OF assms] by simp

text \<open>The state the activation of the successor leads to.\<close>

lemma ex_activate:
  assumes "g \<noteq> 0" "h \<noteq> 0"
  shows "\<exists>t. activatePendingIfDueAndFinalize nrm 2000000000 (authority_snapshot (ex_staged g h)) (\<lambda>_. True)
      (ex_staged g h) = (True, t) \<and> ea_active_bundle t = Some (Ptr 101 (ex_bundle_at h 2000000000))"
proof -
  have "bundle_valid nrm (ex_bundle_at h 2000000000)" "bundle_valid nrm (ex_bundle_at g 1000000000)"
    using assms by (auto intro!: ex_bundle_at_valid)
  then show ?thesis
    by (simp add: activatePendingIfDueAndFinalize_def activatePendingIfDueAndFinalizeLocked_def authority_snapshot_def
        ex_staged_def ex_committed_def successor_current_def ex_goal_def Let_def bumpTimeline_def bumpLineage_def
        clearStagedLocked_def)
qed

theorem lineage_change_drops_successor_witness:
  "authority.reachable (\<lambda>_. Fin 1) (ex_committed 1) \<and>
   authority_step (\<lambda>_. Fin 1) (ex_committed 1) (ex_staged 1 2) \<and> ea_staged_bundle (ex_staged 1 2) \<noteq> None \<and>
   active_core (ex_staged 1 2) = active_core (ex_committed 1)"
proof -
  have r: "authority.reachable (\<lambda>_. Fin 1) (ex_committed 1)" by (rule ex_committed_reachable) simp
  have st: "authority_step (\<lambda>_. Fin 1) (ex_committed 1) (ex_staged 1 2)"
    using step_stage [of "\<lambda>_. Fin 1" "ex_committed 1" "ex_token 2" "ex_anchor 1" "Some ex_goal"
        "Some (Ptr 101 (ex_bundle_at 2 2000000000))"] ex_stage [of 1 2 "\<lambda>_. Fin 1"] by simp
  have ne: "ea_staged_bundle (ex_staged 1 2) \<noteq> None" by (simp add: ex_staged_def)
  from lineage_change_drops_successor [OF r st ne] r st ne show ?thesis by blast
qed

theorem anchor_pins_predecessor_witness:
  "reserveAnchor (\<lambda>_. Fin 1) 1500000000 2000000000 (ex_committed 1) (ex_committed 1) = Some (ex_anchor 1) \<and>
   stagePending (\<lambda>_. Fin 1) (ex_token 2) (ex_anchor 1) (Some ex_goal)
     (Some (Ptr 101 (ex_bundle_at 2 2000000000))) (ex_committed 1) = (StageStaged, ex_staged 1 2) \<and>
   ea_staged_activation_ns (ex_staged 1 2) = 2000000000"
proof -
  have r: "authority.reachable (\<lambda>_. Fin 1) (ex_committed 1)" by (rule ex_committed_reachable) simp
  have a: "reserveAnchor (\<lambda>_. Fin 1) 1500000000 2000000000 (ex_committed 1) (ex_committed 1) = Some (ex_anchor 1)"
    by (rule ex_reserve) simp
  have s: "stagePending (\<lambda>_. Fin 1) (ex_token 2) (ex_anchor 1) (Some ex_goal)
     (Some (Ptr 101 (ex_bundle_at 2 2000000000))) (ex_committed 1) = (StageStaged, ex_staged 1 2)"
    by (rule ex_stage) simp_all
  have "(0 :: nat) + 0 < 2 ^ 64" by simp
  from anchor_pins_predecessor [OF r authority.run_refl authority.run_refl this a s] a s show ?thesis by blast
qed

theorem activation_hands_over_witness:
  "authority.reachable (\<lambda>_. Fin 1) (ex_staged 1 2) \<and>
   (\<exists>t. activatePendingIfDueAndFinalize (\<lambda>_. Fin 1) 2000000000 (authority_snapshot (ex_staged 1 2)) (\<lambda>_. True)
      (ex_staged 1 2) = (True, t) \<and> ea_staged_bundle t = None)"
proof -
  have r: "authority.reachable (\<lambda>_. Fin 1) (ex_staged 1 2)" by (rule ex_staged_reachable) simp_all
  obtain t where t: "activatePendingIfDueAndFinalize (\<lambda>_. Fin 1) 2000000000 (authority_snapshot (ex_staged 1 2))
      (\<lambda>_. True) (ex_staged 1 2) = (True, t)" using ex_activate [of 1 2 "\<lambda>_. Fin 1"] by auto
  from activation_hands_over [OF r t] r t show ?thesis by blast
qed

text \<open>
  The commit operations refuse a candidate of an older generation than the active one; the staging path
  has no such test. A reachable store with an active bundle of generation 5 accepts, and activates, a
  successor of generation 3.
\<close>

theorem staging_admits_older_generation:
  "\<exists>s t. authority.reachable (\<lambda>_. Fin 1) s \<and>
     activatePendingIfDueAndFinalize (\<lambda>_. Fin 1) 2000000000 (authority_snapshot s) (\<lambda>_. True) s = (True, t) \<and>
     sn_activeGeneration (authority_snapshot s) = 5 \<and> sn_activeGeneration (authority_snapshot t) = 3"
proof -
  have "authority.reachable (\<lambda>_. Fin 1) (ex_staged 5 3)" by (rule ex_staged_reachable) simp_all
  moreover obtain t where "activatePendingIfDueAndFinalize (\<lambda>_. Fin 1) 2000000000 (authority_snapshot (ex_staged 5 3))
      (\<lambda>_. True) (ex_staged 5 3) = (True, t)" "ea_active_bundle t = Some (Ptr 101 (ex_bundle_at 3 2000000000))"
    using ex_activate [of 5 3 "\<lambda>_. Fin 1"] by auto
  moreover have "sn_activeGeneration (authority_snapshot (ex_staged 5 3)) = 5"
    by (simp add: sn_activeGeneration_def authority_snapshot_def ex_staged_def ex_committed_def)
  ultimately show ?thesis
    by (intro exI [of _ "ex_staged 5 3"] exI [of _ t]) (simp add: sn_activeGeneration_def authority_snapshot_def)
qed

end
