(* ===== verification/Execution_Decisions.thy ===== *)
theory Execution_Decisions
  imports Execution_Authority
begin

text \<open>
  The pure decision predicates of \<open>navigation_execution\<close>: \<open>execution_decisions.hpp\<close>,
  \<open>certified_continuation.hpp\<close>, \<open>world_temporal_assessment.hpp\<close> and the timing contract they rest
  on (\<open>planning_timing.hpp\<close>). The facts their callers capture under a lock are arguments, as in the
  code. \<open>Eigen\<close>'s \<open>norm()\<close> and \<open>dot()\<close> are the parameters \<open>nrm\<close> and \<open>dot\<close>.
\<close>

section \<open>Timing contract\<close>

definition kPlannerPeriodS :: double where "kPlannerPeriodS = dlit (10 / 100)"
definition kSolveDeadlineS :: double where "kSolveDeadlineS = dlit (8 / 100)"
definition kStitchDurationS :: double where "kStitchDurationS = dlit (40 / 100)"
definition kCommitGuardS :: double where "kCommitGuardS = dlit (2 / 100)"
definition kCommandPeriodS :: double where "kCommandPeriodS = dlit (2 / 100)"

definition kMinimumMainReserveS :: double where
  "kMinimumMainReserveS = dadd (dadd (dadd kSolveDeadlineS kStitchDurationS) kPlannerPeriodS) kCommitGuardS"

section \<open>Clearance, terminal and anchor decisions\<close>

text \<open>\<open>static_cast\<close> from \<open>int\<close> to an enumeration over \<open>std::uint8_t\<close>: the value modulo 256.\<close>

definition cellStateCast :: "int \<Rightarrow> CellState option" where
  "cellStateCast n =
     (let k = n mod 256 in
      if k = 0 then Some CellUndefined else if k = 1 then Some CellUnknown
      else if k = 2 then Some CellOutOfMap else if k = 3 then Some CellOccupied
      else if k = 4 then Some CellKnownFree else if k = 5 then Some CellFrontier else None)"

definition hasObservedClearanceFailure ::
  "TrajectoryValidationResult \<Rightarrow> u64 \<Rightarrow> WorldSnapshotIdentity \<Rightarrow> bool" where
  "hasObservedClearanceFailure validation generation world =
     (let evaluated = tv_validated_world validation;
          world_matches = wid_localization_epoch world \<noteq> 0 \<and> wid_generation world \<noteq> 0 \<and>
            wid_revision world \<noteq> 0 \<and> wid_localization_epoch evaluated = wid_localization_epoch world \<and>
            wid_generation evaluated = wid_generation world \<and> wid_revision evaluated = wid_revision world \<and>
            wid_observation_stamp_ns evaluated = wid_observation_stamp_ns world;
          cell = cellStateCast (tv_first_blocked_cell_state validation);
          blocked = cell = Some CellOccupied \<or> cell = Some CellOutOfMap \<or>
            ((cell = Some CellUnknown \<or> cell = Some CellFrontier) \<and>
             tv_evaluated_unknown_policy validation = 1)
      in \<not> tv_valid validation \<and> tv_blocking_cell_observed validation \<and> blocked \<and>
         generation \<noteq> 0 \<and> tv_evaluated_generation validation = generation \<and> world_matches \<and>
         vfinite (tv_first_blocked_position validation) \<and>
         isfinite (tv_first_blocked_time_s validation) \<and>
         fp_le (Fin 0) (tv_first_blocked_time_s validation))"

record PassThroughTerminalAckFacts =
  ack_successful_terminal_status :: bool
  ack_status_matches_active_identity :: bool
  ack_desired_goal_is_pass_through :: bool
  ack_outgoing_route_exists :: bool
  ack_certified_main_command :: bool
  ack_certified_continuation_boundary :: bool
  ack_execution_identity_current :: bool
  ack_failure_latched :: bool
  ack_safety_suffix_active :: bool
  ack_command_exposure_allowed :: bool
  ack_command_lease_valid :: bool

definition passThroughTerminalAckMayRetainCommand :: "PassThroughTerminalAckFacts \<Rightarrow> bool" where
  "passThroughTerminalAckMayRetainCommand facts \<longleftrightarrow>
     ack_successful_terminal_status facts \<and> ack_status_matches_active_identity facts \<and>
     ack_desired_goal_is_pass_through facts \<and> ack_outgoing_route_exists facts \<and>
     ack_certified_main_command facts \<and> ack_certified_continuation_boundary facts \<and>
     ack_execution_identity_current facts \<and> \<not> ack_failure_latched facts \<and>
     \<not> ack_safety_suffix_active facts \<and> ack_command_exposure_allowed facts \<and>
     ack_command_lease_valid facts"

definition stoppedHoldCommandRole :: "CandidateRole \<Rightarrow> bool \<Rightarrow> CandidateRole" where
  "stoppedHoldCommandRole endpoint_role endpoint_valid =
     (if endpoint_valid \<and> endpoint_role = RoleBackup then RoleBackup else RoleMain)"

datatype RetainedValidationTransition = PreserveExistingState | FailClosedTransition

definition retainedValidationTransition :: "bool \<Rightarrow> RetainedValidationTransition" where
  "retainedValidationTransition usable = (if usable then PreserveExistingState else FailClosedTransition)"

definition commandAnchorRecoveryDue :: "bool \<Rightarrow> CandidateRole \<Rightarrow> double \<Rightarrow> double \<Rightarrow> bool" where
  "commandAnchorRecoveryDue command_available command_role command_anchor_error_m maximum_anchor_error_m =
     (if \<not> command_available \<or> command_role \<noteq> RoleMain \<or> \<not> isfinite command_anchor_error_m \<or>
         \<not> isfinite maximum_anchor_error_m \<or> fp_le maximum_anchor_error_m (Fin 0) then False
      else fp_le maximum_anchor_error_m command_anchor_error_m)"

definition terminalStopMayDeferAnchorRecovery ::
  "bool \<Rightarrow> bool \<Rightarrow> bool \<Rightarrow> bool \<Rightarrow> CandidateRole \<Rightarrow> bool \<Rightarrow> double \<Rightarrow> double \<Rightarrow> bool \<Rightarrow> bool" where
  "terminalStopMayDeferAnchorRecovery stop_waypoint command_available trajectory_metadata_valid terminal_stop
     command_role anchor_recovery_due anchor_error_m maximum_anchor_error_m
     projected_tracking_certificate_exceeded \<longleftrightarrow>
     stop_waypoint \<and> command_available \<and> trajectory_metadata_valid \<and> terminal_stop \<and>
     command_role = RoleMain \<and> anchor_recovery_due \<and> isfinite anchor_error_m \<and>
     isfinite maximum_anchor_error_m \<and> fp_less (Fin 0) maximum_anchor_error_m \<and>
     fp_le anchor_error_m maximum_anchor_error_m \<and> \<not> projected_tracking_certificate_exceeded"

definition terminalStopCompletionObserved :: "bool \<Rightarrow> bool \<Rightarrow> bool \<Rightarrow> double \<Rightarrow> double \<Rightarrow> double \<Rightarrow> bool" where
  "terminalStopCompletionObserved terminal_stop nominal_main_terminal endpoint_valid endpoint_error_m
     measured_error_m acceptance_tolerance_m \<longleftrightarrow>
     terminal_stop \<and> nominal_main_terminal \<and> endpoint_valid \<and> isfinite endpoint_error_m \<and>
     isfinite measured_error_m \<and> isfinite acceptance_tolerance_m \<and> fp_le (Fin 0) acceptance_tolerance_m \<and>
     fp_le endpoint_error_m acceptance_tolerance_m \<and> fp_le measured_error_m acceptance_tolerance_m"

definition terminalStopEndpointContractValid ::
  "bool \<Rightarrow> CandidateBundleKind \<Rightarrow> CandidateRole \<Rightarrow> CandidateRole \<Rightarrow> bool" where
  "terminalStopEndpointContractValid terminal_stop bundle_kind bundle_role endpoint_role =
     (let terminal_bundle_kind = bundle_kind = KindTerminalStop \<or> bundle_kind = KindMainWithBackup;
          endpoint_role_valid = endpoint_role = RoleMain \<or> endpoint_role = RoleBackup
      in terminal_stop \<and> terminal_bundle_kind \<and> bundle_role = RoleMain \<and> endpoint_role_valid)"

definition terminalSuccessorHoldMayTransfer ::
  "bool \<Rightarrow> bool \<Rightarrow> bool \<Rightarrow> bool \<Rightarrow> bool \<Rightarrow> bool \<Rightarrow> bool \<Rightarrow> bool \<Rightarrow> bool \<Rightarrow> bool \<Rightarrow> bool \<Rightarrow> bool" where
  "terminalSuccessorHoldMayTransfer predecessor_terminal_stop predecessor_pass_through successor_stop
     coincident_route successor_identity_newer predecessor_endpoint_valid endpoint_matches_successor
     measured_inside_successor execution_identity_current desired_identity_current
     command_exposure_allowed \<longleftrightarrow>
     predecessor_terminal_stop \<and> predecessor_pass_through \<and> successor_stop \<and> coincident_route \<and>
     successor_identity_newer \<and> predecessor_endpoint_valid \<and> endpoint_matches_successor \<and>
     measured_inside_successor \<and> execution_identity_current \<and> desired_identity_current \<and>
     command_exposure_allowed"

definition terminalMainHasIndeterminatePreStartPressure ::
  "CandidateBundle \<Rightarrow> bool \<Rightarrow> i64 \<Rightarrow> i64 \<Rightarrow> double \<Rightarrow> double \<Rightarrow> double \<Rightarrow> bool" where
  "terminalMainHasIndeterminatePreStartPressure b source_sample_valid source_ns now_ns raw_error_m
     tracking_limit_m command_anchor_limit_m \<longleftrightarrow>
     cb_kind b = KindTerminalStop \<and> cb_terminal_stop b \<and> \<not> cb_backup_available b \<and> cb_role b = RoleMain \<and>
     hasDeclaredEndpointMetadata b \<and> \<not> source_sample_valid \<and> source_ns > 0 \<and>
     source_ns < cb_declared_start_ns b \<and> now_ns \<ge> cb_declared_start_ns b \<and> now_ns < cb_declared_end_ns b \<and>
     now_ns \<ge> cb_valid_from_ns b \<and> now_ns \<le> cb_valid_until_ns b \<and>
     isfinite raw_error_m \<and> isfinite tracking_limit_m \<and> isfinite command_anchor_limit_m \<and>
     fp_less (Fin 0) tracking_limit_m \<and> fp_le tracking_limit_m command_anchor_limit_m \<and>
     fp_less tracking_limit_m raw_error_m \<and> fp_le raw_error_m command_anchor_limit_m"

section \<open>Emergency\<close>

definition measuredStateEmergencyMayReplaceCommittedCommand ::
  "bool \<Rightarrow> bool \<Rightarrow> bool \<Rightarrow> bool \<Rightarrow> bool \<Rightarrow> bool \<Rightarrow> ExecutionRecoveryState \<Rightarrow> CandidateRole \<Rightarrow>
   bool \<Rightarrow> bool \<Rightarrow> bool \<Rightarrow> bool \<Rightarrow> bool \<Rightarrow> bool \<Rightarrow> bool" where
  "measuredStateEmergencyMayReplaceCommittedCommand validate_without_new_commit committed_suffix_usable
     fresh_vehicle_state committed_command_available command_anchor_valid tracking_certificate_exceeded
     recovery_state committed_role projected_tracking_certificate_exceeded current_vehicle_state_known_free
     safety_trajectory_available terminal_stop indeterminate_pre_start_tracking clearance_exceeded =
     (let clearance_recovery = clearance_exceeded \<and> current_vehicle_state_known_free \<and>
            \<not> safety_trajectory_available
      in \<not> validate_without_new_commit \<and> fresh_vehicle_state \<and> committed_command_available \<and>
         command_anchor_valid \<and> clearance_recovery \<and> recovery_state = RecoveryTrackMain \<and>
         committed_role \<noteq> RoleEmergency)"

definition makeMeasuredEmergencyBoundary :: "TrajectoryPoint \<Rightarrow> bool \<Rightarrow> bool \<Rightarrow> TrajectoryPoint" where
  "makeMeasuredEmergencyBoundary source acceleration_estimated jerk_estimated =
     (let b1 = (if acceleration_estimated then source\<lparr>pt_acceleration_world := vzero\<rparr> else source)
      in if jerk_estimated then b1\<lparr>pt_jerk_world := vzero\<rparr> else b1)"

definition plannerEmergencyTerminalAltitude :: "double \<Rightarrow> double \<Rightarrow> double \<Rightarrow> double" where
  "plannerEmergencyTerminalAltitude measured_altitude_m command_anchor_altitude_m correction_limit_m =
     (if \<not> isfinite measured_altitude_m then NaN
      else if \<not> isfinite command_anchor_altitude_m \<or> \<not> isfinite correction_limit_m \<or>
              fp_less correction_limit_m (Fin 0) then measured_altitude_m
      else let bounded_correction = fp_clamp (dsub command_anchor_altitude_m measured_altitude_m)
                 (fp_neg correction_limit_m) correction_limit_m
           in dadd measured_altitude_m bounded_correction)"

section \<open>Holds, restarts and suspended commands\<close>

definition terminalHoldIsPending :: "bool \<Rightarrow> bool \<Rightarrow> bool \<Rightarrow> u64 \<Rightarrow> bool" where
  "terminalHoldIsPending command_available reaches_goal stop_waypoint terminal_bundle_generation \<longleftrightarrow>
     command_available \<and> reaches_goal \<and> stop_waypoint \<and> terminal_bundle_generation \<noteq> 0"

definition committedTerminalBundleHoldIsPending :: "bool \<Rightarrow> bool \<Rightarrow> bool \<Rightarrow> bool \<Rightarrow> bool \<Rightarrow> u64 \<Rightarrow> bool" where
  "committedTerminalBundleHoldIsPending command_available stop_waypoint terminal_stop_bundle main_role
     identity_matches bundle_generation \<longleftrightarrow>
     command_available \<and> stop_waypoint \<and> terminal_stop_bundle \<and> main_role \<and> identity_matches \<and>
     bundle_generation \<noteq> 0"

definition backupStopNeedsMeasuredRestart :: "ExecutionRecoveryState \<Rightarrow> bool \<Rightarrow> bool \<Rightarrow> bool" where
  "backupStopNeedsMeasuredRestart state completion_observed terminal_hold_pending \<longleftrightarrow>
     state = RecoveryTrackBackup \<and> completion_observed \<and> \<not> terminal_hold_pending"

definition stoppedPlanningTimeoutMayFailClosed :: "ExecutionRecoveryState \<Rightarrow> bool \<Rightarrow> double \<Rightarrow> double \<Rightarrow> bool" where
  "stoppedPlanningTimeoutMayFailClosed state stationary elapsed_s timeout_s =
     (let stopped_state = state = RecoveryInitialHold \<or> state = RecoveryStoppedRecovery
      in stopped_state \<and> stationary \<and> isfinite elapsed_s \<and> isfinite timeout_s \<and>
         fp_less (Fin 0) timeout_s \<and> fp_le timeout_s elapsed_s)"

definition worldFreshnessSuspendedCommandMayResume ::
  "u64 \<Rightarrow> u64 \<Rightarrow> u64 \<Rightarrow> u64 \<Rightarrow> u64 \<Rightarrow> u64 \<Rightarrow> i64 \<Rightarrow> i64 \<Rightarrow> bool \<Rightarrow> bool \<Rightarrow> bool \<Rightarrow> bool" where
  "worldFreshnessSuspendedCommandMayResume suspended_generation recertified_generation
     bundle_localization_epoch bundle_goal_epoch active_localization_epoch executing_goal_epoch
     valid_until_ns now_ns is_valid planner_failure_latched execution_lease_allows_command \<longleftrightarrow>
     suspended_generation \<noteq> 0 \<and> recertified_generation = suspended_generation \<and> is_valid \<and>
     bundle_localization_epoch = active_localization_epoch \<and> bundle_goal_epoch = executing_goal_epoch \<and>
     valid_until_ns \<ge> now_ns \<and> \<not> planner_failure_latched \<and> execution_lease_allows_command"

definition supersedingBundleMayRemainAvailable ::
  "u64 \<Rightarrow> u64 \<Rightarrow> u64 \<Rightarrow> u64 \<Rightarrow> u64 \<Rightarrow> u64 \<Rightarrow> i64 \<Rightarrow> i64 \<Rightarrow> bool \<Rightarrow> bool \<Rightarrow> bool \<Rightarrow> bool" where
  "supersedingBundleMayRemainAvailable sampled_generation current_generation
     bundle_localization_epoch bundle_goal_epoch active_localization_epoch executing_goal_epoch
     valid_until_ns now_ns is_valid planner_failure_latched execution_lease_allows_command \<longleftrightarrow>
     sampled_generation \<noteq> 0 \<and> current_generation \<ge> sampled_generation \<and> is_valid \<and>
     bundle_localization_epoch = active_localization_epoch \<and> bundle_goal_epoch = executing_goal_epoch \<and>
     valid_until_ns \<ge> now_ns \<and> \<not> planner_failure_latched \<and> execution_lease_allows_command"

datatype StaleCommandPublicationDisposition = DropStale | RetainSuperseding | FailClosedStale

definition classifyStaleCommandPublication :: "bool \<Rightarrow> bool \<Rightarrow> StaleCommandPublicationDisposition" where
  "classifyStaleCommandPublication sampled_execution_still_current superseding_bundle_may_remain_available =
     (if \<not> sampled_execution_still_current then DropStale
      else if superseding_bundle_may_remain_available then RetainSuperseding else FailClosedStale)"

section \<open>Retained commands\<close>

definition committedSafetySuffixIsUsable ::
  "bool \<Rightarrow> double \<Rightarrow> double \<Rightarrow> double \<Rightarrow> double \<Rightarrow> double \<Rightarrow> bool \<Rightarrow> bool" where
  "committedSafetySuffixIsUsable safety_trajectory_available elapsed_s total_duration_s safety_transition_s
     anchor_error_m maximum_anchor_error_m sampled_path_clear =
     (let common_contract = isfinite elapsed_s \<and> isfinite total_duration_s \<and> isfinite safety_transition_s \<and>
            isfinite anchor_error_m \<and> isfinite maximum_anchor_error_m \<and> fp_le (Fin 0) elapsed_s \<and>
            fp_less elapsed_s total_duration_s \<and> fp_less (Fin 0) maximum_anchor_error_m \<and>
            fp_le anchor_error_m maximum_anchor_error_m \<and> sampled_path_clear
      in if \<not> common_contract then False
         else if \<not> safety_trajectory_available
         then fp_le (fp_abs (dsub safety_transition_s elapsed_s)) (dlit (1 / 10 ^ 9))
         else fp_le elapsed_s safety_transition_s \<and> fp_le safety_transition_s total_duration_s)"

definition retainedSafetyTransitionMayActivateBackup :: "bool \<Rightarrow> bool \<Rightarrow> CandidateRole \<Rightarrow> bool" where
  "retainedSafetyTransitionMayActivateBackup safety_suffix_usable backup_available sampled_role \<longleftrightarrow>
     safety_suffix_usable \<and> backup_available \<and> sampled_role = RoleBackup"

definition retainedCommandMatchesExecutionIdentity ::
  "bool \<Rightarrow> bool \<Rightarrow> u64 \<Rightarrow> u64 \<Rightarrow> u64 \<Rightarrow> u64 \<Rightarrow> u64 \<Rightarrow> bool \<Rightarrow> u64 \<Rightarrow> bool \<Rightarrow> bool" where
  "retainedCommandMatchesExecutionIdentity bundle_present bundle_has_trajectory_metadata
     bundle_localization_epoch execution_localization_epoch bundle_goal_epoch command_goal_epoch
     bundle_request_id executing_goal_present executing_request_id same_mission_as_desired \<longleftrightarrow>
     bundle_present \<and> bundle_has_trajectory_metadata \<and> executing_goal_present \<and> same_mission_as_desired \<and>
     command_goal_epoch \<noteq> 0 \<and> bundle_localization_epoch = execution_localization_epoch \<and>
     bundle_goal_epoch = command_goal_epoch \<and> bundle_request_id = executing_request_id"

definition retainedCommandTrackingLimit :: "double \<Rightarrow> double \<Rightarrow> double" where
  "retainedCommandTrackingLimit planner_tracking_budget_m execution_anchor_limit_m =
     (if \<not> isfinite planner_tracking_budget_m \<or> fp_less planner_tracking_budget_m (Fin 0) \<or>
         \<not> isfinite execution_anchor_limit_m \<or> fp_less execution_anchor_limit_m (Fin 0) then NaN
      else fp_min planner_tracking_budget_m execution_anchor_limit_m)"

record TimeAlignedRetainedTracking =
  ta_support_valid :: bool
  ta_within_limits :: bool
  ta_tracking_error_m :: double
  ta_absolute_anchor_error_m :: double

definition assessTimeAlignedRetainedTracking ::
  "double \<Rightarrow> double \<Rightarrow> double \<Rightarrow> double \<Rightarrow> TimeAlignedRetainedTracking" where
  "assessTimeAlignedRetainedTracking command_error_at_state_source_m command_error_at_now_m
     tracking_budget_m absolute_anchor_cap_m =
     (if \<not> isfinite command_error_at_state_source_m \<or> fp_less command_error_at_state_source_m (Fin 0) \<or>
         \<not> isfinite command_error_at_now_m \<or> fp_less command_error_at_now_m (Fin 0) \<or>
         \<not> isfinite tracking_budget_m \<or> fp_le tracking_budget_m (Fin 0) \<or>
         \<not> isfinite absolute_anchor_cap_m \<or> fp_le absolute_anchor_cap_m (Fin 0)
      then \<lparr>ta_support_valid = False, ta_within_limits = False, ta_tracking_error_m = NaN,
            ta_absolute_anchor_error_m = NaN\<rparr>
      else \<lparr>ta_support_valid = True,
            ta_within_limits = fp_le command_error_at_state_source_m tracking_budget_m \<and>
              fp_le command_error_at_now_m absolute_anchor_cap_m,
            ta_tracking_error_m = command_error_at_state_source_m,
            ta_absolute_anchor_error_m = command_error_at_now_m\<rparr>)"

definition projectedRetainedAnchorErrorUpperBound :: "double \<Rightarrow> double \<Rightarrow> double \<Rightarrow> double" where
  "projectedRetainedAnchorErrorUpperBound anchor_error_m relative_speed_mps validation_interval_s =
     (if \<not> isfinite anchor_error_m \<or> fp_less anchor_error_m (Fin 0) \<or>
         \<not> isfinite relative_speed_mps \<or> fp_less relative_speed_mps (Fin 0) \<or>
         \<not> isfinite validation_interval_s \<or> fp_le validation_interval_s (Fin 0) then NaN
      else let projected_error_m = dadd anchor_error_m (dmul relative_speed_mps validation_interval_s)
           in if isfinite projected_error_m then projected_error_m else NaN)"

section \<open>The phase execution certificate\<close>

datatype PhaseExecutionCertificateStatus = PhaseInvalid | PhaseAccepted | PhaseRejected

record PhaseExecutionCertificate =
  ph_status :: PhaseExecutionCertificateStatus
  ph_phase_lag_s :: double
  ph_source_time_error_m :: double
  ph_predicted_source_error_m :: double
  ph_raw_divergence_m :: double
  ph_source_speed_mps :: double
  ph_measured_speed_mps :: double
  ph_relative_velocity_mps :: double

definition default_phase_certificate :: PhaseExecutionCertificate where
  "default_phase_certificate =
     \<lparr>ph_status = PhaseInvalid, ph_phase_lag_s = NaN, ph_source_time_error_m = NaN,
      ph_predicted_source_error_m = NaN, ph_raw_divergence_m = NaN, ph_source_speed_mps = NaN,
      ph_measured_speed_mps = NaN, ph_relative_velocity_mps = NaN\<rparr>"

definition phase_accepted :: "PhaseExecutionCertificate \<Rightarrow> bool" where
  "phase_accepted c \<longleftrightarrow> ph_status c = PhaseAccepted"

text \<open>The two groups of preconditions that leave the certificate invalid.\<close>

definition phase_inputs_valid ::
  "(vec3 \<Rightarrow> double) \<Rightarrow> CandidateBundle \<Rightarrow> vec3 \<Rightarrow> vec3 \<Rightarrow> i64 \<Rightarrow> i64 \<Rightarrow> i64 \<Rightarrow> double \<Rightarrow> double \<Rightarrow> double \<Rightarrow>
   bool \<Rightarrow> bool \<Rightarrow> bool" where
  "phase_inputs_valid nrm b measured_position measured_velocity now_ns source_stamp_ns maximum_phase_lag_ns
     validation_interval_s tracking_position_budget_m absolute_command_anchor_cap_m
     measured_state_known_free sampled_path_clear \<longleftrightarrow>
     \<not> (\<not> bundle_valid nrm b \<or> cb_kind b \<noteq> KindMainWithBackup \<or> cb_role b \<noteq> RoleMain \<or> cb_terminal_stop b \<or>
        \<not> cb_backup_available b \<or> \<not> vfinite measured_position \<or> \<not> vfinite measured_velocity \<or>
        now_ns \<le> 0 \<or> source_stamp_ns \<le> 0 \<or> maximum_phase_lag_ns \<le> 0 \<or> source_stamp_ns > now_ns \<or>
        \<not> isfinite validation_interval_s \<or> fp_le validation_interval_s (Fin 0) \<or>
        \<not> isfinite tracking_position_budget_m \<or> fp_le tracking_position_budget_m (Fin 0) \<or>
        \<not> isfinite absolute_command_anchor_cap_m \<or> fp_le absolute_command_anchor_cap_m (Fin 0) \<or>
        \<not> measured_state_known_free \<or> \<not> sampled_path_clear) \<and>
     \<not> (now_ns < cb_valid_from_ns b \<or> now_ns > cb_valid_until_ns b \<or>
        source_stamp_ns < cb_valid_from_ns b \<or> source_stamp_ns > cb_valid_until_ns b) \<and>
     (let lease_remaining_s = ldmul (ldsub (fp_of_int extended80 (cb_valid_until_ns b))
                                           (fp_of_int extended80 now_ns)) (ldlit (1 / 10 ^ 9))
      in \<not> (\<not> isfinite lease_remaining_s \<or>
            fp_less (ldadd lease_remaining_s (ldlit (1 / 10 ^ 12))) (fp_convert extended80 validation_interval_s)))"

definition assessPhaseExecutionCertificate ::
  "(vec3 \<Rightarrow> double) \<Rightarrow> (vec3 \<Rightarrow> vec3 \<Rightarrow> double) \<Rightarrow> CandidateBundle \<Rightarrow> vec3 \<Rightarrow> vec3 \<Rightarrow> i64 \<Rightarrow> i64 \<Rightarrow> i64 \<Rightarrow>
   double \<Rightarrow> double \<Rightarrow> double \<Rightarrow> bool \<Rightarrow> bool \<Rightarrow> PhaseExecutionCertificate" where
  "assessPhaseExecutionCertificate nrm dot b measured_position measured_velocity now_ns source_stamp_ns
     maximum_phase_lag_ns validation_interval_s tracking_position_budget_m absolute_command_anchor_cap_m
     measured_state_known_free sampled_path_clear =
     (if \<not> phase_inputs_valid nrm b measured_position measured_velocity now_ns source_stamp_ns
           maximum_phase_lag_ns validation_interval_s tracking_position_budget_m
           absolute_command_anchor_cap_m measured_state_known_free sampled_path_clear
      then default_phase_certificate
      else case (sampleAtDeclaredStamp nrm b now_ns, sampleAtDeclaredStamp nrm b source_stamp_ns) of
        (Some command_now, Some command_at_source) \<Rightarrow>
          let phase_lag_ns = now_ns - source_stamp_ns
          in if pt_role command_now \<noteq> RoleMain \<or> pt_role command_at_source \<noteq> RoleMain \<or>
                phase_lag_ns \<le> 0 \<or> phase_lag_ns > maximum_phase_lag_ns \<or>
                fp_less (dadd (pt_trajectory_time_s command_now) (dlit (1 / 10 ^ 9)))
                  (pt_trajectory_time_s command_at_source) \<or>
                fp_less (dadd (cb_backup_start_time_s b) (dlit (1 / 10 ^ 9)))
                  (dadd (pt_trajectory_time_s command_now) validation_interval_s)
             then default_phase_certificate
             else
               let lag_s = dmul (fp_of_int binary64 phase_lag_ns) (dlit (1 / 10 ^ 9));
                   source_error = nrm (vsub (pt_position_world command_at_source) measured_position);
                   divergence = nrm (vsub (pt_position_world command_now) measured_position);
                   source_speed = nrm (pt_velocity_world command_at_source);
                   measured_speed = nrm measured_velocity;
                   relative = nrm (vsub (pt_velocity_world command_at_source) measured_velocity);
                   predicted = dadd source_error (dmul relative (dadd lag_s validation_interval_s));
                   rejected = \<not> isfinite lag_s \<or> \<not> isfinite source_error \<or> \<not> isfinite predicted \<or>
                     \<not> isfinite divergence \<or> \<not> isfinite source_speed \<or> \<not> isfinite measured_speed \<or>
                     \<not> isfinite relative \<or> fp_le source_speed (dlit (1 / 10 ^ 3)) \<or>
                     fp_le measured_speed (dlit (1 / 10 ^ 3)) \<or>
                     fp_less tracking_position_budget_m source_error \<or>
                     fp_less tracking_position_budget_m predicted \<or>
                     fp_less absolute_command_anchor_cap_m divergence \<or>
                     fp_less (dot (pt_velocity_world command_at_source) measured_velocity) (Fin 0)
               in \<lparr>ph_status = (if rejected then PhaseRejected else PhaseAccepted), ph_phase_lag_s = lag_s,
                   ph_source_time_error_m = source_error, ph_predicted_source_error_m = predicted,
                   ph_raw_divergence_m = divergence, ph_source_speed_mps = source_speed,
                   ph_measured_speed_mps = measured_speed, ph_relative_velocity_mps = relative\<rparr>
      | _ \<Rightarrow> default_phase_certificate)"

definition phaseExecutionBridgeMayPreserveMain ::
  "bool \<Rightarrow> bool \<Rightarrow> bool \<Rightarrow> bool \<Rightarrow> bool \<Rightarrow> ExecutionRecoveryState \<Rightarrow> u64 \<Rightarrow> u64 \<Rightarrow> bool \<Rightarrow> i64 \<Rightarrow> i64 \<Rightarrow> i64 \<Rightarrow> bool" where
  "phaseExecutionBridgeMayPreserveMain phase_certificate_accepted committed fresh_vehicle_state
     command_anchor_valid plan_from_rest recovery_state state_localization_epoch bundle_localization_epoch
     failure_latched now_ns valid_until_ns validation_interval_ns =
     (if \<not> phase_certificate_accepted \<or> \<not> committed \<or> \<not> fresh_vehicle_state \<or> \<not> command_anchor_valid \<or>
         plan_from_rest \<or> recovery_state \<noteq> RecoveryTrackMain \<or> failure_latched \<or>
         state_localization_epoch = 0 \<or> state_localization_epoch \<noteq> bundle_localization_epoch \<or>
         now_ns \<le> 0 \<or> valid_until_ns < now_ns \<or> validation_interval_ns \<le> 0 then False
      else fp_le (fp_of_int extended80 validation_interval_ns)
             (ldsub (fp_of_int extended80 valid_until_ns) (fp_of_int extended80 now_ns)))"

section \<open>Certified continuation\<close>

record CertifiedMainContinuationBoundaryFacts =
  cf_pass_through_goal :: bool
  cf_coincident_terminal_stop :: bool
  cf_trajectory_finished :: bool
  cf_has_boundary_event :: bool
  cf_has_boundary_constraint :: bool
  cf_candidate_localization_epoch :: u64
  cf_expected_localization_epoch :: u64
  cf_candidate_goal_epoch :: u64
  cf_expected_goal_epoch :: u64
  cf_candidate_request_id :: u64
  cf_expected_request_id :: u64
  cf_boundary_kind :: RouteBoundaryEventKind
  cf_boundary_role :: CandidateRole
  cf_boundary_junction_index :: u64
  cf_constraint_junction_index :: u64
  cf_expected_junction_index :: u64
  cf_boundary_stamp_ns :: i64
  cf_declared_start_ns :: i64
  cf_declared_end_ns :: i64
  cf_main_interval_begin_ns :: i64
  cf_main_interval_end_ns :: i64

record CertifiedMainContinuationWindow =
  cw_boundary_stamp_ns :: i64
  cw_main_end_stamp_ns :: i64

definition minimumMainContinuationReserveNs :: i64 where
  "minimumMainContinuationReserveNs =
     (let reserve_ns = ldmul (fp_convert extended80 kMinimumMainReserveS) (ldlit 1000000000)
      in if \<not> isfinite reserve_ns \<or> fp_less (fp_of_int extended80 i64_max) reserve_ns then i64_max
         else fp_trunc (fp_round reserve_ns))"

definition certifiedMainContinuationBoundaryEligible :: "CertifiedMainContinuationBoundaryFacts \<Rightarrow> bool" where
  "certifiedMainContinuationBoundaryEligible f =
     (if \<not> cf_pass_through_goal f \<or> cf_coincident_terminal_stop f \<or> cf_trajectory_finished f \<or>
         \<not> cf_has_boundary_event f \<or> \<not> cf_has_boundary_constraint f \<or>
         cf_candidate_localization_epoch f = 0 \<or>
         cf_candidate_localization_epoch f \<noteq> cf_expected_localization_epoch f \<or>
         cf_candidate_goal_epoch f = 0 \<or> cf_candidate_goal_epoch f \<noteq> cf_expected_goal_epoch f \<or>
         cf_candidate_request_id f = 0 \<or> cf_candidate_request_id f \<noteq> cf_expected_request_id f \<or>
         cf_boundary_kind f \<noteq> BoundaryPassThrough \<or> cf_boundary_role f \<noteq> RoleMain \<or>
         cf_boundary_junction_index f \<noteq> cf_expected_junction_index f \<or>
         cf_constraint_junction_index f \<noteq> cf_expected_junction_index f \<or>
         cf_boundary_stamp_ns f \<le> 0 \<or> cf_declared_end_ns f \<le> cf_declared_start_ns f \<or>
         cf_boundary_stamp_ns f < cf_declared_start_ns f \<or> cf_boundary_stamp_ns f \<ge> cf_declared_end_ns f
      then False
      else let boundary_offset_ns = cf_boundary_stamp_ns f - cf_declared_start_ns f;
               main_reserve_ns = minimumMainContinuationReserveNs
           in cf_main_interval_begin_ns f \<ge> 0 \<and> cf_main_interval_end_ns f > cf_main_interval_begin_ns f \<and>
              boundary_offset_ns \<ge> cf_main_interval_begin_ns f \<and>
              boundary_offset_ns < cf_main_interval_end_ns f \<and>
              cf_main_interval_end_ns f - boundary_offset_ns \<ge> main_reserve_ns)"

definition certifiedMainContinuationHandoffReady :: "CertifiedMainContinuationWindow \<Rightarrow> i64 \<Rightarrow> bool" where
  "certifiedMainContinuationHandoffReady w now_ns =
     (if now_ns \<le> 0 \<or> cw_boundary_stamp_ns w \<le> 0 \<or> cw_main_end_stamp_ns w \<le> cw_boundary_stamp_ns w \<or>
         cw_main_end_stamp_ns w \<le> now_ns then False
      else cw_main_end_stamp_ns w - now_ns \<ge> minimumMainContinuationReserveNs)"

section \<open>World temporal assessment\<close>

datatype WorldTemporalReason =
  TemporalCurrent | TemporalNoSnapshot | TemporalInvalidTimeContract | TemporalSourceStampMissing
| TemporalSourceStale | TemporalSourceFuture

record WorldTemporalAssessment =
  wt_identity :: WorldSnapshotIdentity
  wt_reason :: WorldTemporalReason
  wt_source_time_result :: TimestampFreshness

definition sourceCurrent :: "WorldTemporalAssessment \<Rightarrow> bool" where
  "sourceCurrent a \<longleftrightarrow> wt_reason a = TemporalCurrent"

definition assessWorldTemporal :: "bool \<Rightarrow> WorldSnapshotIdentity \<Rightarrow> i64 \<Rightarrow> i64 \<Rightarrow> WorldTemporalAssessment" where
  "assessWorldTemporal snapshot_available identity now_ros_ns maximum_source_age_ns =
     (let result = \<lparr>wt_identity = identity, wt_reason = TemporalNoSnapshot,
                    wt_source_time_result = FreshnessINVALID\<rparr>
      in if \<not> snapshot_available then result
         else if maximum_source_age_ns \<le> 0 \<or> now_ros_ns \<le> 0
         then result\<lparr>wt_reason := TemporalInvalidTimeContract\<rparr>
         else if wid_observation_stamp_ns identity \<le> 0
         then result\<lparr>wt_reason := TemporalSourceStampMissing\<rparr>
         else case classifyTimestampFreshness now_ros_ns (wid_observation_stamp_ns identity)
                     maximum_source_age_ns of
           FreshnessVALID \<Rightarrow> result\<lparr>wt_reason := TemporalCurrent, wt_source_time_result := FreshnessVALID\<rparr>
         | FreshnessSTALE \<Rightarrow> result\<lparr>wt_reason := TemporalSourceStale, wt_source_time_result := FreshnessSTALE\<rparr>
         | FreshnessFUTURE \<Rightarrow> result\<lparr>wt_reason := TemporalSourceFuture, wt_source_time_result := FreshnessFUTURE\<rparr>
         | FreshnessINVALID \<Rightarrow> result\<lparr>wt_reason := TemporalInvalidTimeContract, wt_source_time_result := FreshnessINVALID\<rparr>)"

section \<open>Facts about the decisions\<close>

text \<open>The \<open>double\<close> literals of the timing contract and the rounded sum of the reserve.\<close>

lemma timing_literals:
  "kSolveDeadlineS = Fin (5764607523034235 / 2 ^ 56)" "kStitchDurationS = Fin (7205759403792794 / 2 ^ 54)"
  "kPlannerPeriodS = Fin (7205759403792794 / 2 ^ 56)" "kCommitGuardS = Fin (5764607523034235 / 2 ^ 58)"
  using b64.fround_nearest [of "- 4" "8 / 100" "- 56" 5764607523034235]
    b64.fround_nearest [of "- 2" "40 / 100" "- 54" 7205759403792794]
    b64.fround_nearest [of "- 4" "10 / 100" "- 56" 7205759403792794]
    b64.fround_nearest [of "- 6" "2 / 100" "- 58" 5764607523034235]
  by (simp_all add: kSolveDeadlineS_def kStitchDurationS_def kPlannerPeriodS_def kCommitGuardS_def
      binary64_def power_int_minus divide_simps)

lemma reserve_seconds: "kMinimumMainReserveS = Fin (5404319552844596 / 2 ^ 53)"
proof -
  have s1: "dadd kSolveDeadlineS kStitchDurationS = Fin (8646911284551353 / 2 ^ 54)"
    using b64.fround_nearest [of "- 2" "5764607523034235 / 2 ^ 56 + 7205759403792794 / 2 ^ 54" "- 54" 8646911284551353]
    by (simp add: timing_literals binary64_def power_int_minus divide_simps)
  have s2: "dadd (Fin (8646911284551353 / 2 ^ 54)) kPlannerPeriodS = Fin (5224175567749776 / 2 ^ 53)"
    using b64.fround_nearest [of "- 1" "8646911284551353 / 2 ^ 54 + 7205759403792794 / 2 ^ 56" "- 53" 5224175567749776]
    by (simp add: timing_literals binary64_def power_int_minus divide_simps)
  have s3: "dadd (Fin (5224175567749776 / 2 ^ 53)) kCommitGuardS = Fin (5404319552844596 / 2 ^ 53)"
    using b64.fround_nearest [of "- 1" "5224175567749776 / 2 ^ 53 + 5764607523034235 / 2 ^ 58" "- 53" 5404319552844596]
    by (simp add: timing_literals binary64_def power_int_minus divide_simps)
  show ?thesis by (simp only: kMinimumMainReserveS_def s1 s2 s3)
qed

lemma reserve_ns: "minimumMainContinuationReserveNs = 600000000"
proof -
  have "representable binary64 (5404319552844596 / 2 ^ 53)"
    unfolding representable_def
    by (rule exI [of _ 5404319552844596], rule exI [of _ "- 53"]) (simp add: binary64_def power_int_minus divide_simps)
  then have "fp_ok binary64 kMinimumMainReserveS"
    by (simp add: reserve_seconds fp_ok_def binary64_def)
  then have "fp_convert extended80 kMinimumMainReserveS = Fin (5404319552844596 / 2 ^ 53)"
    using fp_convert_b64_x80 by (simp add: reserve_seconds)
  moreover have "ldmul (Fin (5404319552844596 / 2 ^ 53)) (ldlit 1000000000) = Fin (10307921510400001526 / 2 ^ 34)"
  proof -
    have "29 + 1 < overflow_exponent extended80" by (simp add: extended80_def)
    moreover have "unit_exponent extended80 \<le> - 34" "int (precision extended80) = 64" by (simp_all add: extended80_def)
    ultimately have "fround extended80 (5404319552844596 / 2 ^ 53 * 1000000000) = Fin (10307921510400001526 * 2 powi (- 34))"
      using x80.fround_nearest [of 29 "5404319552844596 / 2 ^ 53 * 1000000000" "- 34" 10307921510400001526]
      by (simp add: power_int_minus divide_simps)
    then show ?thesis by (simp add: x80_numeral power_int_minus divide_simps)
  qed
  moreover have "fp_of_int extended80 i64_max = Fin (of_int i64_max)" by (rule x80_i64) (simp add: i64_simps)
  moreover have "\<lfloor>10307921510400001526 / 2 ^ 34 + 1 / 2 :: rat\<rfloor> = 600000000" by (simp add: floor_eq_iff)
  ultimately show ?thesis
    by (simp add: minimumMainContinuationReserveNs_def Let_def i64_simps)
qed

text \<open>
  The continuation reserve is exactly 600 ms in spite of the binary rounding of its four summands, and
  a hand-off on the MAIN interval is authorized exactly while at least that much MAIN remains.
\<close>

theorem continuation_reserve_exact:
  "minimumMainContinuationReserveNs = 600000000 \<and>
   (certifiedMainContinuationHandoffReady w now_ns \<longleftrightarrow>
      0 < now_ns \<and> 0 < cw_boundary_stamp_ns w \<and> cw_boundary_stamp_ns w < cw_main_end_stamp_ns w \<and>
      now_ns + 600000000 \<le> cw_main_end_stamp_ns w)"
  by (auto simp: certifiedMainContinuationHandoffReady_def reserve_ns)

text \<open>
  A pass-through boundary that may carry a MAIN continuation lies on the certified MAIN interval of the
  candidate for exactly the expected goal, request and junction, with the full reserve behind it.
\<close>

theorem continuation_boundary_sound:
  assumes "certifiedMainContinuationBoundaryEligible f"
  shows "cf_boundary_kind f = BoundaryPassThrough \<and> cf_boundary_role f = RoleMain \<and>
    cf_candidate_goal_epoch f = cf_expected_goal_epoch f \<and> cf_candidate_request_id f = cf_expected_request_id f \<and>
    cf_candidate_localization_epoch f = cf_expected_localization_epoch f \<and>
    cf_boundary_junction_index f = cf_expected_junction_index f \<and>
    cf_declared_start_ns f + cf_main_interval_begin_ns f \<le> cf_boundary_stamp_ns f \<and>
    cf_boundary_stamp_ns f + 600000000 \<le> cf_declared_start_ns f + cf_main_interval_end_ns f \<and>
    cf_boundary_stamp_ns f < cf_declared_end_ns f"
  using assms by (auto simp: certifiedMainContinuationBoundaryEligible_def Let_def reserve_ns split: if_splits)

theorem continuation_boundary_sound_witness:
  "certifiedMainContinuationBoundaryEligible
     \<lparr>cf_pass_through_goal = True, cf_coincident_terminal_stop = False, cf_trajectory_finished = False,
      cf_has_boundary_event = True, cf_has_boundary_constraint = True, cf_candidate_localization_epoch = 1,
      cf_expected_localization_epoch = 1, cf_candidate_goal_epoch = 2, cf_expected_goal_epoch = 2,
      cf_candidate_request_id = 3, cf_expected_request_id = 3, cf_boundary_kind = BoundaryPassThrough,
      cf_boundary_role = RoleMain, cf_boundary_junction_index = 0, cf_constraint_junction_index = 0,
      cf_expected_junction_index = 0, cf_boundary_stamp_ns = 2000000000, cf_declared_start_ns = 1000000000,
      cf_declared_end_ns = 4000000000, cf_main_interval_begin_ns = 0, cf_main_interval_end_ns = 1600000000\<rparr> \<and>
   (2000000000 :: int) + 600000000 \<le> 1000000000 + 1600000000"
  using continuation_boundary_sound [of
     "\<lparr>cf_pass_through_goal = True, cf_coincident_terminal_stop = False, cf_trajectory_finished = False,
      cf_has_boundary_event = True, cf_has_boundary_constraint = True, cf_candidate_localization_epoch = 1,
      cf_expected_localization_epoch = 1, cf_candidate_goal_epoch = 2, cf_expected_goal_epoch = 2,
      cf_candidate_request_id = 3, cf_expected_request_id = 3, cf_boundary_kind = BoundaryPassThrough,
      cf_boundary_role = RoleMain, cf_boundary_junction_index = 0, cf_constraint_junction_index = 0,
      cf_expected_junction_index = 0, cf_boundary_stamp_ns = 2000000000, cf_declared_start_ns = 1000000000,
      cf_declared_end_ns = 4000000000, cf_main_interval_begin_ns = 0, cf_main_interval_end_ns = 1600000000\<rparr>"]
  by (simp add: certifiedMainContinuationBoundaryEligible_def reserve_ns)

text \<open>
  The conditions of an accepted certificate, once the two samples are known: the raw test of the source
  on the errors, the projection and the speeds.
\<close>

definition phase_tracks ::
    "(vec3 \<Rightarrow> double) \<Rightarrow> (vec3 \<Rightarrow> vec3 \<Rightarrow> double) \<Rightarrow> TrajectoryPoint \<Rightarrow> TrajectoryPoint \<Rightarrow> vec3 \<Rightarrow> vec3 \<Rightarrow> double \<Rightarrow>
     double \<Rightarrow> double \<Rightarrow> bool" where
  "phase_tracks nrm dot cn cs p v horizon budget cap \<longleftrightarrow>
     (let error = nrm (vsub (pt_position_world cs) p); relative = nrm (vsub (pt_velocity_world cs) v)
      in fp_le error budget \<and> fp_le (dadd error (dmul relative horizon)) budget \<and>
         fp_le (nrm (vsub (pt_position_world cn) p)) cap \<and>
         fp_less (dlit (1 / 10 ^ 3)) (nrm (pt_velocity_world cs)) \<and> fp_less (dlit (1 / 10 ^ 3)) (nrm v) \<and>
         \<not> fp_less (dot (pt_velocity_world cs) v) (Fin 0))"

lemma fp_not_le: "isfinite a \<Longrightarrow> isfinite b \<Longrightarrow> (\<not> fp_le a b) = fp_less b a"
  by (cases a; cases b) auto

lemma milli_finite: "isfinite (dlit (1 / 10 ^ 3))"
proof -
  have "dlit (1 / 1000) = Fin (4611686018427388 / 2 ^ 62)"
    using b64.fround_nearest [of "- 10" "1 / 1000" "- 62" 4611686018427388]
    by (simp add: binary64_def power_int_minus divide_simps)
  then show ?thesis by simp
qed

text \<open>
  C34. An accepted phase certificate preserves the MAIN command only if both samples are MAIN samples of one
  valid bundle inside its lease, the state is older than now by at most the allowed lag, and MAIN is not
  left before the validation interval ends. The measured position is within the tracking budget of the
  sample at its own stamp, and stays so when the relative speed of command and vehicle is charged for the
  lag and the validation interval together; it is within the anchor cap of the current sample. Command and
  vehicle both move, at more than a millimetre per second, and not against each other.
\<close>

theorem phase_certificate_sound:
  assumes "phase_accepted (assessPhaseExecutionCertificate nrm dot b p v now src lag interval budget cap free clear)"
  shows "\<exists>cn cs. bundle_sample nrm b now = Some cn \<and> bundle_sample nrm b src = Some cs \<and>
    pt_role cn = RoleMain \<and> pt_role cs = RoleMain \<and> src < now \<and> now - src \<le> lag \<and> free \<and> clear \<and>
    \<not> fp_less (dadd (cb_backup_start_time_s b) (dlit (1 / 10 ^ 9))) (dadd (pt_trajectory_time_s cn) interval) \<and>
    phase_tracks nrm dot cn cs p v
      (dadd (dmul (fp_of_int binary64 (now - src)) (dlit (1 / 10 ^ 9))) interval) budget cap"
proof -
  have inv: "phase_inputs_valid nrm b p v now src lag interval budget cap free clear"
    using assms by (auto simp: assessPhaseExecutionCertificate_def phase_accepted_def default_phase_certificate_def
        split: if_splits)
  obtain cn cs where s: "sampleAtDeclaredStamp nrm b now = Some cn" "sampleAtDeclaredStamp nrm b src = Some cs"
    using assms inv by (auto simp: assessPhaseExecutionCertificate_def phase_accepted_def
        default_phase_certificate_def split: option.splits)
  have lease: "bundle_sample nrm b now = Some cn" "bundle_sample nrm b src = Some cs" "free" "clear"
    and lim: "isfinite budget" "isfinite cap"
    using inv s by (auto simp: phase_inputs_valid_def bundle_sample_def not_less)
  have ord: "pt_role cn = RoleMain" "pt_role cs = RoleMain" "0 < now - src" "now - src \<le> lag"
    "\<not> fp_less (dadd (cb_backup_start_time_s b) (dlit (1 / 10 ^ 9))) (dadd (pt_trajectory_time_s cn) interval)"
    using assms inv s by (auto simp: assessPhaseExecutionCertificate_def phase_accepted_def
        default_phase_certificate_def Let_def split: if_splits)
  define error where "error = nrm (vsub (pt_position_world cs) p)"
  define predicted where "predicted = dadd error (dmul (nrm (vsub (pt_velocity_world cs) v))
      (dadd (dmul (fp_of_int binary64 (now - src)) (dlit (1 / 10 ^ 9))) interval))"
  have fin: "isfinite error" "isfinite (nrm (vsub (pt_position_world cn) p))" "isfinite predicted"
    "isfinite (nrm (pt_velocity_world cs))" "isfinite (nrm v)"
    "\<not> fp_less budget error" "\<not> fp_less cap (nrm (vsub (pt_position_world cn) p))" "\<not> fp_less budget predicted"
    "\<not> fp_le (nrm (pt_velocity_world cs)) (dlit (1 / 10 ^ 3))" "\<not> fp_le (nrm v) (dlit (1 / 10 ^ 3))"
    "\<not> fp_less (dot (pt_velocity_world cs) v) (Fin 0)"
    unfolding error_def predicted_def
    using assms inv s by (simp_all add: assessPhaseExecutionCertificate_def phase_accepted_def
        default_phase_certificate_def Let_def split: if_splits)
  have "fp_le error budget" "fp_le predicted budget" "fp_le (nrm (vsub (pt_position_world cn) p)) cap"
    "fp_less (dlit (1 / 10 ^ 3)) (nrm (pt_velocity_world cs))" "fp_less (dlit (1 / 10 ^ 3)) (nrm v)"
    using fin lim milli_finite fp_not_less fp_not_le by blast+
  then have "phase_tracks nrm dot cn cs p v
      (dadd (dmul (fp_of_int binary64 (now - src)) (dlit (1 / 10 ^ 9))) interval) budget cap"
    unfolding phase_tracks_def Let_def error_def [symmetric] predicted_def [symmetric]
    using fin(11) by blast
  then show ?thesis
    using lease ord by (intro exI [of _ cn] exI [of _ cs]) simp
qed

theorem phase_certificate_sound_witness:
  "phase_accepted (assessPhaseExecutionCertificate (\<lambda>_. Fin 1) (\<lambda>_ _. Fin 1) (ex_bundle_at 1 1000000000) vzero vzero
     2000000000 1000000000 1000000000 (Fin 1) (Fin 10) (Fin 10) True True) \<and>
   bundle_sample (\<lambda>_. Fin 1) (ex_bundle_at 1 1000000000) 2000000000 \<noteq> None \<and>
   (\<exists>cn cs horizon. phase_tracks (\<lambda>_. Fin 1) (\<lambda>_ _. Fin 1) cn cs vzero vzero horizon (Fin 10) (Fin 10))"
proof -
  let ?b = "ex_bundle_at 1 1000000000"
  have v: "bundle_valid (\<lambda>_. Fin 1) ?b" by (rule ex_bundle_at_valid) auto
  have s: "sampleAtDeclaredStamp (\<lambda>_. Fin 1) ?b 1000000000 = Some (ex_point (Fin 0))"
    "sampleAtDeclaredStamp (\<lambda>_. Fin 1) ?b 2000000000 = Some (ex_point (Fin 1))"
    by (rule ex_samples; simp)+
  have lease: "\<not> fp_less (ldadd (Fin 1) (ldlit (1 / 10 ^ 12))) (fp_convert extended80 (Fin 1))"
    unfolding fp_convert_def by (simp add: fp_simps, rule x80.add_tolerance(1)) (simp_all add: fp_simps b64_ok_x80)
  have d: "ldsub (fp_of_int extended80 3000000000) (fp_of_int extended80 2000000000) = Fin 1000000000"
    by (simp add: x80_i64_diff i64_simps)
  have inp: "phase_inputs_valid (\<lambda>_. Fin 1) ?b vzero vzero 2000000000 1000000000 1000000000 (Fin 1) (Fin 10) (Fin 10) True True"
    using v lease by (simp add: phase_inputs_valid_def vfinite_def vzero_def d nano_second_x80 [simplified])
  have t: "\<not> fp_less (dadd (Fin 1) (dlit (1 / 10 ^ 9))) (Fin 0)" "\<not> fp_less (dadd (Fin 2) (dlit (1 / 10 ^ 9))) (Fin 2)"
    using dadd_tolerance(1) [of 1 "1 / 10 ^ 9" 0] dadd_tolerance(1) [of 2 "1 / 10 ^ 9" 2] by (simp_all add: fp_simps)
  have milli: "dlit (1 / 1000) = Fin (4611686018427388 / 2 ^ 62)"
    using b64.fround_nearest [of "- 10" "1 / 1000" "- 62" 4611686018427388]
    by (simp add: binary64_def power_int_minus divide_simps)
  have n: "dmul (fp_of_int binary64 1000000000) (dlit (1 / 10 ^ 9)) = Fin 1"
    using nano_second by (simp add: fp_of_int_def b64_numeral)
  have acc: "phase_accepted (assessPhaseExecutionCertificate (\<lambda>_. Fin 1) (\<lambda>_ _. Fin 1) ?b vzero vzero
     2000000000 1000000000 1000000000 (Fin 1) (Fin 10) (Fin 10) True True)"
    using inp s t n milli by (simp add: assessPhaseExecutionCertificate_def phase_accepted_def ex_point_def Let_def fp_simps
        fp_not_less)
  with phase_certificate_sound [OF acc] show ?thesis by blast
qed

text \<open>
  A measured-state emergency is one-shot: once its brake is committed, no further emergency may replace
  the command, whatever the facts are and whatever events arrive, until a certified stop is observed.
\<close>

theorem emergency_is_one_shot:
  assumes "measuredStateEmergencyMayReplaceCommittedCommand vw su fr av an tr rs role pr kf sf ts ip cl"
    and "EventCertifiedStopObserved \<notin> set events"
  shows "\<not> measuredStateEmergencyMayReplaceCommittedCommand vw' su' fr' av' an' tr'
     (run_recovery (transitionExecutionRecovery rs EventEmergencyCommitted) events) role' pr' kf' sf' ts' ip' cl'"
proof -
  have "rs = RecoveryTrackMain"
    using assms(1) by (simp add: measuredStateEmergencyMayReplaceCommittedCommand_def Let_def)
  then have "transitionExecutionRecovery rs EventEmergencyCommitted = RecoveryEmergencyBrake"
    by (simp add: transitionExecutionRecovery_def)
  with moving_safety_run [of RecoveryEmergencyBrake events] assms(2) show ?thesis
    by (auto simp: measuredStateEmergencyMayReplaceCommittedCommand_def Let_def)
qed

theorem emergency_is_one_shot_witness:
  "measuredStateEmergencyMayReplaceCommittedCommand False True True True True False RecoveryTrackMain RoleMain
     False True False False False True \<and>
   \<not> measuredStateEmergencyMayReplaceCommittedCommand False True True True True False
     (run_recovery (transitionExecutionRecovery RecoveryTrackMain EventEmergencyCommitted) [EventMainCommitted])
     RoleMain False True False False False True"
proof -
  have m: "measuredStateEmergencyMayReplaceCommittedCommand False True True True True False RecoveryTrackMain RoleMain
     False True False False False True"
    by (simp add: measuredStateEmergencyMayReplaceCommittedCommand_def)
  have "EventCertifiedStopObserved \<notin> set [EventMainCommitted]" by simp
  from emergency_is_one_shot [OF m this] m show ?thesis by blast
qed

text \<open>
  The emergency brake's terminal altitude departs from the measured one by at most the correction limit,
  up to the rounding of the two bounds themselves, whatever the command anchor is.
\<close>

theorem emergency_altitude_bounded:
  assumes "isfinite limit" "fp_le (Fin 0) limit" "isfinite measured" "fp_ok binary64 measured"
  shows "fp_le (dsub measured limit) (plannerEmergencyTerminalAltitude measured anchor limit) \<and>
    fp_le (plannerEmergencyTerminalAltitude measured anchor limit) (dadd measured limit)"
proof -
  obtain l m where l: "limit = Fin l" "0 \<le> l" "measured = Fin m" using assms by (auto simp: isfinite_iff)
  have m: "fround binary64 m = Fin m" using assms(4) l(3) by (simp add: b64.fround_ok)
  have "\<exists>c. - l \<le> c \<and> c \<le> l \<and> plannerEmergencyTerminalAltitude measured anchor limit = fround binary64 (m + c)"
  proof (cases "isfinite anchor")
    case True
    then obtain a where a: "anchor = Fin a" by (auto simp: isfinite_iff)
    define v where "v = dsub (Fin a) (Fin m)"
    have "v \<noteq> NaN" by (simp add: v_def fp_sub_def fround_def Let_def)
    then have "\<exists>c. - l \<le> c \<and> c \<le> l \<and> fp_clamp v (Fin (- l)) (Fin l) = Fin c"
      using l(2) by (cases v) (auto simp: fp_clamp_def)
    then show ?thesis using l a by (auto simp: plannerEmergencyTerminalAltitude_def v_def)
  next
    case False
    then show ?thesis using l m by (auto simp: plannerEmergencyTerminalAltitude_def intro!: exI [of _ 0])
  qed
  then obtain c where c: "- l \<le> c" "c \<le> l"
    "plannerEmergencyTerminalAltitude measured anchor limit = fround binary64 (m + c)" by blast
  have "fp_le (fround binary64 (m - l)) (fround binary64 (m + c))"
    "fp_le (fround binary64 (m + c)) (fround binary64 (m + l))"
    using c by (auto intro!: b64.fround_le)
  then show ?thesis using c(3) l by (simp add: fp_sub_def)
qed

theorem emergency_altitude_bounded_witness:
  "plannerEmergencyTerminalAltitude (Fin 10) (Fin 30) (Fin 2) = Fin 12 \<and>
   fp_le (plannerEmergencyTerminalAltitude (Fin 10) (Fin 30) (Fin 2)) (dadd (Fin 10) (Fin 2))"
  using emergency_altitude_bounded [of "Fin 2" "Fin 10" "Fin 30"]
  by (simp add: plannerEmergencyTerminalAltitude_def fp_sub_def fp_clamp_def fp_simps)

text \<open>
  The projected anchor error never understates the error already present, and it grows with the
  relative speed and the validation interval.
\<close>

theorem projected_anchor_error_monotone:
  assumes "fp_ok binary64 e" "projectedRetainedAnchorErrorUpperBound e v t = r" "isfinite r"
    and "fp_le v v'" "fp_le t t'" "projectedRetainedAnchorErrorUpperBound e v' t' = r'" "isfinite r'"
  shows "fp_le e r \<and> fp_le r r'"
proof -
  have pos: "isfinite e \<and> isfinite v \<and> isfinite t \<and> isfinite v' \<and> isfinite t'"
    using assms(2,3,6,7) by (auto simp: projectedRetainedAnchorErrorUpperBound_def split: if_splits)
  then obtain e0 v0 t0 v1 t1 where f: "e = Fin e0" "v = Fin v0" "t = Fin t0" "v' = Fin v1" "t' = Fin t1"
    by (auto simp: isfinite_iff)
  have nn: "0 \<le> e0" "0 \<le> v0" "0 < t0" "v0 \<le> v1" "t0 \<le> t1"
    using assms f by (auto simp: projectedRetainedAnchorErrorUpperBound_def split: if_splits)
  have r: "r = dadd (Fin e0) (fround binary64 (v0 * t0))" "r' = dadd (Fin e0) (fround binary64 (v1 * t1))"
    using assms(2,3,6,7) f by (auto simp: projectedRetainedAnchorErrorUpperBound_def Let_def split: if_splits)
  have "v0 * t0 \<le> v1 * t1" using nn by (intro mult_mono) auto
  then have le: "fp_le (fround binary64 (v0 * t0)) (fround binary64 (v1 * t1))" by (rule b64.fround_le)
  obtain p q where pq: "fround binary64 (v0 * t0) = Fin p" "fround binary64 (v1 * t1) = Fin q"
    using r assms(3,7) b64.fround_nonneg_cases [of "v0 * t0"] b64.fround_nonneg_cases [of "v1 * t1"] nn by auto
  then have "p \<le> q" "0 \<le> p" using le b64.fround_nonneg [of "v0 * t0" p] nn by auto
  moreover have "representable binary64 e0" using assms(1) f by (simp add: fp_ok_def)
  moreover obtain r0 where "fround binary64 (e0 + p) = Fin r0" using r(1) pq assms(3) by (auto simp: isfinite_iff)
  ultimately show ?thesis
    using r pq f b64.fround_le [of "e0 + p" "e0 + q"] b64.fround_ge_exact [of e0 "e0 + p" r0] by auto
qed

theorem projected_anchor_error_monotone_witness:
  "projectedRetainedAnchorErrorUpperBound (Fin 1) (Fin 2) (Fin 1) = Fin 3 \<and>
   projectedRetainedAnchorErrorUpperBound (Fin 1) (Fin 4) (Fin 1) = Fin 5 \<and> fp_le (Fin 1) (Fin 3) \<and> fp_le (Fin 3) (Fin 5)"
proof -
  have a: "projectedRetainedAnchorErrorUpperBound (Fin 1) (Fin 2) (Fin 1) = Fin 3"
    "projectedRetainedAnchorErrorUpperBound (Fin 1) (Fin 4) (Fin 1) = Fin 5"
    by (simp_all add: projectedRetainedAnchorErrorUpperBound_def fp_simps)
  from projected_anchor_error_monotone [OF b64_ok_01(2) a(1) _ _ _ a(2)] a show ?thesis by simp
qed

text \<open>
  C35. A world snapshot counts as current exactly when it exists, the clock, the age limit and its observation
  stamp are positive (a missing stamp is 0), and the stamp lies within the age limit on either side of
  now. This holds for all 64-bit values: the \<open>long double\<close> difference the code compares is exact.
\<close>

theorem world_current_exact:
  assumes "in_i64 now" "in_i64 (wid_observation_stamp_ns w)" "in_i64 age"
  shows "sourceCurrent (assessWorldTemporal available w now age) \<longleftrightarrow>
    available \<and> 0 < now \<and> 0 < age \<and> 0 < wid_observation_stamp_ns w \<and> \<bar>now - wid_observation_stamp_ns w\<bar> \<le> age"
  by (auto simp: sourceCurrent_def assessWorldTemporal_def Let_def freshness_exact [OF assms])

theorem world_current_exact_witness:
  "in_i64 100 \<and> sourceCurrent (assessWorldTemporal True ex_world 100 200) \<and>
   \<not> sourceCurrent (assessWorldTemporal True ex_world 100 50)"
  using world_current_exact [of 100 ex_world 200 True] world_current_exact [of 100 ex_world 50 True]
  by (simp add: i64_simps ex_world_def)

end
