(* ===== verification/Command_Sampling.thy ===== *)
theory Command_Sampling
  imports Authority_Properties Execution_Decisions
begin

text \<open>
  \<open>command_sampler.hpp\<close>: the read-only sampler of the execution authority;
  \<open>execution_state_gate.hpp\<close>: the failure latch that decides whether a command may be exposed.
\<close>

section \<open>The sampler\<close>

datatype SampleStatus =
  SampleNoActiveBundle | SampleAwaitingActivation | SampleActive | SampleStoppedHold | SampleExpiredLease
| SampleGoalMismatch | SampleEvaluatorFailure

record SampleResult =
  sr_bundle :: "CandidateBundle ptr option"
  sr_point :: "TrajectoryPoint option"
  sr_awaiting_activation :: bool
  sr_planned_stop_hold :: bool
  sr_status :: SampleStatus
  sr_timeline_version :: u64

definition sample_ok :: "SampleResult \<Rightarrow> bool" where
  "sample_ok r \<longleftrightarrow> sr_bundle r \<noteq> None \<and> sr_point r \<noteq> None"

definition sampleActive :: "(vec3 \<Rightarrow> double) \<Rightarrow> i64 \<Rightarrow> u64 \<Rightarrow> ExecutionAuthority \<Rightarrow> SampleResult" where
  "sampleActive nrm stamp_ns expected_goal_epoch store =
     (let timeline = authority_snapshot store; v = sn_version timeline
      in case sn_active timeline of
           None \<Rightarrow>
             (case sn_pending timeline of
                None \<Rightarrow> \<lparr>sr_bundle = None, sr_point = None, sr_awaiting_activation = False,
                         sr_planned_stop_hold = False, sr_status = SampleNoActiveBundle, sr_timeline_version = v\<rparr>
              | Some pending \<Rightarrow>
                  if expected_goal_epoch \<noteq> 0 \<and> cb_goal_epoch (deref pending) \<noteq> expected_goal_epoch
                  then \<lparr>sr_bundle = Some pending, sr_point = None, sr_awaiting_activation = False,
                        sr_planned_stop_hold = False, sr_status = SampleGoalMismatch, sr_timeline_version = v\<rparr>
                  else \<lparr>sr_bundle = Some pending, sr_point = None, sr_awaiting_activation = True,
                        sr_planned_stop_hold = False, sr_status = SampleAwaitingActivation, sr_timeline_version = v\<rparr>)
         | Some bundle \<Rightarrow>
             if expected_goal_epoch \<noteq> 0 \<and> cb_goal_epoch (deref bundle) \<noteq> expected_goal_epoch
             then \<lparr>sr_bundle = Some bundle, sr_point = None, sr_awaiting_activation = False,
                   sr_planned_stop_hold = False, sr_status = SampleGoalMismatch, sr_timeline_version = v\<rparr>
             else if stamp_ns < cb_valid_from_ns (deref bundle)
             then \<lparr>sr_bundle = Some bundle, sr_point = None, sr_awaiting_activation = True,
                   sr_planned_stop_hold = False, sr_status = SampleAwaitingActivation, sr_timeline_version = v\<rparr>
             else
               let b = deref bundle; point = bundle_sample nrm b stamp_ns;
                   declared_end_ns = (if cb_declared_end_ns b > 0 then Some (cb_declared_end_ns b)
                                      else secondsSumToNanoseconds (cb_start_wall_time_s b) (cb_duration_s b));
                   endpoint = (if point = None \<and> stamp_ns > cb_valid_until_ns b \<and>
                                  (case declared_end_ns of None \<Rightarrow> False | Some e \<Rightarrow> stamp_ns \<ge> e)
                               then sampleAtDeclaredEnd nrm b else None);
                   status = (if point \<noteq> None then SampleActive
                             else if stamp_ns > cb_valid_until_ns b then SampleExpiredLease
                             else SampleEvaluatorFailure)
               in if endpoint \<noteq> None
                  then \<lparr>sr_bundle = Some bundle, sr_point = endpoint, sr_awaiting_activation = False,
                        sr_planned_stop_hold = True, sr_status = SampleStoppedHold, sr_timeline_version = v\<rparr>
                  else \<lparr>sr_bundle = Some bundle, sr_point = point, sr_awaiting_activation = False,
                        sr_planned_stop_hold = False, sr_status = status, sr_timeline_version = v\<rparr>)"

definition sampler_sample :: "(vec3 \<Rightarrow> double) \<Rightarrow> i64 \<Rightarrow> u64 \<Rightarrow> ExecutionAuthority \<Rightarrow> SampleResult" where
  "sampler_sample nrm stamp_ns expected_goal_epoch store = sampleActive nrm stamp_ns expected_goal_epoch store"

lemma sampleAtDeclaredEnd_Some:
  assumes "sampleAtDeclaredEnd nrm b = Some p"
  shows "bundle_valid nrm b \<and> pt_finished p \<and> point_finite p \<and> sampledRoleAllowed b (pt_role p) \<and>
    scheduledRole b (cb_duration_s b) = Some (pt_role p)"
  using assms by (auto simp: sampleAtDeclaredEnd_def point_finite_def split: if_splits option.splits)

text \<open>
  C32. Over every reachable store, a sample that carries a point comes from the active bundle of the requested
  goal, which is valid and bound to the current world. Either the stamp is inside the lease (from its
  activation to the end of its validity) and the point is the bundle's sample at that stamp, or the lease
  and the declared trajectory have both ended and the point is the finished end point, marked as a stopped
  hold. Before the lease begins there is no point, only the status that activation is awaited. A staged
  successor is never sampled: the branch that would report one without an active bundle is dead.
\<close>

theorem sampler_contract:
  assumes "authority.reachable nrm s" "r = sampler_sample nrm stamp epoch s"
  shows "(sr_status r = SampleNoActiveBundle \<longleftrightarrow> ea_active_bundle s = None) \<and> sr_bundle r = ea_active_bundle s \<and>
    (\<forall>p. sr_point r = Some p \<longrightarrow> (\<exists>b. ea_active_bundle s = Some b \<and> bundle_valid nrm (deref b) \<and>
       ea_world_identity s = Some (cb_world_identity (deref b)) \<and>
       (epoch = 0 \<or> cb_goal_epoch (deref b) = epoch) \<and> point_finite p \<and>
       (sr_status r = SampleActive \<and> bundle_sample nrm (deref b) stamp = Some p \<and> \<not> sr_planned_stop_hold r \<and>
        cb_valid_from_ns (deref b) \<le> stamp \<and> stamp \<le> cb_valid_until_ns (deref b) \<or>
        sr_status r = SampleStoppedHold \<and> sr_planned_stop_hold r \<and> pt_finished p \<and>
        sampleAtDeclaredEnd nrm (deref b) = Some p \<and>
        cb_valid_until_ns (deref b) < stamp \<and> cb_declared_end_ns (deref b) \<le> stamp))) \<and>
    (\<forall>b. ea_active_bundle s = Some b \<and> stamp < cb_valid_from_ns (deref b) \<and>
       (epoch = 0 \<or> cb_goal_epoch (deref b) = epoch) \<longrightarrow>
         sr_point r = None \<and> sr_status r = SampleAwaitingActivation \<and> sr_awaiting_activation r)"
proof -
  have ok: "active_ok nrm s" "staged_ok nrm s" using reachable_ok [OF assms(1)] by (auto simp: authority_ok_def)
  show ?thesis
  proof (cases "ea_active_bundle s")
    case None
    then have "ea_staged_bundle s = None" using ok(2) by (auto simp: staged_ok_def split: option.splits)
    with None assms(2) show ?thesis
      by (simp add: sampler_sample_def sampleActive_def authority_snapshot_def)
  next
    case (Some b)
    then have v: "bundle_valid nrm (deref b)" "ea_world_identity s = Some (cb_world_identity (deref b))"
      using ok(1) by (auto simp: active_ok_def)
    then have e: "0 < cb_declared_end_ns (deref b)"
      by (auto simp: bundle_valid_def endpoint_metadata_consistent_def)
    have fin: "point_finite p" "cb_valid_from_ns (deref b) \<le> stamp" "stamp \<le> cb_valid_until_ns (deref b)"
      if "bundle_sample nrm (deref b) stamp = Some p" for p
      using bundle_sample_Some [OF that] sampleAtDeclaredStamp_Some by blast+
    show ?thesis
      using Some v e fin sampleAtDeclaredEnd_Some [of nrm "deref b"] assms(2)
      by (auto simp: sampler_sample_def sampleActive_def authority_snapshot_def Let_def split: if_splits)
  qed
qed

theorem sampler_contract_witness:
  "authority.reachable (\<lambda>_. Fin 1) (ex_committed 1) \<and>
   sr_point (sampler_sample (\<lambda>_. Fin 1) 2000000000 1 (ex_committed 1)) = Some (ex_point (Fin 1)) \<and>
   sr_bundle (sampler_sample (\<lambda>_. Fin 1) 2000000000 1 (ex_committed 1)) = ea_active_bundle (ex_committed 1)"
proof -
  have r: "authority.reachable (\<lambda>_. Fin 1) (ex_committed 1)" by (rule ex_committed_reachable) simp
  have s: "bundle_sample (\<lambda>_. Fin 1) (ex_bundle_at 1 1000000000) 2000000000 = Some (ex_point (Fin 1))"
    using ex_samples(2) [of 1 1000000000 "\<lambda>_. Fin 1"] ex_bundle_at_valid [of 1 1000000000 "\<lambda>_. Fin 1"]
    by (simp add: bundle_sample_def)
  have "sr_point (sampler_sample (\<lambda>_. Fin 1) 2000000000 1 (ex_committed 1)) = Some (ex_point (Fin 1))"
    using s by (simp add: sampler_sample_def sampleActive_def authority_snapshot_def ex_committed_def Let_def)
  with r sampler_contract [OF r refl, of 2000000000 1] show ?thesis by blast
qed

section \<open>The failure latch\<close>

text \<open>Each operation is one atomic access of the flag; \<open>tryLatch\<close> also returns whether it won.\<close>

datatype latch_op = TryLatch | ResetForNewGoal

definition tryLatch :: "bool \<Rightarrow> bool \<times> bool" where
  "tryLatch latched = (if \<not> latched then (True, True) else (False, latched))"

definition resetForNewGoal :: "bool \<Rightarrow> bool" where
  "resetForNewGoal latched = False"

definition allowsCommandExposure :: "bool \<Rightarrow> bool" where
  "allowsCommandExposure latched \<longleftrightarrow> \<not> latched"

fun run_latch :: "latch_op list \<Rightarrow> bool \<Rightarrow> bool list \<times> bool" where
  "run_latch [] l = ([], l)"
| "run_latch (TryLatch # ops) l =
     (let (won, l1) = tryLatch l; (ws, l2) = run_latch ops l1 in (won # ws, l2))"
| "run_latch (ResetForNewGoal # ops) l = run_latch ops (resetForNewGoal l)"

lemma latched_loses: "ResetForNewGoal \<notin> set ops \<Longrightarrow> True \<notin> set (fst (run_latch ops True)) \<and> snd (run_latch ops True)"
proof (induction ops)
  case (Cons op ops)
  then show ?case by (cases op) (auto simp: tryLatch_def split: prod.splits)
qed simp

text \<open>
  However many threads race to report a failure of one goal, exactly one of them wins, and from then on
  the command is not exposed until the latch is reset for a new goal.
\<close>

theorem failure_latched_once:
  assumes "ResetForNewGoal \<notin> set ops" "ops \<noteq> []"
  shows "length (filter id (fst (run_latch ops False))) = 1 \<and> \<not> allowsCommandExposure (snd (run_latch ops False))"
proof -
  obtain ops' where ops: "ops = TryLatch # ops'" "ResetForNewGoal \<notin> set ops'"
    using assms by (cases ops) (auto, metis latch_op.exhaust)
  have "filter id (fst (run_latch ops' True)) = []"
    using latched_loses [OF ops(2)] by (auto simp: filter_empty_conv)
  then show ?thesis
    using latched_loses [OF ops(2)] by (auto simp: ops tryLatch_def allowsCommandExposure_def split: prod.splits)
qed

theorem failure_latched_once_witness:
  "ResetForNewGoal \<notin> set [TryLatch, TryLatch] \<and> fst (run_latch [TryLatch, TryLatch] False) = [True, False] \<and>
   \<not> allowsCommandExposure (snd (run_latch [TryLatch, TryLatch] False))"
  using failure_latched_once [of "[TryLatch, TryLatch]"] by (simp add: tryLatch_def)

end
