(* ===== verification/Execution_State_Store.thy ===== *)
theory Execution_State_Store
  imports Nav_Time
begin

text \<open>
  \<open>kinematic_state.hpp\<close>, \<open>execution_state_lease.hpp\<close> and \<open>execution_state_store.hpp\<close>: the latest
  propagated vehicle state as one immutable lease, tagged with its localization epoch and an ingress
  sequence number. Each member function runs under the mutex and is one step. The norm of the attitude
  quaternion (\<open>Eigen\<close> and \<open>std::sqrt\<close>) is the parameter \<open>qnorm\<close>.
\<close>

section \<open>State\<close>

record quaternion =
  q_x :: double
  q_y :: double
  q_z :: double
  q_w :: double

record KinematicState =
  ks_position_world :: vec3
  ks_velocity_world :: vec3
  ks_acceleration_world :: vec3
  ks_jerk_world :: vec3
  ks_acceleration_estimated :: bool
  ks_jerk_estimated :: bool
  ks_orientation_world_body :: quaternion
  ks_yaw_rad :: double
  ks_source_stamp_ns :: i64
  ks_receive_stamp_ns :: i64
  ks_localization_epoch :: u64
  ks_world_frame_id :: string
  ks_body_frame_id :: string

definition quaternion_scale :: "quaternion \<Rightarrow> double" where
  "quaternion_scale q =
     fp_max (fp_max (fp_abs (q_x q)) (fp_abs (q_y q))) (fp_max (fp_abs (q_z q)) (fp_abs (q_w q)))"

definition kinematic_finite :: "(quaternion \<Rightarrow> long_double) \<Rightarrow> KinematicState \<Rightarrow> bool" where
  "kinematic_finite qnorm s \<longleftrightarrow>
     (let q = ks_orientation_world_body s; scale = quaternion_scale q; quaternion_norm = qnorm q
      in vfinite (ks_position_world s) \<and> vfinite (ks_velocity_world s) \<and> vfinite (ks_acceleration_world s) \<and>
         vfinite (ks_jerk_world s) \<and>
         (isfinite (q_x q) \<and> isfinite (q_y q) \<and> isfinite (q_z q) \<and> isfinite (q_w q)) \<and>
         isfinite scale \<and> fp_less (dlit (1 / 10 ^ 9)) scale \<and>
         isfinite (fp_convert binary64 quaternion_norm) \<and>
         fp_le (fp_abs (ldsub quaternion_norm (Fin 1))) (ldlit (1 / 10 ^ 6)) \<and>
         ks_source_stamp_ns s > 0 \<and> ks_receive_stamp_ns s > 0 \<and> isfinite (ks_yaw_rad s) \<and>
         ks_localization_epoch s \<noteq> 0 \<and> ks_world_frame_id s \<noteq> [] \<and> ks_body_frame_id s \<noteq> [])"

record ExecutionStateLease =
  le_state :: KinematicState
  le_ingress_sequence :: u64

record ExecutionStateStore =
  es_active_epoch :: u64
  es_next_ingress_sequence :: u64
  es_state :: "ExecutionStateLease option"

definition initial_state_store :: ExecutionStateStore where
  "initial_state_store = \<lparr>es_active_epoch = 0, es_next_ingress_sequence = 0, es_state = None\<rparr>"

section \<open>Operations\<close>

definition store_publish ::
  "(quaternion \<Rightarrow> long_double) \<Rightarrow> KinematicState \<Rightarrow> ExecutionStateStore \<Rightarrow> bool \<times> ExecutionStateStore" where
  "store_publish qnorm state s =
     (if \<not> kinematic_finite qnorm state then (False, s)
      else if es_active_epoch s \<noteq> 0 \<and> ks_localization_epoch state \<noteq> es_active_epoch s then (False, s)
      else if (case es_state s of None \<Rightarrow> False
               | Some l \<Rightarrow> ks_source_stamp_ns state \<le> ks_source_stamp_ns (le_state l)) then (False, s)
      else let ingress_sequence = es_next_ingress_sequence s + 1
           in (True, \<lparr>es_active_epoch = ks_localization_epoch state, es_next_ingress_sequence = ingress_sequence,
                      es_state = Some \<lparr>le_state = state, le_ingress_sequence = ingress_sequence\<rparr>\<rparr>))"

definition resetForLocalizationEpoch :: "u64 \<Rightarrow> ExecutionStateStore \<Rightarrow> bool \<times> ExecutionStateStore" where
  "resetForLocalizationEpoch localization_epoch s =
     (if localization_epoch = 0 then (False, s)
      else (True, s\<lparr>es_active_epoch := localization_epoch, es_state := None\<rparr>))"

definition store_load :: "ExecutionStateStore \<Rightarrow> ExecutionStateLease option" where
  "store_load s = es_state s"

section \<open>Runs\<close>

inductive store_step :: "(quaternion \<Rightarrow> long_double) \<Rightarrow> ExecutionStateStore \<Rightarrow> ExecutionStateStore \<Rightarrow> bool"
  for qnorm where
  step_publish: "store_step qnorm s (snd (store_publish qnorm state s))"
| step_reset: "store_step qnorm s (snd (resetForLocalizationEpoch e s))"

interpretation state_store: transition_system "\<lambda>s. s = initial_state_store" "store_step qnorm" for qnorm .

text \<open>The stored lease is a finite state of the active epoch and carries the latest sequence number.\<close>

definition store_ok :: "(quaternion \<Rightarrow> long_double) \<Rightarrow> ExecutionStateStore \<Rightarrow> bool" where
  "store_ok qnorm s =
     (case es_state s of None \<Rightarrow> True
      | Some l \<Rightarrow> kinematic_finite qnorm (le_state l) \<and> ks_localization_epoch (le_state l) = es_active_epoch s \<and>
          es_active_epoch s \<noteq> 0 \<and> le_ingress_sequence l = es_next_ingress_sequence s)"

lemma kinematic_finite_epoch: "kinematic_finite qnorm x \<Longrightarrow> ks_localization_epoch x \<noteq> 0"
  by (simp add: kinematic_finite_def Let_def)

lemma store_ok_new:
  "kinematic_finite qnorm x \<Longrightarrow> store_ok qnorm \<lparr>es_active_epoch = ks_localization_epoch x,
     es_next_ingress_sequence = n, es_state = Some \<lparr>le_state = x, le_ingress_sequence = n\<rparr>\<rparr>"
  using kinematic_finite_epoch by (simp add: store_ok_def)

lemma store_step_ok: "store_step qnorm s t \<Longrightarrow> store_ok qnorm s \<Longrightarrow> store_ok qnorm t"
proof (induction rule: store_step.induct)
  case (step_publish s state)
  then show ?case using store_ok_new [of qnorm state "es_next_ingress_sequence s + 1"]
    by (auto simp: store_publish_def Let_def)
next
  case (step_reset s e)
  have "store_ok qnorm (s\<lparr>es_active_epoch := e, es_state := None\<rparr>)" by (simp add: store_ok_def)
  with step_reset show ?case by (simp add: resetForLocalizationEpoch_def)
qed

lemma reachable_store_ok: "state_store.reachable qnorm s \<Longrightarrow> store_ok qnorm s"
  using state_store.invariant_reachable [of "store_ok qnorm" qnorm s] store_step_ok
  by (auto simp: store_ok_def initial_state_store_def)

lemma store_run_sequence:
  "state_store.run qnorm n s t \<Longrightarrow>
    (es_next_ingress_sequence t = es_next_ingress_sequence s \<and> (es_state t = es_state s \<or> es_state t = None)) \<or>
    (\<exists>k. 0 < k \<and> k \<le> n \<and> es_next_ingress_sequence t = es_next_ingress_sequence s + of_nat k)"
proof (induction rule: state_store.run.induct)
  case (run_step n s t u)
  have "u = t \<or> (es_next_ingress_sequence u = es_next_ingress_sequence t \<and> es_state u = None) \<or>
      es_next_ingress_sequence u = es_next_ingress_sequence t + 1"
    using run_step.hyps(2)
    by (cases rule: store_step.cases) (auto simp: store_publish_def resetForLocalizationEpoch_def Let_def)
  then consider "es_next_ingress_sequence u = es_next_ingress_sequence t" "es_state u = es_state t \<or> es_state u = None"
    | "es_next_ingress_sequence u = es_next_ingress_sequence t + 1" by auto
  then show ?case
  proof cases
    case 1
    with run_step.IH show ?thesis by (auto intro: le_SucI)
  next
    case 2
    from run_step.IH show ?thesis
    proof (elim disjE exE conjE)
      fix k assume "0 < k" "k \<le> n" "es_next_ingress_sequence t = es_next_ingress_sequence s + of_nat k"
      with 2 show ?thesis by (intro disjI2 exI [of _ "Suc k"]) simp
    qed (use 2 in \<open>auto intro!: exI [of _ 1]\<close>)
  qed
qed simp

text \<open>
  The ingress sequence number identifies the delivery: two leases a reader loads at different times with
  the same number are the same lease, whatever publications and resets happened in between.
\<close>

theorem ingress_sequence_identifies_lease:
  assumes "state_store.reachable qnorm s" "state_store.run qnorm n s t" "n < 2 ^ 64"
    and "store_load s = Some l" "store_load t = Some l'" "le_ingress_sequence l' = le_ingress_sequence l"
  shows "l' = l"
proof -
  have "store_ok qnorm s" "store_ok qnorm t"
    using reachable_store_ok state_store.reachable_run assms(1,2) by blast+
  then have "es_next_ingress_sequence t = es_next_ingress_sequence s"
    using assms(4,5,6) by (simp add: store_ok_def store_load_def)
  moreover have False if "0 < k" "k \<le> n" "es_next_ingress_sequence t = es_next_ingress_sequence s + of_nat k" for k
  proof -
    have "(of_nat k :: u64) = 0" using that(3) calculation by simp
    then have "2 ^ 64 dvd k" by (simp add: word_of_nat_eq_0_iff)
    then show False using that(1,2) assms(3) by (meson dvd_imp_le le_trans not_less)
  qed
  ultimately show ?thesis
    using store_run_sequence [OF assms(2)] assms(4,5) by (auto simp: store_load_def)
qed

text \<open>The publications that arrive between two resets.\<close>

definition publish_all ::
    "(quaternion \<Rightarrow> long_double) \<Rightarrow> KinematicState list \<Rightarrow> ExecutionStateStore \<Rightarrow> ExecutionStateStore" where
  "publish_all qnorm states s = fold (\<lambda>state s. snd (store_publish qnorm state s)) states s"

lemma publish_all_epoch:
  assumes "es_active_epoch s = e" "e \<noteq> 0" "\<forall>l. es_state s = Some l \<longrightarrow> ks_localization_epoch (le_state l) = e"
  shows "es_active_epoch (publish_all qnorm states s) = e \<and>
    (\<forall>l. es_state (publish_all qnorm states s) = Some l \<longrightarrow> ks_localization_epoch (le_state l) = e)"
  using assms
proof (induction states arbitrary: s)
  case (Cons x states)
  let ?t = "snd (store_publish qnorm x s)"
  have "es_active_epoch ?t = e" "\<forall>l. es_state ?t = Some l \<longrightarrow> ks_localization_epoch (le_state l) = e"
    using Cons.prems by (auto simp: store_publish_def Let_def)
  from Cons.IH [OF this(1) Cons.prems(2) this(2)] show ?case by (simp add: publish_all_def)
qed (simp add: publish_all_def)

text \<open>
  C36. A publication is accepted only for a finite state of the active epoch that is strictly newer than the
  stored one; a refused one leaves the store alone. A reset for epoch 0 is refused; any other empties the
  store, and whatever states are published until the next reset, no state of another epoch is loaded.
\<close>

theorem state_store_freshness:
  assumes "state_store.reachable qnorm s" "store_publish qnorm x s = (ok, t)"
  shows "(ok \<longrightarrow> kinematic_finite qnorm x \<and> map_option le_state (store_load t) = Some x \<and>
      (es_active_epoch s = 0 \<or> ks_localization_epoch x = es_active_epoch s) \<and>
      (\<forall>l. store_load s = Some l \<longrightarrow> ks_source_stamp_ns (le_state l) < ks_source_stamp_ns x \<and>
         ks_localization_epoch (le_state l) = ks_localization_epoch x)) \<and>
    (\<not> ok \<longrightarrow> t = s) \<and>
    (\<forall>l. store_load t = Some l \<longrightarrow> ks_localization_epoch (le_state l) = es_active_epoch t) \<and>
    resetForLocalizationEpoch 0 s = (False, s) \<and>
    (\<forall>e. e \<noteq> 0 \<longrightarrow> fst (resetForLocalizationEpoch e s) \<and>
       store_load (snd (resetForLocalizationEpoch e s)) = None \<and>
       (\<forall>states l. store_load (publish_all qnorm states (snd (resetForLocalizationEpoch e s))) = Some l \<longrightarrow>
          ks_localization_epoch (le_state l) = e))"
    (is "?published \<and> ?refused \<and> ?bound \<and> ?zero \<and> ?reset")
proof -
  have ok: "store_ok qnorm s" using assms(1) by (rule reachable_store_ok)
  have "store_step qnorm s t" using step_publish [of qnorm s x] assms(2) by simp
  then have "store_ok qnorm t" using ok store_step_ok by blast
  then have "?published \<and> ?refused \<and> ?bound"
    using ok assms(2) by (auto simp: store_publish_def store_load_def store_ok_def Let_def split: if_splits option.splits)
  moreover have ?zero by (simp add: resetForLocalizationEpoch_def)
  moreover have ?reset
  proof (intro allI impI conjI)
    fix e :: u64 and states l assume e: "e \<noteq> 0"
    let ?s = "snd (resetForLocalizationEpoch e s)"
    have s: "es_active_epoch ?s = e" "es_state ?s = None" using e by (simp_all add: resetForLocalizationEpoch_def)
    show "fst (resetForLocalizationEpoch e s)" using e by (simp add: resetForLocalizationEpoch_def)
    show "store_load ?s = None" using s(2) by (simp add: store_load_def)
    assume "store_load (publish_all qnorm states ?s) = Some l"
    then show "ks_localization_epoch (le_state l) = e"
      using publish_all_epoch [OF s(1) e, of qnorm states] s(2) by (simp add: store_load_def)
  qed
  ultimately show ?thesis by (intro conjI) blast+
qed

section \<open>Concrete runs\<close>

definition ex_kinematic :: "i64 \<Rightarrow> KinematicState" where
  "ex_kinematic stamp =
     \<lparr>ks_position_world = vzero, ks_velocity_world = vzero, ks_acceleration_world = vzero, ks_jerk_world = vzero,
      ks_acceleration_estimated = True, ks_jerk_estimated = True,
      ks_orientation_world_body = \<lparr>q_x = Fin 0, q_y = Fin 0, q_z = Fin 0, q_w = Fin 1\<rparr>, ks_yaw_rad = Fin 0,
      ks_source_stamp_ns = stamp, ks_receive_stamp_ns = stamp, ks_localization_epoch = 1,
      ks_world_frame_id = ''map'', ks_body_frame_id = ''base_link''\<rparr>"

lemma ex_kinematic_finite: "0 < stamp \<Longrightarrow> kinematic_finite (\<lambda>_. Fin 1) (ex_kinematic stamp)"
proof -
  have "dlit (1 / 10 ^ 9) = Fin (4835703278458517 / 2 ^ 82)" by (rule nano_literal)
  moreover have "fp_le (Fin 0) (ldlit (1 / 10 ^ 6))"
    using x80.fround_le [of 0 "1 / 10 ^ 6"] by simp
  ultimately show "0 < stamp \<Longrightarrow> ?thesis"
    by (simp add: kinematic_finite_def ex_kinematic_def vfinite_def vzero_def quaternion_scale_def fp_max_def
        fp_sub_def fp_convert_def fp_simps)
qed

definition ex_store :: ExecutionStateStore where
  "ex_store = \<lparr>es_active_epoch = 1, es_next_ingress_sequence = 1,
     es_state = Some \<lparr>le_state = ex_kinematic 5, le_ingress_sequence = 1\<rparr>\<rparr>"

lemma ex_store_publish: "store_publish (\<lambda>_. Fin 1) (ex_kinematic 5) initial_state_store = (True, ex_store)"
  using ex_kinematic_finite [of 5] by (simp add: store_publish_def initial_state_store_def ex_store_def)
    (simp add: ex_kinematic_def)

lemma ex_store_reachable: "state_store.reachable (\<lambda>_. Fin 1) ex_store"
  using state_store.reach_step [OF state_store.reach_init [OF refl] step_publish [of "\<lambda>_. Fin 1" initial_state_store "ex_kinematic 5"]]
  by (simp add: ex_store_publish)

theorem ingress_sequence_identifies_lease_witness:
  "state_store.reachable (\<lambda>_. Fin 1) ex_store \<and>
   store_load ex_store = Some \<lparr>le_state = ex_kinematic 5, le_ingress_sequence = 1\<rparr> \<and>
   \<lparr>le_state = ex_kinematic 5, le_ingress_sequence = 1\<rparr> = the (store_load ex_store)"
proof -
  have l: "store_load ex_store = Some \<lparr>le_state = ex_kinematic 5, le_ingress_sequence = 1\<rparr>"
    by (simp add: store_load_def ex_store_def)
  have "(0 :: nat) < 2 ^ 64" by simp
  from ingress_sequence_identifies_lease [OF ex_store_reachable state_store.run_refl this l l refl] l ex_store_reachable
  show ?thesis by simp
qed

theorem state_store_freshness_witness:
  "state_store.reachable (\<lambda>_. Fin 1) initial_state_store \<and>
   store_publish (\<lambda>_. Fin 1) (ex_kinematic 5) initial_state_store = (True, ex_store) \<and>
   map_option le_state (store_load ex_store) = Some (ex_kinematic 5) \<and>
   store_load (publish_all (\<lambda>_. Fin 1) [ex_kinematic 6] (snd (resetForLocalizationEpoch 2 initial_state_store))) = None"
proof -
  have r: "state_store.reachable (\<lambda>_. Fin 1) initial_state_store" by (rule state_store.reach_init) (rule refl)
  have k: "ks_localization_epoch (ex_kinematic 6) = 1" by (simp add: ex_kinematic_def)
  have "(2 :: u64) \<noteq> 0" by simp
  then have "\<forall>l. store_load (publish_all (\<lambda>_. Fin 1) [ex_kinematic 6] (snd (resetForLocalizationEpoch 2 initial_state_store))) =
      Some l \<longrightarrow> ks_localization_epoch (le_state l) = 2"
    using state_store_freshness [OF r ex_store_publish] by blast
  then have "store_load (publish_all (\<lambda>_. Fin 1) [ex_kinematic 6] (snd (resetForLocalizationEpoch 2 initial_state_store))) = None"
    using k by (auto simp: publish_all_def store_publish_def store_load_def resetForLocalizationEpoch_def Let_def split: if_splits)
  with state_store_freshness [OF r ex_store_publish] r ex_store_publish show ?thesis by blast
qed

end
