(* ===== verification/Spsc_Queue.thy ===== *)
theory Spsc_Queue
  imports Nav_Prelude "HOL-Library.Sublist"
begin

text \<open>
  \<open>navigation_common/bounded_spsc_queue.hpp\<close>: the fixed-capacity single-producer/single-consumer ring
  buffer. \<open>tryPush\<close> and \<open>tryPop\<close> are given whole, and again as the atomic loads, the slot access and
  the release store they consist of, so that the two threads interleave between any two accesses. The
  64-bit indices wrap; the slot is the index modulo the capacity, so the order survives a wrap-around
  exactly when the capacity divides \<open>2 ^ 64\<close>. Otherwise the theorems ask for fewer pushes than that.
\<close>

section \<open>The queue\<close>

record 'a spsc =
  slots :: "'a list"
  write_index :: u64
  read_index :: u64

definition spsc_init :: "nat \<Rightarrow> 'a \<Rightarrow> 'a spsc" where
  "spsc_init cap default_value = \<lparr>slots = replicate cap default_value, write_index = 0, read_index = 0\<rparr>"

definition spsc_full :: "nat \<Rightarrow> u64 \<Rightarrow> u64 \<Rightarrow> bool" where
  "spsc_full cap write read \<longleftrightarrow> write - read \<ge> of_nat cap"

definition store_slot :: "nat \<Rightarrow> u64 \<Rightarrow> 'a \<Rightarrow> 'a spsc \<Rightarrow> 'a spsc" where
  "store_slot cap write v q = q\<lparr>slots := (slots q)[unat write mod cap := v]\<rparr>"

definition load_slot :: "nat \<Rightarrow> u64 \<Rightarrow> 'a spsc \<Rightarrow> 'a" where
  "load_slot cap read q = slots q ! (unat read mod cap)"

definition tryPush :: "nat \<Rightarrow> 'a \<Rightarrow> 'a spsc \<Rightarrow> bool \<times> 'a spsc" where
  "tryPush cap v q =
     (let write = write_index q; read = read_index q
      in if spsc_full cap write read then (False, q)
         else (True, (store_slot cap write v q)\<lparr>write_index := write + 1\<rparr>))"

definition tryPop :: "nat \<Rightarrow> 'a spsc \<Rightarrow> 'a option \<times> 'a spsc" where
  "tryPop cap q =
     (let read = read_index q; write = write_index q
      in if read = write then (None, q)
         else (Some (load_slot cap read q), q\<lparr>read_index := read + 1\<rparr>))"

definition sizeApprox :: "nat \<Rightarrow> 'a spsc \<Rightarrow> nat" where
  "sizeApprox cap q =
     (let size = write_index q - read_index q
      in if size > of_nat cap then cap else unat size)"

section \<open>Contents\<close>

definition spsc_size :: "'a spsc \<Rightarrow> nat" where
  "spsc_size q = unat (write_index q - read_index q)"

definition contents :: "nat \<Rightarrow> 'a spsc \<Rightarrow> 'a list" where
  "contents cap q = map (\<lambda>i. slots q ! ((unat (read_index q) + i) mod cap)) [0..<spsc_size q]"

text \<open>
  Well-formed queues: at most \<open>cap\<close> elements, and either the capacity divides \<open>2 ^ 64\<close> or neither index
  has wrapped.
\<close>

definition spsc_ok :: "nat \<Rightarrow> 'a spsc \<Rightarrow> bool" where
  "spsc_ok cap q \<longleftrightarrow> 0 < cap \<and> cap < 2 ^ 64 \<and> length (slots q) = cap \<and> spsc_size q \<le> cap \<and>
     (cap dvd 2 ^ 64 \<or> read_index q \<le> write_index q)"

text \<open>The next push does not wrap the write index, or wrapping is harmless.\<close>

definition push_safe :: "nat \<Rightarrow> 'a spsc \<Rightarrow> bool" where
  "push_safe cap q \<longleftrightarrow> cap dvd 2 ^ 64 \<or> write_index q + 1 \<noteq> 0"

lemma contents_length [simp]: "length (contents cap q) = spsc_size q"
  by (simp add: contents_def)

lemma size_zero: "spsc_size q = 0 \<longleftrightarrow> read_index q = write_index q"
  by (auto simp: spsc_size_def unat_eq_0)

lemma unat_bound: "unat (x :: u64) < 2 ^ 64"
  using unsigned_less [of x, where ?'a = nat] by simp

lemma unat_add_mod:
  "(cap dvd 2 ^ 64 \<or> unat (a :: u64) + n < 2 ^ 64) \<Longrightarrow> unat (a + of_nat n) mod cap = (unat a + n) mod cap"
  by (auto simp: unat_word_ariths unat_of_nat mod_add_right_eq mod_mod_cancel)

lemma write_slot:
  assumes "spsc_ok cap q"
  shows "unat (write_index q) mod cap = (unat (read_index q) + spsc_size q) mod cap"
proof -
  have "write_index q = read_index q + of_nat (spsc_size q)" by (simp add: spsc_size_def)
  moreover have "cap dvd 2 ^ 64 \<or> unat (read_index q) + spsc_size q < 2 ^ 64"
    using assms unat_bound [of "write_index q"] by (auto simp: spsc_ok_def spsc_size_def word_le_nat_alt unat_sub)
  ultimately show ?thesis using unat_add_mod by metis
qed

lemma slot_inj:
  assumes "i < cap" "j < cap" "(r + i) mod cap = ((r :: nat) + j) mod cap"
  shows "i = j"
proof (rule linorder_cases [of i j])
  assume "i < j"
  then have "cap dvd j - i" using mod_eq_dvd_iff_nat [of "r + i" "r + j" cap] assms(3) by simp
  with \<open>i < j\<close> assms(2) show ?thesis by (simp add: nat_dvd_not_less)
next
  assume "j < i"
  then have "cap dvd i - j" using mod_eq_dvd_iff_nat [of "r + j" "r + i" cap] assms(3) by simp
  with \<open>j < i\<close> assms(1) show ?thesis by (simp add: nat_dvd_not_less)
qed

text \<open>Storing beyond the last element leaves the contents alone.\<close>

lemma contents_store:
  assumes "spsc_ok cap q" "spsc_size q < cap"
  shows "contents cap (store_slot cap (write_index q) v q) = contents cap q"
proof -
  have "(slots q)[unat (write_index q) mod cap := v] ! ((unat (read_index q) + i) mod cap) =
      slots q ! ((unat (read_index q) + i) mod cap)" if "i < spsc_size q" for i
    using that assms slot_inj [of i cap "spsc_size q" "unat (read_index q)"] write_slot [OF assms(1)]
    by (metis nth_list_update_neq order_less_trans not_less_iff_gr_or_eq)
  then show ?thesis by (simp add: contents_def store_slot_def spsc_size_def)
qed

lemma unat_Suc: "unat (x :: u64) < 2 ^ 64 - 1 \<Longrightarrow> unat (x + 1) = Suc (unat x)"
  by (simp add: unat_word_ariths)

lemma unat_Suc_nonzero:
  assumes "(x :: u64) + 1 \<noteq> 0" shows "unat (x + 1) = Suc (unat x)"
proof -
  have "(unat x + 1) mod 2 ^ 64 \<noteq> 0" using assms unat_eq_0 [of "x + 1"] by (simp add: unat_word_ariths)
  then have "unat x < 2 ^ 64 - 1" using unat_bound [of x] by (cases "unat x = 2 ^ 64 - 1") auto
  then show ?thesis by (rule unat_Suc)
qed

lemma unat_pred: "0 < unat (x :: u64) \<Longrightarrow> unat (x - 1) = unat x - 1"
  by (metis One_nat_def diff_Suc_1 not_less_zero unat_eq_zero unat_minus_one)

lemma size_push:
  assumes "spsc_size q < 2 ^ 64 - 1"
  shows "spsc_size (q\<lparr>write_index := write_index q + 1\<rparr>) = Suc (spsc_size q)"
proof -
  have "spsc_size (q\<lparr>write_index := write_index q + 1\<rparr>) = unat ((write_index q - read_index q) + 1)"
    by (simp add: spsc_size_def algebra_simps)
  then show ?thesis using assms unat_Suc [of "write_index q - read_index q"] by (simp only: spsc_size_def)
qed

lemma size_pop:
  assumes "0 < spsc_size q"
  shows "spsc_size (q\<lparr>read_index := read_index q + 1\<rparr>) = spsc_size q - 1"
proof -
  have "spsc_size (q\<lparr>read_index := read_index q + 1\<rparr>) = unat ((write_index q - read_index q) - 1)"
    by (simp add: spsc_size_def algebra_simps)
  then show ?thesis using assms unat_pred [of "write_index q - read_index q"] by (simp only: spsc_size_def)
qed

lemma not_full_iff:
  assumes "cap < 2 ^ 64"
  shows "spsc_full cap w r \<longleftrightarrow> cap \<le> unat (w - r)"
  using assms by (simp add: spsc_full_def word_le_nat_alt unat_of_nat)

text \<open>The release store of the write index appends the value in the next slot; that of the read index drops the head.\<close>

lemma contents_advance_write:
  assumes "spsc_ok cap q" "spsc_size q < cap"
  shows "contents cap (q\<lparr>write_index := write_index q + 1\<rparr>) =
    contents cap q @ [slots q ! (unat (write_index q) mod cap)]"
proof -
  have "spsc_size q < 2 ^ 64 - 1" using assms by (auto simp: spsc_ok_def)
  then show ?thesis using write_slot [OF assms(1)] by (simp add: contents_def size_push)
qed

lemma contents_advance_read:
  assumes "spsc_ok cap q" "0 < spsc_size q"
  shows "contents cap q = load_slot cap (read_index q) q # contents cap (q\<lparr>read_index := read_index q + 1\<rparr>)"
proof -
  have nz: "cap dvd 2 ^ 64 \<or> unat (read_index q) + 1 < 2 ^ 64"
    using assms unat_bound [of "write_index q"]
    by (auto simp: spsc_ok_def spsc_size_def word_le_nat_alt unat_sub)
  have r: "(unat (read_index q + 1) + i) mod cap = (unat (read_index q) + Suc i) mod cap" for i
    using unat_add_mod [OF nz] by (metis add.assoc mod_add_left_eq of_nat_1 plus_1_eq_Suc)
  have "[0..<spsc_size q] = 0 # map Suc [0..<spsc_size q - 1]"
    using assms(2) by (metis Suc_diff_1 map_Suc_upt upt_conv_Cons)
  then show ?thesis
    using assms(2) by (simp add: contents_def load_slot_def size_pop r o_def)
qed

lemma ok_advance_write:
  assumes "spsc_ok cap q" "spsc_size q < cap" "push_safe cap q"
  shows "spsc_ok cap (q\<lparr>write_index := write_index q + 1\<rparr>)"
proof -
  have "spsc_size q < 2 ^ 64 - 1" using assms by (auto simp: spsc_ok_def)
  moreover have "cap dvd 2 ^ 64 \<or> read_index q \<le> write_index q + 1"
    using assms unat_Suc_nonzero [of "write_index q"] by (auto simp: spsc_ok_def push_safe_def word_le_nat_alt)
  ultimately show ?thesis using assms by (simp add: spsc_ok_def size_push)
qed

lemma ok_advance_read:
  assumes "spsc_ok cap q" "0 < spsc_size q"
  shows "spsc_ok cap (q\<lparr>read_index := read_index q + 1\<rparr>)"
proof -
  have "read_index q \<noteq> write_index q" using assms(2) size_zero [of q] by auto
  then have "cap dvd 2 ^ 64 \<or> read_index q + 1 \<le> write_index q"
    using assms(1) by (auto simp: spsc_ok_def intro: inc_le)
  then show ?thesis using assms by (auto simp: spsc_ok_def size_pop)
qed

lemma ok_store: "spsc_ok cap q \<Longrightarrow> spsc_ok cap (store_slot cap w v q)"
  by (simp add: spsc_ok_def store_slot_def spsc_size_def)

section \<open>The interface of a bounded FIFO\<close>

locale bounded_fifo =
  fixes abs :: "'q \<Rightarrow> 'a list"
    and inv :: "'q \<Rightarrow> bool"
    and safe :: "'q \<Rightarrow> bool"
    and cap :: nat
    and push :: "'a \<Rightarrow> 'q \<Rightarrow> bool \<times> 'q"
    and pop :: "'q \<Rightarrow> 'a option \<times> 'q"
  assumes push_spec: "inv q \<Longrightarrow> safe q \<Longrightarrow> inv (snd (push v q)) \<and> fst (push v q) = (length (abs q) < cap) \<and>
      abs (snd (push v q)) = (if length (abs q) < cap then abs q @ [v] else abs q)"
    and pop_spec: "inv q \<Longrightarrow> inv (snd (pop q)) \<and> fst (pop q) = (if abs q = [] then None else Some (hd (abs q))) \<and>
      abs (snd (pop q)) = tl (abs q)"
begin

fun push_all :: "'a list \<Rightarrow> 'q \<Rightarrow> 'q" where
  "push_all [] q = q"
| "push_all (v # vs) q = push_all vs (snd (push v q))"

fun pop_times :: "nat \<Rightarrow> 'q \<Rightarrow> 'a option list" where
  "pop_times 0 q = []"
| "pop_times (Suc n) q = fst (pop q) # pop_times n (snd (pop q))"

text \<open>Every state between the pushes may accept another one.\<close>

fun safe_all :: "'a list \<Rightarrow> 'q \<Rightarrow> bool" where
  "safe_all [] q = True"
| "safe_all (v # vs) q \<longleftrightarrow> safe q \<and> safe_all vs (snd (push v q))"

lemma push_all_spec:
  "inv q \<Longrightarrow> safe_all vs q \<Longrightarrow> length (abs q) + length vs \<le> cap \<Longrightarrow> inv (push_all vs q) \<and> abs (push_all vs q) = abs q @ vs"
proof (induction vs arbitrary: q)
  case (Cons v vs)
  have "inv (snd (push v q))" "abs (snd (push v q)) = abs q @ [v]"
    using push_spec [of q v] Cons.prems by auto
  with Cons.IH [of "snd (push v q)"] Cons.prems show ?case by simp
qed simp

lemma pop_times_spec: "inv q \<Longrightarrow> n \<le> length (abs q) \<Longrightarrow> pop_times n q = map Some (take n (abs q))"
proof (induction n arbitrary: q)
  case (Suc n)
  have "abs q \<noteq> []" using Suc.prems by auto
  then obtain x xs where x: "abs q = x # xs" by (cases "abs q") auto
  with Suc.IH [of "snd (pop q)"] pop_spec [of q] Suc.prems show ?case by simp
qed simp

text \<open>First in, first out: what is pushed into a queue with room comes out in order, after what was there.\<close>

lemma fifo_order:
  assumes "inv q" "safe_all vs q" "length (abs q) + length vs \<le> cap"
  shows "pop_times (length (abs q) + length vs) (push_all vs q) = map Some (abs q @ vs)"
  using push_all_spec [OF assms] pop_times_spec [of "push_all vs q" "length (abs q) + length vs"] by simp

end

lemma tryPush_spec:
  assumes "spsc_ok cap q" "push_safe cap q"
  shows "spsc_ok cap (snd (tryPush cap v q)) \<and> fst (tryPush cap v q) = (length (contents cap q) < cap) \<and>
    contents cap (snd (tryPush cap v q)) = (if length (contents cap q) < cap then contents cap q @ [v] else contents cap q)"
proof (cases "spsc_size q < cap")
  case True
  let ?q = "store_slot cap (write_index q) v q"
  have w: "write_index ?q = write_index q" "spsc_size ?q = spsc_size q" by (simp_all add: store_slot_def spsc_size_def)
  have c: "cap < 2 ^ 64" "length (slots q) = cap" "0 < cap" using assms(1) by (auto simp: spsc_ok_def)
  have nf: "\<not> spsc_full cap (write_index q) (read_index q)"
    using True not_full_iff [OF c(1)] by (simp add: spsc_size_def)
  have slot: "slots ?q ! (unat (write_index q) mod cap) = v" using c by (simp add: store_slot_def)
  have ok: "spsc_ok cap ?q" "push_safe cap ?q" using assms ok_store by (auto simp: push_safe_def store_slot_def)
  have "contents cap (?q\<lparr>write_index := write_index q + 1\<rparr>) = contents cap q @ [v]"
    using contents_advance_write [OF ok(1)] True w slot contents_store [OF assms(1) True, of v] by simp
  moreover have "spsc_ok cap (?q\<lparr>write_index := write_index q + 1\<rparr>)"
    using ok_advance_write [OF ok(1) _ ok(2)] True w by simp
  ultimately show ?thesis using True nf by (simp add: tryPush_def Let_def)
next
  case False
  have "spsc_full cap (write_index q) (read_index q)"
    using False assms(1) not_full_iff [of cap] by (simp add: spsc_ok_def spsc_size_def)
  with False assms show ?thesis by (simp add: tryPush_def Let_def)
qed

lemma tryPop_spec:
  assumes "spsc_ok cap q"
  shows "spsc_ok cap (snd (tryPop cap q)) \<and>
    fst (tryPop cap q) = (if contents cap q = [] then None else Some (hd (contents cap q))) \<and>
    contents cap (snd (tryPop cap q)) = tl (contents cap q)"
proof (cases "spsc_size q = 0")
  case True
  then have "contents cap q = []" by (simp add: contents_def)
  moreover have "read_index q = write_index q" using True size_zero by blast
  ultimately show ?thesis using assms by (simp add: tryPop_def)
next
  case False
  then have "read_index q \<noteq> write_index q" using size_zero [of q] by auto
  with contents_advance_read [OF assms] ok_advance_read [OF assms] False show ?thesis
    by (simp add: tryPop_def Let_def)
qed

interpretation spsc: bounded_fifo "contents cap" "spsc_ok cap" "push_safe cap" cap "tryPush cap" "tryPop cap" for cap
  by unfold_locales (rule tryPush_spec tryPop_spec; assumption)+

lemma push_safe_all: "cap dvd 2 ^ 64 \<Longrightarrow> spsc.safe_all cap vs q"
  by (induction vs arbitrary: q) (auto simp: push_safe_def)

text \<open>
  The ring buffer refines a bounded FIFO over the whole range of its wrapping indices: values pushed
  into a queue with room for them come out in order behind what it held.
\<close>

theorem spsc_fifo:
  assumes "spsc_ok cap q" "cap dvd 2 ^ 64" "length (contents cap q) + length vs \<le> cap"
  shows "spsc.pop_times cap (length (contents cap q) + length vs) (spsc.push_all cap vs q) =
    map Some (contents cap q @ vs)"
  using spsc.fifo_order [OF assms(1) push_safe_all [OF assms(2)] assms(3)] .

lemma ok_init: "0 < cap \<Longrightarrow> cap < 2 ^ 64 \<Longrightarrow> spsc_ok cap (spsc_init cap d)"
  by (simp add: spsc_ok_def spsc_init_def spsc_size_def)

theorem spsc_fifo_witness:
  "spsc_ok 4 \<lparr>slots = [7, 0, 0, 0 :: int], write_index = 1, read_index = 0\<rparr> \<and>
   spsc.pop_times 4 3 (spsc.push_all 4 [8, 9] \<lparr>slots = [7, 0, 0, 0], write_index = 1, read_index = 0\<rparr>) =
     [Some 7, Some 8, Some (9 :: int)]"
proof -
  let ?q = "\<lparr>slots = [7, 0, 0, 0 :: int], write_index = 1, read_index = 0\<rparr>"
  have ok: "spsc_ok 4 ?q" by (simp add: spsc_ok_def spsc_size_def)
  have c: "contents 4 ?q = [7]" by (simp add: contents_def spsc_size_def)
  have "(4 :: nat) dvd 2 ^ 64" "length (contents 4 ?q) + length [8, 9 :: int] \<le> 4" by (simp_all add: c)
  from spsc_fifo [OF ok this] ok show ?thesis by (simp add: c numeral_3_eq_3 numeral_2_eq_2)
qed

section \<open>The two threads\<close>

text \<open>
  The program points of the producer and of the consumer, with the locals they hold. The release/acquire
  pairs make a slot written before a release store visible after the acquire load that reads the new
  index, so an interleaving of the accesses is the execution the code allows. \<open>pushed\<close> and \<open>popped\<close>
  record the values whose index stores have been performed.
\<close>

datatype 'a producer = PIdle | PLoadedWrite 'a u64 | PLoadedRead 'a u64 u64 | PStored 'a u64

datatype 'a consumer = CIdle | CLoadedRead u64 | CLoadedWrite u64 u64 | CFetched u64 'a

record 'a threads =
  th_queue :: "'a spsc"
  th_producer :: "'a producer"
  th_consumer :: "'a consumer"
  th_pushed :: "'a list"
  th_popped :: "'a list"

definition threads_init :: "nat \<Rightarrow> 'a \<Rightarrow> 'a threads" where
  "threads_init cap d = \<lparr>th_queue = spsc_init cap d, th_producer = PIdle, th_consumer = CIdle,
     th_pushed = [], th_popped = []\<rparr>"

inductive spsc_step :: "nat \<Rightarrow> 'a threads \<Rightarrow> 'a threads \<Rightarrow> bool" for cap where
  push_begin: "th_producer s = PIdle \<Longrightarrow>
    spsc_step cap s (s\<lparr>th_producer := PLoadedWrite v (write_index (th_queue s))\<rparr>)"
| push_read: "th_producer s = PLoadedWrite v w \<Longrightarrow>
    spsc_step cap s (s\<lparr>th_producer := PLoadedRead v w (read_index (th_queue s))\<rparr>)"
| push_full: "th_producer s = PLoadedRead v w r \<Longrightarrow> spsc_full cap w r \<Longrightarrow> spsc_step cap s (s\<lparr>th_producer := PIdle\<rparr>)"
| push_slot: "th_producer s = PLoadedRead v w r \<Longrightarrow> \<not> spsc_full cap w r \<Longrightarrow>
    spsc_step cap s (s\<lparr>th_producer := PStored v w, th_queue := store_slot cap w v (th_queue s)\<rparr>)"
| push_commit: "th_producer s = PStored v w \<Longrightarrow> push_safe cap (th_queue s) \<Longrightarrow>
    spsc_step cap s (s\<lparr>th_producer := PIdle, th_queue := (th_queue s)\<lparr>write_index := w + 1\<rparr>,
      th_pushed := th_pushed s @ [v]\<rparr>)"
| pop_begin: "th_consumer s = CIdle \<Longrightarrow> spsc_step cap s (s\<lparr>th_consumer := CLoadedRead (read_index (th_queue s))\<rparr>)"
| pop_write: "th_consumer s = CLoadedRead r \<Longrightarrow>
    spsc_step cap s (s\<lparr>th_consumer := CLoadedWrite r (write_index (th_queue s))\<rparr>)"
| pop_empty: "th_consumer s = CLoadedWrite r w \<Longrightarrow> r = w \<Longrightarrow> spsc_step cap s (s\<lparr>th_consumer := CIdle\<rparr>)"
| pop_slot: "th_consumer s = CLoadedWrite r w \<Longrightarrow> r \<noteq> w \<Longrightarrow>
    spsc_step cap s (s\<lparr>th_consumer := CFetched r (load_slot cap r (th_queue s))\<rparr>)"
| pop_commit: "th_consumer s = CFetched r x \<Longrightarrow>
    spsc_step cap s (s\<lparr>th_consumer := CIdle, th_queue := (th_queue s)\<lparr>read_index := r + 1\<rparr>,
      th_popped := th_popped s @ [x]\<rparr>)"

definition producer_ok :: "nat \<Rightarrow> 'a spsc \<Rightarrow> 'a producer \<Rightarrow> bool" where
  "producer_ok cap q p =
     (case p of PIdle \<Rightarrow> True
      | PLoadedWrite v w \<Rightarrow> w = write_index q
      | PLoadedRead v w r \<Rightarrow> w = write_index q \<and> spsc_size q \<le> unat (w - r)
      | PStored v w \<Rightarrow> w = write_index q \<and> spsc_size q < cap \<and> slots q ! (unat w mod cap) = v)"

definition consumer_ok :: "nat \<Rightarrow> 'a spsc \<Rightarrow> 'a consumer \<Rightarrow> bool" where
  "consumer_ok cap q c =
     (case c of CIdle \<Rightarrow> True
      | CLoadedRead r \<Rightarrow> r = read_index q
      | CLoadedWrite r w \<Rightarrow> r = read_index q \<and> (r \<noteq> w \<longrightarrow> 0 < spsc_size q)
      | CFetched r x \<Rightarrow> r = read_index q \<and> 0 < spsc_size q \<and> x = load_slot cap r q)"

definition threads_ok :: "nat \<Rightarrow> 'a threads \<Rightarrow> bool" where
  "threads_ok cap s \<longleftrightarrow> spsc_ok cap (th_queue s) \<and> th_pushed s = th_popped s @ contents cap (th_queue s) \<and>
     producer_ok cap (th_queue s) (th_producer s) \<and> consumer_ok cap (th_queue s) (th_consumer s)"

text \<open>The slot the producer writes is not the one the consumer reads.\<close>

lemma load_after_store:
  assumes "spsc_ok cap q" "0 < spsc_size q" "spsc_size q < cap"
  shows "load_slot cap (read_index q) (store_slot cap (write_index q) v q) = load_slot cap (read_index q) q"
proof -
  have "unat (read_index q) mod cap \<noteq> unat (write_index q) mod cap"
    using slot_inj [of 0 cap "spsc_size q" "unat (read_index q)"] write_slot [OF assms(1)] assms by auto
  then show ?thesis by (simp add: load_slot_def store_slot_def)
qed

lemma consumer_store:
  assumes "spsc_ok cap q" "spsc_size q < cap" "consumer_ok cap q c"
  shows "consumer_ok cap (store_slot cap (write_index q) v q) c"
  using assms load_after_store [OF assms(1) _ assms(2)]
  by (cases c) (auto simp: consumer_ok_def store_slot_def spsc_size_def)

lemma consumer_grow:
  assumes "spsc_size q < 2 ^ 64 - 1" "consumer_ok cap q c"
  shows "consumer_ok cap (q\<lparr>write_index := write_index q + 1\<rparr>) c"
  using assms(2) size_push [OF assms(1)] by (cases c) (auto simp: consumer_ok_def load_slot_def)

lemma producer_shrink:
  assumes "0 < spsc_size q" "producer_ok cap q p"
  shows "producer_ok cap (q\<lparr>read_index := read_index q + 1\<rparr>) p"
  using assms(2) size_pop [OF assms(1)] by (cases p) (auto simp: producer_ok_def)

lemma threads_step_ok: "spsc_step cap s t \<Longrightarrow> threads_ok cap s \<Longrightarrow> threads_ok cap t"
proof (induction rule: spsc_step.induct)
  case (push_slot s v w r)
  then have q: "spsc_ok cap (th_queue s)" "w = write_index (th_queue s)" "spsc_size (th_queue s) < cap" "0 < cap"
    "length (slots (th_queue s)) = cap"
    using not_full_iff [of cap w r] by (auto simp: threads_ok_def producer_ok_def spsc_ok_def)
  have "producer_ok cap (store_slot cap w v (th_queue s)) (PStored v w)"
    using q by (simp add: producer_ok_def store_slot_def spsc_size_def)
  with push_slot.prems q consumer_store [OF q(1,3)] show ?case
    by (simp add: threads_ok_def ok_store contents_store)
next
  case (push_commit s v w)
  then have q: "spsc_ok cap (th_queue s)" "w = write_index (th_queue s)" "spsc_size (th_queue s) < cap"
    "slots (th_queue s) ! (unat w mod cap) = v" "consumer_ok cap (th_queue s) (th_consumer s)"
    by (auto simp: threads_ok_def producer_ok_def)
  then have "spsc_size (th_queue s) < 2 ^ 64 - 1" by (auto simp: spsc_ok_def)
  with push_commit q show ?case
    by (simp add: threads_ok_def ok_advance_write contents_advance_write consumer_grow producer_ok_def)
next
  case (pop_slot s r w)
  then show ?case by (auto simp: threads_ok_def consumer_ok_def)
next
  case (pop_commit s r x)
  then have q: "spsc_ok cap (th_queue s)" "r = read_index (th_queue s)" "0 < spsc_size (th_queue s)"
    "x = load_slot cap r (th_queue s)" "producer_ok cap (th_queue s) (th_producer s)"
    by (auto simp: threads_ok_def consumer_ok_def)
  with pop_commit contents_advance_read [OF q(1,3)] show ?case
    by (simp add: threads_ok_def ok_advance_read producer_shrink consumer_ok_def)
next
  case (pop_write s r)
  then show ?case using size_zero [of "th_queue s"] by (auto simp: threads_ok_def consumer_ok_def)
qed (auto simp: threads_ok_def producer_ok_def consumer_ok_def spsc_size_def)

interpretation spsc_threads: transition_system "\<lambda>s. s = threads_init cap d" "spsc_step cap" for cap d .

lemma threads_init_ok: "0 < cap \<Longrightarrow> cap < 2 ^ 64 \<Longrightarrow> threads_ok cap (threads_init cap d)"
  using ok_init [of cap d]
  by (simp add: threads_ok_def threads_init_def producer_ok_def consumer_ok_def)
     (simp add: contents_def spsc_init_def spsc_size_def)

text \<open>
  C38. Under every interleaving of the two threads' memory accesses, the values the consumer has taken are
  exactly the first ones the producer has handed over, in order, without loss, duplication or tearing,
  and the rest are the contents of the buffer, never more than its capacity. When the capacity does not
  divide \<open>2 ^ 64\<close> this is stated for fewer than \<open>2 ^ 64\<close> pushes: the producer's step carries the condition
  \<open>push_safe\<close>, which the code does not test, that the write index does not wrap around. Capacities that divide
  \<open>2 ^ 64\<close>, the powers of two, need no such condition; the one queue of the repository has 256 slots.
\<close>

theorem spsc_linearizable:
  assumes "spsc_threads.reachable cap d s" "0 < cap" "cap < 2 ^ 64"
  shows "th_pushed s = th_popped s @ contents cap (th_queue s) \<and> prefix (th_popped s) (th_pushed s) \<and>
    length (th_pushed s) - length (th_popped s) \<le> cap"
proof -
  have "threads_ok cap s"
  proof (rule spsc_threads.invariant_reachable [OF _ _ assms(1)])
    show "threads_ok cap s'" if "s' = threads_init cap d" for s' using that threads_init_ok [OF assms(2,3)] by simp
    show "threads_ok cap t" if "threads_ok cap s'" "spsc_step cap s' t" for s' t
      using threads_step_ok that by blast
  qed
  then have "th_pushed s = th_popped s @ contents cap (th_queue s)" "spsc_size (th_queue s) \<le> cap"
    by (simp_all only: threads_ok_def spsc_ok_def)
  then show ?thesis by simp
qed

definition ex_pushed :: "int threads" where
  "ex_pushed = \<lparr>th_queue = \<lparr>slots = [7, 0, 0, 0], write_index = 1, read_index = 0\<rparr>, th_producer = PIdle,
     th_consumer = CIdle, th_pushed = [7], th_popped = []\<rparr>"

lemma ex_pushed_reachable: "spsc_threads.reachable 4 0 ex_pushed"
proof -
  let ?s0 = "threads_init 4 0 :: int threads"
  let ?s1 = "?s0\<lparr>th_producer := PLoadedWrite 7 0\<rparr>" let ?s2 = "?s0\<lparr>th_producer := PLoadedRead 7 0 0\<rparr>"
  let ?s3 = "ex_pushed\<lparr>th_producer := PStored 7 0, th_queue := (th_queue ex_pushed)\<lparr>write_index := 0\<rparr>,
    th_pushed := []\<rparr>"
  have "spsc_step 4 ?s0 ?s1" using push_begin [of ?s0 4 7] by (simp add: threads_init_def spsc_init_def)
  moreover have "spsc_step 4 ?s1 ?s2" using push_read [of ?s1 7 0 4] by (simp add: threads_init_def spsc_init_def)
  moreover have "spsc_step 4 ?s2 ?s3"
  proof -
    have "\<not> spsc_full 4 0 0" by (simp add: spsc_full_def)
    moreover have "replicate 4 (0 :: int) = [0, 0, 0, 0]" by (simp add: numeral_Bit0)
    ultimately show ?thesis
      using push_slot [of ?s2 7 0 0 4] by (simp add: threads_init_def spsc_init_def ex_pushed_def store_slot_def)
  qed
  moreover have "spsc_step 4 ?s3 ex_pushed"
    using push_commit [of ?s3 7 0 4] by (simp add: ex_pushed_def push_safe_def)
  moreover have "spsc_threads.reachable 4 0 ?s0" by (rule spsc_threads.reach_init) (rule refl)
  ultimately show ?thesis using spsc_threads.reach_step [of 4 0] by blast
qed

theorem spsc_linearizable_witness:
  "spsc_threads.reachable 4 0 ex_pushed \<and> th_pushed ex_pushed = [] @ contents 4 (th_queue ex_pushed) \<and>
   contents 4 (th_queue ex_pushed) = [7]"
proof -
  have "(0 :: nat) < 4" "(4 :: nat) < 2 ^ 64" by simp_all
  from spsc_linearizable [OF ex_pushed_reachable this] show ?thesis
    by (simp add: ex_pushed_reachable) (simp add: ex_pushed_def)
qed

end
