(* ===== verification/Command_Contract.thy ===== *)
theory Command_Contract
  imports Nav_Time
begin

text \<open>
  The wire contract between the planner runtime and the PX4 external mode, package
  \<open>navigation_contracts\<close>: the command message and its contract and lease checks
  (\<open>navigation_command_contract.hpp\<close>), the freshness of an execution state on the ROS and the steady
  clock (\<open>execution_state_freshness.hpp\<close>) and the estimator gate (\<open>command_safety_contract.hpp\<close>).
\<close>

section \<open>The command message\<close>

record NavigationCommand =
  nc_frame_id :: string
  nc_stamp :: ros_time
  nc_localization_epoch :: u64
  nc_goal_epoch :: u64
  nc_mode_activation_id :: u64
  nc_mission_id :: string
  nc_waypoint_index :: u32
  nc_request_id :: u64
  nc_world_generation :: u64
  nc_world_revision :: u64
  nc_world_observation_stamp :: ros_time
  nc_bundle_generation :: u64
  nc_certified_main_continuation :: bool
  nc_continuation_boundary_stamp_ns :: u64
  nc_sample_id :: u64
  nc_state_source_stamp :: ros_time
  nc_valid_until :: ros_time
  nc_role :: u8
  nc_status :: u8
  nc_position :: vec3
  nc_velocity :: vec3
  nc_acceleration :: vec3
  nc_jerk :: vec3
  nc_yaw :: double
  nc_yaw_rate :: double
  nc_trajectory_time_s :: double
  nc_emergency_authorization_reason :: u8
  nc_emergency_candidate_commit_result :: u8

definition ROLE_MAIN :: u8 where "ROLE_MAIN = 0"
definition ROLE_BACKUP :: u8 where "ROLE_BACKUP = 1"
definition ROLE_EMERGENCY :: u8 where "ROLE_EMERGENCY = 2"
definition STATUS_READY :: u8 where "STATUS_READY = 1"
definition STATUS_BRAKING :: u8 where "STATUS_BRAKING = 2"
definition STATUS_COMPLETED :: u8 where "STATUS_COMPLETED = 3"
definition STATUS_REJECTED :: u8 where "STATUS_REJECTED = 4"

lemmas command_consts = ROLE_MAIN_def ROLE_BACKUP_def ROLE_EMERGENCY_def STATUS_READY_def STATUS_BRAKING_def
  STATUS_COMPLETED_def STATUS_REJECTED_def

datatype CommandContractReason =
    ContractValid | ExpectedFrameMissing | MissionIdEmpty | FrameMismatch | HeaderStampInvalid
  | ValidityWindowInvalid | WorldStampInvalid | StateStampInvalid | LocalizationIdentityInvalid
  | GoalIdentityInvalid | WorldIdentityInvalid | SampleIdentityInvalid | StatusInvalid | RoleStatusMismatch
  | PvajOrYawNonFinite | ContinuationContractInvalid | TrajectoryTimeInvalid

datatype CommandTemporalReason = TemporalValid | NowInvalid | InvalidWindow | NotYetValid | Expired

fun commandContractReasonName :: "CommandContractReason \<Rightarrow> string" where
  "commandContractReasonName ContractValid = ''VALID''"
| "commandContractReasonName ExpectedFrameMissing = ''EXPECTED_FRAME_MISSING''"
| "commandContractReasonName MissionIdEmpty = ''MISSION_ID_EMPTY''"
| "commandContractReasonName FrameMismatch = ''FRAME_MISMATCH''"
| "commandContractReasonName HeaderStampInvalid = ''HEADER_STAMP_INVALID''"
| "commandContractReasonName ValidityWindowInvalid = ''VALIDITY_WINDOW_INVALID''"
| "commandContractReasonName WorldStampInvalid = ''WORLD_STAMP_INVALID''"
| "commandContractReasonName StateStampInvalid = ''STATE_STAMP_INVALID''"
| "commandContractReasonName LocalizationIdentityInvalid = ''LOCALIZATION_ID_INVALID''"
| "commandContractReasonName GoalIdentityInvalid = ''GOAL_ID_INVALID''"
| "commandContractReasonName WorldIdentityInvalid = ''WORLD_ID_INVALID''"
| "commandContractReasonName SampleIdentityInvalid = ''SAMPLE_ID_INVALID''"
| "commandContractReasonName StatusInvalid = ''STATUS_INVALID''"
| "commandContractReasonName RoleStatusMismatch = ''ROLE_STATUS_MISMATCH''"
| "commandContractReasonName PvajOrYawNonFinite = ''PVAJ_OR_YAW_NONFINITE''"
| "commandContractReasonName ContinuationContractInvalid = ''CONTINUATION_CONTRACT_INVALID''"
| "commandContractReasonName TrajectoryTimeInvalid = ''TRAJECTORY_TIME_INVALID''"

fun commandTemporalReasonName :: "CommandTemporalReason \<Rightarrow> string" where
  "commandTemporalReasonName TemporalValid = ''VALID''"
| "commandTemporalReasonName NowInvalid = ''NOW_INVALID''"
| "commandTemporalReasonName InvalidWindow = ''INVALID_WINDOW''"
| "commandTemporalReasonName NotYetValid = ''NOT_YET_VALID''"
| "commandTemporalReasonName Expired = ''EXPIRED''"

definition commandStampNanoseconds :: "ros_time \<Rightarrow> i64" where
  "commandStampNanoseconds stamp = (case rosTimeToNanoseconds stamp of Some n \<Rightarrow> n | None \<Rightarrow> 0)"

definition assessCommandTemporalLease :: "NavigationCommand \<Rightarrow> i64 \<Rightarrow> CommandTemporalReason" where
  "assessCommandTemporalLease command now_ns =
     (if now_ns \<le> 0 then NowInvalid
      else let header_ns = commandStampNanoseconds (nc_stamp command);
               valid_until_ns = commandStampNanoseconds (nc_valid_until command)
           in if header_ns \<le> 0 \<or> valid_until_ns \<le> header_ns then InvalidWindow
              else if header_ns > now_ns then NotYetValid
              else if now_ns > valid_until_ns then Expired
              else TemporalValid)"

definition commandValidAt :: "NavigationCommand \<Rightarrow> i64 \<Rightarrow> bool" where
  "commandValidAt command now_ns \<longleftrightarrow> assessCommandTemporalLease command now_ns = TemporalValid"

definition commandMissionIdentityMatches :: "NavigationCommand \<Rightarrow> string \<Rightarrow> u32 \<Rightarrow> u64 \<Rightarrow> bool" where
  "commandMissionIdentityMatches command mission_id waypoint_index request_id \<longleftrightarrow>
     mission_id \<noteq> [] \<and> nc_mission_id command = mission_id \<and>
     nc_waypoint_index command = waypoint_index \<and> nc_request_id command = request_id"

definition certifiedMainContinuationFieldsValid :: "NavigationCommand \<Rightarrow> bool" where
  "certifiedMainContinuationFieldsValid command =
     (let boundary_ns = nc_continuation_boundary_stamp_ns command
      in if \<not> nc_certified_main_continuation command then boundary_ns = 0
         else nc_role command = ROLE_MAIN \<and> nc_status command = STATUS_READY \<and> boundary_ns > 0)"

definition commandWorldIdentityNonRegressing :: "NavigationCommand \<Rightarrow> NavigationCommand \<Rightarrow> bool" where
  "commandWorldIdentityNonRegressing current previous =
     (if nc_localization_epoch current < nc_localization_epoch previous \<or>
         nc_goal_epoch current < nc_goal_epoch previous \<or>
         nc_world_generation current < nc_world_generation previous then False
      else if nc_world_generation current = nc_world_generation previous \<and>
         (nc_world_revision current < nc_world_revision previous \<or>
          commandStampNanoseconds (nc_world_observation_stamp current) <
            commandStampNanoseconds (nc_world_observation_stamp previous)) then False
      else if nc_localization_epoch current = nc_localization_epoch previous \<and>
         commandStampNanoseconds (nc_state_source_stamp current) <
           commandStampNanoseconds (nc_state_source_stamp previous) then False
      else True)"

definition assessCommandContract :: "NavigationCommand \<Rightarrow> string \<Rightarrow> CommandContractReason" where
  "assessCommandContract command expected_frame =
     (let header_ns = commandStampNanoseconds (nc_stamp command);
          valid_until_ns = commandStampNanoseconds (nc_valid_until command);
          world_stamp_ns = commandStampNanoseconds (nc_world_observation_stamp command);
          state_stamp_ns = commandStampNanoseconds (nc_state_source_stamp command);
          rejected = (nc_status command = STATUS_REJECTED);
          normal = (nc_status command = STATUS_READY \<or> nc_status command = STATUS_COMPLETED);
          braking = (nc_status command = STATUS_BRAKING);
          pvaj_finite = (vfinite (nc_position command) \<and> vfinite (nc_velocity command) \<and>
            vfinite (nc_acceleration command) \<and> vfinite (nc_jerk command) \<and> isfinite (nc_yaw command) \<and>
            isfinite (nc_yaw_rate command) \<and> isfinite (nc_trajectory_time_s command));
          role_valid =
            (normal \<and> (nc_role command = ROLE_MAIN \<or> nc_role command = ROLE_BACKUP) \<and> nc_bundle_generation command \<noteq> 0 \<or>
             braking \<and> nc_role command = ROLE_EMERGENCY \<and> nc_bundle_generation command \<noteq> 0 \<or>
             rejected \<and> nc_role command = ROLE_EMERGENCY)
      in if expected_frame = [] then ExpectedFrameMissing
         else if nc_mission_id command = [] then MissionIdEmpty
         else if nc_frame_id command \<noteq> expected_frame then FrameMismatch
         else if header_ns \<le> 0 then HeaderStampInvalid
         else if valid_until_ns \<le> header_ns then ValidityWindowInvalid
         else if world_stamp_ns \<le> 0 then WorldStampInvalid
         else if state_stamp_ns \<le> 0 then StateStampInvalid
         else if nc_localization_epoch command = 0 then LocalizationIdentityInvalid
         else if nc_goal_epoch command = 0 then GoalIdentityInvalid
         else if nc_world_generation command = 0 \<or> nc_world_revision command = 0 then WorldIdentityInvalid
         else if nc_sample_id command = 0 then SampleIdentityInvalid
         else if \<not> (normal \<or> braking \<or> rejected) then StatusInvalid
         else if \<not> role_valid then RoleStatusMismatch
         else if \<not> pvaj_finite then PvajOrYawNonFinite
         else if \<not> certifiedMainContinuationFieldsValid command then ContinuationContractInvalid
         else if fp_less (nc_trajectory_time_s command) (Fin 0) then TrajectoryTimeInvalid
         else ContractValid)"

definition commandContractValid :: "NavigationCommand \<Rightarrow> string \<Rightarrow> bool" where
  "commandContractValid command expected_frame \<longleftrightarrow> assessCommandContract command expected_frame = ContractValid"

section \<open>Freshness of an execution state\<close>

datatype ExecutionStateFreshnessReason =
    FreshValid | FreshInvalidLimit | FreshMissingSourceStamp | FreshMissingReceiveStamp | FreshSourceStale
  | FreshSourceFuture | FreshReceiveStale | FreshReceiveFuture

record ExecutionStateFreshness =
  esf_reason :: ExecutionStateFreshnessReason
  esf_source_age_ms :: double
  esf_receive_age_ms :: double

definition freshness_valid :: "ExecutionStateFreshness \<Rightarrow> bool" where
  "freshness_valid f \<longleftrightarrow> esf_reason f = FreshValid"

text \<open>The largest limit the check accepts: \<open>static_cast<double>(INT64_MAX) * 1.0e-9\<close>.\<close>

definition maximum_limit_s :: double where
  "maximum_limit_s = dmul (fp_of_int binary64 i64_max) (dlit (1 / 10 ^ 9))"

definition evaluateExecutionStateFreshness ::
    "i64 \<Rightarrow> i64 \<Rightarrow> i64 \<Rightarrow> i64 \<Rightarrow> double \<Rightarrow> ExecutionStateFreshness" where
  "evaluateExecutionStateFreshness now_ros_ns source_stamp_ros_ns now_steady_ns receive_stamp_steady_ns maximum_age_s =
     (let result = \<lparr>esf_reason = FreshInvalidLimit, esf_source_age_ms = Fin 0, esf_receive_age_ms = Fin 0\<rparr>
      in if now_ros_ns \<le> 0 \<or> now_steady_ns \<le> 0 \<or> \<not> isfinite maximum_age_s \<or>
            fp_le maximum_age_s (Fin 0) \<or> fp_less maximum_limit_s maximum_age_s then result
         else if source_stamp_ros_ns \<le> 0 then result\<lparr>esf_reason := FreshMissingSourceStamp\<rparr>
         else if receive_stamp_steady_ns \<le> 0 then result\<lparr>esf_reason := FreshMissingReceiveStamp\<rparr>
         else let maximum_age_ns = ldmul (fp_convert extended80 maximum_age_s) (ldlit 1000000000);
                  source_age_ns = ldsub (fp_of_int extended80 now_ros_ns) (fp_of_int extended80 source_stamp_ros_ns);
                  receive_age_ns = ldsub (fp_of_int extended80 now_steady_ns) (fp_of_int extended80 receive_stamp_steady_ns);
                  result = result\<lparr>esf_source_age_ms := fp_convert binary64 (ldmul source_age_ns (ldlit (1 / 10 ^ 6))),
                    esf_receive_age_ms := fp_convert binary64 (ldmul receive_age_ns (ldlit (1 / 10 ^ 6)))\<rparr>
              in if fp_less maximum_age_ns source_age_ns then result\<lparr>esf_reason := FreshSourceStale\<rparr>
                 else if fp_less source_age_ns (fp_neg maximum_age_ns) then result\<lparr>esf_reason := FreshSourceFuture\<rparr>
                 else if fp_less maximum_age_ns receive_age_ns then result\<lparr>esf_reason := FreshReceiveStale\<rparr>
                 else if fp_less receive_age_ns (Fin 0) then result\<lparr>esf_reason := FreshReceiveFuture\<rparr>
                 else result\<lparr>esf_reason := FreshValid\<rparr>)"

fun executionStateFreshnessReasonName :: "ExecutionStateFreshnessReason \<Rightarrow> string" where
  "executionStateFreshnessReasonName FreshValid = ''VALID''"
| "executionStateFreshnessReasonName FreshInvalidLimit = ''INVALID_LIMIT''"
| "executionStateFreshnessReasonName FreshMissingSourceStamp = ''MISSING_SOURCE_STAMP''"
| "executionStateFreshnessReasonName FreshMissingReceiveStamp = ''MISSING_RECEIVE_STAMP''"
| "executionStateFreshnessReasonName FreshSourceStale = ''SOURCE_STALE''"
| "executionStateFreshnessReasonName FreshSourceFuture = ''SOURCE_FUTURE''"
| "executionStateFreshnessReasonName FreshReceiveStale = ''RECEIVE_STALE''"
| "executionStateFreshnessReasonName FreshReceiveFuture = ''RECEIVE_FUTURE''"

definition estimatorHealthAllowsCommand :: "bool \<Rightarrow> bool \<Rightarrow> u64 \<Rightarrow> u64 \<Rightarrow> bool" where
  "estimatorHealthAllowsCommand typed_health_seen health_valid command_localization_epoch health_localization_epoch \<longleftrightarrow>
     typed_health_seen \<and> health_valid \<and> command_localization_epoch \<noteq> 0 \<and>
     command_localization_epoch = health_localization_epoch"

definition continuationWitnessLeaseValid ::
    "bool \<Rightarrow> i64 \<Rightarrow> i64 \<Rightarrow> i64 \<Rightarrow> ExecutionStateFreshness \<Rightarrow> ExecutionStateFreshness \<Rightarrow> bool \<Rightarrow> bool \<Rightarrow> bool \<Rightarrow> bool \<Rightarrow> bool" where
  "continuationWitnessLeaseValid command_valid_at now_ns last_receive_ns stale_after_ns odometry_freshness
     health_freshness health_matches failure_reported mission_terminal handover_requested \<longleftrightarrow>
     command_valid_at \<and> now_ns > 0 \<and> last_receive_ns > 0 \<and> stale_after_ns \<ge> 0 \<and> now_ns \<ge> last_receive_ns \<and>
     now_ns - last_receive_ns \<le> stale_after_ns \<and> freshness_valid odometry_freshness \<and>
     freshness_valid health_freshness \<and> health_matches \<and> \<not> failure_reported \<and> \<not> mission_terminal \<and>
     \<not> handover_requested"

section \<open>Non-regression and leases\<close>

lemma non_regressing_refl: "commandWorldIdentityNonRegressing c c"
  by (simp add: commandWorldIdentityNonRegressing_def)

lemma non_regressing_iff:
  "commandWorldIdentityNonRegressing c p \<longleftrightarrow>
     nc_localization_epoch p \<le> nc_localization_epoch c \<and> nc_goal_epoch p \<le> nc_goal_epoch c \<and>
     nc_world_generation p \<le> nc_world_generation c \<and>
     (nc_world_generation c = nc_world_generation p \<longrightarrow> nc_world_revision p \<le> nc_world_revision c \<and>
        commandStampNanoseconds (nc_world_observation_stamp p) \<le> commandStampNanoseconds (nc_world_observation_stamp c)) \<and>
     (nc_localization_epoch c = nc_localization_epoch p \<longrightarrow>
        commandStampNanoseconds (nc_state_source_stamp p) \<le> commandStampNanoseconds (nc_state_source_stamp c))"
  unfolding commandWorldIdentityNonRegressing_def not_less [symmetric] by argo

lemma squeeze: "a \<le> b \<Longrightarrow> b \<le> c \<Longrightarrow> c = a \<Longrightarrow> c = b \<and> b = (a :: u64)"
  by simp

lemma non_regressing_trans:
  assumes "commandWorldIdentityNonRegressing b a" "commandWorldIdentityNonRegressing c b"
  shows "commandWorldIdentityNonRegressing c a"
proof -
  note ab = assms(1) [unfolded non_regressing_iff] and bc = assms(2) [unfolded non_regressing_iff]
  have le: "nc_localization_epoch a \<le> nc_localization_epoch c" "nc_goal_epoch a \<le> nc_goal_epoch c"
    "nc_world_generation a \<le> nc_world_generation c"
    using ab bc by (blast intro: order.trans)+
  have w: "nc_world_generation c = nc_world_generation b" "nc_world_generation b = nc_world_generation a"
    if "nc_world_generation c = nc_world_generation a"
    using squeeze [OF _ _ that, of "nc_world_generation b"] ab bc by blast+
  have l: "nc_localization_epoch c = nc_localization_epoch b" "nc_localization_epoch b = nc_localization_epoch a"
    if "nc_localization_epoch c = nc_localization_epoch a"
    using squeeze [OF _ _ that, of "nc_localization_epoch b"] ab bc by blast+
  show ?thesis
    unfolding non_regressing_iff using le w l ab bc by (intro conjI impI) (blast intro: order.trans)+
qed

text \<open>
  C39. The consumer compares each command only with the previous one. In a stream accepted that way, between
  any two commands, however far apart, the later one's localization epoch, goal epoch and world generation
  are at least those of the earlier one; within one world generation the revision and the observation
  stamp do not decrease, and within one localization epoch the stamp of the state does not.
\<close>

theorem accepted_stream_never_regresses:
  assumes "successively (\<lambda>previous current. commandWorldIdentityNonRegressing current previous) commands"
    and "i \<le> j" "j < length commands" "p = commands ! i" "c = commands ! j"
  shows "nc_localization_epoch p \<le> nc_localization_epoch c \<and> nc_goal_epoch p \<le> nc_goal_epoch c \<and>
    nc_world_generation p \<le> nc_world_generation c \<and>
    (nc_world_generation c = nc_world_generation p \<longrightarrow> nc_world_revision p \<le> nc_world_revision c \<and>
       commandStampNanoseconds (nc_world_observation_stamp p) \<le> commandStampNanoseconds (nc_world_observation_stamp c)) \<and>
    (nc_localization_epoch c = nc_localization_epoch p \<longrightarrow>
       commandStampNanoseconds (nc_state_source_stamp p) \<le> commandStampNanoseconds (nc_state_source_stamp c))"
proof -
  have "commandWorldIdentityNonRegressing (commands ! j) (commands ! i)"
  proof (cases "i = j")
    case False
    have "transp (\<lambda>previous current. commandWorldIdentityNonRegressing current previous)"
      by (rule transpI) (rule non_regressing_trans)
    with assms(1) have "sorted_wrt (\<lambda>previous current. commandWorldIdentityNonRegressing current previous) commands"
      by (simp add: successively_conv_sorted_wrt)
    with False assms(2,3) show ?thesis by (simp add: sorted_wrt_iff_nth_less)
  qed (simp add: non_regressing_refl)
  then show ?thesis using assms(4,5) by (simp add: non_regressing_iff)
qed

definition ex_command :: "i32 \<Rightarrow> u64 \<Rightarrow> NavigationCommand" where
  "ex_command seconds revision = \<lparr>nc_frame_id = ''odom'', nc_stamp = \<lparr>sec = seconds, nanosec = 0\<rparr>, nc_localization_epoch = 1,
     nc_goal_epoch = 1, nc_mode_activation_id = 1, nc_mission_id = ''m'', nc_waypoint_index = 0, nc_request_id = 1,
     nc_world_generation = 1, nc_world_revision = revision, nc_world_observation_stamp = \<lparr>sec = seconds, nanosec = 0\<rparr>,
     nc_bundle_generation = 1, nc_certified_main_continuation = False, nc_continuation_boundary_stamp_ns = 0,
     nc_sample_id = 1, nc_state_source_stamp = \<lparr>sec = seconds, nanosec = 0\<rparr>,
     nc_valid_until = \<lparr>sec = seconds + 1, nanosec = 0\<rparr>, nc_role = ROLE_MAIN, nc_status = STATUS_READY,
     nc_position = vzero, nc_velocity = vzero, nc_acceleration = vzero, nc_jerk = vzero, nc_yaw = Fin 0,
     nc_yaw_rate = Fin 0, nc_trajectory_time_s = Fin 0, nc_emergency_authorization_reason = 0,
     nc_emergency_candidate_commit_result = 0\<rparr>"

lemma whole_seconds_stamp: "0 \<le> s \<Longrightarrow> s \<le> i32_max \<Longrightarrow> commandStampNanoseconds \<lparr>sec = s, nanosec = 0\<rparr> = s * 1000000000"
  by (simp add: commandStampNanoseconds_def rosTimeToNanoseconds_def time_consts i64_simps)

lemma stamp_numeral [simp]:
  "(numeral n :: int) \<le> 2147483647 \<Longrightarrow> commandStampNanoseconds \<lparr>sec = numeral n, nanosec = 0\<rparr> = numeral n * 1000000000"
  by (rule whole_seconds_stamp) (simp_all add: i64_simps)

theorem accepted_stream_never_regresses_witness:
  "successively (\<lambda>previous current. commandWorldIdentityNonRegressing current previous)
     [ex_command 2 1, ex_command 3 1, ex_command 4 2] \<and>
   nc_goal_epoch (ex_command 2 1) \<le> nc_goal_epoch (ex_command 4 2) \<and>
   nc_world_revision (ex_command 2 1) \<le> nc_world_revision (ex_command 4 2)"
proof -
  have a: "successively (\<lambda>previous current. commandWorldIdentityNonRegressing current previous)
      [ex_command 2 1, ex_command 3 1, ex_command 4 2]"
    by (simp add: ex_command_def non_regressing_iff i64_simps)
  have "nc_world_generation (ex_command 4 2) = nc_world_generation (ex_command 2 1)" by (simp add: ex_command_def)
  with a accepted_stream_never_regresses [OF a, of 0 2] show ?thesis by simp
qed

lemma command_valid_iff:
  "commandValidAt c now_ns \<longleftrightarrow>
     0 < commandStampNanoseconds (nc_stamp c) \<and>
     commandStampNanoseconds (nc_stamp c) < commandStampNanoseconds (nc_valid_until c) \<and>
     commandStampNanoseconds (nc_stamp c) \<le> now_ns \<and> now_ns \<le> commandStampNanoseconds (nc_valid_until c)"
  by (auto simp: commandValidAt_def assessCommandTemporalLease_def Let_def)

text \<open>
  C40. A command that passes the contract check can be used: it is in the expected frame and names its mission;
  its lease is a nonempty window that starts with its header stamp and ends with \<open>valid_until\<close>, both
  included, and holds at no other instant; the stamps of the world and of the state it was computed from
  are positive. Position, velocity, acceleration, jerk, yaw and yaw rate are finite, the trajectory time
  is finite and not negative. Only an emergency command brakes or rejects, every command that moves
  the vehicle names a bundle generation, a certified continuation is a ready main command with a boundary
  stamp (and no other command carries one), and the localization epoch, goal epoch, world generation, world
  revision and sample id are all set.
\<close>

theorem accepted_command_contract:
  assumes "commandContractValid c frame"
  shows "(\<forall>now_ns. commandValidAt c now_ns \<longleftrightarrow>
      now_ns \<in> {commandStampNanoseconds (nc_stamp c) .. commandStampNanoseconds (nc_valid_until c)}) \<and>
    commandStampNanoseconds (nc_stamp c) < commandStampNanoseconds (nc_valid_until c) \<and>
    vfinite (nc_position c) \<and> vfinite (nc_velocity c) \<and> vfinite (nc_acceleration c) \<and> vfinite (nc_jerk c) \<and>
    isfinite (nc_yaw c) \<and> isfinite (nc_yaw_rate c) \<and>
    isfinite (nc_trajectory_time_s c) \<and> fp_le (Fin 0) (nc_trajectory_time_s c) \<and>
    (nc_role c = ROLE_EMERGENCY \<longleftrightarrow> nc_status c \<in> {STATUS_BRAKING, STATUS_REJECTED}) \<and>
    (nc_status c \<noteq> STATUS_REJECTED \<longrightarrow> nc_bundle_generation c \<noteq> 0) \<and>
    (nc_certified_main_continuation c \<longrightarrow> nc_role c = ROLE_MAIN \<and> nc_status c = STATUS_READY) \<and>
    (nc_certified_main_continuation c \<longleftrightarrow> nc_continuation_boundary_stamp_ns c \<noteq> 0) \<and>
    nc_localization_epoch c \<noteq> 0 \<and> nc_world_generation c \<noteq> 0 \<and> nc_world_revision c \<noteq> 0 \<and> nc_goal_epoch c \<noteq> 0 \<and>
    nc_sample_id c \<noteq> 0 \<and> nc_mission_id c \<noteq> [] \<and> nc_frame_id c = frame \<and> frame \<noteq> [] \<and>
    0 < commandStampNanoseconds (nc_world_observation_stamp c) \<and> 0 < commandStampNanoseconds (nc_state_source_stamp c)"
proof -
  from assms have ok: "0 < commandStampNanoseconds (nc_stamp c)"
    "commandStampNanoseconds (nc_stamp c) < commandStampNanoseconds (nc_valid_until c)"
    and ids: "nc_localization_epoch c \<noteq> 0" "nc_world_generation c \<noteq> 0" "nc_world_revision c \<noteq> 0" "nc_goal_epoch c \<noteq> 0"
      "nc_sample_id c \<noteq> 0" "nc_mission_id c \<noteq> []" "nc_frame_id c = frame" "frame \<noteq> []"
      "0 < commandStampNanoseconds (nc_world_observation_stamp c)" "0 < commandStampNanoseconds (nc_state_source_stamp c)"
    and fin: "vfinite (nc_position c)" "vfinite (nc_velocity c)" "vfinite (nc_acceleration c)" "vfinite (nc_jerk c)"
      "isfinite (nc_yaw c)" "isfinite (nc_yaw_rate c)" "isfinite (nc_trajectory_time_s c)"
      "\<not> fp_less (nc_trajectory_time_s c) (Fin 0)"
    and role: "(nc_status c = STATUS_READY \<or> nc_status c = STATUS_COMPLETED) \<and>
        (nc_role c = ROLE_MAIN \<or> nc_role c = ROLE_BACKUP) \<and> nc_bundle_generation c \<noteq> 0 \<or>
      nc_status c = STATUS_BRAKING \<and> nc_role c = ROLE_EMERGENCY \<and> nc_bundle_generation c \<noteq> 0 \<or>
      nc_status c = STATUS_REJECTED \<and> nc_role c = ROLE_EMERGENCY"
    and cont: "certifiedMainContinuationFieldsValid c"
    unfolding commandContractValid_def assessCommandContract_def Let_def by (auto split: if_splits)
  have "nc_role c = ROLE_EMERGENCY \<longleftrightarrow> nc_status c \<in> {STATUS_BRAKING, STATUS_REJECTED}"
    "nc_status c \<noteq> STATUS_REJECTED \<longrightarrow> nc_bundle_generation c \<noteq> 0"
    using role by (auto simp: command_consts)
  moreover have "nc_certified_main_continuation c \<longrightarrow> nc_role c = ROLE_MAIN \<and> nc_status c = STATUS_READY"
    "nc_certified_main_continuation c \<longleftrightarrow> nc_continuation_boundary_stamp_ns c \<noteq> 0"
    using cont by (auto simp: certifiedMainContinuationFieldsValid_def Let_def word_neq_0_conv split: if_splits)
  moreover have "fp_le (Fin 0) (nc_trajectory_time_s c)"
    using fin(7,8) by (cases "nc_trajectory_time_s c") (auto simp: not_less)
  moreover have "\<forall>now_ns. commandValidAt c now_ns \<longleftrightarrow>
      now_ns \<in> {commandStampNanoseconds (nc_stamp c) .. commandStampNanoseconds (nc_valid_until c)}"
    using ok by (auto simp: command_valid_iff)
  ultimately show ?thesis using ok ids fin by blast
qed

theorem accepted_command_contract_witness:
  "commandContractValid (ex_command 2 1) ''odom'' \<and> commandValidAt (ex_command 2 1) 2500000000 \<and>
   \<not> commandValidAt (ex_command 2 1) 3000000001"
proof -
  have "commandContractValid (ex_command 2 1) ''odom''"
    by (simp add: commandContractValid_def assessCommandContract_def ex_command_def i64_simps command_consts vfinite_def
        vzero_def certifiedMainContinuationFieldsValid_def)
  moreover have "commandStampNanoseconds (nc_stamp (ex_command 2 1)) = 2000000000"
    "commandStampNanoseconds (nc_valid_until (ex_command 2 1)) = 3000000000"
    by (simp_all add: ex_command_def i64_simps)
  ultimately show ?thesis using accepted_command_contract [of "ex_command 2 1" "''odom''"] by simp
qed

text \<open>
  The instants at which a certified continuation may still be used form one interval: from the later of
  the command's header stamp and its receipt to the earlier of \<open>valid_until\<close> and the staleness limit
  after the receipt. Stamps are the nanoseconds the producer put on the wire.
\<close>

theorem continuation_lease_window:
  assumes "nanosecondsToRosTime header_ns = Some (nc_stamp c)" "nanosecondsToRosTime until_ns = Some (nc_valid_until c)"
  shows "continuationWitnessLeaseValid (commandValidAt c now_ns) now_ns received_ns stale_ns odometry health matches
      failed terminal handover \<longleftrightarrow>
    freshness_valid odometry \<and> freshness_valid health \<and> matches \<and> \<not> failed \<and> \<not> terminal \<and> \<not> handover \<and>
    0 < header_ns \<and> header_ns < until_ns \<and> 0 < received_ns \<and> 0 \<le> stale_ns \<and>
    now_ns \<in> {max header_ns received_ns .. min until_ns (received_ns + stale_ns)}"
  using ros_time_of_nanoseconds(1) [OF assms(1)] ros_time_of_nanoseconds(1) [OF assms(2)]
  by (auto simp: continuationWitnessLeaseValid_def command_valid_iff commandStampNanoseconds_def)

definition ex_fresh :: ExecutionStateFreshness where
  "ex_fresh = \<lparr>esf_reason = FreshValid, esf_source_age_ms = Fin 0, esf_receive_age_ms = Fin 0\<rparr>"

theorem continuation_lease_window_witness:
  "continuationWitnessLeaseValid (commandValidAt (ex_command 2 1) 2200000000) 2200000000 2100000000 500000000 ex_fresh
     ex_fresh True False False False \<and>
   \<not> continuationWitnessLeaseValid (commandValidAt (ex_command 2 1) 2700000000) 2700000000 2100000000 500000000 ex_fresh
     ex_fresh True False False False"
proof -
  have "nanosecondsToRosTime 2000000000 = Some (nc_stamp (ex_command 2 1))"
    "nanosecondsToRosTime 3000000000 = Some (nc_valid_until (ex_command 2 1))"
    by (simp_all add: nanosecondsToRosTime_Some ex_command_def)
  from continuation_lease_window [OF this] show ?thesis by (simp add: ex_fresh_def freshness_valid_def)
qed

section \<open>Freshness limits\<close>

lemma maximum_limit: "maximum_limit_s = Fin (4835703278458517 / 2 ^ 19)"
proof -
  have "fp_of_int binary64 i64_max = Fin (2 ^ 63)"
    using b64.fround_nearest [of 62 "of_int i64_max" 10 "2 ^ 53"] by (simp add: fp_of_int_def binary64_def i64_simps)
  moreover have "fround binary64 (2 ^ 63 * (4835703278458517 / 2 ^ 82)) = Fin (4835703278458517 / 2 ^ 19)"
    using b64.fround_nearest [of 33 "2 ^ 63 * (4835703278458517 / 2 ^ 82)" "- 19" 4835703278458517]
    by (simp add: binary64_def power_int_minus divide_simps)
  ultimately show ?thesis unfolding maximum_limit_s_def nano_literal by simp
qed

text \<open>The limit in nanoseconds is finite for every limit the check accepts, and monotone in it.\<close>

lemma limit_ns_finite:
  assumes "0 \<le> x" "x \<le> 4835703278458517 / 2 ^ 19"
  shows "\<exists>m. fround extended80 (x * 1000000000) = Fin m \<and> 0 \<le> m"
proof -
  have B: "fp_ok extended80 (Fin (of_int (2 ^ 63 + 2 ^ 40)))" by (rule x80_ok_int) simp
  have "\<bar>x * 1000000000\<bar> \<le> of_int (2 ^ 63 + 2 ^ 40)" using assms by simp
  from x80.fround_bounded [OF B this] show ?thesis using x80.fround_nonneg [of "x * 1000000000"] assms(1) by auto
qed

lemma freshness_iff:
  assumes "in_i64 now" "in_i64 src" "in_i64 now_s" "in_i64 rcv" "fp_ok binary64 a"
  shows "freshness_valid (evaluateExecutionStateFreshness now src now_s rcv a) \<longleftrightarrow>
    0 < now \<and> 0 < src \<and> 0 < now_s \<and> 0 < rcv \<and> rcv \<le> now_s \<and>
    (\<exists>x m. a = Fin x \<and> 0 < x \<and> x \<le> 4835703278458517 / 2 ^ 19 \<and> fround extended80 (x * 1000000000) = Fin m \<and>
       of_int \<bar>now - src\<bar> \<le> m \<and> of_int (now_s - rcv) \<le> m)"
proof (cases "\<exists>x. a = Fin x \<and> 0 < x \<and> x \<le> 4835703278458517 / 2 ^ 19")
  case True
  then obtain x where x: "a = Fin x" "0 < x" "x \<le> 4835703278458517 / 2 ^ 19" by blast
  then obtain m where m: "fround extended80 (x * 1000000000) = Fin m" "0 \<le> m" using limit_ns_finite [of x] by auto
  have c: "ldmul (fp_convert extended80 (Fin x)) (ldlit 1000000000) = Fin m"
    using assms(5) x(1) m by (simp add: fp_convert_b64_x80 x80_numeral)
  have abs: "of_int \<bar>now - src\<bar> \<le> m \<longleftrightarrow> of_int (now - src) \<le> m \<and> - m \<le> of_int (now - src)" by auto
  have neg: "(of_int (now_s - rcv) :: rat) < 0 \<longleftrightarrow> now_s < rcv" by simp
  show ?thesis
    unfolding evaluateExecutionStateFreshness_def Let_def x(1) c x80_i64_diff [OF assms(1,2)] x80_i64_diff [OF assms(3,4)]
      maximum_limit freshness_valid_def fp_neg.simps fp_less.simps fp_le.simps abs neg
    using x(2,3) m by (auto simp: not_less not_le)
next
  case False
  then show ?thesis
    by (cases a) (auto simp: evaluateExecutionStateFreshness_def maximum_limit freshness_valid_def not_less not_le)
qed

text \<open>
  A state judged fresh is within the configured limit of both clocks, the limit rounded once to
  nanoseconds: its source stamp lies at most that far before or after the ROS clock, and it was received at
  most that long ago and not in the future. Raising the limit, within the accepted range, never makes a
  fresh state stale.
\<close>

theorem execution_state_freshness_sound:
  assumes "in_i64 now" "in_i64 src" "in_i64 now_s" "in_i64 rcv" "fp_ok binary64 a"
    and "freshness_valid (evaluateExecutionStateFreshness now src now_s rcv a)"
  shows "(\<exists>x m. a = Fin x \<and> fround extended80 (x * 1000000000) = Fin m \<and> of_int \<bar>now - src\<bar> \<le> m \<and>
       0 \<le> now_s - rcv \<and> of_int (now_s - rcv) \<le> m) \<and>
    (\<forall>b. fp_ok binary64 b \<longrightarrow> fp_le a b \<longrightarrow> fp_le b maximum_limit_s \<longrightarrow>
       freshness_valid (evaluateExecutionStateFreshness now src now_s rcv b))"
proof -
  from assms(6) [unfolded freshness_iff [OF assms(1-5)]] obtain x m where xm: "a = Fin x" "0 < x"
    "fround extended80 (x * 1000000000) = Fin m" "of_int \<bar>now - src\<bar> \<le> m" "of_int (now_s - rcv) \<le> m"
    and pos: "0 < now" "0 < src" "0 < now_s" "0 < rcv" "rcv \<le> now_s" by blast
  have "freshness_valid (evaluateExecutionStateFreshness now src now_s rcv b)"
    if b: "fp_ok binary64 b" "fp_le a b" "fp_le b maximum_limit_s" for b
  proof -
    from b(2,3) xm(1) obtain y where y: "b = Fin y" "x \<le> y" "y \<le> 4835703278458517 / 2 ^ 19"
      by (cases b) (auto simp: maximum_limit)
    with limit_ns_finite [of y] xm(2) obtain n where n: "fround extended80 (y * 1000000000) = Fin n" by auto
    moreover have "m \<le> n" using x80.fround_mono [OF _ xm(3) n] y(2) by simp
    ultimately show ?thesis
      unfolding freshness_iff [OF assms(1-4) b(1)] using y xm pos by fastforce
  qed
  with xm pos(5) show ?thesis by auto
qed

theorem execution_state_freshness_sound_witness:
  "freshness_valid (evaluateExecutionStateFreshness 10000000000 9500000000 8000000000 7000000000 (Fin 1)) \<and>
   freshness_valid (evaluateExecutionStateFreshness 10000000000 9500000000 8000000000 7000000000 (Fin 3))"
proof -
  have i: "in_i64 10000000000" "in_i64 9500000000" "in_i64 8000000000" "in_i64 7000000000" by (simp_all add: i64_simps)
  have ok: "fp_ok binary64 (Fin 1)" "fp_ok binary64 (Fin 3)" by (simp_all add: fp_simps)
  have "fround extended80 1000000000 = Fin 1000000000" by (simp add: fp_simps)
  then have v: "freshness_valid (evaluateExecutionStateFreshness 10000000000 9500000000 8000000000 7000000000 (Fin 1))"
    unfolding freshness_iff [OF i ok(1)] by simp
  from execution_state_freshness_sound [OF i ok(1) v] v ok(2) show ?thesis by (simp add: maximum_limit)
qed

end
