(* ===== verification/Tracking_Experiment.thy ===== *)
theory Tracking_Experiment
  imports Fp_Arith
begin

text \<open>
  \<open>navigation_contracts/tracking_experiment.hpp\<close>: the simulation-only relaxation of the tracking gate, its
  parameter loader and the speed-dependent tracking assessment. \<open>std::hypot\<close> and Eigen's dot product are
  arguments of the definitions that use them.
\<close>

section \<open>Policy and loader\<close>

record TrackingExperimentPolicy =
  te_enabled :: bool
  te_suppress_braking :: bool
  te_suppress_estimator_health_response :: bool
  te_base_m :: double
  te_lateral_alpha_s :: double
  te_longitudinal_beta_s :: double
  te_velocity_only_enabled :: bool
  te_velocity_only_gain_s_inv :: double
  te_velocity_only_cap_mps :: double
  te_velocity_only_max_acceleration_mps2 :: double
  te_velocity_only_max_jerk_mps3 :: double
  te_velocity_only_max_timing_bound_s :: double
  te_velocity_only_max_reference_age_s :: double
  te_velocity_only_output_transport_bound_s :: double
  te_velocity_only_px4_consume_bound_s :: double

definition positive_finite :: "double \<Rightarrow> bool" where
  "positive_finite x \<longleftrightarrow> isfinite x \<and> fp_less (Fin 0) x"

definition nonnegative_finite :: "double \<Rightarrow> bool" where
  "nonnegative_finite x \<longleftrightarrow> isfinite x \<and> fp_le (Fin 0) x"

definition trackingGateEnabled :: "TrackingExperimentPolicy \<Rightarrow> bool" where
  "trackingGateEnabled p \<longleftrightarrow> fp_less (Fin 0) (te_base_m p) \<or> fp_less (Fin 0) (te_lateral_alpha_s p) \<or>
     fp_less (Fin 0) (te_longitudinal_beta_s p)"

definition policy_valid :: "TrackingExperimentPolicy \<Rightarrow> bool" where
  "policy_valid p \<longleftrightarrow>
     nonnegative_finite (te_base_m p) \<and> nonnegative_finite (te_lateral_alpha_s p) \<and>
     nonnegative_finite (te_longitudinal_beta_s p) \<and>
     (\<not> te_suppress_braking p \<or> te_enabled p) \<and>
     (\<not> te_suppress_estimator_health_response p \<or> te_enabled p) \<and>
     (\<not> te_velocity_only_enabled p \<or>
       positive_finite (te_velocity_only_gain_s_inv p) \<and> positive_finite (te_velocity_only_cap_mps p) \<and>
       positive_finite (te_velocity_only_max_acceleration_mps2 p) \<and> positive_finite (te_velocity_only_max_jerk_mps3 p) \<and>
       positive_finite (te_velocity_only_max_timing_bound_s p) \<and> positive_finite (te_velocity_only_max_reference_age_s p) \<and>
       nonnegative_finite (te_velocity_only_output_transport_bound_s p) \<and>
       nonnegative_finite (te_velocity_only_px4_consume_bound_s p))"

text \<open>
  The values the node's parameter server returns for the declared parameters; the policy fields it fills
  directly are those of \<open>ep_policy\<close>, whose derived flags the loader computes.
\<close>

record ExperimentParameters =
  ep_mode :: string
  ep_tracking_gate_relaxed :: bool
  ep_policy :: TrackingExperimentPolicy
  ep_use_sim_time :: bool

datatype load_error = UnknownMode | InvalidExperiment

definition known_modes :: "string list" where
  "known_modes = [''off'', ''adaptive'', ''relaxed'', ''velocity-only'']"

definition loadTrackingExperimentPolicy :: "ExperimentParameters \<Rightarrow> load_error + TrackingExperimentPolicy" where
  "loadTrackingExperimentPolicy node =
     (let mode = ep_mode node; relaxed = ep_tracking_gate_relaxed node; simulated = ep_use_sim_time node
      in if mode \<notin> set known_modes then Inl UnknownMode
         else let enabled = (mode \<noteq> ''off'');
                  p = (ep_policy node)\<lparr>te_enabled := enabled\<rparr>;
                  suppress = (enabled \<and> (mode = ''relaxed'' \<or> relaxed \<or> \<not> trackingGateEnabled p));
                  p = p\<lparr>te_suppress_braking := suppress, te_suppress_estimator_health_response := suppress\<rparr>
              in if \<not> policy_valid p \<or> (te_enabled p \<and> \<not> simulated) \<or>
                    ((mode = ''velocity-only'') \<noteq> te_velocity_only_enabled p) \<or> (relaxed \<and> \<not> te_enabled p)
                 then Inl InvalidExperiment else Inr p)"

section \<open>The adaptive assessment\<close>

record AdaptiveTrackingAssessment =
  at_valid :: bool
  at_within_limits :: bool
  at_speed_mps :: double
  at_lateral_error_m :: double
  at_longitudinal_error_m :: double
  at_lateral_limit_m :: double
  at_longitudinal_limit_m :: double

definition trackingVectorNorm :: "(double \<Rightarrow> double \<Rightarrow> double) \<Rightarrow> vec3 \<Rightarrow> double" where
  "trackingVectorNorm hypot v = hypot (hypot (vx v) (vy v)) (vz v)"

definition vmap :: "(double \<Rightarrow> double) \<Rightarrow> vec3 \<Rightarrow> vec3" where
  "vmap f v = \<lparr>vx = f (vx v), vy = f (vy v), vz = f (vz v)\<rparr>"

definition assessAdaptiveTracking ::
    "(double \<Rightarrow> double \<Rightarrow> double) \<Rightarrow> (vec3 \<Rightarrow> vec3 \<Rightarrow> double) \<Rightarrow> TrackingExperimentPolicy \<Rightarrow>
     vec3 \<Rightarrow> vec3 \<Rightarrow> vec3 \<Rightarrow> vec3 \<Rightarrow> AdaptiveTrackingAssessment" where
  "assessAdaptiveTracking hypot dot policy measured_position measured_velocity reference_position reference_velocity =
     (let r = \<lparr>at_valid = False, at_within_limits = False, at_speed_mps = Fin 0, at_lateral_error_m = Fin 0,
            at_longitudinal_error_m = Fin 0, at_lateral_limit_m = Fin 0, at_longitudinal_limit_m = Fin 0\<rparr>
      in if \<not> policy_valid policy \<or> \<not> vfinite measured_position \<or> \<not> vfinite measured_velocity \<or>
            \<not> vfinite reference_position \<or> \<not> vfinite reference_velocity then r
         else let error = vsub measured_position reference_position;
                  measured_speed = trackingVectorNorm hypot measured_velocity;
                  reference_speed = trackingVectorNorm hypot reference_velocity;
                  speed = fp_max measured_speed reference_speed;
                  lateral_limit = dadd (te_base_m policy) (dmul (te_lateral_alpha_s policy) speed);
                  longitudinal_limit = dadd (te_base_m policy) (dmul (te_longitudinal_beta_s policy) speed);
                  r = r\<lparr>at_speed_mps := speed, at_lateral_limit_m := lateral_limit,
                        at_longitudinal_limit_m := longitudinal_limit\<rparr>
              in if \<not> vfinite error \<or> \<not> isfinite speed \<or> \<not> isfinite lateral_limit \<or> \<not> isfinite longitudinal_limit then r
                 else let (lateral_error, longitudinal_error) =
                        (if fp_le speed (dlit (1 / 10 ^ 6)) then
                           (trackingVectorNorm hypot error, trackingVectorNorm hypot error)
                         else let tangent =
                                (if fp_less (dlit (1 / 10 ^ 6)) reference_speed
                                 then vmap (\<lambda>c. ddiv c reference_speed) reference_velocity
                                 else vmap (\<lambda>c. ddiv c measured_speed) measured_velocity);
                                  along = dot error tangent
                              in (trackingVectorNorm hypot (vsub error (vmap (dmul along) tangent)), fp_abs along));
                        valid = (isfinite lateral_error \<and> isfinite longitudinal_error)
                      in r\<lparr>at_lateral_error_m := lateral_error, at_longitudinal_error_m := longitudinal_error, at_valid := valid,
                           at_within_limits := (valid \<and> fp_le lateral_error lateral_limit \<and>
                             fp_le longitudinal_error longitudinal_limit)\<rparr>)"

definition experimentPermitsTracking :: "TrackingExperimentPolicy \<Rightarrow> AdaptiveTrackingAssessment \<Rightarrow> bool" where
  "experimentPermitsTracking p r \<longleftrightarrow> te_enabled p \<and> at_valid r \<and> (at_within_limits r \<or> te_suppress_braking p)"

section \<open>Properties\<close>

text \<open>
  The relaxations exist in simulation only: a policy that loads is well-formed, and without simulated time
  it permits no tracking outside the certified envelope, suppresses no braking and no estimator response
  and does not switch to velocity-only control.
\<close>

theorem experiment_confined_to_simulation:
  assumes "loadTrackingExperimentPolicy node = Inr p"
  shows "policy_valid p \<and>
    (\<not> ep_use_sim_time node \<longrightarrow> \<not> te_suppress_braking p \<and> \<not> te_suppress_estimator_health_response p \<and>
       \<not> te_velocity_only_enabled p \<and> (\<forall>r. \<not> experimentPermitsTracking p r))"
proof -
  have p: "policy_valid p" "te_enabled p \<longrightarrow> ep_use_sim_time node" "te_velocity_only_enabled p \<longrightarrow> te_enabled p"
    using assms unfolding loadTrackingExperimentPolicy_def by (auto simp: Let_def split: if_splits)
  then show ?thesis by (auto simp: experimentPermitsTracking_def policy_valid_def)
qed

definition ex_policy :: TrackingExperimentPolicy where
  "ex_policy = \<lparr>te_enabled = False, te_suppress_braking = False, te_suppress_estimator_health_response = False,
     te_base_m = Fin 1, te_lateral_alpha_s = Fin 2, te_longitudinal_beta_s = Fin 3, te_velocity_only_enabled = False,
     te_velocity_only_gain_s_inv = Fin 0, te_velocity_only_cap_mps = Fin 0, te_velocity_only_max_acceleration_mps2 = Fin 0,
     te_velocity_only_max_jerk_mps3 = Fin 0, te_velocity_only_max_timing_bound_s = Fin 0,
     te_velocity_only_max_reference_age_s = Fin 0, te_velocity_only_output_transport_bound_s = Fin 0,
     te_velocity_only_px4_consume_bound_s = Fin 0\<rparr>"

theorem experiment_confined_to_simulation_witness:
  "(\<forall>r. \<not> experimentPermitsTracking ex_policy r) \<and> policy_valid ex_policy"
proof -
  let ?n = "\<lparr>ep_mode = ''off'', ep_tracking_gate_relaxed = False, ep_policy = ex_policy, ep_use_sim_time = False\<rparr>"
  have "loadTrackingExperimentPolicy ?n = Inr ex_policy"
    by (simp add: loadTrackingExperimentPolicy_def known_modes_def ex_policy_def policy_valid_def nonnegative_finite_def)
  from experiment_confined_to_simulation [OF this] show ?thesis by simp
qed

lemma assessment_valid:
  assumes "at_valid (assessAdaptiveTracking hypot dot p mp mv rp rv)"
  shows "policy_valid p \<and> isfinite (fp_max (trackingVectorNorm hypot mv) (trackingVectorNorm hypot rv)) \<and>
    at_lateral_limit_m (assessAdaptiveTracking hypot dot p mp mv rp rv) =
      dadd (te_base_m p) (dmul (te_lateral_alpha_s p) (fp_max (trackingVectorNorm hypot mv) (trackingVectorNorm hypot rv))) \<and>
    at_longitudinal_limit_m (assessAdaptiveTracking hypot dot p mp mv rp rv) =
      dadd (te_base_m p) (dmul (te_longitudinal_beta_s p) (fp_max (trackingVectorNorm hypot mv) (trackingVectorNorm hypot rv)))"
proof -
  have "policy_valid p" "isfinite (fp_max (trackingVectorNorm hypot mv) (trackingVectorNorm hypot rv))"
    using assms unfolding assessAdaptiveTracking_def Let_def by (auto split: if_splits)
  moreover have "vfinite mp" "vfinite mv" "vfinite rp" "vfinite rv"
    using assms unfolding assessAdaptiveTracking_def Let_def by (auto split: if_splits)
  ultimately show ?thesis unfolding assessAdaptiveTracking_def Let_def by (simp split: prod.split)
qed

lemma limit_at_least_base:
  assumes "fp_ok binary64 b" "nonnegative_finite b" "nonnegative_finite k" "isfinite s" "\<not> fp_less s (Fin 0)"
  shows "fp_le b (dadd b (dmul k s))"
proof -
  from assms(2-5) obtain x y z where f: "b = Fin x" "k = Fin y" "s = Fin z" "0 \<le> y" "0 \<le> z"
    by (auto simp: nonnegative_finite_def isfinite_iff not_less)
  show ?thesis using b64.add_tolerance(2) [of x "y * z" x] assms(1) f by simp
qed

lemma assessment_within:
  "at_within_limits (assessAdaptiveTracking hypot dot p mp mv rp rv) \<longleftrightarrow>
     at_valid (assessAdaptiveTracking hypot dot p mp mv rp rv) \<and>
     fp_le (at_lateral_error_m (assessAdaptiveTracking hypot dot p mp mv rp rv))
       (at_lateral_limit_m (assessAdaptiveTracking hypot dot p mp mv rp rv)) \<and>
     fp_le (at_longitudinal_error_m (assessAdaptiveTracking hypot dot p mp mv rp rv))
       (at_longitudinal_limit_m (assessAdaptiveTracking hypot dot p mp mv rp rv))"
  unfolding assessAdaptiveTracking_def Let_def by (simp split: prod.split)

text \<open>
  A valid assessment never tightens the configured base radius: whatever the speeds and the rounding, both
  limits are at least \<open>base_m\<close>, so errors within the base radius are within the limits. It relies on
  \<open>std::hypot\<close> never returning a negative value.
\<close>

theorem adaptive_limits_at_least_base:
  assumes "\<And>a b. \<not> fp_less (hypot a b) (Fin 0)" and "fp_ok binary64 (te_base_m p)"
    and "r = assessAdaptiveTracking hypot dot p mp mv rp rv" "at_valid r"
  shows "fp_le (te_base_m p) (at_lateral_limit_m r) \<and> fp_le (te_base_m p) (at_longitudinal_limit_m r) \<and>
    (fp_le (at_lateral_error_m r) (te_base_m p) \<and> fp_le (at_longitudinal_error_m r) (te_base_m p) \<longrightarrow> at_within_limits r)"
proof -
  let ?s = "fp_max (trackingVectorNorm hypot mv) (trackingVectorNorm hypot rv)"
  note v = assessment_valid [of hypot dot p mp mv rp rv] assms(3,4)
  have "\<not> fp_less ?s (Fin 0)" using assms(1) by (simp add: fp_max_def trackingVectorNorm_def)
  then have le: "fp_le (te_base_m p) (at_lateral_limit_m r)" "fp_le (te_base_m p) (at_longitudinal_limit_m r)"
    using v assms(2) limit_at_least_base by (auto simp: policy_valid_def)
  moreover have "at_within_limits r" if "fp_le (at_lateral_error_m r) (te_base_m p)" "fp_le (at_longitudinal_error_m r) (te_base_m p)"
    using that le assms(4) fp_le_trans unfolding assms(3) assessment_within by blast
  ultimately show ?thesis by blast
qed

text \<open>A stand-in for \<open>std::hypot\<close> that is nonnegative, and a dot product that sums left to right.\<close>

definition ex_hypot :: "double \<Rightarrow> double \<Rightarrow> double" where
  "ex_hypot a b = fp_max (fp_abs a) (fp_abs b)"

definition ex_dot :: "vec3 \<Rightarrow> vec3 \<Rightarrow> double" where
  "ex_dot a b = dadd (dadd (dmul (vx a) (vx b)) (dmul (vy a) (vy b))) (dmul (vz a) (vz b))"

theorem adaptive_limits_at_least_base_witness:
  "(\<forall>a b. \<not> fp_less (ex_hypot a b) (Fin 0)) \<and> at_within_limits (assessAdaptiveTracking ex_hypot ex_dot ex_policy vzero vzero vzero vzero)"
proof -
  let ?r = "assessAdaptiveTracking ex_hypot ex_dot ex_policy vzero vzero vzero vzero"
  have h: "\<not> fp_less (ex_hypot a b) (Fin 0)" for a b by (cases a; cases b) (simp_all add: ex_hypot_def fp_max_def)
  have ok: "fp_ok binary64 (te_base_m ex_policy)" by (simp add: ex_policy_def fp_simps)
  note ev = assessAdaptiveTracking_def Let_def ex_policy_def policy_valid_def nonnegative_finite_def vfinite_def vzero_def vsub_def
    fp_sub_def trackingVectorNorm_def ex_hypot_def fp_max_def fp_simps
  have v: "at_valid ?r" by (simp add: ev)
  have "fp_le (at_lateral_error_m ?r) (te_base_m ex_policy)" "fp_le (at_longitudinal_error_m ?r) (te_base_m ex_policy)"
    by (simp_all add: ev)
  with adaptive_limits_at_least_base [OF h ok refl v] h show ?thesis by blast
qed

end
