(* ===== verification/Mission.thy ===== *)
theory Mission
  imports World_Model
begin

text \<open>
  \<open>navigation_mission\<close>: the mission contract (\<open>mission.hpp\<close>), its YAML loader (\<open>mission.cpp\<close>), the
  completion witness and the waypoint behaviour predicates. The tree a YAML document has is a datatype;
  the conversions of yaml-cpp's \<open>as<T>\<close> are the argument \<open>yaml_api\<close>, where \<open>None\<close> is a thrown
  \<open>YAML::Exception\<close>.
\<close>

section \<open>The mission contract\<close>

definition kMaximumMissionWaypoints :: nat where "kMaximumMissionWaypoints = 4096"
definition kMaximumMissionIdLength :: nat where "kMaximumMissionIdLength = 256"
definition kMaximumMissionFrameLength :: nat where "kMaximumMissionFrameLength = 128"
definition kMaximumWaypointIdLength :: nat where "kMaximumWaypointIdLength = 256"

lemmas mission_limits = kMaximumMissionWaypoints_def kMaximumMissionIdLength_def kMaximumMissionFrameLength_def
  kMaximumWaypointIdLength_def

datatype Behavior = PassThrough | Stop

record MissionWaypoint =
  mw_id :: string
  mw_position_enu :: vec3
  mw_acceptance_radius_m :: double
  mw_hold_s :: double
  mw_behavior :: Behavior

record MissionPlanningConfig =
  mp_requested_cruise_speed_mps :: double
  mp_unknown_policy :: UnknownPolicy

record MissionControlConfig =
  mc_acceptance_speed_mps :: double
  mc_acceptance_confirmation_s :: double

record Mission =
  ms_schema_version :: int
  ms_id :: string
  ms_frame :: string
  ms_waypoints :: "MissionWaypoint list"
  ms_planning :: MissionPlanningConfig
  ms_control :: MissionControlConfig

text \<open>The geometric part of a waypoint's contract, which the route builder checks again.\<close>

definition waypoint_geometry_valid :: "MissionWaypoint \<Rightarrow> bool" where
  "waypoint_geometry_valid w \<longleftrightarrow>
     \<not> (\<not> vfinite (mw_position_enu w) \<or> \<not> isfinite (mw_acceptance_radius_m w) \<or>
        fp_le (mw_acceptance_radius_m w) (Fin 0) \<or> \<not> isfinite (mw_hold_s w) \<or> fp_less (mw_hold_s w) (Fin 0) \<or>
        (mw_behavior w = PassThrough \<and> fp_less (Fin 0) (mw_hold_s w)))"

definition waypoint_id_valid :: "string \<Rightarrow> bool" where
  "waypoint_id_valid i \<longleftrightarrow> \<not> (i = [] \<or> length i > kMaximumWaypointIdLength)"

fun waypoints_valid :: "string set \<Rightarrow> MissionWaypoint list \<Rightarrow> bool" where
  "waypoints_valid ids [] = True"
| "waypoints_valid ids (w # ws) =
     (if \<not> waypoint_id_valid (mw_id w) \<or> \<not> waypoint_geometry_valid w \<or> mw_id w \<in> ids then False
      else waypoints_valid (insert (mw_id w) ids) ws)"

definition mission_valid :: "Mission \<Rightarrow> bool" where
  "mission_valid m =
     (if ms_schema_version m \<noteq> 1 \<or> ms_id m = [] \<or> length (ms_id m) > kMaximumMissionIdLength \<or>
         ms_frame m = [] \<or> length (ms_frame m) > kMaximumMissionFrameLength \<or>
         ms_waypoints m = [] \<or> length (ms_waypoints m) > kMaximumMissionWaypoints \<or>
         \<not> isfinite (mp_requested_cruise_speed_mps (ms_planning m)) \<or>
         fp_le (mp_requested_cruise_speed_mps (ms_planning m)) (Fin 0) \<or>
         \<not> isfinite (mc_acceptance_speed_mps (ms_control m)) \<or>
         fp_less (mc_acceptance_speed_mps (ms_control m)) (Fin 0) \<or>
         \<not> isfinite (mc_acceptance_confirmation_s (ms_control m)) \<or>
         fp_less (mc_acceptance_confirmation_s (ms_control m)) (Fin 0)
      then False else waypoints_valid {} (ms_waypoints m))"

section \<open>Completion witnesses and waypoint behaviour\<close>

record TrajectoryCompletionWitness =
  tc_bundle_generation :: u64
  tc_timeline_version :: u64
  tc_localization_epoch :: u64
  tc_goal_epoch :: u64
  tc_request_id :: u64
  tc_mission_id :: string
  tc_waypoint_index :: u32

definition completion_valid :: "TrajectoryCompletionWitness \<Rightarrow> bool" where
  "completion_valid w \<longleftrightarrow> tc_bundle_generation w \<noteq> 0 \<and> tc_timeline_version w \<noteq> 0 \<and> tc_localization_epoch w \<noteq> 0 \<and>
     tc_goal_epoch w \<noteq> 0 \<and> tc_request_id w \<noteq> 0 \<and> tc_mission_id w \<noteq> []"

definition completionWitnessMatches ::
    "TrajectoryCompletionWitness \<Rightarrow> u64 \<Rightarrow> u64 \<Rightarrow> u64 \<Rightarrow> u64 \<Rightarrow> u64 \<Rightarrow> string \<Rightarrow> u32 \<Rightarrow> bool" where
  "completionWitnessMatches witness bundle_generation timeline_version localization_epoch goal_epoch request_id
     mission_id waypoint_index \<longleftrightarrow>
     completion_valid witness \<and> tc_bundle_generation witness = bundle_generation \<and>
     tc_timeline_version witness = timeline_version \<and> tc_localization_epoch witness = localization_epoch \<and>
     tc_goal_epoch witness = goal_epoch \<and> tc_request_id witness = request_id \<and>
     tc_mission_id witness = mission_id \<and> tc_waypoint_index witness = waypoint_index"

definition completedPassThroughRequiresContinuation :: "bool \<Rightarrow> bool \<Rightarrow> bool \<Rightarrow> bool \<Rightarrow> bool" where
  "completedPassThroughRequiresContinuation trajectory_completed endpoint_valid pass_through_waypoint has_outgoing_route \<longleftrightarrow>
     trajectory_completed \<and> endpoint_valid \<and> pass_through_waypoint \<and> has_outgoing_route"

definition waypointBehaviorContractValid :: "bool \<Rightarrow> bool \<Rightarrow> bool" where
  "waypointBehaviorContractValid pass_through_waypoint has_next_waypoint \<longleftrightarrow>
     \<not> pass_through_waypoint \<or> has_next_waypoint"

section \<open>The YAML loader\<close>

datatype yaml = YNull | YScalar string | YSequence "yaml list" | YMap "(yaml \<times> yaml) list"

record yaml_api =
  ya_int :: "yaml \<Rightarrow> int option"
  ya_double :: "yaml \<Rightarrow> double option"
  ya_string :: "yaml \<Rightarrow> string option"

datatype mission_error =
    PathEmpty | FileMissing | YamlInvalid | MustBeMap | UnsupportedField | MustBeScalar | OutOfRange
  | VersionUnsupported | IdOrFrameInvalid | WaypointsMissing | TooManyWaypoints | WaypointIdInvalid
  | PositionInvalid | HoldOnPassThrough | BehaviorUnknown | PolicyUnknown | ContractViolated

definition and_then :: "'e + 'a \<Rightarrow> ('a \<Rightarrow> 'e + 'b) \<Rightarrow> 'e + 'b" where
  "and_then r f = (case r of Inl e \<Rightarrow> Inl e | Inr a \<Rightarrow> f a)"

lemma and_then_simps [simp]: "and_then (Inl e) f = Inl e" "and_then (Inr a) f = f a"
  by (simp_all add: and_then_def)

lemma and_then_Inr: "and_then r f = Inr b \<longleftrightarrow> (\<exists>a. r = Inr a \<and> f a = Inr b)"
  by (cases r) auto

text \<open>\<open>node[key]\<close>: the value of the first entry with that key, \<open>None\<close> for an undefined node.\<close>

definition field :: "yaml \<Rightarrow> string \<Rightarrow> yaml option" where
  "field node key = (case node of YMap entries \<Rightarrow> map_of entries (YScalar key) | _ \<Rightarrow> None)"

definition converted :: "'a option \<Rightarrow> mission_error + 'a" where
  "converted r = (case r of None \<Rightarrow> Inl YamlInvalid | Some a \<Rightarrow> Inr a)"

definition requireMap :: "yaml option \<Rightarrow> mission_error + yaml" where
  "requireMap node = (case node of Some (YMap entries) \<Rightarrow> Inr (YMap entries) | _ \<Rightarrow> Inl MustBeMap)"

fun reject_entries :: "yaml_api \<Rightarrow> string set \<Rightarrow> (yaml \<times> yaml) list \<Rightarrow> mission_error + unit" where
  "reject_entries api allowed [] = Inr ()"
| "reject_entries api allowed ((k, _) # entries) =
     and_then (converted (ya_string api k)) (\<lambda>key.
       if key \<notin> allowed then Inl UnsupportedField else reject_entries api allowed entries)"

definition rejectUnknownKeys :: "yaml_api \<Rightarrow> yaml \<Rightarrow> string set \<Rightarrow> mission_error + unit" where
  "rejectUnknownKeys api node allowed =
     (case node of YMap entries \<Rightarrow> reject_entries api allowed entries | _ \<Rightarrow> Inr ())"

definition finiteScalar :: "yaml_api \<Rightarrow> yaml option \<Rightarrow> double \<Rightarrow> bool \<Rightarrow> mission_error + double" where
  "finiteScalar api node minimum allow_zero =
     (case node of Some (YScalar text) \<Rightarrow>
        and_then (converted (ya_double api (YScalar text))) (\<lambda>value.
          if isfinite value \<and> (if allow_zero then fp_le minimum value else fp_less minimum value)
          then Inr value else Inl OutOfRange)
      | _ \<Rightarrow> Inl MustBeScalar)"

text \<open>\<open>node[key] ? node[key].as<std::string>() : fallback\<close>\<close>

definition string_field :: "yaml_api \<Rightarrow> yaml \<Rightarrow> string \<Rightarrow> string \<Rightarrow> mission_error + string" where
  "string_field api node key fallback =
     (case field node key of None \<Rightarrow> Inr fallback | Some n \<Rightarrow> converted (ya_string api n))"

definition finite_axis :: "yaml_api \<Rightarrow> yaml \<Rightarrow> mission_error + double" where
  "finite_axis api n =
     and_then (converted (ya_double api n)) (\<lambda>v. if isfinite v then Inr v else Inl PositionInvalid)"

definition load_position :: "yaml_api \<Rightarrow> yaml option \<Rightarrow> mission_error + vec3" where
  "load_position api position =
     (case position of Some (YSequence [a, b, c]) \<Rightarrow>
        and_then (finite_axis api a) (\<lambda>x. and_then (finite_axis api b) (\<lambda>y. and_then (finite_axis api c) (\<lambda>z.
          Inr \<lparr>vx = x, vy = y, vz = z\<rparr>)))
      | _ \<Rightarrow> Inl PositionInvalid)"

definition load_waypoint :: "yaml_api \<Rightarrow> string set \<Rightarrow> bool \<Rightarrow> yaml \<Rightarrow> mission_error + MissionWaypoint" where
  "load_waypoint api waypoint_ids is_last node =
     and_then (requireMap (Some node)) (\<lambda>_.
     and_then (rejectUnknownKeys api node {''id'', ''position'', ''acceptance_radius_m'', ''hold_s'', ''behavior''}) (\<lambda>_.
     and_then (string_field api node ''id'' []) (\<lambda>i.
     if \<not> waypoint_id_valid i \<or> i \<in> waypoint_ids then Inl WaypointIdInvalid
     else and_then (load_position api (field node ''position'')) (\<lambda>position.
     and_then (finiteScalar api (field node ''acceptance_radius_m'') (Fin 0) False) (\<lambda>radius.
     and_then (if field node ''hold_s'' \<noteq> None then finiteScalar api (field node ''hold_s'') (Fin 0) True else Inr (Fin 0)) (\<lambda>hold.
     and_then (string_field api node ''behavior''
       (if fp_less (Fin 0) hold \<or> is_last then ''stop'' else ''pass_through'')) (\<lambda>behavior.
     let waypoint = \<lparr>mw_id = i, mw_position_enu = position, mw_acceptance_radius_m = radius, mw_hold_s = hold,
       mw_behavior = PassThrough\<rparr>
     in if behavior = ''pass_through''
        then if fp_less (Fin 0) hold then Inl HoldOnPassThrough else Inr waypoint
        else if behavior = ''stop'' then Inr (waypoint\<lparr>mw_behavior := Stop\<rparr>)
        else Inl BehaviorUnknown)))))))"

fun load_waypoints :: "yaml_api \<Rightarrow> string set \<Rightarrow> yaml list \<Rightarrow> mission_error + MissionWaypoint list" where
  "load_waypoints api ids [] = Inr []"
| "load_waypoints api ids (n # ns) =
     and_then (load_waypoint api ids (ns = []) n) (\<lambda>w.
     and_then (load_waypoints api (insert (mw_id w) ids) ns) (\<lambda>ws. Inr (w # ws)))"

definition default_planning :: MissionPlanningConfig where
  "default_planning = \<lparr>mp_requested_cruise_speed_mps = Fin 1, mp_unknown_policy = RequireKnownFree\<rparr>"

definition load_planning :: "yaml_api \<Rightarrow> yaml option \<Rightarrow> mission_error + MissionPlanningConfig" where
  "load_planning api planning =
     (case planning of None \<Rightarrow> Inr default_planning
      | Some node \<Rightarrow>
        and_then (requireMap (Some node)) (\<lambda>_.
        and_then (rejectUnknownKeys api node {''requested_cruise_speed_mps'', ''unknown_policy''}) (\<lambda>_.
        and_then (if field node ''requested_cruise_speed_mps'' \<noteq> None
                  then finiteScalar api (field node ''requested_cruise_speed_mps'') (Fin 0) False
                  else Inr (mp_requested_cruise_speed_mps default_planning)) (\<lambda>speed.
        and_then (string_field api node ''unknown_policy'' ''blocked'') (\<lambda>policy.
          if policy = ''allow_unknown''
          then Inr \<lparr>mp_requested_cruise_speed_mps = speed, mp_unknown_policy = AllowUnknown\<rparr>
          else if policy \<noteq> ''blocked'' then Inl PolicyUnknown
          else Inr \<lparr>mp_requested_cruise_speed_mps = speed, mp_unknown_policy = mp_unknown_policy default_planning\<rparr>)))))"

text \<open>The defaults \<open>acceptance_speed_mps{0.15}\<close> and \<open>acceptance_confirmation_s{0.5}\<close>.\<close>

definition default_control :: MissionControlConfig where
  "default_control = \<lparr>mc_acceptance_speed_mps = dlit (15 / 100), mc_acceptance_confirmation_s = dlit (1 / 2)\<rparr>"

definition load_control :: "yaml_api \<Rightarrow> yaml option \<Rightarrow> mission_error + MissionControlConfig" where
  "load_control api control =
     (if control = None \<or> control = Some YNull then Inr default_control
      else and_then (requireMap control) (\<lambda>node.
        and_then (rejectUnknownKeys api node {''acceptance_speed_mps'', ''acceptance_confirmation_s''}) (\<lambda>_.
        and_then (if field node ''acceptance_speed_mps'' \<noteq> None
                  then finiteScalar api (field node ''acceptance_speed_mps'') (Fin 0) True
                  else Inr (mc_acceptance_speed_mps default_control)) (\<lambda>speed.
        and_then (if field node ''acceptance_confirmation_s'' \<noteq> None
                  then finiteScalar api (field node ''acceptance_confirmation_s'') (Fin 0) True
                  else Inr (mc_acceptance_confirmation_s default_control)) (\<lambda>confirmation.
          Inr \<lparr>mc_acceptance_speed_mps = speed, mc_acceptance_confirmation_s = confirmation\<rparr>)))))"

definition load_root :: "yaml_api \<Rightarrow> string \<Rightarrow> yaml \<Rightarrow> mission_error + Mission" where
  "load_root api expected_frame doc =
     and_then (requireMap (Some doc)) (\<lambda>_.
     and_then (rejectUnknownKeys api doc {''mission''}) (\<lambda>_.
     and_then (requireMap (field doc ''mission'')) (\<lambda>node.
     and_then (rejectUnknownKeys api node {''version'', ''id'', ''frame'', ''waypoints'', ''planning'', ''control''}) (\<lambda>_.
     and_then (case field node ''version'' of None \<Rightarrow> Inr 0 | Some n \<Rightarrow> converted (ya_int api n)) (\<lambda>version.
     if version \<noteq> 1 then Inl VersionUnsupported
     else and_then (string_field api node ''id'' []) (\<lambda>i.
     and_then (string_field api node ''frame'' []) (\<lambda>frame.
     if i = [] \<or> length i > kMaximumMissionIdLength \<or> frame = [] \<or> length frame > kMaximumMissionFrameLength \<or>
        (expected_frame \<noteq> [] \<and> frame \<noteq> expected_frame) then Inl IdOrFrameInvalid
     else case field node ''waypoints'' of
       Some (YSequence nodes) \<Rightarrow>
         if nodes = [] then Inl WaypointsMissing
         else if length nodes > kMaximumMissionWaypoints then Inl TooManyWaypoints
         else and_then (load_waypoints api {} nodes) (\<lambda>waypoints.
              and_then (load_planning api (field node ''planning'')) (\<lambda>planning.
              and_then (load_control api (field node ''control'')) (\<lambda>control.
              let mission = \<lparr>ms_schema_version = version, ms_id = i, ms_frame = frame, ms_waypoints = waypoints,
                ms_planning = planning, ms_control = control\<rparr>
              in if \<not> mission_valid mission then Inl ContractViolated else Inr mission)))
     | _ \<Rightarrow> Inl WaypointsMissing)))))))"

text \<open>
  \<open>is_regular_file\<close> is the answer of the file system and \<open>loaded\<close> the result of \<open>YAML::LoadFile\<close>, \<open>None\<close>
  when it throws.
\<close>

definition loadMission :: "yaml_api \<Rightarrow> string \<Rightarrow> bool \<Rightarrow> yaml option \<Rightarrow> string \<Rightarrow> mission_error + Mission" where
  "loadMission api path is_regular_file loaded expected_frame =
     (if path = [] then Inl PathEmpty
      else if \<not> is_regular_file then Inl FileMissing
      else and_then (converted loaded) (load_root api expected_frame))"

section \<open>Loading\<close>

lemma waypoints_valid_distinct:
  "waypoints_valid ids ws \<longleftrightarrow>
     (\<forall>w \<in> set ws. waypoint_id_valid (mw_id w) \<and> waypoint_geometry_valid w) \<and> distinct (map mw_id ws) \<and>
     mw_id ` set ws \<inter> ids = {}"
  by (induction ws arbitrary: ids) auto

lemma mission_valid_iff:
  "mission_valid m \<longleftrightarrow>
     ms_schema_version m = 1 \<and> ms_id m \<noteq> [] \<and> length (ms_id m) \<le> kMaximumMissionIdLength \<and>
     ms_frame m \<noteq> [] \<and> length (ms_frame m) \<le> kMaximumMissionFrameLength \<and>
     ms_waypoints m \<noteq> [] \<and> length (ms_waypoints m) \<le> kMaximumMissionWaypoints \<and>
     isfinite (mp_requested_cruise_speed_mps (ms_planning m)) \<and>
     fp_less (Fin 0) (mp_requested_cruise_speed_mps (ms_planning m)) \<and>
     isfinite (mc_acceptance_speed_mps (ms_control m)) \<and> fp_le (Fin 0) (mc_acceptance_speed_mps (ms_control m)) \<and>
     isfinite (mc_acceptance_confirmation_s (ms_control m)) \<and>
     fp_le (Fin 0) (mc_acceptance_confirmation_s (ms_control m)) \<and>
     (\<forall>w \<in> set (ms_waypoints m). waypoint_id_valid (mw_id w) \<and> waypoint_geometry_valid w) \<and>
     distinct (map mw_id (ms_waypoints m))"
proof -
  have fin: "isfinite x \<Longrightarrow> fp_le x (Fin 0) \<longleftrightarrow> \<not> fp_less (Fin 0) x" "isfinite x \<Longrightarrow> fp_less x (Fin 0) \<longleftrightarrow> \<not> fp_le (Fin 0) x"
    for x by (cases x; auto)+
  show ?thesis
    unfolding mission_valid_def waypoints_valid_distinct not_less [symmetric] Int_empty_right
    using fin [of "mp_requested_cruise_speed_mps (ms_planning m)"] fin [of "mc_acceptance_speed_mps (ms_control m)"]
      fin [of "mc_acceptance_confirmation_s (ms_control m)"]
    by argo
qed

subsection \<open>What a document says\<close>

text \<open>
  The reading of a document, field by field and without an order of checks: the keys are among the allowed ones, a
  number is the conversion of the scalar written for it, a text the conversion of its node, and a field that is left
  out has the default of the contract.
\<close>

definition keys_known :: "yaml_api \<Rightarrow> yaml \<Rightarrow> string set \<Rightarrow> bool" where
  "keys_known api node allowed \<longleftrightarrow>
     (\<exists>entries. node = YMap entries \<and> (\<forall>(k, v) \<in> set entries. \<exists>key \<in> allowed. ya_string api k = Some key))"

definition number_read :: "yaml_api \<Rightarrow> yaml option \<Rightarrow> double \<Rightarrow> bool" where
  "number_read api node value \<longleftrightarrow> (\<exists>s. node = Some (YScalar s) \<and> ya_double api (YScalar s) = Some value)"

definition number_or :: "yaml_api \<Rightarrow> yaml option \<Rightarrow> double \<Rightarrow> double \<Rightarrow> bool" where
  "number_or api node fallback value \<longleftrightarrow> (if node = None then value = fallback else number_read api node value)"

definition text_or :: "yaml_api \<Rightarrow> yaml option \<Rightarrow> string \<Rightarrow> string \<Rightarrow> bool" where
  "text_or api node fallback value \<longleftrightarrow> (case node of None \<Rightarrow> value = fallback | Some n \<Rightarrow> ya_string api n = Some value)"

definition position_read :: "yaml_api \<Rightarrow> yaml option \<Rightarrow> vec3 \<Rightarrow> bool" where
  "position_read api node p \<longleftrightarrow> (\<exists>a b c. node = Some (YSequence [a, b, c]) \<and>
     ya_double api a = Some (vx p) \<and> ya_double api b = Some (vy p) \<and> ya_double api c = Some (vz p))"

fun behavior_name :: "Behavior \<Rightarrow> string" where
  "behavior_name PassThrough = ''pass_through''"
| "behavior_name Stop = ''stop''"

definition waypoint_read :: "yaml_api \<Rightarrow> bool \<Rightarrow> yaml \<Rightarrow> MissionWaypoint \<Rightarrow> bool" where
  "waypoint_read api is_last node w \<longleftrightarrow>
     keys_known api node {''id'', ''position'', ''acceptance_radius_m'', ''hold_s'', ''behavior''} \<and>
     text_or api (field node ''id'') [] (mw_id w) \<and> position_read api (field node ''position'') (mw_position_enu w) \<and>
     number_read api (field node ''acceptance_radius_m'') (mw_acceptance_radius_m w) \<and>
     number_or api (field node ''hold_s'') (Fin 0) (mw_hold_s w) \<and>
     text_or api (field node ''behavior'') (if fp_less (Fin 0) (mw_hold_s w) \<or> is_last then ''stop'' else ''pass_through'')
       (behavior_name (mw_behavior w))"

definition planning_read :: "yaml_api \<Rightarrow> yaml option \<Rightarrow> MissionPlanningConfig \<Rightarrow> bool" where
  "planning_read api planning c \<longleftrightarrow>
     (case planning of None \<Rightarrow> c = default_planning
      | Some node \<Rightarrow> keys_known api node {''requested_cruise_speed_mps'', ''unknown_policy''} \<and>
          number_or api (field node ''requested_cruise_speed_mps'') (Fin 1) (mp_requested_cruise_speed_mps c) \<and>
          text_or api (field node ''unknown_policy'') ''blocked''
            (if mp_unknown_policy c = AllowUnknown then ''allow_unknown'' else ''blocked''))"

definition control_read :: "yaml_api \<Rightarrow> yaml option \<Rightarrow> MissionControlConfig \<Rightarrow> bool" where
  "control_read api control c \<longleftrightarrow>
     (if control = None \<or> control = Some YNull then c = default_control
      else \<exists>node. control = Some node \<and> keys_known api node {''acceptance_speed_mps'', ''acceptance_confirmation_s''} \<and>
        number_or api (field node ''acceptance_speed_mps'') (dlit (15 / 100)) (mc_acceptance_speed_mps c) \<and>
        number_or api (field node ''acceptance_confirmation_s'') (dlit (1 / 2)) (mc_acceptance_confirmation_s c))"

definition mission_read :: "yaml_api \<Rightarrow> yaml \<Rightarrow> Mission \<Rightarrow> bool" where
  "mission_read api document m \<longleftrightarrow> keys_known api document {''mission''} \<and>
     (\<exists>node version nodes. field document ''mission'' = Some node \<and>
       keys_known api node {''version'', ''id'', ''frame'', ''waypoints'', ''planning'', ''control''} \<and>
       field node ''version'' = Some version \<and> ya_int api version = Some (ms_schema_version m) \<and>
       text_or api (field node ''id'') [] (ms_id m) \<and> text_or api (field node ''frame'') [] (ms_frame m) \<and>
       field node ''waypoints'' = Some (YSequence nodes) \<and> length nodes = length (ms_waypoints m) \<and>
       (\<forall>i < length nodes. waypoint_read api (Suc i = length nodes) (nodes ! i) (ms_waypoints m ! i)) \<and>
       planning_read api (field node ''planning'') (ms_planning m) \<and>
       control_read api (field node ''control'') (ms_control m))"

lemma requireMap_Inr: "requireMap n = Inr x \<longleftrightarrow> n = Some x \<and> (\<exists>entries. x = YMap entries)"
  by (auto simp: requireMap_def split: option.splits yaml.splits)

lemma converted_Inr [simp]: "converted r = Inr a \<longleftrightarrow> r = Some a"
  by (auto simp: converted_def split: option.splits)

lemma reject_entries_Inr:
  "reject_entries api allowed entries = Inr u \<longleftrightarrow>
     (\<forall>(k, v) \<in> set entries. \<exists>key \<in> allowed. ya_string api k = Some key)"
  by (induction entries rule: reject_entries.induct) (auto simp: and_then_Inr)

lemma keys_then:
  "and_then (requireMap (Some node)) (\<lambda>_. and_then (rejectUnknownKeys api node allowed) (\<lambda>_. r)) = Inr b \<longleftrightarrow>
     keys_known api node allowed \<and> r = Inr b"
  by (auto simp: and_then_Inr requireMap_Inr rejectUnknownKeys_def keys_known_def reject_entries_Inr)

lemma keys_then_node:
  "and_then (requireMap n) (\<lambda>node. and_then (rejectUnknownKeys api node allowed) (\<lambda>_. f node)) = Inr b \<longleftrightarrow>
     (\<exists>node. n = Some node \<and> keys_known api node allowed \<and> f node = Inr b)"
  by (auto simp: and_then_Inr requireMap_Inr rejectUnknownKeys_def keys_known_def reject_entries_Inr)

lemma finiteScalar_Inr:
  "finiteScalar api n minimum z = Inr v \<longleftrightarrow>
     number_read api n v \<and> isfinite v \<and> (if z then fp_le minimum v else fp_less minimum v)"
  by (cases n) (auto simp: finiteScalar_def number_read_def and_then_Inr split: yaml.splits)

lemma string_field_Inr: "string_field api node key d = Inr s \<longleftrightarrow> text_or api (field node key) d s"
  by (auto simp: string_field_def text_or_def split: option.splits)

lemma load_position_Inr: "load_position api n = Inr p \<longleftrightarrow> position_read api n p \<and> vfinite p"
  by (cases p) (auto simp: load_position_def position_read_def finite_axis_def and_then_Inr vfinite_def
      split: option.splits yaml.splits list.splits if_splits)

lemma fp_pos_neg:
  "isfinite x \<Longrightarrow> fp_le x (Fin 0) \<longleftrightarrow> \<not> fp_less (Fin 0) x" "isfinite x \<Longrightarrow> fp_less x (Fin 0) \<longleftrightarrow> \<not> fp_le (Fin 0) x"
  by (cases x; auto)+

lemma waypoint_geometry_iff:
  "waypoint_geometry_valid w \<longleftrightarrow>
     vfinite (mw_position_enu w) \<and> isfinite (mw_acceptance_radius_m w) \<and> fp_less (Fin 0) (mw_acceptance_radius_m w) \<and>
     isfinite (mw_hold_s w) \<and> fp_le (Fin 0) (mw_hold_s w) \<and> (mw_behavior w = PassThrough \<longrightarrow> \<not> fp_less (Fin 0) (mw_hold_s w))"
  unfolding waypoint_geometry_valid_def
  using fp_pos_neg [of "mw_acceptance_radius_m w"] fp_pos_neg [of "mw_hold_s w"] by argo

lemma hold_read:
  "(if n \<noteq> None then finiteScalar api n (Fin 0) True else Inr (Fin 0)) = Inr h \<longleftrightarrow>
     number_or api n (Fin 0) h \<and> isfinite h \<and> fp_le (Fin 0) h"
  by (auto simp: finiteScalar_Inr number_or_def)

lemma reject_if_Inr: "(if c then Inl e else r) = Inr b \<longleftrightarrow> \<not> c \<and> r = Inr b"
  by simp

lemma behavior_Inr:
  "(let waypoint = \<lparr>mw_id = i, mw_position_enu = p, mw_acceptance_radius_m = r, mw_hold_s = h, mw_behavior = PassThrough\<rparr>
    in if s = ''pass_through'' then if fp_less (Fin 0) h then Inl HoldOnPassThrough else Inr waypoint
       else if s = ''stop'' then Inr (waypoint\<lparr>mw_behavior := Stop\<rparr>) else Inl BehaviorUnknown) = Inr w \<longleftrightarrow>
   s = behavior_name (mw_behavior w) \<and> mw_id w = i \<and> mw_position_enu w = p \<and> mw_acceptance_radius_m w = r \<and> mw_hold_s w = h \<and>
   (mw_behavior w = PassThrough \<longrightarrow> \<not> fp_less (Fin 0) h)"
  by (cases w; cases "mw_behavior w") (auto simp: Let_def)

lemma load_waypoint_Inr:
  "load_waypoint api ids l node = Inr w \<longleftrightarrow>
     waypoint_read api l node w \<and> waypoint_id_valid (mw_id w) \<and> waypoint_geometry_valid w \<and> mw_id w \<notin> ids"
proof -
  have "load_waypoint api ids l node = Inr w \<longleftrightarrow>
     keys_known api node {''id'', ''position'', ''acceptance_radius_m'', ''hold_s'', ''behavior''} \<and>
     (\<exists>i p r h s. text_or api (field node ''id'') [] i \<and> \<not> (\<not> waypoint_id_valid i \<or> i \<in> ids) \<and>
        (position_read api (field node ''position'') p \<and> vfinite p) \<and>
        (number_read api (field node ''acceptance_radius_m'') r \<and> isfinite r \<and> fp_less (Fin 0) r) \<and>
        (number_or api (field node ''hold_s'') (Fin 0) h \<and> isfinite h \<and> fp_le (Fin 0) h) \<and>
        text_or api (field node ''behavior'') (if fp_less (Fin 0) h \<or> l then ''stop'' else ''pass_through'') s \<and>
        s = behavior_name (mw_behavior w) \<and> mw_id w = i \<and> mw_position_enu w = p \<and> mw_acceptance_radius_m w = r \<and>
        mw_hold_s w = h \<and> (mw_behavior w = PassThrough \<longrightarrow> \<not> fp_less (Fin 0) h))"
    unfolding load_waypoint_def keys_then
    unfolding and_then_Inr string_field_Inr load_position_Inr finiteScalar_Inr hold_read reject_if_Inr behavior_Inr
      if_False ex_simps(1,2) [symmetric] ..
  then show ?thesis
    unfolding waypoint_read_def waypoint_geometry_iff by simp argo
qed

lemma load_waypoints_Inr:
  "load_waypoints api ids nodes = Inr ws \<longleftrightarrow>
     length nodes = length ws \<and> (\<forall>i < length nodes. waypoint_read api (Suc i = length nodes) (nodes ! i) (ws ! i)) \<and>
     waypoints_valid ids ws"
proof (induction nodes arbitrary: ids ws)
  case (Cons n nodes)
  show ?case
  proof (cases ws)
    case (Cons w ws')
    have "(\<forall>i < length (n # nodes). waypoint_read api (Suc i = length (n # nodes)) ((n # nodes) ! i) ((w # ws') ! i)) \<longleftrightarrow>
        waypoint_read api (nodes = []) n w \<and>
        (\<forall>i < length nodes. waypoint_read api (Suc i = length nodes) (nodes ! i) (ws' ! i))"
      by (auto simp: nth_Cons All_less_Suc2 split: nat.splits)
    then show ?thesis
      using Cons.IH [of "insert (mw_id w) ids" ws'] by (auto simp: Cons and_then_Inr load_waypoint_Inr)
  qed (simp add: and_then_Inr)
qed auto

lemma default_planning_valid: "isfinite (mp_requested_cruise_speed_mps default_planning)"
  "fp_less (Fin 0) (mp_requested_cruise_speed_mps default_planning)"
  by (simp_all add: default_planning_def)

lemma default_control_valid: "isfinite (dlit (15 / 100))" "fp_le (Fin 0) (dlit (15 / 100))" "isfinite (dlit (1 / 2))" "fp_le (Fin 0) (dlit (1 / 2))"
proof -
  have "dlit (15 / 100) = Fin (5404319552844595 / 2 ^ 55)"
    using b64.fround_nearest [of "- 3" "15 / 100" "- 55" 5404319552844595]
    by (simp add: binary64_def power_int_minus divide_simps)
  moreover have "dlit (1 / 2) = Fin (1 / 2)"
    using b64.fround_nearest [of "- 1" "1 / 2" "- 53" "2 ^ 52"] by (simp add: binary64_def power_int_minus divide_simps)
  ultimately show "isfinite (dlit (15 / 100))" "fp_le (Fin 0) (dlit (15 / 100))" "isfinite (dlit (1 / 2))" "fp_le (Fin 0) (dlit (1 / 2))"
    by simp_all
qed

lemma load_planning_Inr:
  "load_planning api n = Inr c \<longleftrightarrow> planning_read api n c \<and> isfinite (mp_requested_cruise_speed_mps c) \<and>
     fp_less (Fin 0) (mp_requested_cruise_speed_mps c)"
proof (cases n)
  case None
  then show ?thesis using default_planning_valid by (auto simp: load_planning_def planning_read_def)
next
  case (Some node)
  have speed: "(if m \<noteq> None then finiteScalar api m (Fin 0) False else Inr (mp_requested_cruise_speed_mps default_planning)) = Inr v \<longleftrightarrow>
      number_or api m (Fin 1) v \<and> isfinite v \<and> fp_less (Fin 0) v" for m v
    by (auto simp: finiteScalar_Inr number_or_def default_planning_def)
  have policy: "(if p = ''allow_unknown'' then Inr \<lparr>mp_requested_cruise_speed_mps = v, mp_unknown_policy = AllowUnknown\<rparr>
      else if p \<noteq> ''blocked'' then Inl PolicyUnknown
      else Inr \<lparr>mp_requested_cruise_speed_mps = v, mp_unknown_policy = mp_unknown_policy default_planning\<rparr>) = Inr c \<longleftrightarrow>
    p = (if mp_unknown_policy c = AllowUnknown then ''allow_unknown'' else ''blocked'') \<and> mp_requested_cruise_speed_mps c = v" for p v
    by (cases c; cases "mp_unknown_policy c") (auto simp: default_planning_def)
  show ?thesis
    unfolding load_planning_def planning_read_def Some option.case keys_then
    unfolding and_then_Inr string_field_Inr speed policy ex_simps(1,2) [symmetric]
    by simp argo
qed

lemma load_control_Inr:
  "load_control api n = Inr c \<longleftrightarrow> control_read api n c \<and>
     isfinite (mc_acceptance_speed_mps c) \<and> fp_le (Fin 0) (mc_acceptance_speed_mps c) \<and>
     isfinite (mc_acceptance_confirmation_s c) \<and> fp_le (Fin 0) (mc_acceptance_confirmation_s c)"
proof (cases "n = None \<or> n = Some YNull")
  case True
  then show ?thesis using default_control_valid by (auto simp: load_control_def control_read_def default_control_def)
next
  case False
  have number: "(if m \<noteq> None then finiteScalar api m (Fin 0) True else Inr d) = Inr v \<longleftrightarrow>
      number_or api m d v \<and> isfinite v \<and> fp_le (Fin 0) v" if "isfinite d" "fp_le (Fin 0) d" for m v d
    using that by (auto simp: finiteScalar_Inr number_or_def)
  have config: "Inr \<lparr>mc_acceptance_speed_mps = v, mc_acceptance_confirmation_s = u\<rparr> = Inr c \<longleftrightarrow>
      mc_acceptance_speed_mps c = v \<and> mc_acceptance_confirmation_s c = u" for v u by (cases c) auto
  have defaults: "mc_acceptance_speed_mps default_control = dlit (15 / 100)" "mc_acceptance_confirmation_s default_control = dlit (1 / 2)"
    by (simp_all add: default_control_def)
  show ?thesis
    unfolding load_control_def control_read_def if_not_P [OF False] keys_then_node
    unfolding and_then_Inr defaults number [OF default_control_valid(1,2)] number [OF default_control_valid(3,4)] config
      ex_simps(1,2) [symmetric]
    by simp blast
qed

lemma waypoints_Inr:
  "(case n of Some (YSequence nodes) \<Rightarrow>
      if nodes = [] then Inl WaypointsMissing else if length nodes > kMaximumMissionWaypoints then Inl TooManyWaypoints
      else and_then (load_waypoints api {} nodes) f
    | _ \<Rightarrow> Inl WaypointsMissing) = Inr m \<longleftrightarrow>
   (\<exists>nodes ws. n = Some (YSequence nodes) \<and> nodes \<noteq> [] \<and> length nodes \<le> kMaximumMissionWaypoints \<and>
      load_waypoints api {} nodes = Inr ws \<and> f ws = Inr m)"
  by (auto simp: and_then_Inr not_less split: option.splits yaml.splits)

lemma version_Inr:
  "(case n of None \<Rightarrow> Inr 0 | Some x \<Rightarrow> converted (ya_int api x)) = Inr v \<longleftrightarrow>
     n = None \<and> v = 0 \<or> (\<exists>x. n = Some x \<and> ya_int api x = Some v)"
  by (auto split: option.splits)

lemma load_root_Inr:
  "load_root api ef doc = Inr m \<longleftrightarrow> mission_read api doc m \<and> mission_valid m \<and> (ef = [] \<or> ms_frame m = ef)"
proof -
  have built: "(let mission = \<lparr>ms_schema_version = v, ms_id = i, ms_frame = f, ms_waypoints = ws, ms_planning = p, ms_control = c\<rparr>
      in if \<not> mission_valid mission then Inl ContractViolated else Inr mission) = Inr m \<longleftrightarrow>
    mission_valid m \<and> ms_schema_version m = v \<and> ms_id m = i \<and> ms_frame m = f \<and> ms_waypoints m = ws \<and> ms_planning m = p \<and>
      ms_control m = c" for v i f ws p c
    by (cases m) (auto simp: Let_def)
  have sub: "mission_valid m \<Longrightarrow> load_waypoints api {} nodes = Inr (ms_waypoints m) \<longleftrightarrow>
      length nodes = length (ms_waypoints m) \<and>
      (\<forall>i < length nodes. waypoint_read api (Suc i = length nodes) (nodes ! i) (ms_waypoints m ! i))"
    "mission_valid m \<Longrightarrow> load_planning api n = Inr (ms_planning m) \<longleftrightarrow> planning_read api n (ms_planning m)"
    "mission_valid m \<Longrightarrow> load_control api n = Inr (ms_control m) \<longleftrightarrow> control_read api n (ms_control m)" for nodes n
    unfolding mission_valid_iff load_waypoints_Inr load_planning_Inr load_control_Inr waypoints_valid_distinct by auto
  show ?thesis
  proof (cases "mission_valid m")
    case True
    then have limits: "ms_schema_version m = 1" "ms_id m \<noteq> []" "length (ms_id m) \<le> kMaximumMissionIdLength" "ms_frame m \<noteq> []"
      "length (ms_frame m) \<le> kMaximumMissionFrameLength" "ms_waypoints m \<noteq> []" "length (ms_waypoints m) \<le> kMaximumMissionWaypoints"
      unfolding mission_valid_iff by blast+
    then have nodes: "length nodes = length (ms_waypoints m) \<Longrightarrow> nodes \<noteq> [] \<and> length nodes \<le> kMaximumMissionWaypoints"
      for nodes :: "yaml list" by auto
    show ?thesis
      unfolding load_root_def keys_then keys_then_node mission_read_def
      unfolding and_then_Inr version_Inr string_field_Inr reject_if_Inr waypoints_Inr built ex_simps(1,2) [symmetric]
      by (simp add: True sub [OF True] limits not_less del: ex_simps) (use nodes in blast)
  next
    case False
    then show ?thesis
      unfolding load_root_def keys_then keys_then_node
      unfolding and_then_Inr version_Inr string_field_Inr reject_if_Inr waypoints_Inr built by simp
  qed
qed

text \<open>A document that lists every field of a mission, numbers printed by \<open>num\<close>.\<close>

definition yaml_of_waypoint :: "(double \<Rightarrow> string) \<Rightarrow> MissionWaypoint \<Rightarrow> yaml" where
  "yaml_of_waypoint num w = YMap
     [(YScalar ''id'', YScalar (mw_id w)),
      (YScalar ''position'', YSequence (map (\<lambda>f. YScalar (num (f (mw_position_enu w)))) [vx, vy, vz])),
      (YScalar ''acceptance_radius_m'', YScalar (num (mw_acceptance_radius_m w))),
      (YScalar ''hold_s'', YScalar (num (mw_hold_s w))),
      (YScalar ''behavior'', YScalar (if mw_behavior w = Stop then ''stop'' else ''pass_through''))]"

definition yaml_of_mission :: "(double \<Rightarrow> string) \<Rightarrow> Mission \<Rightarrow> yaml" where
  "yaml_of_mission num m = YMap [(YScalar ''mission'', YMap
     [(YScalar ''version'', YScalar ''1''), (YScalar ''id'', YScalar (ms_id m)), (YScalar ''frame'', YScalar (ms_frame m)),
      (YScalar ''waypoints'', YSequence (map (yaml_of_waypoint num) (ms_waypoints m))),
      (YScalar ''planning'', YMap
        [(YScalar ''requested_cruise_speed_mps'', YScalar (num (mp_requested_cruise_speed_mps (ms_planning m)))),
         (YScalar ''unknown_policy'', YScalar (if mp_unknown_policy (ms_planning m) = AllowUnknown
            then ''allow_unknown'' else ''blocked''))]),
      (YScalar ''control'', YMap
        [(YScalar ''acceptance_speed_mps'', YScalar (num (mc_acceptance_speed_mps (ms_control m)))),
         (YScalar ''acceptance_confirmation_s'', YScalar (num (mc_acceptance_confirmation_s (ms_control m))))])])]"

text \<open>The numbers of a mission are \<open>double\<close>s.\<close>

definition waypoint_binary64 :: "MissionWaypoint \<Rightarrow> bool" where
  "waypoint_binary64 w \<longleftrightarrow> fp_ok binary64 (vx (mw_position_enu w)) \<and> fp_ok binary64 (vy (mw_position_enu w)) \<and>
     fp_ok binary64 (vz (mw_position_enu w)) \<and> fp_ok binary64 (mw_acceptance_radius_m w) \<and> fp_ok binary64 (mw_hold_s w)"

definition mission_binary64 :: "Mission \<Rightarrow> bool" where
  "mission_binary64 m \<longleftrightarrow> (\<forall>w \<in> set (ms_waypoints m). waypoint_binary64 w) \<and>
     fp_ok binary64 (mp_requested_cruise_speed_mps (ms_planning m)) \<and>
     fp_ok binary64 (mc_acceptance_speed_mps (ms_control m)) \<and> fp_ok binary64 (mc_acceptance_confirmation_s (ms_control m))"

text \<open>
  yaml-cpp's conversions on scalars: a string is its text, \<open>1\<close> is the integer one, \<open>as<double>\<close> returns
  values of binary64 only, and a finite one is read back from its printed form.
\<close>

definition yaml_api_ok :: "yaml_api \<Rightarrow> (double \<Rightarrow> string) \<Rightarrow> bool" where
  "yaml_api_ok api num \<longleftrightarrow> (\<forall>s. ya_string api (YScalar s) = Some s) \<and> ya_int api (YScalar ''1'') = Some 1 \<and>
     (\<forall>n v. ya_double api n = Some v \<longrightarrow> fp_ok binary64 v) \<and>
     (\<forall>x. isfinite x \<and> fp_ok binary64 x \<longrightarrow> ya_double api (YScalar (num x)) = Some x)"

lemma printed_waypoint_read:
  assumes "yaml_api_ok api num" "waypoint_geometry_valid w" "waypoint_binary64 w"
  shows "waypoint_read api l (yaml_of_waypoint num w) w"
proof -
  have api: "ya_string api (YScalar s) = Some s" for s using assms(1) by (simp add: yaml_api_ok_def)
  have num: "ya_double api (YScalar (num (vx (mw_position_enu w)))) = Some (vx (mw_position_enu w))"
    "ya_double api (YScalar (num (vy (mw_position_enu w)))) = Some (vy (mw_position_enu w))"
    "ya_double api (YScalar (num (vz (mw_position_enu w)))) = Some (vz (mw_position_enu w))"
    "ya_double api (YScalar (num (mw_acceptance_radius_m w))) = Some (mw_acceptance_radius_m w)"
    "ya_double api (YScalar (num (mw_hold_s w))) = Some (mw_hold_s w)"
    using assms by (simp_all add: yaml_api_ok_def waypoint_geometry_iff waypoint_binary64_def vfinite_def)
  show ?thesis
    by (cases "mw_behavior w")
       (simp_all add: waypoint_read_def yaml_of_waypoint_def keys_known_def text_or_def position_read_def number_read_def
         number_or_def field_def api num)
qed

lemma printed_mission_read:
  assumes "yaml_api_ok api num" "mission_valid m" "mission_binary64 m"
  shows "mission_read api (yaml_of_mission num m) m"
proof -
  note valid = assms(2) [unfolded mission_valid_iff]
  have api: "ya_string api (YScalar s) = Some s" "ya_int api (YScalar ''1'') = Some 1" for s
    using assms(1) by (simp_all add: yaml_api_ok_def)
  have num: "ya_double api (YScalar (num (mp_requested_cruise_speed_mps (ms_planning m)))) = Some (mp_requested_cruise_speed_mps (ms_planning m))"
    "ya_double api (YScalar (num (mc_acceptance_speed_mps (ms_control m)))) = Some (mc_acceptance_speed_mps (ms_control m))"
    "ya_double api (YScalar (num (mc_acceptance_confirmation_s (ms_control m)))) = Some (mc_acceptance_confirmation_s (ms_control m))"
    using assms(1,3) valid by (simp_all add: yaml_api_ok_def mission_binary64_def)
  have waypoints: "waypoint_read api l (map (yaml_of_waypoint num) (ms_waypoints m) ! i) (ms_waypoints m ! i)"
    if "i < length (ms_waypoints m)" for i l
    using that valid assms(3) printed_waypoint_read [OF assms(1)] by (simp add: mission_binary64_def)
  show ?thesis
    using valid waypoints
    by (simp add: mission_read_def yaml_of_mission_def keys_known_def text_or_def planning_read_def control_read_def
        number_read_def number_or_def field_def api num)
qed

lemma default_binary64: "fp_ok binary64 (Fin 0)" "fp_ok binary64 (Fin 1)" "fp_ok binary64 (dlit (15 / 100))" "fp_ok binary64 (dlit (1 / 2))"
  by (simp_all add: fp_simps b64.fround_is_ok del: fround_def)

lemma read_binary64:
  assumes "yaml_api_ok api num" "mission_read api document m"
  shows "mission_binary64 m"
proof -
  have d: "ya_double api n = Some v \<Longrightarrow> fp_ok binary64 v" for n v using assms(1) by (simp add: yaml_api_ok_def)
  have number: "number_or api n x v \<Longrightarrow> fp_ok binary64 x \<Longrightarrow> fp_ok binary64 v" "number_read api n v \<Longrightarrow> fp_ok binary64 v" for n x v
    using d by (auto simp: number_or_def number_read_def split: if_splits)
  have "waypoint_read api l n w \<Longrightarrow> waypoint_binary64 w" for l n w
    using number d default_binary64(1) by (auto simp: waypoint_read_def waypoint_binary64_def position_read_def)
  then have "\<forall>w \<in> set (ms_waypoints m). waypoint_binary64 w"
    using assms(2) by (auto simp: mission_read_def in_set_conv_nth) metis
  moreover have "fp_ok binary64 (mp_requested_cruise_speed_mps c)" if "planning_read api n c" for n c
    using that number(1) default_binary64(2) by (auto simp: planning_read_def default_planning_def split: option.splits)
  moreover have "fp_ok binary64 (mc_acceptance_speed_mps c) \<and> fp_ok binary64 (mc_acceptance_confirmation_s c)"
    if "control_read api n c" for n c
    using that number(1) default_binary64(3,4) by (auto simp: control_read_def default_control_def split: if_splits)
  ultimately show ?thesis using assms(2) unfolding mission_read_def mission_binary64_def by blast
qed

text \<open>
  C37. The loader accepts exactly the valid missions a document states. A document loads as a mission exactly
  when the mission is what its fields say (known keys only, version, identifier, frame, every waypoint with its
  identifier, position, radius, hold and behaviour, and the two optional sections, with the defaults of the
  contract where a field is left out), it fulfils the mission contract and it is in the expected frame.
  Loading is a left inverse of writing: every valid mission of \<open>double\<close>s is the result of loading the
  document that lists its fields, and so is every mission that was ever loaded.
\<close>

theorem mission_loader_exact:
  assumes "yaml_api_ok api num" "path \<noteq> []"
  shows "(\<forall>document expected_frame m. loadMission api path True (Some document) expected_frame = Inr m \<longleftrightarrow>
      mission_read api document m \<and> mission_valid m \<and> (expected_frame = [] \<or> ms_frame m = expected_frame)) \<and>
    (\<forall>m. mission_valid m \<and> mission_binary64 m \<longrightarrow>
      loadMission api path True (Some (yaml_of_mission num m)) (ms_frame m) = Inr m) \<and>
    (\<forall>document expected_frame m. loadMission api path True (Some document) expected_frame = Inr m \<longrightarrow>
      loadMission api path True (Some (yaml_of_mission num m)) expected_frame = Inr m)"
proof -
  have load: "loadMission api path True (Some document) ef = Inr m \<longleftrightarrow>
      mission_read api document m \<and> mission_valid m \<and> (ef = [] \<or> ms_frame m = ef)" for document ef m
    using assms(2) by (simp add: loadMission_def converted_def load_root_Inr)
  show ?thesis unfolding load using printed_mission_read [OF assms(1)] read_binary64 [OF assms(1)] by blast
qed

text \<open>Numbers in unary, a signed numerator and a denominator, rounded to binary64 when read.\<close>

definition ex_num :: "double \<Rightarrow> string" where
  "ex_num v = (case v of Fin q \<Rightarrow> (let (n, d) = quotient_of q in
     replicate (nat n) CHR ''p'' @ replicate (nat (- n)) CHR ''m'' @ replicate (nat d) CHR ''d'') | _ \<Rightarrow> [])"

definition ex_double :: "string \<Rightarrow> double" where
  "ex_double s = fround binary64 (of_int (int (length (filter (\<lambda>c. c = CHR ''p'') s)) - int (length (filter (\<lambda>c. c = CHR ''m'') s))) /
     of_int (int (length (filter (\<lambda>c. c = CHR ''d'') s))))"

definition ex_api :: yaml_api where
  "ex_api = \<lparr>ya_int = (\<lambda>n. if n = YScalar ''1'' then Some 1 else None),
     ya_double = (\<lambda>n. case n of YScalar s \<Rightarrow> Some (ex_double s) | _ \<Rightarrow> None),
     ya_string = (\<lambda>n. case n of YScalar s \<Rightarrow> Some s | _ \<Rightarrow> None)\<rparr>"

definition ex_waypoint :: "string \<Rightarrow> rat \<Rightarrow> Behavior \<Rightarrow> MissionWaypoint" where
  "ex_waypoint i x b = \<lparr>mw_id = i, mw_position_enu = \<lparr>vx = Fin x, vy = Fin 0, vz = Fin 0\<rparr>, mw_acceptance_radius_m = Fin 1,
     mw_hold_s = Fin 0, mw_behavior = b\<rparr>"

definition ex_mission :: Mission where
  "ex_mission = \<lparr>ms_schema_version = 1, ms_id = ''m'', ms_frame = ''odom'',
     ms_waypoints = [ex_waypoint ''a'' 0 PassThrough, ex_waypoint ''b'' 4 Stop],
     ms_planning = \<lparr>mp_requested_cruise_speed_mps = Fin 2, mp_unknown_policy = RequireKnownFree\<rparr>,
     ms_control = \<lparr>mc_acceptance_speed_mps = Fin 1, mc_acceptance_confirmation_s = Fin 1\<rparr>\<rparr>"

lemma ex_mission_valid: "mission_valid ex_mission"
  by (simp add: mission_valid_def ex_mission_def ex_waypoint_def waypoint_id_valid_def waypoint_geometry_valid_def
      mission_limits vfinite_def)

lemma filter_replicate_char: "filter (\<lambda>c. c = a) (replicate n b) = (if a = b then replicate n b else [])"
  by (induction n) auto

lemma ex_api_ok: "yaml_api_ok ex_api ex_num"
proof -
  have "ex_double (ex_num (Fin q)) = fround binary64 q" for q
  proof -
    obtain n d where nd: "quotient_of q = (n, d)" by (cases "quotient_of q")
    have "0 < d" "q = of_int n / of_int d" using nd quotient_of_denom_pos quotient_of_div by auto
    moreover have "int (nat n) - int (nat (- n)) = n" by simp
    ultimately show ?thesis
      unfolding ex_double_def ex_num_def using nd by (simp add: filter_replicate_char)
  qed
  then have "ex_double (ex_num x) = x" if "isfinite x" "fp_ok binary64 x" for x
    using that b64.fround_ok by (auto simp: isfinite_iff)
  moreover have "fp_ok binary64 (ex_double s)" for s unfolding ex_double_def by (rule b64.fround_is_ok)
  ultimately show ?thesis by (auto simp: yaml_api_ok_def ex_api_def split: yaml.splits)
qed

theorem mission_loader_exact_witness:
  "mission_valid ex_mission \<and>
   loadMission ex_api ''m.yaml'' True (Some (yaml_of_mission ex_num ex_mission)) ''odom'' = Inr ex_mission"
proof -
  have "''m.yaml'' \<noteq> []" "ms_frame ex_mission = ''odom''" "mission_binary64 ex_mission"
    by (simp_all add: ex_mission_def ex_waypoint_def mission_binary64_def waypoint_binary64_def fp_simps)
  with mission_loader_exact [OF ex_api_ok, of "''m.yaml''"] ex_mission_valid show ?thesis by auto
qed

end
