(* ===== verification/Route_Progress.thy ===== *)
theory Route_Progress
  imports Mission Fp_Geometry
begin

text \<open>
  \<open>navigation_mission/route_progress\<close>: the route geometry of a mission and the monotone progress of the
  measured position along it. Indices of type \<open>size_t\<close> are natural numbers (a mission has at most 4096
  waypoints); \<open>size_max\<close> is the sentinel \<open>numeric_limits<size_t>::max()\<close>.
\<close>

section \<open>Route state\<close>

definition size_max :: nat where "size_max = 2 ^ 64 - 1"

definition default_backtrack_tolerance_m :: double where
  "default_backtrack_tolerance_m = dlit (1 / 2)"

record RouteSegment =
  rs_start_waypoint_index :: nat
  rs_end_waypoint_index :: nat
  rs_start_arc_m :: double
  rs_end_arc_m :: double
  rs_length_m :: double
  rs_start :: vec3
  rs_end :: vec3
  rs_tangent :: vec3

record RouteProjection =
  rp_valid :: bool
  rp_segment_index :: nat
  rp_arc_length_m :: double
  rp_lateral_error_m :: double
  rp_segment_fraction :: double
  rp_point :: vec3
  rp_tangent :: vec3

definition default_projection :: RouteProjection where
  "default_projection = \<lparr>rp_valid = False, rp_segment_index = size_max, rp_arc_length_m = Fin 0, rp_lateral_error_m = Fin 0,
     rp_segment_fraction = Fin 0, rp_point = vzero, rp_tangent = vzero\<rparr>"

record RouteProgressState =
  rg_valid :: bool
  rg_backtracking_exceeded :: bool
  rg_projection :: RouteProjection
  rg_progress_arc_m :: double

definition default_progress_state :: RouteProgressState where
  "default_progress_state = \<lparr>rg_valid = False, rg_backtracking_exceeded = False, rg_projection = default_projection,
     rg_progress_arc_m = Fin 0\<rparr>"

record RouteProgress =
  ro_waypoints :: "MissionWaypoint list"
  ro_segments :: "RouteSegment list"
  ro_waypoint_arc_lengths :: "double list"
  ro_backtrack_tolerance_m :: double
  ro_state :: RouteProgressState
  ro_total_length_m :: double

definition kMinimumSegmentLengthM :: double where "kMinimumSegmentLengthM = dlit (1 / 10 ^ 9)"
definition kProjectionDistanceTieSquaredM2 :: double where "kProjectionDistanceTieSquaredM2 = dlit (1 / 10 ^ 12)"

section \<open>Construction\<close>

datatype route_error = MissionInvalid | ToleranceInvalid | WaypointGeometryInvalid | SegmentNonFinite | ArcNotRepresentable

text \<open>
  The loop of the constructor: the waypoints still to add, the previous one if any, and the segments, arc
  lengths and total length so far.
\<close>

fun build_route ::
    "eigen \<Rightarrow> nat \<Rightarrow> MissionWaypoint option \<Rightarrow> MissionWaypoint list \<Rightarrow> RouteSegment list \<Rightarrow> double list \<Rightarrow> double \<Rightarrow>
     route_error + RouteSegment list \<times> double list \<times> double" where
  "build_route eg index prev [] segments arcs total_m = Inr (segments, arcs, total_m)"
| "build_route eg index prev (w # ws) segments arcs total_m =
     (if \<not> waypoint_geometry_valid w then Inl WaypointGeometryInvalid
      else case prev of None \<Rightarrow> build_route eg (index + 1) (Some w) ws segments (arcs @ [Fin 0]) total_m
      | Some p \<Rightarrow>
        let delta = vsub (mw_position_enu w) (mw_position_enu p); length_m = eg_norm eg delta
        in if \<not> isfinite length_m then Inl SegmentNonFinite
           else if fp_less kMinimumSegmentLengthM length_m
           then let end_arc = dadd total_m length_m
                in if \<not> isfinite end_arc \<or> fp_le end_arc total_m then Inl ArcNotRepresentable
                   else build_route eg (index + 1) (Some w) ws
                     (segments @ [\<lparr>rs_start_waypoint_index = index - 1, rs_end_waypoint_index = index, rs_start_arc_m = total_m,
                        rs_end_arc_m = end_arc, rs_length_m = length_m, rs_start = mw_position_enu p,
                        rs_end = mw_position_enu w, rs_tangent = vdiv delta length_m\<rparr>])
                     (arcs @ [end_arc]) end_arc
           else build_route eg (index + 1) (Some w) ws segments (arcs @ [total_m]) total_m)"

definition makeRouteProgress :: "eigen \<Rightarrow> Mission \<Rightarrow> double \<Rightarrow> route_error + RouteProgress" where
  "makeRouteProgress eg mission backtrack_tolerance_m =
     (if \<not> mission_valid mission then Inl MissionInvalid
      else if \<not> isfinite backtrack_tolerance_m \<or> fp_less backtrack_tolerance_m (Fin 0) then Inl ToleranceInvalid
      else case build_route eg 0 None (ms_waypoints mission) [] [] (Fin 0) of
        Inl e \<Rightarrow> Inl e
      | Inr (segments, arcs, total_m) \<Rightarrow>
          Inr \<lparr>ro_waypoints = ms_waypoints mission, ro_segments = segments, ro_waypoint_arc_lengths = arcs,
               ro_backtrack_tolerance_m = backtrack_tolerance_m, ro_state = default_progress_state, ro_total_length_m = total_m\<rparr>)"

definition route_reset :: "RouteProgress \<Rightarrow> RouteProgress" where
  "route_reset r = r\<lparr>ro_state := default_progress_state\<rparr>"

section \<open>Projection\<close>

definition raw_fraction :: "eigen \<Rightarrow> vec3 \<Rightarrow> RouteSegment \<Rightarrow> double" where
  "raw_fraction eg position s = ddiv (eg_dot eg (vsub position (rs_start s)) (rs_tangent s)) (rs_length_m s)"

definition segment_point :: "RouteSegment \<Rightarrow> double \<Rightarrow> vec3" where
  "segment_point s fraction = vadd (rs_start s) (vscale fraction (vsub (rs_end s) (rs_start s)))"

definition segment_arc :: "RouteSegment \<Rightarrow> double \<Rightarrow> double" where
  "segment_arc s fraction = dadd (rs_start_arc_m s) (dmul fraction (rs_length_m s))"

definition projection_on :: "nat \<Rightarrow> RouteSegment \<Rightarrow> double \<Rightarrow> double \<Rightarrow> RouteProjection" where
  "projection_on index s fraction lateral_error =
     \<lparr>rp_valid = True, rp_segment_index = index, rp_arc_length_m = segment_arc s fraction, rp_lateral_error_m = lateral_error,
      rp_segment_fraction = fraction, rp_point = segment_point s fraction, rp_tangent = rs_tangent s\<rparr>"

fun project_loop :: "eigen \<Rightarrow> vec3 \<Rightarrow> nat \<Rightarrow> RouteSegment list \<Rightarrow> double \<Rightarrow> RouteProjection \<Rightarrow> RouteProjection" where
  "project_loop eg position index [] best result = result"
| "project_loop eg position index (s # ss) best result =
     (let raw = raw_fraction eg position s
      in if \<not> isfinite raw then project_loop eg position (index + 1) ss best result
         else let fraction = fp_clamp raw (Fin 0) (Fin 1);
                  distance_squared = eg_squaredNorm eg (vsub position (segment_point s fraction))
              in if \<not> isfinite distance_squared \<or> fp_le best distance_squared
                 then project_loop eg position (index + 1) ss best result
                 else project_loop eg position (index + 1) ss distance_squared
                        (projection_on index s fraction (dsqrt distance_squared)))"

definition route_project :: "eigen \<Rightarrow> RouteProgress \<Rightarrow> vec3 \<Rightarrow> RouteProjection" where
  "route_project eg r position =
     (if \<not> vfinite position \<or> ro_waypoints r = [] then default_projection
      else if ro_segments r = []
      then let origin = mw_position_enu (hd (ro_waypoints r)); distance_m = eg_norm eg (vsub position origin)
           in if \<not> isfinite distance_m then default_projection
              else default_projection\<lparr>rp_valid := True, rp_arc_length_m := Fin 0, rp_lateral_error_m := distance_m,
                     rp_point := origin\<rparr>
      else project_loop eg position 0 (ro_segments r) PInf default_projection)"

section \<open>Progress\<close>

text \<open>Keep the active leg while it is not clearly farther than a later, non-adjacent one.\<close>

definition keep_active_leg :: "eigen \<Rightarrow> RouteProgress \<Rightarrow> vec3 \<Rightarrow> RouteProjection \<Rightarrow> RouteProjection" where
  "keep_active_leg eg r position projection =
     (let state = ro_state r; active = rp_segment_index (rg_projection state)
      in if rg_valid state \<and> rp_valid (rg_projection state) \<and> active < length (ro_segments r) \<and>
            rp_segment_index projection > active + 1
         then let s = ro_segments r ! active;
                  fraction = fp_clamp (raw_fraction eg position s) (Fin 0) (Fin 1);
                  distance = eg_norm eg (vsub position (segment_point s fraction))
              in if isfinite distance \<and>
                    fp_le distance (dadd (rp_lateral_error_m projection) (ro_backtrack_tolerance_m r))
                 then (projection_on active s fraction distance)\<lparr>rp_valid := rp_valid projection\<rparr>
                 else projection
         else projection)"

text \<open>Among geometrically tied branches, take the arc closest to the progress so far, forward on a tie.\<close>

fun tie_break ::
    "eigen \<Rightarrow> vec3 \<Rightarrow> double \<Rightarrow> double \<Rightarrow> nat \<Rightarrow> RouteSegment list \<Rightarrow> double \<Rightarrow> RouteProjection \<Rightarrow> RouteProjection" where
  "tie_break eg position previous best_squared index [] best_arc_distance projection = projection"
| "tie_break eg position previous best_squared index (s # ss) best_arc_distance projection =
     (let raw = raw_fraction eg position s
      in if \<not> isfinite raw then tie_break eg position previous best_squared (index + 1) ss best_arc_distance projection
         else let fraction = fp_clamp raw (Fin 0) (Fin 1);
                  distance_squared = eg_squaredNorm eg (vsub position (segment_point s fraction))
              in if \<not> isfinite distance_squared \<or>
                    fp_less kProjectionDistanceTieSquaredM2 (fp_abs (dsub distance_squared best_squared))
                 then tie_break eg position previous best_squared (index + 1) ss best_arc_distance projection
                 else let arc = segment_arc s fraction;
                          arc_distance = fp_abs (dsub arc previous);
                          closer = fp_less (dadd arc_distance (dlit (1 / 10 ^ 12))) best_arc_distance;
                          forward = fp_le (fp_abs (dsub arc_distance best_arc_distance)) (dlit (1 / 10 ^ 12)) \<and>
                            fp_less (rp_arc_length_m projection) arc
                      in if \<not> closer \<and> \<not> forward
                         then tie_break eg position previous best_squared (index + 1) ss best_arc_distance projection
                         else tie_break eg position previous best_squared (index + 1) ss arc_distance
                                (projection_on index s fraction (dsqrt distance_squared)))"

definition resolve_branch :: "eigen \<Rightarrow> RouteProgress \<Rightarrow> vec3 \<Rightarrow> RouteProjection \<Rightarrow> RouteProjection" where
  "resolve_branch eg r position projection =
     (let previous = rg_progress_arc_m (ro_state r)
      in if rg_valid (ro_state r) \<and> ro_segments r \<noteq> []
         then tie_break eg position previous (dmul (rp_lateral_error_m projection) (rp_lateral_error_m projection)) 0
                (ro_segments r) (fp_abs (dsub (rp_arc_length_m projection) previous)) projection
         else projection)"

definition route_update :: "eigen \<Rightarrow> vec3 \<Rightarrow> RouteProgress \<Rightarrow> RouteProgress" where
  "route_update eg position r =
     (let nearest = route_project eg r position
      in if \<not> rp_valid nearest then r
         else let was_valid = rg_valid (ro_state r); previous = rg_progress_arc_m (ro_state r);
                  projection = resolve_branch eg r position (keep_active_leg eg r position nearest)
              in r\<lparr>ro_state := \<lparr>rg_valid = True,
                   rg_backtracking_exceeded = (was_valid \<and>
                     fp_less (dadd (rp_arc_length_m projection) (ro_backtrack_tolerance_m r)) previous),
                   rg_projection = projection,
                   rg_progress_arc_m = (if was_valid then fp_max previous (rp_arc_length_m projection)
                     else rp_arc_length_m projection)\<rparr>\<rparr>)"

section \<open>Queries\<close>

definition waypointArcLengthM :: "RouteProgress \<Rightarrow> nat \<Rightarrow> double option" where
  "waypointArcLengthM r index =
     (if index \<ge> length (ro_waypoint_arc_lengths r) then None else Some (ro_waypoint_arc_lengths r ! index))"

definition clampArc :: "double \<Rightarrow> double \<Rightarrow> double" where
  "clampArc arc total_m = fp_clamp arc (Fin 0) total_m"

definition segmentForArc :: "RouteProgress \<Rightarrow> double \<Rightarrow> nat" where
  "segmentForArc r arc =
     (if ro_segments r = [] \<or> \<not> isfinite arc \<or> \<not> isfinite (ro_total_length_m r) \<or> fp_less (ro_total_length_m r) (Fin 0)
      then size_max
      else let clamped = clampArc arc (ro_total_length_m r);
               i = lower_bound (\<lambda>s. fp_less (rs_end_arc_m s) clamped) (ro_segments r)
           in if i = length (ro_segments r) then length (ro_segments r) - 1 else i)"

definition arc_fraction :: "RouteProgress \<Rightarrow> RouteSegment \<Rightarrow> double \<Rightarrow> double" where
  "arc_fraction r s arc =
     fp_clamp (ddiv (dsub (clampArc arc (ro_total_length_m r)) (rs_start_arc_m s)) (rs_length_m s)) (Fin 0) (Fin 1)"

definition pointAtArc :: "RouteProgress \<Rightarrow> double \<Rightarrow> vec3 option" where
  "pointAtArc r arc =
     (if ro_waypoints r = [] \<or> \<not> isfinite arc \<or> \<not> isfinite (ro_total_length_m r) \<or> fp_less (ro_total_length_m r) (Fin 0)
      then None
      else if ro_segments r = [] then Some (mw_position_enu (hd (ro_waypoints r)))
      else let index = segmentForArc r arc
           in if index \<ge> length (ro_segments r) then None
              else let s = ro_segments r ! index in Some (segment_point s (arc_fraction r s arc)))"

definition altitudeAtArc :: "RouteProgress \<Rightarrow> double \<Rightarrow> double" where
  "altitudeAtArc r arc =
     (if ro_waypoints r = [] \<or> \<not> isfinite arc \<or> \<not> isfinite (ro_total_length_m r) \<or> fp_less (ro_total_length_m r) (Fin 0)
      then NaN
      else if ro_segments r = [] then vz (mw_position_enu (hd (ro_waypoints r)))
      else let index = segmentForArc r arc
           in if index \<ge> length (ro_segments r) then NaN
              else let s = ro_segments r ! index
                   in dadd (vz (rs_start s)) (dmul (arc_fraction r s arc) (dsub (vz (rs_end s)) (vz (rs_start s)))))"

definition incomingTangent :: "RouteProgress \<Rightarrow> nat \<Rightarrow> vec3 option" where
  "incomingTangent r index =
     (if index \<ge> length (ro_waypoints r) then None
      else map_option rs_tangent (List.find (\<lambda>s. rs_end_waypoint_index s \<le> index) (rev (ro_segments r))))"

definition outgoingTangent :: "RouteProgress \<Rightarrow> nat \<Rightarrow> vec3 option" where
  "outgoingTangent r index =
     (if index \<ge> length (ro_waypoints r) then None
      else map_option rs_tangent (List.find (\<lambda>s. rs_start_waypoint_index s \<ge> index) (ro_segments r)))"

definition insideAcceptance :: "eigen \<Rightarrow> RouteProgress \<Rightarrow> nat \<Rightarrow> vec3 \<Rightarrow> bool" where
  "insideAcceptance eg r index position =
     (if index \<ge> length (ro_waypoints r) \<or> \<not> vfinite position then False
      else let distance_m = eg_norm eg (vsub position (mw_position_enu (ro_waypoints r ! index)))
           in isfinite distance_m \<and> fp_le distance_m (mw_acceptance_radius_m (ro_waypoints r ! index)))"

text \<open>The literal \<open>1.0e-6\<close>.\<close>

definition micro :: double where "micro = dlit (1 / 10 ^ 6)"

definition segmentDistanceToPoint :: "eigen \<Rightarrow> vec3 \<Rightarrow> vec3 \<Rightarrow> vec3 \<Rightarrow> double option" where
  "segmentDistanceToPoint eg start finish point =
     (if \<not> vfinite start \<or> \<not> vfinite finish \<or> \<not> vfinite point then None
      else let delta = vsub finish start; length_squared = eg_squaredNorm eg delta
           in if \<not> isfinite length_squared then None
              else let fraction = (if fp_less (dlit (1 / 10 ^ 12)) length_squared
                         then fp_clamp (ddiv (eg_dot eg (vsub point start) delta) length_squared) (Fin 0) (Fin 1)
                         else Fin 0);
                       distance = eg_norm eg (vsub (vadd start (vscale fraction delta)) point)
                   in if isfinite distance then Some distance else None)"

text \<open>The branch of the route the position is on, if it is one that meets the waypoint.\<close>

definition ordered_projection :: "eigen \<Rightarrow> RouteProgress \<Rightarrow> nat \<Rightarrow> vec3 \<Rightarrow> RouteProjection option" where
  "ordered_projection eg r index position =
     (let projection0 = route_project eg r position; state = ro_state r
      in if \<not> rp_valid projection0 then None
         else let state_distance = eg_norm eg (vsub (rp_point (rg_projection state)) position);
                  projection = (if rg_valid state \<and> rp_valid (rg_projection state) \<and> isfinite state_distance \<and>
                      fp_le state_distance (dadd (rp_lateral_error_m projection0) micro) \<and>
                      fp_le (rp_lateral_error_m (rg_projection state)) (dadd (rp_lateral_error_m projection0) micro)
                    then rg_projection state else projection0)
              in if ro_segments r = [] then Some projection
                 else if rp_segment_index projection \<ge> length (ro_segments r) then None
                 else let s = ro_segments r ! rp_segment_index projection; arc = ro_waypoint_arc_lengths r ! index
                      in if fp_less micro (fp_abs (dsub (rs_start_arc_m s) arc)) \<and>
                            fp_less micro (fp_abs (dsub (rs_end_arc_m s) arc))
                         then None else Some projection)"

definition measuredWaypointCrossingError ::
    "eigen \<Rightarrow> RouteProgress \<Rightarrow> nat \<Rightarrow> vec3 \<Rightarrow> vec3 option \<Rightarrow> double \<Rightarrow> double \<Rightarrow> double option" where
  "measuredWaypointCrossingError eg r index current previous sample_gap_s maximum_sample_gap_s =
     (if index \<ge> length (ro_waypoints r) \<or> \<not> vfinite current then None
      else let waypoint = ro_waypoints r ! index;
               current_error = eg_norm eg (vsub current (mw_position_enu waypoint))
           in if isfinite current_error \<and> fp_le current_error (mw_acceptance_radius_m waypoint)
              then if ordered_projection eg r index current = None then None else Some current_error
              else case previous of None \<Rightarrow> None
                | Some before \<Rightarrow>
                  if \<not> vfinite before \<or> \<not> isfinite sample_gap_s \<or> \<not> isfinite maximum_sample_gap_s \<or>
                     fp_less sample_gap_s (Fin 0) \<or> fp_less maximum_sample_gap_s (Fin 0) \<or>
                     fp_less maximum_sample_gap_s sample_gap_s then None
                  else (case incomingTangent r index of None \<Rightarrow> None
                    | Some incoming \<Rightarrow>
                      let motion = vsub current before
                      in if \<not> vfinite motion \<or> fp_le (eg_dot eg motion incoming) micro then None
                         else (case segmentDistanceToPoint eg before current (mw_position_enu waypoint) of None \<Rightarrow> None
                           | Some e \<Rightarrow>
                             if fp_less (dadd (mw_acceptance_radius_m waypoint) micro) e then None
                             else if ordered_projection eg r index current = None then None
                             else Some e)))"

section \<open>Route snapshots\<close>

record ImmutableRouteSnapshot =
  sp_mission_id :: string
  sp_frame :: string
  sp_route_revision :: u64
  sp_request_id :: u64
  sp_active_waypoint_index :: nat
  sp_waypoints :: "MissionWaypoint list"
  sp_segments :: "RouteSegment list"
  sp_waypoint_arc_lengths_m :: "double list"
  sp_measured_progress :: RouteProgressState
  sp_total_length_m :: double

definition route_snapshot :: "RouteProgress \<Rightarrow> string \<Rightarrow> string \<Rightarrow> u64 \<Rightarrow> u64 \<Rightarrow> nat \<Rightarrow> ImmutableRouteSnapshot" where
  "route_snapshot r mission_id frame route_revision request_id active_waypoint_index =
     \<lparr>sp_mission_id = mission_id, sp_frame = frame, sp_route_revision = route_revision, sp_request_id = request_id,
      sp_active_waypoint_index = active_waypoint_index, sp_waypoints = ro_waypoints r, sp_segments = ro_segments r,
      sp_waypoint_arc_lengths_m = ro_waypoint_arc_lengths r, sp_measured_progress = ro_state r,
      sp_total_length_m = ro_total_length_m r\<rparr>"

definition coincident :: "eigen \<Rightarrow> MissionWaypoint \<Rightarrow> MissionWaypoint \<Rightarrow> bool" where
  "coincident eg first second \<longleftrightarrow>
     mw_behavior first = PassThrough \<and> mw_behavior second = Stop \<and>
     vfinite (mw_position_enu first) \<and> vfinite (mw_position_enu second) \<and>
     fp_le (eg_norm eg (vsub (mw_position_enu second) (mw_position_enu first))) (dadd kGoalConnectionToleranceM micro)"

definition passThroughNextWaypointIsCoincidentStop :: "eigen \<Rightarrow> ImmutableRouteSnapshot \<Rightarrow> bool" where
  "passThroughNextWaypointIsCoincidentStop eg route =
     (let i = sp_active_waypoint_index route
      in if i \<ge> length (sp_waypoints route) \<or> i + 1 \<ge> length (sp_waypoints route) then False
         else coincident eg (sp_waypoints route ! i) (sp_waypoints route ! (i + 1)))"

definition stopHasCoincidentPassThroughPredecessor :: "eigen \<Rightarrow> ImmutableRouteSnapshot \<Rightarrow> bool" where
  "stopHasCoincidentPassThroughPredecessor eg route =
     (let i = sp_active_waypoint_index route
      in if i = 0 \<or> i \<ge> length (sp_waypoints route) then False
         else coincident eg (sp_waypoints route ! (i - 1)) (sp_waypoints route ! i))"

text \<open>\<open>std::abs(a - b) > 1.0e-6\<close>\<close>

definition apart :: "double \<Rightarrow> double \<Rightarrow> bool" where
  "apart a b \<longleftrightarrow> fp_less micro (fp_abs (dsub a b))"

definition snapshot_header_valid :: "ImmutableRouteSnapshot \<Rightarrow> bool" where
  "snapshot_header_valid sn =
     (let progress = sp_measured_progress sn; projection = rg_projection progress
      in \<not> (sp_mission_id sn = [] \<or> sp_frame sn = [] \<or> sp_route_revision sn = 0 \<or> sp_request_id sn = 0 \<or>
            sp_waypoints sn = [] \<or> sp_active_waypoint_index sn \<ge> length (sp_waypoints sn) \<or>
            length (sp_waypoint_arc_lengths_m sn) \<noteq> length (sp_waypoints sn) \<or>
            \<not> isfinite (sp_total_length_m sn) \<or> fp_less (sp_total_length_m sn) (Fin 0) \<or> \<not> rg_valid progress \<or>
            \<not> rp_valid projection \<or> \<not> isfinite (rg_progress_arc_m progress) \<or> \<not> isfinite (rp_arc_length_m projection) \<or>
            \<not> isfinite (rp_lateral_error_m projection) \<or> \<not> isfinite (rp_segment_fraction projection) \<or>
            \<not> vfinite (rp_point projection) \<or> \<not> vfinite (rp_tangent projection) \<or>
            fp_less (rg_progress_arc_m progress) (Fin 0) \<or>
            fp_less (dadd (sp_total_length_m sn) micro) (rg_progress_arc_m progress) \<or>
            fp_less (rp_arc_length_m projection) (Fin 0) \<or>
            fp_less (dadd (sp_total_length_m sn) micro) (rp_arc_length_m projection) \<or>
            fp_less (rp_lateral_error_m projection) (Fin 0) \<or> fp_less (rp_segment_fraction projection) (Fin 0) \<or>
            fp_less (Fin 1) (rp_segment_fraction projection)))"

fun snapshot_waypoints_valid ::
    "eigen \<Rightarrow> string set \<Rightarrow> (MissionWaypoint \<times> double) option \<Rightarrow> double \<Rightarrow> (MissionWaypoint \<times> double) list \<Rightarrow> bool" where
  "snapshot_waypoints_valid eg ids prev expected [] = True"
| "snapshot_waypoints_valid eg ids prev expected ((w, arc) # rest) =
     (if mw_id w = [] \<or> \<not> waypoint_geometry_valid w \<or> \<not> isfinite arc then False
      else if mw_id w \<in> ids then False
      else case prev of
        None \<Rightarrow> \<not> fp_less arc (Fin 0) \<and> snapshot_waypoints_valid eg (insert (mw_id w) ids) (Some (w, arc)) expected rest
      | Some (p, previous_arc) \<Rightarrow>
          if fp_less arc (Fin 0) \<or> fp_less (dadd arc (dlit (1 / 10 ^ 9))) previous_arc then False
          else let length_m = eg_norm eg (vsub (mw_position_enu w) (mw_position_enu p))
               in if \<not> isfinite length_m then False
                  else let expected' = (if fp_less kMinimumSegmentLengthM length_m then dadd expected length_m else expected)
                       in if \<not> isfinite expected' \<or> apart arc expected' then False
                          else snapshot_waypoints_valid eg (insert (mw_id w) ids) (Some (w, arc)) expected' rest)"

text \<open>
  The second and third loops: count the legs of positive length (every leg is finite), then match each of
  them, with its two waypoint indices, against the next segment.
\<close>

fun positive_legs :: "eigen \<Rightarrow> nat \<Rightarrow> MissionWaypoint list \<Rightarrow> (nat \<times> vec3 \<times> double) list" where
  "positive_legs eg index (p # w # ws) =
     (let delta = vsub (mw_position_enu w) (mw_position_enu p); length_m = eg_norm eg delta
      in (if fp_le length_m kMinimumSegmentLengthM then [] else [(index, delta, length_m)]) @
         positive_legs eg (index + 1) (w # ws))"
| "positive_legs eg index ws = []"

fun counted_legs :: "eigen \<Rightarrow> MissionWaypoint list \<Rightarrow> nat option" where
  "counted_legs eg (p # w # ws) =
     (let length_m = eg_norm eg (vsub (mw_position_enu w) (mw_position_enu p))
      in if \<not> isfinite length_m then None
         else map_option (\<lambda>n. if fp_less kMinimumSegmentLengthM length_m then n + 1 else n) (counted_legs eg (w # ws)))"
| "counted_legs eg ws = Some 0"

definition leg_matches :: "eigen \<Rightarrow> nat \<times> vec3 \<times> double \<Rightarrow> RouteSegment \<Rightarrow> bool" where
  "leg_matches eg leg s =
     (case leg of (index, delta, length_m) \<Rightarrow>
        \<not> (rs_start_waypoint_index s \<noteq> index - 1 \<or> rs_end_waypoint_index s \<noteq> index \<or> apart (rs_length_m s) length_m \<or>
           apart (eg_norm eg (rs_tangent s)) (Fin 1) \<or>
           fp_less micro (eg_norm eg (vsub (rs_tangent s) (vdiv delta length_m)))))"

definition segment_consistent :: "eigen \<Rightarrow> ImmutableRouteSnapshot \<Rightarrow> RouteSegment \<Rightarrow> bool" where
  "segment_consistent eg sn s =
     (if rs_start_waypoint_index s \<ge> length (sp_waypoints sn) \<or> rs_end_waypoint_index s \<ge> length (sp_waypoints sn) \<or>
         rs_start_waypoint_index s \<ge> rs_end_waypoint_index s \<or> \<not> vfinite (rs_start s) \<or> \<not> vfinite (rs_end s) \<or>
         \<not> vfinite (rs_tangent s) \<or> \<not> isfinite (rs_start_arc_m s) \<or> \<not> isfinite (rs_end_arc_m s) \<or>
         \<not> isfinite (rs_length_m s) \<or> fp_le (rs_length_m s) (Fin 0) \<or> fp_le (rs_end_arc_m s) (rs_start_arc_m s)
      then False
      else \<not> apart (dsub (rs_end_arc_m s) (rs_start_arc_m s)) (rs_length_m s) \<and>
        \<not> (fp_less micro (eg_norm eg (vsub (rs_start s) (mw_position_enu (sp_waypoints sn ! rs_start_waypoint_index s)))) \<or>
           fp_less micro (eg_norm eg (vsub (rs_end s) (mw_position_enu (sp_waypoints sn ! rs_end_waypoint_index s)))) \<or>
           apart (rs_start_arc_m s) (sp_waypoint_arc_lengths_m sn ! rs_start_waypoint_index s) \<or>
           apart (rs_end_arc_m s) (sp_waypoint_arc_lengths_m sn ! rs_end_waypoint_index s)))"

definition segments_chained :: "RouteSegment list \<Rightarrow> bool" where
  "segments_chained ss = successively (\<lambda>p s. \<not> apart (rs_start_arc_m s) (rs_end_arc_m p)) ss"

definition measured_projection_consistent :: "eigen \<Rightarrow> ImmutableRouteSnapshot \<Rightarrow> bool" where
  "measured_projection_consistent eg sn =
     (let projection = rg_projection (sp_measured_progress sn)
      in if sp_segments sn = [] then rp_segment_index projection = size_max
         else if rp_segment_index projection \<ge> length (sp_segments sn) then False
         else let s = sp_segments sn ! rp_segment_index projection
              in if fp_less (dadd (rp_arc_length_m projection) micro) (rs_start_arc_m s) \<or>
                    fp_less (dadd (rs_end_arc_m s) micro) (rp_arc_length_m projection) then False
                 else let expected = segment_point s (rp_segment_fraction projection)
                      in \<not> (\<not> vfinite expected \<or> fp_less micro (eg_norm eg (vsub expected (rp_point projection))) \<or>
                            fp_less micro (eg_norm eg (vsub (rp_tangent projection) (rs_tangent s))) \<or>
                            apart (rp_arc_length_m projection) (segment_arc s (rp_segment_fraction projection))))"

definition snapshot_valid :: "eigen \<Rightarrow> ImmutableRouteSnapshot \<Rightarrow> bool" where
  "snapshot_valid eg sn =
     (if \<not> snapshot_header_valid sn then False
      else if \<not> snapshot_waypoints_valid eg {} None (Fin 0) (zip (sp_waypoints sn) (sp_waypoint_arc_lengths_m sn)) then False
      else if \<not> fp_eq (hd (sp_waypoint_arc_lengths_m sn)) (Fin 0) then False
      else if counted_legs eg (sp_waypoints sn) \<noteq> Some (length (sp_segments sn)) then False
      else if \<not> list_all2 (leg_matches eg) (positive_legs eg 1 (sp_waypoints sn)) (sp_segments sn) then False
      else if \<not> list_all (segment_consistent eg sn) (sp_segments sn) \<or> \<not> segments_chained (sp_segments sn) then False
      else if apart (last (sp_waypoint_arc_lengths_m sn)) (sp_total_length_m sn) then False
      else measured_projection_consistent eg sn)"

definition snapshot_pointAtArc :: "eigen \<Rightarrow> ImmutableRouteSnapshot \<Rightarrow> double \<Rightarrow> vec3 option" where
  "snapshot_pointAtArc eg sn arc =
     (if \<not> snapshot_valid eg sn \<or> \<not> isfinite arc then None
      else if sp_segments sn = [] then Some (mw_position_enu (hd (sp_waypoints sn)))
      else let bounded = fp_clamp arc (Fin 0) (sp_total_length_m sn);
               i = lower_bound (\<lambda>s. fp_less (rs_end_arc_m s) bounded) (sp_segments sn);
               s = (if i = length (sp_segments sn) then last (sp_segments sn) else sp_segments sn ! i);
               fraction = fp_clamp (ddiv (dsub bounded (rs_start_arc_m s)) (rs_length_m s)) (Fin 0) (Fin 1)
           in Some (segment_point s fraction))"

definition routeLookaheadPoint :: "eigen \<Rightarrow> ImmutableRouteSnapshot \<Rightarrow> double \<Rightarrow> vec3 option" where
  "routeLookaheadPoint eg sn lookahead_m =
     (if \<not> snapshot_valid eg sn \<or> \<not> isfinite lookahead_m \<or> fp_less lookahead_m (Fin 0) then None
      else snapshot_pointAtArc eg sn (dadd (rg_progress_arc_m (sp_measured_progress sn)) lookahead_m))"

section \<open>Well-formed routes\<close>

definition segment_ok :: "RouteSegment \<Rightarrow> bool" where
  "segment_ok s \<longleftrightarrow> (\<exists>x l e. rs_start_arc_m s = Fin x \<and> 0 \<le> x \<and> fp_ok binary64 (Fin x) \<and> rs_length_m s = Fin l \<and> 0 < l \<and>
     fp_ok binary64 (Fin l) \<and> rs_end_arc_m s = Fin e \<and> dadd (Fin x) (Fin l) = Fin e \<and> x < e)"

text \<open>The segments cover the arcs from \<open>a\<close> to \<open>b\<close> without a gap.\<close>

fun contiguous :: "double \<Rightarrow> RouteSegment list \<Rightarrow> double \<Rightarrow> bool" where
  "contiguous a [] b = (a = b)"
| "contiguous a (s # ss) b = (rs_start_arc_m s = a \<and> segment_ok s \<and> contiguous (rs_end_arc_m s) ss b)"

lemma contiguous_snoc: "contiguous a (ss @ [s]) b \<longleftrightarrow> contiguous a ss (rs_start_arc_m s) \<and> segment_ok s \<and> rs_end_arc_m s = b"
  by (induction ss arbitrary: a) auto

definition arc_in :: "double \<Rightarrow> double \<Rightarrow> bool" where
  "arc_in b v \<longleftrightarrow> (\<exists>x t. v = Fin x \<and> b = Fin t \<and> 0 \<le> x \<and> x \<le> t)"

lemma contiguous_le: "contiguous (Fin x) ss b \<Longrightarrow> \<exists>t. b = Fin t \<and> x \<le> t"
proof (induction ss arbitrary: x)
  case (Cons s ss)
  from Cons.prems obtain e where e: "rs_end_arc_m s = Fin e" "x < e" "contiguous (Fin e) ss b"
    by (auto simp: segment_ok_def)
  from Cons.IH [OF e(3)] e(2) show ?case by auto
qed auto

lemma contiguous_member:
  "contiguous a ss b \<Longrightarrow> s \<in> set ss \<Longrightarrow> segment_ok s \<and> (\<exists>e t. rs_end_arc_m s = Fin e \<and> b = Fin t \<and> e \<le> t)"
proof (induction ss arbitrary: a)
  case (Cons s' ss)
  show ?case
  proof (cases "s = s'")
    case True
    with Cons.prems show ?thesis using contiguous_le [of _ ss b] by (auto simp: segment_ok_def)
  qed (use Cons in auto)
qed simp

text \<open>Every projection onto a segment has an arc length within the route.\<close>

lemma segment_arc_in:
  assumes "contiguous a ss b" "s \<in> set ss" "0 \<le> f" "f \<le> 1"
  shows "arc_in b (segment_arc s (Fin f))"
proof -
  from contiguous_member [OF assms(1,2)] obtain x l e t where s: "rs_start_arc_m s = Fin x" "0 \<le> x" "fp_ok binary64 (Fin x)"
    "rs_length_m s = Fin l" "0 < l" "fp_ok binary64 (Fin l)" "dadd (Fin x) (Fin l) = Fin e" "b = Fin t" "e \<le> t"
    by (auto simp: segment_ok_def)
  from interpolation_bounds [OF s(3,2,6) _ assms(3,4) s(7)] s(5) obtain y where
    "dadd (Fin x) (dmul (Fin f) (Fin l)) = Fin y" "x \<le> y" "y \<le> e" by auto
  then show ?thesis using s by (auto simp: segment_arc_def arc_in_def)
qed

lemma projection_on_arc:
  assumes "contiguous a ss b" "s \<in> set ss" "isfinite raw"
  shows "arc_in b (rp_arc_length_m (projection_on i s (fp_clamp raw (Fin 0) (Fin 1)) d))"
  using clamp_unit [OF assms(3)] segment_arc_in [OF assms(1,2)] by (auto simp: projection_on_def)

lemma project_loop_arc:
  assumes "contiguous a all b" "set ss \<subseteq> set all" "rp_valid p \<Longrightarrow> arc_in b (rp_arc_length_m p)"
    and "rp_valid (project_loop eg pos i ss best p)"
  shows "arc_in b (rp_arc_length_m (project_loop eg pos i ss best p))"
  using assms(2-4)
proof (induction ss arbitrary: i best p)
  case (Cons s ss)
  have on: "arc_in b (rp_arc_length_m (projection_on i s (fp_clamp (raw_fraction eg pos s) (Fin 0) (Fin 1)) d))"
    if "isfinite (raw_fraction eg pos s)" for i d
    using projection_on_arc [OF assms(1) _ that] Cons.prems(1) by auto
  show ?case using Cons.prems Cons.IH on by (auto simp: Let_def)
qed simp

lemma tie_break_arc:
  assumes "contiguous a all b" "set ss \<subseteq> set all" "arc_in b (rp_arc_length_m p)"
  shows "arc_in b (rp_arc_length_m (tie_break eg pos prev bs i ss bd p))"
  using assms(2,3)
proof (induction ss arbitrary: i bd p)
  case (Cons s ss)
  have on: "arc_in b (rp_arc_length_m (projection_on i s (fp_clamp (raw_fraction eg pos s) (Fin 0) (Fin 1)) d))"
    if "isfinite (raw_fraction eg pos s)" for i d
    using projection_on_arc [OF assms(1) _ that] Cons.prems(1) by auto
  show ?case using Cons.prems Cons.IH on by (auto simp: Let_def)
qed simp

text \<open>
  What the constructor establishes and the updates keep: one arc length per waypoint, from zero to the total,
  contiguous segments between consecutive waypoints, and a progress within the route.
\<close>

definition segment_indices_ok :: "double list \<Rightarrow> RouteSegment \<Rightarrow> bool" where
  "segment_indices_ok arcs s \<longleftrightarrow> rs_start_waypoint_index s + 1 = rs_end_waypoint_index s \<and>
     rs_end_waypoint_index s < length arcs \<and> arcs ! rs_start_waypoint_index s = rs_start_arc_m s \<and>
     arcs ! rs_end_waypoint_index s = rs_end_arc_m s"

definition route_geometry_ok :: "RouteProgress \<Rightarrow> bool" where
  "route_geometry_ok r \<longleftrightarrow> ro_waypoints r \<noteq> [] \<and> length (ro_waypoint_arc_lengths r) = length (ro_waypoints r) \<and>
     hd (ro_waypoint_arc_lengths r) = Fin 0 \<and> last (ro_waypoint_arc_lengths r) = ro_total_length_m r \<and>
     contiguous (Fin 0) (ro_segments r) (ro_total_length_m r) \<and>
     list_all (segment_indices_ok (ro_waypoint_arc_lengths r)) (ro_segments r)"

definition route_ok :: "RouteProgress \<Rightarrow> bool" where
  "route_ok r \<longleftrightarrow> route_geometry_ok r \<and>
     (rg_valid (ro_state r) \<longrightarrow> arc_in (ro_total_length_m r) (rp_arc_length_m (rg_projection (ro_state r))) \<and>
        arc_in (ro_total_length_m r) (rg_progress_arc_m (ro_state r)))"

lemma segment_indices_snoc: "segment_indices_ok arcs s \<Longrightarrow> segment_indices_ok (arcs @ [a]) s"
  by (auto simp: segment_indices_ok_def nth_append)

lemma list_all_indices_snoc:
  "list_all (segment_indices_ok arcs) ss \<Longrightarrow> list_all (segment_indices_ok (arcs @ [a])) ss"
  by (auto simp: list_all_iff segment_indices_snoc)

definition build_ok :: "RouteSegment list \<Rightarrow> double list \<Rightarrow> double \<Rightarrow> bool" where
  "build_ok segments arcs total_m \<longleftrightarrow> arcs \<noteq> [] \<and> hd arcs = Fin 0 \<and> last arcs = total_m \<and>
     contiguous (Fin 0) segments total_m \<and> fp_ok binary64 total_m \<and> list_all (segment_indices_ok arcs) segments"

lemma build_route_ok:
  assumes "eigen_ok eg" "build_ok segments arcs total_m" "length arcs = index"
    and "build_route eg index (Some p) ws segments arcs total_m = Inr (segments', arcs', total')"
  shows "build_ok segments' arcs' total' \<and> length arcs' = index + length ws"
  using assms(2-4)
proof (induction ws arbitrary: index p segments arcs total_m)
  case (Cons w ws)
  let ?d = "vsub (mw_position_enu w) (mw_position_enu p)"
  let ?l = "eg_norm eg ?d" and ?e = "dadd total_m (eg_norm eg ?d)"
  note ok = Cons.prems(1) [unfolded build_ok_def]
  obtain x where x: "total_m = Fin x" "0 \<le> x" using ok contiguous_le [of 0 segments total_m] by auto
  show ?case
  proof (cases "fp_less kMinimumSegmentLengthM ?l")
    case False
    have "build_ok segments (arcs @ [total_m]) total_m" using ok by (simp add: build_ok_def list_all_indices_snoc)
    with Cons False show ?thesis by (auto simp: Let_def split: if_splits)
  next
    case True
    let ?s = "\<lparr>rs_start_waypoint_index = index - 1, rs_end_waypoint_index = index, rs_start_arc_m = total_m, rs_end_arc_m = ?e,
      rs_length_m = ?l, rs_start = mw_position_enu p, rs_end = mw_position_enu w, rs_tangent = vdiv ?d ?l\<rparr>"
    from Cons.prems(3) True have fin: "isfinite ?l" "isfinite ?e" "\<not> fp_le ?e total_m"
      and rest: "build_route eg (index + 1) (Some w) ws (segments @ [?s]) (arcs @ [?e]) ?e = Inr (segments', arcs', total')"
      by (auto simp: Let_def split: if_splits)
    obtain l e where le: "?l = Fin l" "?e = Fin e" "x < e" using fin x(1) by (auto simp: isfinite_iff)
    have "0 \<le> l" using assms(1) le(1) unfolding eigen_ok_def by (metis fp_less.simps(1) not_less)
    moreover have "l \<noteq> 0" using le x(1) ok b64.fround_ok [of x] by auto
    ultimately have l: "0 < l" "fp_ok binary64 (Fin l)" using assms(1) le(1) unfolding eigen_ok_def by (auto, metis)
    have "segment_ok ?s" using le x l ok unfolding segment_ok_def by (intro exI [of _ x] exI [of _ l] exI [of _ e]) auto
    moreover have "segment_indices_ok (arcs @ [?e]) ?s"
      using ok Cons.prems(2) by (cases arcs rule: rev_cases) (auto simp: segment_indices_ok_def nth_append)
    ultimately have "build_ok (segments @ [?s]) (arcs @ [?e]) ?e"
      using ok by (simp add: build_ok_def contiguous_snoc list_all_indices_snoc b64.fp_add_ok)
    from Cons.IH [OF this _ rest] Cons.prems(2) show ?thesis by simp
  qed
qed auto

lemma makeRouteProgress_ok:
  assumes "eigen_ok eg" "makeRouteProgress eg m tol = Inr r"
  shows "route_ok r \<and> ro_waypoints r = ms_waypoints m \<and> \<not> rg_valid (ro_state r)"
proof -
  from assms(2) have v: "mission_valid m" by (auto simp: makeRouteProgress_def split: if_splits)
  then obtain w ws where w: "ms_waypoints m = w # ws" "waypoint_geometry_valid w"
    by (cases "ms_waypoints m") (auto simp: mission_valid_def split: if_splits)
  from assms(2) v w obtain ss arcs total_m where b: "build_route eg 1 (Some w) ws [] [Fin 0] (Fin 0) = Inr (ss, arcs, total_m)"
    and r: "r = \<lparr>ro_waypoints = ms_waypoints m, ro_segments = ss, ro_waypoint_arc_lengths = arcs,
      ro_backtrack_tolerance_m = tol, ro_state = default_progress_state, ro_total_length_m = total_m\<rparr>"
    by (auto simp: makeRouteProgress_def split: if_splits sum.splits)
  have "build_ok [] [Fin 0] (Fin 0)" by (simp add: build_ok_def b64_ok_01)
  from build_route_ok [OF assms(1) this _ b] have "build_ok ss arcs total_m" "length arcs = length (ms_waypoints m)"
    using w by auto
  then show ?thesis using w r by (auto simp: route_ok_def route_geometry_ok_def build_ok_def default_progress_state_def)
qed

section \<open>Progress is monotone and bounded\<close>

lemma NaN_add [simp]: "dadd a NaN = NaN"
  by (cases a) auto

lemma NaN_mul [simp]: "dmul NaN b = NaN"
  by (cases b) auto

lemma NaN_sub [simp]: "dsub a NaN = NaN"
  by (simp add: fp_sub_def)

lemma clamp_finite_or_NaN: "(\<exists>x. fp_clamp v (Fin 0) (Fin 1) = Fin x \<and> 0 \<le> x \<and> x \<le> 1) \<or> fp_clamp v (Fin 0) (Fin 1) = NaN"
  by (cases v) (auto simp: fp_clamp_def)

lemma keep_active_leg_arc:
  assumes "eigen_ok eg" "route_geometry_ok r" "arc_in (ro_total_length_m r) (rp_arc_length_m p)"
  shows "arc_in (ro_total_length_m r) (rp_arc_length_m (keep_active_leg eg r pos p))"
proof -
  define s where "s = ro_segments r ! rp_segment_index (rg_projection (ro_state r))"
  define f where "f = fp_clamp (raw_fraction eg pos s) (Fin 0) (Fin 1)"
  have "arc_in (ro_total_length_m r) (segment_arc s f)"
    if "rp_segment_index (rg_projection (ro_state r)) < length (ro_segments r)" "isfinite (eg_norm eg (vsub pos (segment_point s f)))"
  proof -
    have "vfinite (vsub pos (segment_point s f))" using assms(1) that(2) by (simp add: eigen_ok_def)
    then have "f \<noteq> NaN" by (auto simp: vfinite_def vsub_def segment_point_def vadd_def vscale_def)
    then obtain x where "f = Fin x" "0 \<le> x" "x \<le> 1" using clamp_finite_or_NaN [of "raw_fraction eg pos s"] unfolding f_def by auto
    moreover have "s \<in> set (ro_segments r)" using that(1) by (simp add: s_def)
    ultimately show ?thesis using segment_arc_in [of "Fin 0" "ro_segments r"] assms(2) by (simp add: route_geometry_ok_def)
  qed
  then show ?thesis
    using assms(3) by (simp add: keep_active_leg_def Let_def s_def f_def projection_on_def)
qed

lemma route_project_arc:
  assumes "route_geometry_ok r" "rp_valid (route_project eg r pos)"
  shows "arc_in (ro_total_length_m r) (rp_arc_length_m (route_project eg r pos))"
proof (cases "ro_segments r = []")
  case True
  then have "ro_total_length_m r = Fin 0" using assms(1) by (simp add: route_geometry_ok_def)
  then show ?thesis using assms(2) True
    by (auto simp: route_project_def Let_def arc_in_def default_projection_def split: if_splits)
next
  case False
  then show ?thesis
    using assms project_loop_arc [of "Fin 0" "ro_segments r" "ro_total_length_m r" "ro_segments r" default_projection eg pos 0 PInf]
    by (auto simp: route_project_def route_geometry_ok_def default_projection_def split: if_splits)
qed

lemma route_update_cases:
  assumes "eigen_ok eg" "route_geometry_ok r"
  shows "route_update eg pos r = r \<or>
    (\<exists>p. arc_in (ro_total_length_m r) (rp_arc_length_m p) \<and>
       route_update eg pos r = r\<lparr>ro_state := \<lparr>rg_valid = True,
         rg_backtracking_exceeded = (rg_valid (ro_state r) \<and>
           fp_less (dadd (rp_arc_length_m p) (ro_backtrack_tolerance_m r)) (rg_progress_arc_m (ro_state r))),
         rg_projection = p,
         rg_progress_arc_m = (if rg_valid (ro_state r) then fp_max (rg_progress_arc_m (ro_state r)) (rp_arc_length_m p)
           else rp_arc_length_m p)\<rparr>\<rparr>)"
proof (cases "rp_valid (route_project eg r pos)")
  case True
  let ?p = "keep_active_leg eg r pos (route_project eg r pos)"
  have "arc_in (ro_total_length_m r) (rp_arc_length_m ?p)"
    using keep_active_leg_arc [OF assms] route_project_arc [OF assms(2) True] by blast
  then have "arc_in (ro_total_length_m r) (rp_arc_length_m (resolve_branch eg r pos ?p))"
    using tie_break_arc [of "Fin 0" "ro_segments r"] assms(2) by (simp add: route_geometry_ok_def resolve_branch_def Let_def)
  then show ?thesis
    using True by (intro disjI2 exI [of _ "resolve_branch eg r pos ?p"]) (simp add: route_update_def Let_def)
qed (simp add: route_update_def Let_def)

text \<open>The order in which progress may change from one state to a later one.\<close>

definition progressed :: "RouteProgress \<Rightarrow> RouteProgress \<Rightarrow> bool" where
  "progressed r r' \<longleftrightarrow> ro_total_length_m r' = ro_total_length_m r \<and>
     (rg_valid (ro_state r) \<longrightarrow> rg_valid (ro_state r') \<and> fp_le (rg_progress_arc_m (ro_state r)) (rg_progress_arc_m (ro_state r')))"

lemma route_update_ok:
  assumes "eigen_ok eg" "route_ok r"
  shows "route_ok (route_update eg pos r) \<and> progressed r (route_update eg pos r)"
proof -
  have g: "route_geometry_ok r" using assms(2) by (simp add: route_ok_def)
  from route_update_cases [OF assms(1) g, of pos] show ?thesis
  proof (elim disjE exE conjE)
    assume "route_update eg pos r = r"
    with assms(2) show ?thesis by (auto simp: progressed_def route_ok_def arc_in_def)
  next
    fix p assume p: "arc_in (ro_total_length_m r) (rp_arc_length_m p)" and u: "route_update eg pos r =
      r\<lparr>ro_state := \<lparr>rg_valid = True, rg_backtracking_exceeded = (rg_valid (ro_state r) \<and>
        fp_less (dadd (rp_arc_length_m p) (ro_backtrack_tolerance_m r)) (rg_progress_arc_m (ro_state r))),
        rg_projection = p, rg_progress_arc_m = (if rg_valid (ro_state r)
          then fp_max (rg_progress_arc_m (ro_state r)) (rp_arc_length_m p) else rp_arc_length_m p)\<rparr>\<rparr>"
    have "arc_in (ro_total_length_m r) (fp_max (rg_progress_arc_m (ro_state r)) (rp_arc_length_m p)) \<and>
        fp_le (rg_progress_arc_m (ro_state r)) (fp_max (rg_progress_arc_m (ro_state r)) (rp_arc_length_m p))"
      if "rg_valid (ro_state r)" using that assms(2) p by (auto simp: route_ok_def arc_in_def fp_max_def)
    with p g show ?thesis unfolding u by (simp add: route_ok_def route_geometry_ok_def progressed_def)
  qed
qed

lemma updates_ok:
  assumes "eigen_ok eg" "route_ok r"
  shows "route_ok (fold (route_update eg) ps r) \<and> progressed r (fold (route_update eg) ps r)"
  using assms(2)
proof (induction ps arbitrary: r)
  case Nil
  then show ?case by (auto simp: progressed_def route_ok_def arc_in_def)
next
  case (Cons p ps)
  from route_update_ok [OF assms(1) Cons.prems, of p] Cons.IH [of "route_update eg p r"]
  show ?case by (auto simp: progressed_def intro: fp_le_trans)
qed

text \<open>
  C31. Whatever positions are measured, in whatever order, the reported route progress never decreases and stays
  within the route: between zero and its total length, every rounding of the arc lengths included.
\<close>

theorem route_progress_monotone_bounded:
  assumes "eigen_ok eg" "makeRouteProgress eg mission tolerance = Inr r"
    and "now = fold (route_update eg) ps r" "later = fold (route_update eg) qs now" "rg_valid (ro_state now)"
  shows "\<exists>x y t. rg_progress_arc_m (ro_state now) = Fin x \<and> rg_progress_arc_m (ro_state later) = Fin y \<and>
    ro_total_length_m r = Fin t \<and> 0 \<le> x \<and> x \<le> y \<and> y \<le> t \<and> rg_valid (ro_state later)"
proof -
  have r: "route_ok r" using makeRouteProgress_ok [OF assms(1,2)] by simp
  from updates_ok [OF assms(1) r, of ps] have now: "route_ok now" "ro_total_length_m now = ro_total_length_m r"
    by (simp_all add: assms(3) progressed_def)
  from updates_ok [OF assms(1) now(1), of qs] have later: "route_ok later" "progressed now later" by (simp_all add: assms(4))
  from now later assms(5) show ?thesis by (auto simp: route_ok_def progressed_def arc_in_def)
qed

section \<open>Lookup by arc length\<close>

lemma contiguous_nth:
  "contiguous a ss b \<Longrightarrow> ss \<noteq> [] \<Longrightarrow> rs_start_arc_m (ss ! 0) = a \<and> rs_end_arc_m (ss ! (length ss - 1)) = b \<and>
     (\<forall>i. Suc i < length ss \<longrightarrow> rs_start_arc_m (ss ! Suc i) = rs_end_arc_m (ss ! i))"
proof (induction ss arbitrary: a)
  case (Cons s ss)
  show ?case
  proof (cases "ss = []")
    case False
    with Cons.IH [of "rs_end_arc_m s"] Cons.prems have IH: "rs_start_arc_m (ss ! 0) = rs_end_arc_m s"
      "rs_end_arc_m (ss ! (length ss - 1)) = b" "\<forall>i. Suc i < length ss \<longrightarrow> rs_start_arc_m (ss ! Suc i) = rs_end_arc_m (ss ! i)"
      by auto
    moreover have "rs_start_arc_m ((s # ss) ! Suc i) = rs_end_arc_m ((s # ss) ! i)" if "Suc i < length (s # ss)" for i
      using IH that by (cases i) auto
    ultimately show ?thesis using Cons.prems False by (auto simp: nth_Cons')
  qed (use Cons.prems in auto)
qed simp

lemma contiguous_ends:
  assumes "contiguous a ss b" "i \<le> j" "j < length ss" "rs_end_arc_m (ss ! i) = Fin x" "rs_end_arc_m (ss ! j) = Fin y"
  shows "x \<le> y"
  using assms(2,3,5)
proof (induction j arbitrary: y)
  case (Suc j)
  show ?case
  proof (cases "i = Suc j")
    case False
    have "segment_ok (ss ! Suc j)" "segment_ok (ss ! j)"
      using contiguous_member [OF assms(1)] Suc.prems(2) by auto
    then obtain u v where u: "rs_end_arc_m (ss ! j) = Fin u" "rs_start_arc_m (ss ! Suc j) = Fin v" "v < y"
      using Suc.prems(3) by (auto simp: segment_ok_def)
    have "rs_start_arc_m (ss ! Suc j) = rs_end_arc_m (ss ! j)"
      using contiguous_nth [OF assms(1)] Suc.prems(2) by (cases ss) auto
    then show ?thesis using Suc.IH [OF _ _ u(1)] u Suc.prems(1,2) False by auto
  qed (use Suc.prems assms(4) in auto)
qed (use assms(4) in auto)

lemma contiguous_partitioned:
  assumes "contiguous a ss b"
  shows "partitioned (\<lambda>s. fp_less (rs_end_arc_m s) (Fin z)) ss"
  unfolding partitioned_def
proof (intro allI impI)
  fix m n assume mn: "m \<le> n" "n < length ss" "fp_less (rs_end_arc_m (ss ! n)) (Fin z)"
  have "segment_ok (ss ! m)" "segment_ok (ss ! n)" using contiguous_member [OF assms] mn by auto
  then obtain x y where xy: "rs_end_arc_m (ss ! m) = Fin x" "rs_end_arc_m (ss ! n) = Fin y" by (auto simp: segment_ok_def)
  then show "fp_less (rs_end_arc_m (ss ! m)) (Fin z)" using contiguous_ends [OF assms mn(1,2) xy] mn(3) by simp
qed

text \<open>
  The binary search over the segments finds the one that contains the requested arc length, clamped to the
  route: it lies between the segment's ends and past the end of every earlier segment, so the point
  returned is the interpolation on that leg. No finite arc length fails.
\<close>

theorem arc_lookup_finds_segment:
  assumes "eigen_ok eg" "makeRouteProgress eg mission tolerance = Inr r" "ro_segments r \<noteq> []" "isfinite arc"
    and "i = segmentForArc r arc" "s = ro_segments r ! i" "c = clampArc arc (ro_total_length_m r)"
  shows "i < length (ro_segments r) \<and> fp_le (rs_start_arc_m s) c \<and> fp_le c (rs_end_arc_m s) \<and>
    (\<forall>j < i. fp_less (rs_end_arc_m (ro_segments r ! j)) c) \<and>
    pointAtArc r arc = Some (segment_point s (arc_fraction r s arc))"
proof -
  let ?ss = "ro_segments r" and ?below = "\<lambda>s. fp_less (rs_end_arc_m s) c"
  have ok: "contiguous (Fin 0) ?ss (ro_total_length_m r)" "ro_waypoints r \<noteq> []"
    using makeRouteProgress_ok [OF assms(1,2)] by (auto simp: route_ok_def route_geometry_ok_def)
  obtain t where t: "ro_total_length_m r = Fin t" "0 \<le> t" using contiguous_le [OF ok(1)] by auto
  obtain a where a: "arc = Fin a" using assms(4) by (auto simp: isfinite_iff)
  have "\<exists>z. c = Fin z \<and> 0 \<le> z \<and> z \<le> t" using a t by (auto simp: assms(7) clampArc_def fp_clamp_def)
  then obtain z where z: "c = Fin z" "0 \<le> z" "z \<le> t" by blast
  have fin: "\<exists>x y. rs_start_arc_m (?ss ! k) = Fin x \<and> rs_end_arc_m (?ss ! k) = Fin y \<and> x < y" if "k < length ?ss" for k
    using contiguous_member [OF ok(1), of "?ss ! k"] that by (auto simp: segment_ok_def)
  have part: "partitioned ?below ?ss" unfolding z(1) by (rule contiguous_partitioned [OF ok(1)])
  define b where "b = lower_bound ?below ?ss"
  note nth = contiguous_nth [OF ok(1) assms(3)]
  have "\<not> ?below (?ss ! (length ?ss - 1))" using nth t z by auto
  then have b: "b < length ?ss"
    using lower_bound_spec [OF part] assms(3) unfolding b_def by (metis One_nat_def diff_less length_greater_0_conv less_le_trans not_less zero_less_one)
  have i: "i = b" using b assms(3,4) t by (simp add: assms(5) segmentForArc_def b_def assms(7) Let_def)
  have "\<not> ?below s" "\<forall>j < i. ?below (?ss ! j)"
    using lower_bound_spec(2) [OF part] b i by (auto simp: assms(6) b_def)
  moreover have "fp_le (rs_start_arc_m s) c"
  proof (cases i)
    case 0
    then show ?thesis using nth z by (simp add: assms(6))
  next
    case (Suc k)
    then have "rs_start_arc_m s = rs_end_arc_m (?ss ! k)" using nth b i by (simp add: assms(6))
    moreover have "?below (?ss ! k)" using Suc \<open>\<forall>j < i. ?below (?ss ! j)\<close> by simp
    ultimately show ?thesis by (simp add: fp_less_imp_le)
  qed
  moreover have "fp_le c (rs_end_arc_m s)" using \<open>\<not> ?below s\<close> fin [of i] b i z by (auto simp: assms(6))
  ultimately show ?thesis
    using b i ok(2) assms(3,4) t by (simp add: pointAtArc_def assms(5,6) Let_def)
qed

section \<open>A concrete route\<close>

text \<open>Reductions that sum left to right, with the sum of the absolute values as the norm.\<close>

definition ex_eigen :: eigen where
  "ex_eigen = \<lparr>eg_norm = (\<lambda>v. dadd (dadd (fp_abs (vx v)) (fp_abs (vy v))) (fp_abs (vz v))),
     eg_squaredNorm = (\<lambda>v. dadd (dadd (dmul (vx v) (vx v)) (dmul (vy v) (vy v))) (dmul (vz v) (vz v))),
     eg_dot = (\<lambda>a b. dadd (dadd (dmul (vx a) (vx b)) (dmul (vy a) (vy b))) (dmul (vz a) (vz b)))\<rparr>"

lemma dadd_finite: "isfinite (dadd a b) \<Longrightarrow> isfinite a \<and> isfinite b"
  by (cases a; cases b) auto

lemma dadd_not_negative: "\<not> fp_less a (Fin 0) \<Longrightarrow> \<not> fp_less b (Fin 0) \<Longrightarrow> \<not> fp_less (dadd a b) (Fin 0)"
proof (cases a; cases b)
  fix x y assume "a = Fin x" "b = Fin y" "\<not> fp_less a (Fin 0)" "\<not> fp_less b (Fin 0)"
  then show ?thesis using b64.fround_nonneg_cases [of "x + y"] by auto
qed auto

lemma ex_eigen_ok: "eigen_ok ex_eigen"
proof -
  have a: "\<not> fp_less (fp_abs v) (Fin 0)" "isfinite (fp_abs v) \<longleftrightarrow> isfinite v" for v by (cases v; simp)+
  show ?thesis
    unfolding eigen_ok_def ex_eigen_def
    by (auto simp: b64.fp_add_ok vfinite_def a dadd_not_negative dest!: dadd_finite)
qed

definition ex_segment :: RouteSegment where
  "ex_segment = \<lparr>rs_start_waypoint_index = 0, rs_end_waypoint_index = 1, rs_start_arc_m = Fin 0, rs_end_arc_m = Fin 4,
     rs_length_m = Fin 4, rs_start = vzero, rs_end = \<lparr>vx = Fin 4, vy = Fin 0, vz = Fin 0\<rparr>,
     rs_tangent = \<lparr>vx = Fin 1, vy = Fin 0, vz = Fin 0\<rparr>\<rparr>"

definition ex_route :: RouteProgress where
  "ex_route = \<lparr>ro_waypoints = ms_waypoints ex_mission, ro_segments = [ex_segment], ro_waypoint_arc_lengths = [Fin 0, Fin 4],
     ro_backtrack_tolerance_m = Fin 1, ro_state = default_progress_state, ro_total_length_m = Fin 4\<rparr>"

lemma ex_makeRoute: "makeRouteProgress ex_eigen ex_mission (Fin 1) = Inr ex_route"
proof -
  have "fp_less kMinimumSegmentLengthM (Fin 4)" unfolding kMinimumSegmentLengthM_def nano_literal by simp
  moreover have "ms_waypoints ex_mission = [ex_waypoint ''a'' 0 PassThrough, ex_waypoint ''b'' 4 Stop]"
    by (simp add: ex_mission_def)
  ultimately show ?thesis
    using ex_mission_valid
    by (simp add: makeRouteProgress_def waypoint_geometry_valid_def ex_waypoint_def vfinite_def vsub_def fp_sub_def
        ex_eigen_def fp_simps vdiv_def ex_route_def ex_segment_def vzero_def Let_def)
qed

lemma ex_total: "ro_total_length_m ex_route = Fin 4"
  by (simp add: ex_route_def)

abbreviation ex_position :: "rat \<Rightarrow> vec3" where
  "ex_position x \<equiv> \<lparr>vx = Fin x, vy = Fin 0, vz = Fin 0\<rparr>"

lemma ex_update:
  "ro_state (route_update ex_eigen (ex_position 4) ex_route) =
     \<lparr>rg_valid = True, rg_backtracking_exceeded = False, rg_projection = projection_on 0 ex_segment (Fin 1) (Fin 0),
      rg_progress_arc_m = Fin 4\<rparr>"
  by (simp add: route_update_def route_project_def ex_route_def ex_segment_def ex_mission_def vfinite_def raw_fraction_def
      ex_eigen_def vsub_def fp_sub_def fp_simps vzero_def fp_clamp_def segment_point_def vadd_def vscale_def
      keep_active_leg_def resolve_branch_def default_progress_state_def projection_on_def segment_arc_def Let_def)

theorem route_progress_monotone_bounded_witness:
  "\<exists>y. rg_progress_arc_m (ro_state (fold (route_update ex_eigen) [ex_position 4, ex_position 0] ex_route)) = Fin y \<and>
     4 \<le> y \<and> y \<le> 4"
proof -
  let ?now = "fold (route_update ex_eigen) [ex_position 4] ex_route"
  have "rg_valid (ro_state ?now)" by (simp add: ex_update)
  from route_progress_monotone_bounded [OF ex_eigen_ok ex_makeRoute refl refl this, of "[ex_position 0]"] ex_total
   show ?thesis by (auto simp: ex_update)
qed

theorem arc_lookup_finds_segment_witness:
  "segmentForArc ex_route (Fin 9) = 0 \<and> fp_le (clampArc (Fin 9) (ro_total_length_m ex_route)) (Fin 4) \<and>
   pointAtArc ex_route (Fin 9) \<noteq> None"
proof -
  have "ro_segments ex_route \<noteq> []" "isfinite (Fin 9)" by (simp_all add: ex_route_def)
  from arc_lookup_finds_segment [OF ex_eigen_ok ex_makeRoute this refl refl refl] show ?thesis
    by (auto simp: ex_route_def ex_segment_def)
qed

end
