(* ===== verification/Mission_Progress.thy ===== *)
theory Mission_Progress
  imports Route_Progress
begin

text \<open>
  \<open>navigation_mission/mission_progress\<close>: the single owner of waypoint acceptance. A pass-through waypoint
  is accepted on a measured crossing together with an execution continuation, a stop after a continuous
  measured confirmation and hold. Each public operation is a function of the whole state.
\<close>

section \<open>State\<close>

definition kMaximumCrossingSampleGapNs :: i64 where
  "kMaximumCrossingSampleGapNs = 250000000"

record MissionRouteIdentity =
  ri_mission_id :: string
  ri_revision :: u64
  ri_localization_epoch :: u64

record MissionGateIdentity =
  gi_waypoint_index :: u32
  gi_request_id :: u64

record MissionMeasuredSample =
  sm_position :: vec3
  sm_velocity :: vec3
  sm_source_stamp_ns :: i64
  sm_sequence :: u64
  sm_localization_epoch :: u64

record MissionCrossingWitness =
  xw_route :: MissionRouteIdentity
  xw_gate :: MissionGateIdentity
  xw_before :: MissionMeasuredSample
  xw_after :: MissionMeasuredSample
  xw_before_cursor :: RouteProjection
  xw_after_cursor :: RouteProjection
  xw_crossing_error_m :: double

datatype ContinuationKind = ContinuationMain | ContinuationTerminalHold | ContinuationSafetySuffixStop

record MissionContinuationWitness =
  kw_route :: MissionRouteIdentity
  kw_gate :: MissionGateIdentity
  kw_kind :: ContinuationKind
  kw_bundle_generation :: u64
  kw_boundary_stamp_ns :: i64
  kw_valid_until_ns :: i64

datatype DecisionKind = DecisionNone | DecisionGoal | DecisionComplete

record MissionProgressDecision =
  md_kind :: DecisionKind
  md_gate :: MissionGateIdentity
  md_accepted :: "MissionGateIdentity option"
  md_acceptance_error_m :: double
  md_acceptance_speed_mps :: double

definition no_decision :: MissionProgressDecision where
  "no_decision = \<lparr>md_kind = DecisionNone, md_gate = \<lparr>gi_waypoint_index = 0, gi_request_id = 0\<rparr>, md_accepted = None,
     md_acceptance_error_m = Fin 0, md_acceptance_speed_mps = Fin 0\<rparr>"

definition goal_decision :: "MissionGateIdentity \<Rightarrow> MissionProgressDecision" where
  "goal_decision gate = no_decision\<lparr>md_kind := DecisionGoal, md_gate := gate\<rparr>"

record MissionProgress =
  pr_mission :: Mission
  pr_measured_route :: RouteProgress
  pr_identity :: MissionRouteIdentity
  pr_gate :: MissionGateIdentity
  pr_accepted :: "MissionGateIdentity option"
  pr_previous :: "MissionMeasuredSample option"
  pr_crossing :: "MissionCrossingWitness option"
  pr_continuation :: "MissionContinuationWitness option"
  pr_latest :: "MissionMeasuredSample option"
  pr_stop_confirmation_start_ns :: "i64 option"
  pr_stop_hold_start_ns :: "i64 option"
  pr_active :: bool

definition sameRoute :: "MissionRouteIdentity \<Rightarrow> MissionRouteIdentity \<Rightarrow> bool" where
  "sameRoute a b \<longleftrightarrow> ri_mission_id a = ri_mission_id b \<and> ri_revision a = ri_revision b \<and>
     ri_localization_epoch a = ri_localization_epoch b"

definition sameGate :: "MissionGateIdentity \<Rightarrow> MissionGateIdentity \<Rightarrow> bool" where
  "sameGate a b \<longleftrightarrow> gi_waypoint_index a = gi_waypoint_index b \<and> gi_request_id a = gi_request_id b"

definition secondsToNs :: "double \<Rightarrow> i64 option" where
  "secondsToNs seconds =
     (if \<not> isfinite seconds \<or> fp_less seconds (Fin 0) \<or>
         fp_less (ddiv (fp_of_int binary64 i64_max) (dlit 1000000000)) seconds then None
      else Some (fp_trunc (fp_ceil (dmul seconds (dlit 1000000000)))))"

definition sample_valid :: "MissionMeasuredSample \<Rightarrow> bool" where
  "sample_valid s \<longleftrightarrow> vfinite (sm_position s) \<and> vfinite (sm_velocity s) \<and> sm_source_stamp_ns s > 0 \<and> sm_sequence s > 0 \<and>
     sm_localization_epoch s > 0"

text \<open>\<open>gate_.waypoint_index\<close> as an index into the waypoints.\<close>

abbreviation gate_index :: "MissionGateIdentity \<Rightarrow> nat" where
  "gate_index g \<equiv> unat (gi_waypoint_index g)"

definition progress_complete :: "MissionProgress \<Rightarrow> bool" where
  "progress_complete s =
     (case pr_accepted s of None \<Rightarrow> False
      | Some g \<Rightarrow> unat (gi_waypoint_index g + 1) = length (ms_waypoints (pr_mission s)))"

definition u64_max :: u64 where
  "u64_max = - 1"

section \<open>Operations\<close>

definition makeMissionProgress :: "eigen \<Rightarrow> Mission \<Rightarrow> route_error + MissionProgress" where
  "makeMissionProgress eg mission =
     (case makeRouteProgress eg mission default_backtrack_tolerance_m of Inl e \<Rightarrow> Inl e
      | Inr route \<Rightarrow>
        if \<not> mission_valid mission then Inl MissionInvalid
        else Inr \<lparr>pr_mission = mission, pr_measured_route = route,
          pr_identity = \<lparr>ri_mission_id = ms_id mission, ri_revision = 1, ri_localization_epoch = 0\<rparr>,
          pr_gate = \<lparr>gi_waypoint_index = 0, gi_request_id = 0\<rparr>, pr_accepted = None, pr_previous = None, pr_crossing = None,
          pr_continuation = None, pr_latest = None, pr_stop_confirmation_start_ns = None, pr_stop_hold_start_ns = None,
          pr_active = False\<rparr>)"

text \<open>\<open>None\<close> is the thrown \<open>std::invalid_argument\<close>.\<close>

definition resetIdentity :: "u64 \<Rightarrow> u64 \<Rightarrow> MissionProgress \<Rightarrow> MissionProgress option" where
  "resetIdentity route_revision localization_epoch s =
     (if route_revision = 0 \<or> localization_epoch = 0 then None
      else let s1 = (if ri_revision (pr_identity s) \<noteq> route_revision
                     then s\<lparr>pr_gate := (pr_gate s)\<lparr>gi_waypoint_index := 0\<rparr>, pr_accepted := None\<rparr> else s)
           in Some (s1\<lparr>pr_identity := (pr_identity s1)\<lparr>ri_revision := route_revision, ri_localization_epoch := localization_epoch\<rparr>,
                pr_measured_route := route_reset (pr_measured_route s1), pr_previous := None, pr_latest := None,
                pr_crossing := None, pr_continuation := None, pr_stop_confirmation_start_ns := None,
                pr_stop_hold_start_ns := None, pr_active := False\<rparr>))"

definition mission_activate :: "MissionProgress \<Rightarrow> MissionProgressDecision \<times> MissionProgress" where
  "mission_activate s =
     (if ri_localization_epoch (pr_identity s) = 0 \<or> progress_complete s then (no_decision, s)
      else let s1 = s\<lparr>pr_active := True, pr_crossing := None, pr_continuation := None,
             pr_stop_confirmation_start_ns := None, pr_stop_hold_start_ns := None\<rparr>
           in if pr_latest s1 = None \<or> \<not> rg_valid (ro_state (pr_measured_route s1)) then (no_decision, s1)
              else if gi_request_id (pr_gate s1) = u64_max then (no_decision, s1)
              else let s2 = s1\<lparr>pr_gate := (pr_gate s1)\<lparr>gi_request_id := gi_request_id (pr_gate s1) + 1\<rparr>\<rparr>
                   in (goal_decision (pr_gate s2), s2))"

definition mission_deactivate :: "MissionProgress \<Rightarrow> MissionProgress" where
  "mission_deactivate s = s\<lparr>pr_active := False, pr_crossing := None, pr_continuation := None,
     pr_stop_confirmation_start_ns := None, pr_stop_hold_start_ns := None, pr_previous := None\<rparr>"

definition continuationMatches :: "MissionProgress \<Rightarrow> bool" where
  "continuationMatches s =
     (case pr_continuation s of None \<Rightarrow> False
      | Some k \<Rightarrow> sameRoute (kw_route k) (pr_identity s) \<and> sameGate (kw_gate k) (pr_gate s) \<and> kw_bundle_generation k > 0 \<and>
          kw_boundary_stamp_ns k > 0 \<and> kw_valid_until_ns k \<ge> kw_boundary_stamp_ns k)"

definition progress_routeSnapshot :: "MissionProgress \<Rightarrow> ImmutableRouteSnapshot" where
  "progress_routeSnapshot s =
     route_snapshot (pr_measured_route s) (ms_id (pr_mission s)) (ms_frame (pr_mission s)) (ri_revision (pr_identity s))
       (gi_request_id (pr_gate s)) (gate_index (pr_gate s))"

definition isCoincidentTerminalStop :: "eigen \<Rightarrow> MissionProgress \<Rightarrow> bool" where
  "isCoincidentTerminalStop eg s = passThroughNextWaypointIsCoincidentStop eg (progress_routeSnapshot s)"

definition mission_accept :: "double \<Rightarrow> double \<Rightarrow> MissionProgress \<Rightarrow> MissionProgressDecision \<times> MissionProgress" where
  "mission_accept error_m speed_mps s =
     (let just_accepted = pr_gate s;
          s1 = s\<lparr>pr_accepted := Some just_accepted, pr_crossing := None, pr_continuation := None,
            pr_stop_confirmation_start_ns := None, pr_stop_hold_start_ns := None\<rparr>
      in if unat (gi_waypoint_index (pr_gate s1) + 1) \<ge> length (ms_waypoints (pr_mission s1))
         then (\<lparr>md_kind = DecisionComplete, md_gate = pr_gate s1, md_accepted = Some just_accepted,
                 md_acceptance_error_m = error_m, md_acceptance_speed_mps = speed_mps\<rparr>, s1\<lparr>pr_active := False\<rparr>)
         else let s2 = s1\<lparr>pr_gate := (pr_gate s1)\<lparr>gi_waypoint_index := gi_waypoint_index (pr_gate s1) + 1\<rparr>\<rparr>
              in if gi_request_id (pr_gate s2) = u64_max then (no_decision, s2)
                 else let s3 = s2\<lparr>pr_gate := (pr_gate s2)\<lparr>gi_request_id := gi_request_id (pr_gate s2) + 1\<rparr>\<rparr>
                      in (\<lparr>md_kind = DecisionGoal, md_gate = pr_gate s3, md_accepted = Some just_accepted,
                            md_acceptance_error_m = error_m, md_acceptance_speed_mps = speed_mps\<rparr>, s3))"

text \<open>The conditions under which a witness is refused before anything is stored.\<close>

definition continuation_rejected :: "MissionContinuationWitness \<Rightarrow> i64 \<Rightarrow> MissionProgress \<Rightarrow> bool" where
  "continuation_rejected witness now_ns s \<longleftrightarrow>
     \<not> pr_active s \<or> progress_complete s \<or> now_ns \<le> 0 \<or> now_ns > kw_valid_until_ns witness \<or>
     \<not> sameRoute (kw_route witness) (pr_identity s) \<or> \<not> sameGate (kw_gate witness) (pr_gate s) \<or>
     kw_bundle_generation witness = 0 \<or> kw_boundary_stamp_ns witness \<le> 0 \<or>
     kw_boundary_stamp_ns witness > kw_valid_until_ns witness"

definition observeContinuation ::
    "eigen \<Rightarrow> MissionContinuationWitness \<Rightarrow> i64 \<Rightarrow> MissionProgress \<Rightarrow> MissionProgressDecision \<times> MissionProgress" where
  "observeContinuation eg witness now_ns s =
     (if continuation_rejected witness now_ns s then (no_decision, s)
      else if (case pr_continuation s of None \<Rightarrow> False | Some k \<Rightarrow> kw_bundle_generation k > kw_bundle_generation witness)
      then (no_decision, s)
      else let s1 = s\<lparr>pr_continuation := Some witness\<rparr>
           in if gate_index (pr_gate s1) \<ge> length (ms_waypoints (pr_mission s1)) then (no_decision, s1)
              else let waypoint = ms_waypoints (pr_mission s1) ! gate_index (pr_gate s1)
                   in case (pr_crossing s1, pr_latest s1) of
                     (Some crossing, Some latest) \<Rightarrow>
                       if mw_behavior waypoint \<noteq> PassThrough \<or>
                          (kw_kind witness \<noteq> ContinuationMain \<and> kw_kind witness \<noteq> ContinuationSafetySuffixStop \<and>
                           \<not> (kw_kind witness = ContinuationTerminalHold \<and> isCoincidentTerminalStop eg s1))
                       then (no_decision, s1)
                       else if (isCoincidentTerminalStop eg s1 \<or> kw_kind witness = ContinuationSafetySuffixStop) \<and>
                          fp_less (mc_acceptance_speed_mps (ms_control (pr_mission s1))) (eg_norm eg (sm_velocity latest))
                       then (no_decision, s1)
                       else if kw_kind witness = ContinuationSafetySuffixStop \<and>
                          \<not> insideAcceptance eg (pr_measured_route s1) (gate_index (pr_gate s1)) (sm_position latest)
                       then (no_decision, s1)
                       else mission_accept (xw_crossing_error_m crossing) (eg_norm eg (sm_velocity (xw_after crossing))) s1
                   | _ \<Rightarrow> (no_decision, s1))"

text \<open>The measured part of a pass-through waypoint: record a crossing, then accept it if execution continues.\<close>

definition sample_crossing_error ::
    "eigen \<Rightarrow> MissionMeasuredSample \<Rightarrow> MissionMeasuredSample option \<Rightarrow> MissionProgress \<Rightarrow> double option" where
  "sample_crossing_error eg sample prior s =
     (let gap_valid = (case prior of None \<Rightarrow> False
            | Some p \<Rightarrow> sm_source_stamp_ns sample - sm_source_stamp_ns p \<le> kMaximumCrossingSampleGapNs);
          gap_s = (case prior of None \<Rightarrow> NaN
            | Some p \<Rightarrow>
              if gap_valid then ddiv (fp_of_int binary64 (sm_source_stamp_ns sample - sm_source_stamp_ns p)) (dlit 1000000000)
              else NaN)
      in measuredWaypointCrossingError eg (pr_measured_route s) (gate_index (pr_gate s)) (sm_position sample)
           (if gap_valid then map_option sm_position prior else None) gap_s
           (ddiv (fp_of_int binary64 kMaximumCrossingSampleGapNs) (dlit 1000000000)))"

definition record_crossing ::
    "eigen \<Rightarrow> MissionMeasuredSample \<Rightarrow> MissionMeasuredSample option \<Rightarrow> RouteProjection \<Rightarrow> bool \<Rightarrow> MissionProgress \<Rightarrow> MissionProgress" where
  "record_crossing eg sample prior before_cursor reverse_crossing s =
     (let measured = ro_state (pr_measured_route s)
      in if \<not> rg_backtracking_exceeded measured \<and> \<not> reverse_crossing
         then case sample_crossing_error eg sample prior s of None \<Rightarrow> s
           | Some e \<Rightarrow> s\<lparr>pr_crossing := Some \<lparr>xw_route = pr_identity s, xw_gate = pr_gate s,
               xw_before = (case prior of None \<Rightarrow> sample | Some p \<Rightarrow> p), xw_after = sample,
               xw_before_cursor = before_cursor, xw_after_cursor = rg_projection measured, xw_crossing_error_m = e\<rparr>\<rparr>
         else s)"

definition pass_through_step ::
    "eigen \<Rightarrow> MissionMeasuredSample \<Rightarrow> i64 \<Rightarrow> MissionWaypoint \<Rightarrow> MissionProgress \<Rightarrow> MissionProgressDecision \<times> MissionProgress" where
  "pass_through_step eg sample now_ns waypoint s =
     (case pr_crossing s of None \<Rightarrow> (no_decision, s)
      | Some crossing \<Rightarrow>
        let speed = eg_norm eg (sm_velocity sample);
            limit = mc_acceptance_speed_mps (ms_control (pr_mission s));
            error_m = eg_norm eg (vsub (sm_position sample) (mw_position_enu waypoint));
            initial_inside = (gi_waypoint_index (pr_gate s) = 0 \<and> gi_request_id (pr_gate s) = 1 \<and>
              fp_le error_m (mw_acceptance_radius_m waypoint) \<and> fp_le speed limit);
            kind = map_option kw_kind (pr_continuation s);
            ready = (continuationMatches s \<and>
              (case pr_continuation s of None \<Rightarrow> False | Some k \<Rightarrow> kw_valid_until_ns k \<ge> now_ns) \<and>
              (kind = Some ContinuationMain \<or> kind = Some ContinuationSafetySuffixStop \<or>
               (kind = Some ContinuationTerminalHold \<and> isCoincidentTerminalStop eg s)))
        in if \<not> ready \<and> \<not> initial_inside then (no_decision, s)
           else if (isCoincidentTerminalStop eg s \<or> (ready \<and> kind = Some ContinuationSafetySuffixStop)) \<and> fp_less limit speed
           then (no_decision, s)
           else if ready \<and> kind = Some ContinuationSafetySuffixStop \<and>
              \<not> insideAcceptance eg (pr_measured_route s) (gate_index (pr_gate s)) (sm_position sample)
           then (no_decision, s)
           else mission_accept (xw_crossing_error_m crossing) speed s)"

definition stop_step ::
    "eigen \<Rightarrow> MissionMeasuredSample \<Rightarrow> i64 \<Rightarrow> MissionWaypoint \<Rightarrow> MissionProgress \<Rightarrow> MissionProgressDecision \<times> MissionProgress" where
  "stop_step eg sample now_ns waypoint s =
     (let inside = insideAcceptance eg (pr_measured_route s) (gate_index (pr_gate s)) (sm_position sample);
          slow = fp_le (eg_norm eg (sm_velocity sample)) (mc_acceptance_speed_mps (ms_control (pr_mission s)));
          has_execution_hold = (continuationMatches s \<and>
            (case pr_continuation s of None \<Rightarrow> False | Some k \<Rightarrow> kw_valid_until_ns k \<ge> now_ns))
      in if \<not> inside \<or> \<not> slow \<or> \<not> has_execution_hold
         then (no_decision, s\<lparr>pr_stop_confirmation_start_ns := None, pr_stop_hold_start_ns := None\<rparr>)
         else let confirmation_start = (case pr_stop_confirmation_start_ns s of None \<Rightarrow> sm_source_stamp_ns sample | Some t \<Rightarrow> t);
                  s1 = s\<lparr>pr_stop_confirmation_start_ns := Some confirmation_start\<rparr>
              in case (secondsToNs (mc_acceptance_confirmation_s (ms_control (pr_mission s))), secondsToNs (mw_hold_s waypoint)) of
                (Some confirmation_ns, Some hold_ns) \<Rightarrow>
                  if sm_source_stamp_ns sample - confirmation_start < confirmation_ns then (no_decision, s1)
                  else let hold_start = (case pr_stop_hold_start_ns s1 of None \<Rightarrow> sm_source_stamp_ns sample | Some t \<Rightarrow> t);
                           s2 = s1\<lparr>pr_stop_hold_start_ns := Some hold_start\<rparr>
                       in if sm_source_stamp_ns sample - hold_start < hold_ns then (no_decision, s2)
                          else mission_accept (eg_norm eg (vsub (sm_position sample) (mw_position_enu waypoint)))
                                 (eg_norm eg (sm_velocity sample)) s2
              | _ \<Rightarrow> (no_decision, s1))"

definition reverse_motion :: "eigen \<Rightarrow> MissionMeasuredSample \<Rightarrow> MissionMeasuredSample option \<Rightarrow> MissionProgress \<Rightarrow> bool" where
  "reverse_motion eg sample prior s =
     (let index = gate_index (pr_gate s); route = pr_measured_route s;
          tangent = (case incomingTangent route index of Some t \<Rightarrow> t
            | None \<Rightarrow> (case outgoingTangent route index of Some t \<Rightarrow> t | None \<Rightarrow> vzero))
      in case prior of None \<Rightarrow> False
         | Some p \<Rightarrow> pr_crossing s \<noteq> None \<and> vfinite tangent \<and> fp_less (Fin 0) (eg_norm eg tangent) \<and>
             fp_less (eg_dot eg (vsub (sm_position sample) (sm_position p)) tangent) (fp_neg default_backtrack_tolerance_m))"

definition observe_ordered ::
    "eigen \<Rightarrow> MissionMeasuredSample \<Rightarrow> i64 \<Rightarrow> MissionProgress \<Rightarrow> MissionProgressDecision \<times> MissionProgress" where
  "observe_ordered eg sample now_ns s =
     (let prior = pr_previous s;
          before_cursor = rg_projection (ro_state (pr_measured_route s));
          route = route_update eg (sm_position sample) (pr_measured_route s);
          s1 = s\<lparr>pr_measured_route := route, pr_previous := Some sample, pr_latest := Some sample\<rparr>;
          reverse_crossing = reverse_motion eg sample prior s1;
          s2 = (if rg_backtracking_exceeded (ro_state route) \<or> reverse_crossing then s1\<lparr>pr_crossing := None\<rparr> else s1)
      in if \<not> pr_active s2 then (no_decision, s2)
         else if gi_request_id (pr_gate s2) = 0
         then let s3 = s2\<lparr>pr_gate := (pr_gate s2)\<lparr>gi_request_id := 1\<rparr>\<rparr> in (goal_decision (pr_gate s3), s3)
         else if gate_index (pr_gate s2) \<ge> length (ms_waypoints (pr_mission s2)) then (no_decision, s2)
         else let waypoint = ms_waypoints (pr_mission s2) ! gate_index (pr_gate s2)
              in if mw_behavior waypoint = PassThrough
                 then pass_through_step eg sample now_ns waypoint
                        (record_crossing eg sample prior before_cursor reverse_crossing s2)
                 else stop_step eg sample now_ns waypoint s2)"

definition observeMeasured ::
    "eigen \<Rightarrow> MissionMeasuredSample \<Rightarrow> i64 \<Rightarrow> MissionProgress \<Rightarrow> MissionProgressDecision \<times> MissionProgress" where
  "observeMeasured eg sample now_ns s =
     (if \<not> sample_valid sample \<or> now_ns < sm_source_stamp_ns sample \<or>
         sm_localization_epoch sample \<noteq> ri_localization_epoch (pr_identity s) \<or> progress_complete s then (no_decision, s)
      else case pr_previous s of None \<Rightarrow> observe_ordered eg sample now_ns s
      | Some p \<Rightarrow>
        if sm_source_stamp_ns sample = sm_source_stamp_ns p \<and> sm_sequence sample = sm_sequence p then (no_decision, s)
        else if sm_source_stamp_ns sample \<le> sm_source_stamp_ns p \<or> sm_sequence sample \<le> sm_sequence p
        then (no_decision, s\<lparr>pr_crossing := None, pr_previous := None\<rparr>)
        else if sm_source_stamp_ns sample - sm_source_stamp_ns p > kMaximumCrossingSampleGapNs
        then observe_ordered eg sample now_ns (s\<lparr>pr_crossing := None, pr_previous := None\<rparr>)
        else observe_ordered eg sample now_ns s)"

section \<open>The owner as a transition system\<close>

datatype mission_event =
    EvReset u64 u64 | EvActivate | EvDeactivate
  | EvContinuation MissionContinuationWitness i64 | EvMeasured MissionMeasuredSample i64

text \<open>A call, its decision and the state after it; a throwing \<open>resetIdentity\<close> leaves the state alone.\<close>

fun mission_apply :: "eigen \<Rightarrow> mission_event \<Rightarrow> MissionProgress \<Rightarrow> MissionProgressDecision \<times> MissionProgress" where
  "mission_apply eg (EvReset revision epoch) s =
     (case resetIdentity revision epoch s of None \<Rightarrow> (no_decision, s) | Some t \<Rightarrow> (no_decision, t))"
| "mission_apply eg EvActivate s = mission_activate s"
| "mission_apply eg EvDeactivate s = (no_decision, mission_deactivate s)"
| "mission_apply eg (EvContinuation witness now_ns) s = observeContinuation eg witness now_ns s"
| "mission_apply eg (EvMeasured sample now_ns) s = observeMeasured eg sample now_ns s"

fun mission_run :: "eigen \<Rightarrow> mission_event list \<Rightarrow> MissionProgress \<Rightarrow> MissionProgressDecision list \<times> MissionProgress" where
  "mission_run eg [] s = ([], s)"
| "mission_run eg (e # es) s =
     (let (d, t) = mission_apply eg e s; (ds, u) = mission_run eg es t in (d # ds, u))"

text \<open>
  How one call may change the gate. Either it accepts the gate in force and moves to the next waypoint (or
  completes), or it restarts the route under a new revision, or it leaves the waypoint alone.
\<close>

definition gate_kept :: "MissionProgressDecision \<Rightarrow> MissionProgress \<Rightarrow> MissionProgress \<Rightarrow> bool" where
  "gate_kept d s t \<longleftrightarrow> pr_mission t = pr_mission s \<and> pr_accepted t = pr_accepted s \<and>
     gi_waypoint_index (pr_gate t) = gi_waypoint_index (pr_gate s) \<and> md_accepted d = None \<and>
     ri_revision (pr_identity t) = ri_revision (pr_identity s) \<and>
     (md_kind d = DecisionNone \<and> pr_gate t = pr_gate s \<or>
      md_kind d = DecisionGoal \<and> md_gate d = pr_gate t \<and> gi_request_id (pr_gate s) \<noteq> u64_max \<and>
      gi_request_id (pr_gate t) = gi_request_id (pr_gate s) + 1)"

definition gate_accepted :: "MissionProgressDecision \<Rightarrow> MissionProgress \<Rightarrow> MissionProgress \<Rightarrow> bool" where
  "gate_accepted d s t \<longleftrightarrow> pr_mission t = pr_mission s \<and> pr_identity t = pr_identity s \<and> pr_accepted t = Some (pr_gate s) \<and> pr_crossing t = None \<and>
     pr_continuation t = None \<and> pr_stop_confirmation_start_ns t = None \<and> pr_stop_hold_start_ns t = None \<and>
     (if unat (gi_waypoint_index (pr_gate s) + 1) \<ge> length (ms_waypoints (pr_mission s))
      then md_kind d = DecisionComplete \<and> md_gate d = pr_gate s \<and> md_accepted d = Some (pr_gate s) \<and>
        pr_gate t = pr_gate s \<and> \<not> pr_active t
      else gi_waypoint_index (pr_gate t) = gi_waypoint_index (pr_gate s) + 1 \<and>
        (if gi_request_id (pr_gate s) = u64_max then d = no_decision \<and> gi_request_id (pr_gate t) = u64_max
         else md_kind d = DecisionGoal \<and> md_gate d = pr_gate t \<and> md_accepted d = Some (pr_gate s) \<and>
           gi_request_id (pr_gate t) = gi_request_id (pr_gate s) + 1))"

definition route_restarted :: "mission_event \<Rightarrow> MissionProgressDecision \<Rightarrow> MissionProgress \<Rightarrow> MissionProgress \<Rightarrow> bool" where
  "route_restarted e d s t \<longleftrightarrow> (\<exists>revision epoch. e = EvReset revision epoch \<and> revision \<noteq> ri_revision (pr_identity s)) \<and>
     d = no_decision \<and> pr_mission t = pr_mission s \<and> pr_accepted t = None \<and>
     pr_gate t = (pr_gate s)\<lparr>gi_waypoint_index := 0\<rparr> \<and> \<not> pr_active t"

lemma accept_cases: "mission_accept e v s = (d, t) \<Longrightarrow> gate_accepted d s t"
  by (auto simp: mission_accept_def gate_accepted_def Let_def no_decision_def split: if_splits)

lemma no_decision_simps [simp]: "md_kind no_decision = DecisionNone" "md_accepted no_decision = None"
  by (simp_all add: no_decision_def)

definition gate_moves :: "MissionProgressDecision \<Rightarrow> MissionProgress \<Rightarrow> MissionProgress \<Rightarrow> bool" where
  "gate_moves d s t \<longleftrightarrow> gate_kept d s t \<or> gate_accepted d s t"

text \<open>A part of the state that only the gate logic writes.\<close>

definition same_gate_state :: "MissionProgress \<Rightarrow> MissionProgress \<Rightarrow> bool" where
  "same_gate_state s s' \<longleftrightarrow> pr_mission s' = pr_mission s \<and> pr_accepted s' = pr_accepted s \<and> pr_gate s' = pr_gate s \<and>
     pr_identity s' = pr_identity s"

lemma gate_moves_frame: "gate_moves d s' t \<Longrightarrow> same_gate_state s s' \<Longrightarrow> gate_moves d s t"
  by (auto simp: gate_moves_def same_gate_state_def gate_accepted_def gate_kept_def)

lemma gate_moves_none: "same_gate_state s t \<Longrightarrow> gate_moves no_decision s t"
  by (auto simp: gate_moves_def same_gate_state_def gate_kept_def)

lemma accept_moves: "mission_accept e v s = (d, t) \<Longrightarrow> gate_moves d s t"
  using accept_cases by (simp add: gate_moves_def)

lemma record_crossing_frame: "same_gate_state s (record_crossing eg sample prior cursor rc s)"
  by (auto simp: record_crossing_def same_gate_state_def Let_def split: option.split)

lemma pass_through_cases:
  "pass_through_step eg sample now_ns w s = (no_decision, s) \<or>
   (\<exists>c. pr_crossing s = Some c \<and>
      pass_through_step eg sample now_ns w s = mission_accept (xw_crossing_error_m c) (eg_norm eg (sm_velocity sample)) s)"
  by (cases "pr_crossing s") (simp_all add: pass_through_step_def Let_def)

text \<open>The evidence on which a stop waypoint is accepted.\<close>

definition stop_evidence ::
    "eigen \<Rightarrow> MissionMeasuredSample \<Rightarrow> i64 \<Rightarrow> MissionWaypoint \<Rightarrow> i64 \<Rightarrow> i64 \<Rightarrow> MissionProgress \<Rightarrow> bool" where
  "stop_evidence eg sample now_ns w confirmed_from held_from s \<longleftrightarrow>
     insideAcceptance eg (pr_measured_route s) (gate_index (pr_gate s)) (sm_position sample) \<and>
     fp_le (eg_norm eg (sm_velocity sample)) (mc_acceptance_speed_mps (ms_control (pr_mission s))) \<and>
     continuationMatches s \<and> (\<exists>k. pr_continuation s = Some k \<and> now_ns \<le> kw_valid_until_ns k) \<and>
     confirmed_from = (case pr_stop_confirmation_start_ns s of None \<Rightarrow> sm_source_stamp_ns sample | Some x \<Rightarrow> x) \<and>
     held_from = (case pr_stop_hold_start_ns s of None \<Rightarrow> sm_source_stamp_ns sample | Some x \<Rightarrow> x) \<and>
     (\<exists>c h. secondsToNs (mc_acceptance_confirmation_s (ms_control (pr_mission s))) = Some c \<and> secondsToNs (mw_hold_s w) = Some h \<and>
        c \<le> sm_source_stamp_ns sample - confirmed_from \<and> h \<le> sm_source_stamp_ns sample - held_from)"

lemma stop_cases:
  "(\<exists>a b. stop_step eg sample now_ns w s = (no_decision, s\<lparr>pr_stop_confirmation_start_ns := a, pr_stop_hold_start_ns := b\<rparr>)) \<or>
   (\<exists>a b. stop_evidence eg sample now_ns w a b s \<and>
      stop_step eg sample now_ns w s =
        mission_accept (eg_norm eg (vsub (sm_position sample) (mw_position_enu w))) (eg_norm eg (sm_velocity sample))
          (s\<lparr>pr_stop_confirmation_start_ns := Some a, pr_stop_hold_start_ns := Some b\<rparr>))"
proof (cases "insideAcceptance eg (pr_measured_route s) (gate_index (pr_gate s)) (sm_position sample) \<and>
    fp_le (eg_norm eg (sm_velocity sample)) (mc_acceptance_speed_mps (ms_control (pr_mission s))) \<and> continuationMatches s \<and>
    (case pr_continuation s of None \<Rightarrow> False | Some k \<Rightarrow> kw_valid_until_ns k \<ge> now_ns)")
  case False
  then show ?thesis by (intro disjI1) (auto simp: stop_step_def Let_def)
next
  case True
  then obtain k where k: "pr_continuation s = Some k" "now_ns \<le> kw_valid_until_ns k" by (auto split: option.splits)
  define a where "a = (case pr_stop_confirmation_start_ns s of None \<Rightarrow> sm_source_stamp_ns sample | Some x \<Rightarrow> x)"
  define b where "b = (case pr_stop_hold_start_ns s of None \<Rightarrow> sm_source_stamp_ns sample | Some x \<Rightarrow> x)"
  let ?c = "secondsToNs (mc_acceptance_confirmation_s (ms_control (pr_mission s)))" and ?h = "secondsToNs (mw_hold_s w)"
  have st: "stop_step eg sample now_ns w s = (case (?c, ?h) of
      (Some c, Some h) \<Rightarrow>
        if sm_source_stamp_ns sample - a < c then (no_decision, s\<lparr>pr_stop_confirmation_start_ns := Some a\<rparr>)
        else if sm_source_stamp_ns sample - b < h
        then (no_decision, s\<lparr>pr_stop_confirmation_start_ns := Some a, pr_stop_hold_start_ns := Some b\<rparr>)
        else mission_accept (eg_norm eg (vsub (sm_position sample) (mw_position_enu w))) (eg_norm eg (sm_velocity sample))
          (s\<lparr>pr_stop_confirmation_start_ns := Some a, pr_stop_hold_start_ns := Some b\<rparr>)
    | _ \<Rightarrow> (no_decision, s\<lparr>pr_stop_confirmation_start_ns := Some a\<rparr>))"
    using True k unfolding stop_step_def Let_def a_def [symmetric] by (simp add: b_def split: option.split)
  show ?thesis
  proof (cases "\<exists>c h. ?c = Some c \<and> ?h = Some h \<and> c \<le> sm_source_stamp_ns sample - a \<and> h \<le> sm_source_stamp_ns sample - b")
    case ev: True
    then have "stop_evidence eg sample now_ns w a b s" using True k by (simp add: stop_evidence_def a_def b_def)
    with ev show ?thesis unfolding st by (intro disjI2 exI [of _ a] exI [of _ b]) auto
  next
    case ev: False
    show ?thesis
    proof (cases "\<exists>c h. ?c = Some c \<and> ?h = Some h \<and> c \<le> sm_source_stamp_ns sample - a")
      case True
      then obtain c h where ch: "?c = Some c" "?h = Some h" "c \<le> sm_source_stamp_ns sample - a" by blast
      with ev have "sm_source_stamp_ns sample - b < h" by simp
      with ch show ?thesis unfolding st by (intro disjI1 exI) simp
    next
      case False
      then have "stop_step eg sample now_ns w s = (no_decision, s\<lparr>pr_stop_confirmation_start_ns := Some a\<rparr>)"
        unfolding st by (auto split: option.splits)
      then have "stop_step eg sample now_ns w s =
          (no_decision, s\<lparr>pr_stop_confirmation_start_ns := Some a, pr_stop_hold_start_ns := pr_stop_hold_start_ns s\<rparr>)" by simp
      then show ?thesis by blast
    qed
  qed
qed

lemma pass_through_moves: "pass_through_step eg sample now_ns w s = (d, t) \<Longrightarrow> gate_moves d s t"
  using pass_through_cases [of eg sample now_ns w s] gate_moves_none [of s s] accept_moves
  by (auto simp: same_gate_state_def)

lemma stop_moves:
  assumes "stop_step eg sample now_ns w s = (d, t)"
  shows "gate_moves d s t"
proof -
  have f: "same_gate_state s (s\<lparr>pr_stop_confirmation_start_ns := a, pr_stop_hold_start_ns := b\<rparr>)" for a b
    by (simp add: same_gate_state_def)
  from stop_cases [of eg sample now_ns w s] assms gate_moves_none [OF f] gate_moves_frame [OF accept_moves f] show ?thesis
    by auto
qed

lemma goal_kept:
  "gi_request_id (pr_gate s) \<noteq> u64_max \<Longrightarrow> pr_mission t = pr_mission s \<Longrightarrow> pr_accepted t = pr_accepted s \<Longrightarrow>
   pr_identity t = pr_identity s \<Longrightarrow> pr_gate t = (pr_gate s)\<lparr>gi_request_id := gi_request_id (pr_gate s) + 1\<rparr> \<Longrightarrow>
   gate_moves (goal_decision (pr_gate t)) s t"
  by (simp add: gate_moves_def gate_kept_def goal_decision_def)

lemma u64_max_nonzero [simp]: "(0 :: u64) \<noteq> u64_max"
  by (simp add: u64_max_def)

lemma ordered_moves:
  assumes "observe_ordered eg sample now s = (d, t)"
  shows "gate_moves d s t"
proof -
  define route where "route = route_update eg (sm_position sample) (pr_measured_route s)"
  define s1 where "s1 = s\<lparr>pr_measured_route := route, pr_previous := Some sample, pr_latest := Some sample\<rparr>"
  define rc where "rc = reverse_motion eg sample (pr_previous s) s1"
  define s2 where "s2 = (if rg_backtracking_exceeded (ro_state route) \<or> rc then s1\<lparr>pr_crossing := None\<rparr> else s1)"
  have s2: "same_gate_state s s2" by (simp add: s2_def s1_def same_gate_state_def)
  note unfolded = assms [unfolded observe_ordered_def Let_def, folded route_def, folded s1_def, folded rc_def, folded s2_def]
  consider "\<not> pr_active s2" | "pr_active s2" "gi_request_id (pr_gate s2) = 0"
    | "pr_active s2" "gi_request_id (pr_gate s2) \<noteq> 0" "gate_index (pr_gate s2) \<ge> length (ms_waypoints (pr_mission s2))"
    | "pr_active s2" "gi_request_id (pr_gate s2) \<noteq> 0" "\<not> gate_index (pr_gate s2) \<ge> length (ms_waypoints (pr_mission s2))" by blast
  then show ?thesis
  proof cases
    case 4
    have "gate_moves d s2 t"
    proof (cases "mw_behavior (ms_waypoints (pr_mission s2) ! gate_index (pr_gate s2)) = PassThrough")
      case True
      with unfolded 4 show ?thesis
        by (intro gate_moves_frame [OF pass_through_moves record_crossing_frame]) auto
    next
      case False
      with unfolded 4 show ?thesis by (auto intro: stop_moves)
    qed
    with s2 show ?thesis by (rule gate_moves_frame [rotated])
  next
    case 2
    with unfolded have "d = goal_decision (pr_gate t)" "t = s2\<lparr>pr_gate := (pr_gate s2)\<lparr>gi_request_id := 1\<rparr>\<rparr>" by auto
    with s2 2 goal_kept [of s t] show ?thesis by (simp add: same_gate_state_def)
  qed (use unfolded gate_moves_none [OF s2] in auto)
qed

lemma measured_moves:
  assumes "observeMeasured eg sample now_ns s = (d, t)"
  shows "gate_moves d s t"
proof -
  have f: "same_gate_state s (s\<lparr>pr_crossing := None, pr_previous := None\<rparr>)" "same_gate_state s s" by (simp_all add: same_gate_state_def)
  from assms gate_moves_frame [OF ordered_moves f(1)] ordered_moves gate_moves_none [OF f(1)] gate_moves_none [OF f(2)]
  show ?thesis unfolding observeMeasured_def by (auto split: option.splits if_splits)
qed

lemma continuation_cases:
  "(\<exists>k. observeContinuation eg w now_ns s = (no_decision, s\<lparr>pr_continuation := k\<rparr>)) \<or>
   (\<exists>c. pr_crossing s = Some c \<and> gate_index (pr_gate s) < length (ms_waypoints (pr_mission s)) \<and>
      mw_behavior (ms_waypoints (pr_mission s) ! gate_index (pr_gate s)) = PassThrough \<and>
      \<not> continuation_rejected w now_ns s \<and>
      observeContinuation eg w now_ns s = mission_accept (xw_crossing_error_m c) (eg_norm eg (sm_velocity (xw_after c)))
        (s\<lparr>pr_continuation := Some w\<rparr>))"
proof -
  have keep: "(no_decision, s) = (no_decision, s\<lparr>pr_continuation := pr_continuation s\<rparr>)" by simp
  show ?thesis
  proof (cases "continuation_rejected w now_ns s \<or>
      (case pr_continuation s of None \<Rightarrow> False | Some k \<Rightarrow> kw_bundle_generation k > kw_bundle_generation w)")
    case True
    then have "observeContinuation eg w now_ns s = (no_decision, s)" by (auto simp: observeContinuation_def)
    then show ?thesis using keep by metis
  next
    case False
    then show ?thesis
      by (cases "pr_crossing s"; cases "pr_latest s") (auto simp: observeContinuation_def Let_def)
  qed
qed

lemma continuation_moves:
  assumes "observeContinuation eg w now_ns s = (d, t)"
  shows "gate_moves d s t"
proof -
  have f: "same_gate_state s (s\<lparr>pr_continuation := k\<rparr>)" for k by (simp add: same_gate_state_def)
  from continuation_cases [of eg w now_ns s] assms gate_moves_none [OF f] gate_moves_frame [OF accept_moves f] show ?thesis
    by auto
qed

lemma activate_moves:
  assumes "mission_activate s = (d, t)"
  shows "gate_moves d s t"
proof (cases "ri_localization_epoch (pr_identity s) = 0 \<or> progress_complete s \<or> pr_latest s = None \<or>
    \<not> rg_valid (ro_state (pr_measured_route s)) \<or> gi_request_id (pr_gate s) = u64_max")
  case True
  with assms have "d = no_decision \<and> same_gate_state s t"
    by (auto simp: mission_activate_def Let_def same_gate_state_def split: if_splits)
  then show ?thesis by (simp add: gate_moves_none)
next
  case False
  with assms have "d = goal_decision (pr_gate t)" "same_gate_state s (t\<lparr>pr_gate := pr_gate s\<rparr>)"
    "pr_gate t = (pr_gate s)\<lparr>gi_request_id := gi_request_id (pr_gate s) + 1\<rparr>"
    by (auto simp: mission_activate_def Let_def same_gate_state_def)
  then show ?thesis using False goal_kept [of s t] by (simp add: same_gate_state_def)
qed

lemma apply_moves:
  assumes "mission_apply eg e s = (d, t)"
  shows "gate_moves d s t \<or> route_restarted e d s t"
proof (cases e)
  case (EvReset revision epoch)
  show ?thesis
  proof (cases "revision = 0 \<or> epoch = 0 \<or> revision = ri_revision (pr_identity s)")
    case True
    with assms EvReset have "d = no_decision" "pr_mission t = pr_mission s" "pr_accepted t = pr_accepted s" "pr_gate t = pr_gate s"
      "ri_revision (pr_identity t) = ri_revision (pr_identity s)"
      by (auto simp: resetIdentity_def Let_def split: if_splits)
    then show ?thesis by (simp add: gate_moves_def gate_kept_def)
  next
    case False
    with assms EvReset have "d = no_decision" "pr_mission t = pr_mission s" "pr_accepted t = None" "\<not> pr_active t"
      "pr_gate t = (pr_gate s)\<lparr>gi_waypoint_index := 0\<rparr>"
      by (auto simp: resetIdentity_def Let_def)
    with False EvReset show ?thesis by (simp add: route_restarted_def)
  qed
next
  case EvDeactivate
  with assms show ?thesis by (auto simp: mission_deactivate_def gate_moves_def gate_kept_def)
qed (use assms activate_moves measured_moves continuation_moves in auto)

lemma complete_stuck:
  assumes "progress_complete s" "mission_apply eg e s = (d, t)"
  shows "gate_kept d s t \<or> route_restarted e d s t"
proof (cases e)
  case (EvReset revision epoch)
  then have "\<not> gate_accepted d s t" using assms(2) by (auto simp: resetIdentity_def gate_accepted_def split: if_splits option.splits)
  then show ?thesis using apply_moves [OF assms(2)] by (auto simp: gate_moves_def)
qed (use assms in \<open>auto simp: mission_activate_def mission_deactivate_def observeContinuation_def continuation_rejected_def
  observeMeasured_def gate_kept_def\<close>)

section \<open>Waypoints are accepted in order\<close>

text \<open>After \<open>k\<close> acceptances the gate in force is the \<open>k\<close>-th waypoint, or the mission is complete.\<close>

definition gates_ok :: "nat \<Rightarrow> MissionProgress \<Rightarrow> bool" where
  "gates_ok k s \<longleftrightarrow> (let n = length (ms_waypoints (pr_mission s)) in 0 < n \<and> n \<le> kMaximumMissionWaypoints \<and> k \<le> n \<and>
     (if k = 0 then pr_accepted s = None else (\<exists>g. pr_accepted s = Some g \<and> gate_index g = k - 1)) \<and>
     gate_index (pr_gate s) = (if k < n then k else n - 1))"

lemma u32_succ: "unat (x :: u32) < 4096 \<Longrightarrow> unat (x + 1) = unat x + 1"
  by (simp add: unat_word_ariths)

lemma gates_complete: "gates_ok k s \<Longrightarrow> progress_complete s \<longleftrightarrow> k = length (ms_waypoints (pr_mission s))"
  by (auto simp: gates_ok_def progress_complete_def u32_succ mission_limits Let_def split: if_splits)

lemma gates_kept: "gates_ok k s \<Longrightarrow> gate_kept d s t \<Longrightarrow> gates_ok k t \<and> md_accepted d = None"
  by (auto simp: gates_ok_def gate_kept_def Let_def)

lemma gates_accepted:
  assumes "gates_ok k s" "gate_accepted d s t" "\<not> progress_complete s" "gi_request_id (pr_gate s) \<noteq> u64_max"
  shows "gates_ok (k + 1) t \<and> md_accepted d = Some (pr_gate s) \<and> gate_index (pr_gate s) = k"
proof -
  let ?n = "length (ms_waypoints (pr_mission s))"
  have k: "k < ?n" "gate_index (pr_gate s) = k" "?n \<le> 4096" "0 < ?n"
    using assms(1,3) gates_complete [OF assms(1)] by (auto simp: gates_ok_def Let_def mission_limits split: if_splits)
  then have "unat (gi_waypoint_index (pr_gate s) + 1) = k + 1" using u32_succ [of "gi_waypoint_index (pr_gate s)"] by simp
  then show ?thesis
    using assms(2,4) k by (auto simp: gate_accepted_def gates_ok_def Let_def mission_limits split: if_splits)
qed

text \<open>The request identifier grows by at most one per call.\<close>

lemma request_bound:
  assumes "gate_kept d s t \<or> gate_accepted d s t" "unat (gi_request_id (pr_gate s)) < 2 ^ 64 - 1"
  shows "unat (gi_request_id (pr_gate t)) \<le> unat (gi_request_id (pr_gate s)) + 1"
proof -
  have "gi_request_id (pr_gate t) = gi_request_id (pr_gate s) \<or> gi_request_id (pr_gate t) = gi_request_id (pr_gate s) + 1"
    using assms(1) by (auto simp: gate_kept_def gate_accepted_def split: if_splits)
  moreover have "unat (gi_request_id (pr_gate s) + 1) \<le> unat (gi_request_id (pr_gate s)) + 1"
    by (simp add: unat_word_ariths)
  ultimately show ?thesis by auto
qed

definition accepted_gates :: "MissionProgressDecision list \<Rightarrow> nat list" where
  "accepted_gates ds = map gate_index (List.map_filter md_accepted ds)"

lemma not_u64_max: "unat (x :: u64) < 2 ^ 64 - 1 \<Longrightarrow> x \<noteq> u64_max"
proof
  assume "unat x < 2 ^ 64 - 1" "x = u64_max"
  then have "unat (- 1 :: u64) < 2 ^ 64 - 1" by (simp add: u64_max_def)
  then show False by (simp add: unsigned_minus_1_eq_mask mask_eq_exp_minus_1)
qed

lemma run_in_order:
  assumes "mission_run eg es s = (ds, t)" "gates_ok k s" "ri_revision (pr_identity s) = 1"
    and "\<forall>revision epoch. EvReset revision epoch \<in> set es \<longrightarrow> revision = 1"
    and "unat (gi_request_id (pr_gate s)) + length es < 2 ^ 64 - 1"
  shows "\<exists>k'. k \<le> k' \<and> accepted_gates ds = [k..<k'] \<and> gates_ok k' t \<and> pr_mission t = pr_mission s"
  using assms
proof (induction es arbitrary: s ds k)
  case Nil
  then show ?case by (auto simp: accepted_gates_def List.map_filter_simps)
next
  case (Cons e es)
  obtain d u where du: "mission_apply eg e s = (d, u)" by fastforce
  obtain ds' where ds: "mission_run eg es u = (ds', t)" "ds = d # ds'" using Cons.prems(1) du by (auto split: prod.splits)
  have r: "unat (gi_request_id (pr_gate s)) < 2 ^ 64 - 1" using Cons.prems(5) by simp
  have "\<not> route_restarted e d s u" using Cons.prems(3,4) by (auto simp: route_restarted_def)
  then have m: "gate_kept d s u \<or> gate_accepted d s u \<and> \<not> progress_complete s"
    using apply_moves [OF du] complete_stuck [OF _ du] by (auto simp: gate_moves_def)
  have "unat (gi_request_id (pr_gate u)) \<le> unat (gi_request_id (pr_gate s)) + 1" using m request_bound [OF _ r, of d u] by blast
  then have u: "unat (gi_request_id (pr_gate u)) + length es < 2 ^ 64 - 1" using Cons.prems(5) by simp
  have id: "ri_revision (pr_identity u) = 1" "pr_mission u = pr_mission s"
    using m Cons.prems(3) by (auto simp: gate_kept_def gate_accepted_def)
  have next_ok: "\<exists>j. gates_ok j u \<and> accepted_gates [d] = [k..<j] \<and> k \<le> j"
    using m gates_kept [OF Cons.prems(2)] gates_accepted [OF Cons.prems(2) _ _ not_u64_max [OF r]]
    by (auto simp: accepted_gates_def List.map_filter_simps intro: exI [of _ k] exI [of _ "k + 1"])
  then obtain j where j: "gates_ok j u" "accepted_gates [d] = [k..<j]" "k \<le> j" by blast
  from Cons.IH [OF ds(1) j(1) id(1) _ u] Cons.prems(4) obtain k' where
    k': "j \<le> k'" "accepted_gates ds' = [j..<k']" "gates_ok k' t" "pr_mission t = pr_mission u" by auto
  have "[k..<j] @ [j..<k'] = [k..<k']" using j(3) k'(1) upt_add_eq_append [of k j "k' - j"] by simp
  moreover have "accepted_gates ds = accepted_gates [d] @ accepted_gates ds'"
    by (simp add: accepted_gates_def ds(2) List.map_filter_simps split: option.split)
  ultimately show ?case using j(2,3) id(2) k' by (intro exI [of _ k']) simp
qed

text \<open>
  C14. The waypoints of a mission are accepted one after the other, in order and none twice, whatever samples,
  continuation witnesses, activations and localization resets arrive: the gates reported as accepted are
  the first \<open>k\<close> waypoints, the gate in force is the next one, and the mission is complete exactly when all
  of them have been accepted. (One route revision, and fewer calls than request identifiers.)
\<close>

theorem waypoints_accepted_in_order:
  assumes "makeMissionProgress eg mission = Inr s" "mission_run eg events s = (decisions, t)"
    and "\<forall>revision epoch. EvReset revision epoch \<in> set events \<longrightarrow> revision = 1" "length events < 2 ^ 64 - 1"
  shows "\<exists>k \<le> length (ms_waypoints mission). accepted_gates decisions = [0..<k] \<and>
    (k < length (ms_waypoints mission) \<longrightarrow> gate_index (pr_gate t) = k) \<and>
    (progress_complete t \<longleftrightarrow> k = length (ms_waypoints mission))"
proof -
  from assms(1) have s: "pr_mission s = mission" "mission_valid mission" "ri_revision (pr_identity s) = 1" "pr_accepted s = None"
    "gi_waypoint_index (pr_gate s) = 0" "gi_request_id (pr_gate s) = 0"
    by (auto simp: makeMissionProgress_def split: sum.splits if_splits)
  have ok: "gates_ok 0 s" using s by (simp add: gates_ok_def mission_valid_iff Let_def)
  have "unat (gi_request_id (pr_gate s)) + length events < 2 ^ 64 - 1" using assms(4) s(6) by simp
  from run_in_order [OF assms(2) ok s(3) assms(3) this] obtain k where k: "accepted_gates decisions = [0..<k]" "gates_ok k t"
    "pr_mission t = mission" using s(1) by auto
  then show ?thesis using gates_complete [OF k(2)] by (intro exI [of _ k]) (auto simp: gates_ok_def Let_def)
qed

section \<open>Acceptance needs measured evidence\<close>

text \<open>
  Two measured samples show that the vehicle was at a waypoint, at distance \<open>e\<close>: the later one lies within the
  acceptance radius, or the segment between them passes the waypoint within the radius (up to the micrometre the
  swept test allows), in the direction of the incoming leg and with at most the crossing gap between the stamps.
\<close>

definition crossed ::
    "eigen \<Rightarrow> RouteProgress \<Rightarrow> nat \<Rightarrow> MissionMeasuredSample \<Rightarrow> MissionMeasuredSample \<Rightarrow> double \<Rightarrow> bool" where
  "crossed eg r i before after e \<longleftrightarrow>
     (let w = ro_waypoints r ! i; motion = vsub (sm_position after) (sm_position before)
      in isfinite e \<and>
        (e = eg_norm eg (vsub (sm_position after) (mw_position_enu w)) \<and> fp_le e (mw_acceptance_radius_m w) \<or>
         sm_source_stamp_ns before < sm_source_stamp_ns after \<and>
         sm_source_stamp_ns after - sm_source_stamp_ns before \<le> kMaximumCrossingSampleGapNs \<and>
         (\<exists>incoming. incomingTangent r i = Some incoming \<and> \<not> fp_le (eg_dot eg motion incoming) micro) \<and>
         segmentDistanceToPoint eg (sm_position before) (sm_position after) (mw_position_enu w) = Some e \<and>
         \<not> fp_less (dadd (mw_acceptance_radius_m w) micro) e))"

lemma crossed_frame:
  "ro_waypoints r' = ro_waypoints r \<Longrightarrow> ro_segments r' = ro_segments r \<Longrightarrow> crossed eg r' i before after e = crossed eg r i before after e"
  by (simp add: crossed_def incomingTangent_def)

lemma sample_crossing_crossed:
  assumes "sample_crossing_error eg sample prior s = Some e"
    and "\<And>p. prior = Some p \<Longrightarrow> sm_source_stamp_ns p < sm_source_stamp_ns sample"
  shows "gate_index (pr_gate s) < length (ro_waypoints (pr_measured_route s)) \<and>
    crossed eg (pr_measured_route s) (gate_index (pr_gate s)) (case prior of None \<Rightarrow> sample | Some p \<Rightarrow> p) sample e"
proof -
  have seg: "isfinite d" if "segmentDistanceToPoint eg a b c = Some d" for a b c d
    using that by (auto simp: segmentDistanceToPoint_def Let_def split: if_splits)
  from assms show ?thesis
    unfolding sample_crossing_error_def measuredWaypointCrossingError_def crossed_def Let_def
    by (cases prior) (auto dest: seg split: if_splits option.splits)
qed

text \<open>
  The samples the owner still refers to were measured (\<open>S\<close> is the set of samples delivered so far) under the
  current localization epoch, and a stored crossing was shown by its two samples for the gate in force.
\<close>

definition crossing_ok :: "eigen \<Rightarrow> MissionMeasuredSample set \<Rightarrow> MissionProgress \<Rightarrow> bool" where
  "crossing_ok eg S s \<longleftrightarrow> ro_waypoints (pr_measured_route s) = ms_waypoints (pr_mission s) \<and>
     (\<forall>p. pr_previous s = Some p \<longrightarrow> p \<in> S \<and> sm_localization_epoch p = ri_localization_epoch (pr_identity s)) \<and>
     (\<forall>c. pr_crossing s = Some c \<longrightarrow> xw_gate c = pr_gate s \<and> xw_route c = pr_identity s \<and> gi_request_id (pr_gate s) \<noteq> 0 \<and>
        gate_index (pr_gate s) < length (ms_waypoints (pr_mission s)) \<and> xw_before c \<in> S \<and> xw_after c \<in> S \<and>
        sm_localization_epoch (xw_before c) = ri_localization_epoch (pr_identity s) \<and>
        sm_localization_epoch (xw_after c) = ri_localization_epoch (pr_identity s) \<and>
        crossed eg (pr_measured_route s) (gate_index (pr_gate s)) (xw_before c) (xw_after c) (xw_crossing_error_m c))"

lemma crossing_ok_mono: "crossing_ok eg S s \<Longrightarrow> S \<subseteq> T \<Longrightarrow> crossing_ok eg T s"
  unfolding crossing_ok_def by blast

lemma route_update_waypoints [simp]: "ro_waypoints (route_update eg pos r) = ro_waypoints r"
  "ro_segments (route_update eg pos r) = ro_segments r"
  by (simp_all add: route_update_def Let_def)

lemma accept_crossing:
  "mission_accept e v s = (d, t) \<Longrightarrow> pr_crossing t = None \<and> pr_mission t = pr_mission s \<and>
     pr_measured_route t = pr_measured_route s \<and> pr_previous t = pr_previous s \<and> pr_identity t = pr_identity s"
  by (auto simp: mission_accept_def Let_def split: if_splits)

lemma accept_crossing_ok: "mission_accept e v s = (d, t) \<Longrightarrow> crossing_ok eg S s \<Longrightarrow> crossing_ok eg S t"
  by (drule accept_crossing) (simp add: crossing_ok_def)

lemma crossing_okD:
  assumes "crossing_ok eg S s" "pr_crossing s = Some c"
  shows "xw_gate c = pr_gate s" "xw_route c = pr_identity s" "gi_request_id (pr_gate s) \<noteq> 0"
    "gate_index (pr_gate s) < length (ms_waypoints (pr_mission s))" "xw_before c \<in> S" "xw_after c \<in> S"
    "sm_localization_epoch (xw_before c) = ri_localization_epoch (pr_identity s)"
    "sm_localization_epoch (xw_after c) = ri_localization_epoch (pr_identity s)"
    "crossed eg (pr_measured_route s) (gate_index (pr_gate s)) (xw_before c) (xw_after c) (xw_crossing_error_m c)"
  using assms unfolding crossing_ok_def by blast+

lemma crossing_ok_frame:
  assumes "crossing_ok eg S s" "same_gate_state s t" "ro_waypoints (pr_measured_route t) = ro_waypoints (pr_measured_route s)"
    and "ro_segments (pr_measured_route t) = ro_segments (pr_measured_route s)"
    and c: "pr_crossing t = None \<or> pr_crossing t = pr_crossing s"
    and p: "pr_previous t = pr_previous s \<or> pr_previous t = None \<or>
      (\<exists>p. pr_previous t = Some p \<and> p \<in> S \<and> sm_localization_epoch p = ri_localization_epoch (pr_identity s))"
  shows "crossing_ok eg S t"
proof -
  have same: "pr_mission t = pr_mission s" "pr_gate t = pr_gate s" "pr_identity t = pr_identity s"
    using assms(2) by (simp_all add: same_gate_state_def)
  have w: "ro_waypoints (pr_measured_route s) = ms_waypoints (pr_mission s)"
    "\<forall>p. pr_previous s = Some p \<longrightarrow> p \<in> S \<and> sm_localization_epoch p = ri_localization_epoch (pr_identity s)"
    using assms(1) unfolding crossing_ok_def by blast+
  have x: "pr_crossing t = Some c \<Longrightarrow> pr_crossing s = Some c" for c using c by auto
  have "\<forall>p. pr_previous t = Some p \<longrightarrow> p \<in> S \<and> sm_localization_epoch p = ri_localization_epoch (pr_identity s)"
    using w(2) p by auto
  then show ?thesis
    unfolding crossing_ok_def same crossed_frame [OF assms(3,4)] assms(3) using w(1) crossing_okD [OF assms(1) x] by blast
qed

lemma record_crossing_cases:
  "record_crossing eg sample prior cursor rc s = s \<or>
   (\<exists>c. sample_crossing_error eg sample prior s = Some (xw_crossing_error_m c) \<and>
      record_crossing eg sample prior cursor rc s = s\<lparr>pr_crossing := Some c\<rparr> \<and> xw_gate c = pr_gate s \<and> xw_route c = pr_identity s \<and>
      xw_before c = (case prior of None \<Rightarrow> sample | Some p \<Rightarrow> p) \<and> xw_after c = sample)"
proof (cases "rg_backtracking_exceeded (ro_state (pr_measured_route s)) \<or> rc")
  case True
  then show ?thesis by (auto simp: record_crossing_def Let_def)
next
  case False
  show ?thesis
  proof (cases "sample_crossing_error eg sample prior s")
    case None
    then show ?thesis by (simp add: record_crossing_def Let_def)
  next
    case (Some e)
    with False show ?thesis
      by (intro disjI2 exI [of _ "\<lparr>xw_route = pr_identity s, xw_gate = pr_gate s,
          xw_before = (case prior of None \<Rightarrow> sample | Some p \<Rightarrow> p), xw_after = sample, xw_before_cursor = cursor,
          xw_after_cursor = rg_projection (ro_state (pr_measured_route s)), xw_crossing_error_m = e\<rparr>"])
        (simp add: record_crossing_def Let_def)
  qed
qed

text \<open>A sample delivered in order after the previous one, and both under the current epoch.\<close>

definition ordered_sample :: "MissionMeasuredSample set \<Rightarrow> MissionMeasuredSample \<Rightarrow> MissionMeasuredSample option \<Rightarrow> MissionProgress \<Rightarrow> bool" where
  "ordered_sample S sample prior s \<longleftrightarrow> sample \<in> S \<and> sm_localization_epoch sample = ri_localization_epoch (pr_identity s) \<and>
     (\<forall>p. prior = Some p \<longrightarrow> p \<in> S \<and> sm_localization_epoch p = ri_localization_epoch (pr_identity s) \<and>
        sm_source_stamp_ns p < sm_source_stamp_ns sample)"

lemma record_crossing_ok:
  assumes "crossing_ok eg S s" "gi_request_id (pr_gate s) \<noteq> 0" "ordered_sample S sample prior s"
  shows "crossing_ok eg S (record_crossing eg sample prior cursor rc s)"
  using record_crossing_cases [of eg sample prior cursor rc s]
proof (elim disjE exE conjE)
  fix c
  assume m: "sample_crossing_error eg sample prior s = Some (xw_crossing_error_m c)"
    and c: "record_crossing eg sample prior cursor rc s = s\<lparr>pr_crossing := Some c\<rparr>" "xw_gate c = pr_gate s" "xw_route c = pr_identity s"
      "xw_before c = (case prior of None \<Rightarrow> sample | Some p \<Rightarrow> p)" "xw_after c = sample"
  have o: "xw_before c \<in> S" "xw_after c \<in> S" "sm_localization_epoch (xw_before c) = ri_localization_epoch (pr_identity s)"
    "sm_localization_epoch (xw_after c) = ri_localization_epoch (pr_identity s)"
    using assms(3) c(4,5) by (auto simp: ordered_sample_def split: option.splits)
  have "crossed eg (pr_measured_route s) (gate_index (pr_gate s)) (xw_before c) (xw_after c) (xw_crossing_error_m c)"
    "gate_index (pr_gate s) < length (ro_waypoints (pr_measured_route s))"
    using sample_crossing_crossed [OF m] assms(3) c(4,5) by (auto simp: ordered_sample_def)
  with o c(1-3) assms(1,2) show ?thesis by (simp add: crossing_ok_def)
qed (use assms in simp)

lemma pass_through_crossing_ok:
  assumes "crossing_ok eg S s" "pass_through_step eg sample now_ns w s = (d, t)"
  shows "crossing_ok eg S t"
  using pass_through_cases [of eg sample now_ns w s]
proof (elim disjE exE conjE)
  fix c assume "pass_through_step eg sample now_ns w s = mission_accept (xw_crossing_error_m c) (eg_norm eg (sm_velocity sample)) s"
  with assms(2) have "mission_accept (xw_crossing_error_m c) (eg_norm eg (sm_velocity sample)) s = (d, t)" by simp
  then show ?thesis using assms(1) by (rule accept_crossing_ok)
qed (use assms in simp)

lemma stop_crossing_ok:
  assumes "crossing_ok eg S s" "stop_step eg sample now_ns w s = (d, t)"
  shows "crossing_ok eg S t"
proof -
  have ok: "crossing_ok eg S (s\<lparr>pr_stop_confirmation_start_ns := a, pr_stop_hold_start_ns := b\<rparr>)" for a b
    by (rule crossing_ok_frame [OF assms(1)]) (simp_all add: same_gate_state_def)
  from stop_cases [of eg sample now_ns w s] show ?thesis
  proof (elim disjE exE conjE)
    fix a b assume "stop_step eg sample now_ns w s = mission_accept (eg_norm eg (vsub (sm_position sample) (mw_position_enu w)))
      (eg_norm eg (sm_velocity sample)) (s\<lparr>pr_stop_confirmation_start_ns := Some a, pr_stop_hold_start_ns := Some b\<rparr>)"
    with assms(2) have "mission_accept (eg_norm eg (vsub (sm_position sample) (mw_position_enu w)))
      (eg_norm eg (sm_velocity sample)) (s\<lparr>pr_stop_confirmation_start_ns := Some a, pr_stop_hold_start_ns := Some b\<rparr>) = (d, t)" by simp
    then show ?thesis by (rule accept_crossing_ok) (rule ok)
  qed (use assms(2) ok in simp)
qed

text \<open>What an accepting call has shown of the gate in force; \<open>S\<close> holds the samples delivered up to and with the call.\<close>

definition accepted_on_evidence ::
    "eigen \<Rightarrow> MissionMeasuredSample set \<Rightarrow> mission_event \<Rightarrow> MissionProgressDecision \<Rightarrow> MissionGateIdentity \<Rightarrow> MissionProgress \<Rightarrow> bool" where
  "accepted_on_evidence eg S e d g s \<longleftrightarrow>
     g = pr_gate s \<and> gate_index g < length (ms_waypoints (pr_mission s)) \<and> pr_active s \<and> \<not> progress_complete s \<and>
     ro_waypoints (pr_measured_route s) = ms_waypoints (pr_mission s) \<and>
     (let w = ms_waypoints (pr_mission s) ! gate_index g
      in if mw_behavior w = PassThrough
         then \<exists>before after. before \<in> S \<and> after \<in> S \<and> sm_localization_epoch before = ri_localization_epoch (pr_identity s) \<and>
           sm_localization_epoch after = ri_localization_epoch (pr_identity s) \<and>
           crossed eg (pr_measured_route s) (gate_index g) before after (md_acceptance_error_m d)
         else \<exists>sample now_ns a b. e = EvMeasured sample now_ns \<and> stop_evidence eg sample now_ns w a b s)"

lemma accept_decision:
  "mission_accept e v s = (d, t) \<Longrightarrow> md_accepted d = Some g \<Longrightarrow> g = pr_gate s \<and> md_acceptance_error_m d = e"
  by (auto simp: mission_accept_def Let_def split: if_splits)

lemma inside_waypoints: "ro_waypoints r = ro_waypoints r' \<Longrightarrow> insideAcceptance eg r i p = insideAcceptance eg r' i p"
  by (simp add: insideAcceptance_def)

lemma stop_evidence_frame:
  "same_gate_state s s' \<Longrightarrow> ro_waypoints (pr_measured_route s') = ro_waypoints (pr_measured_route s) \<Longrightarrow>
   pr_continuation s' = pr_continuation s \<Longrightarrow> pr_stop_confirmation_start_ns s' = pr_stop_confirmation_start_ns s \<Longrightarrow>
   pr_stop_hold_start_ns s' = pr_stop_hold_start_ns s \<Longrightarrow> stop_evidence eg sample now w a b s' = stop_evidence eg sample now w a b s"
  by (simp add: stop_evidence_def same_gate_state_def continuationMatches_def
      inside_waypoints [of "pr_measured_route s'" "pr_measured_route s"] cong: option.case_cong)

lemma pass_through_evidence:
  assumes "crossing_ok eg S s" "pass_through_step eg sample now_ns w s = (d, t)" "md_accepted d = Some g"
  shows "g = pr_gate s \<and> (\<exists>before after. before \<in> S \<and> after \<in> S \<and>
    sm_localization_epoch before = ri_localization_epoch (pr_identity s) \<and>
    sm_localization_epoch after = ri_localization_epoch (pr_identity s) \<and>
    crossed eg (pr_measured_route s) (gate_index (pr_gate s)) before after (md_acceptance_error_m d))"
  using pass_through_cases [of eg sample now_ns w s]
proof (elim disjE exE conjE)
  fix c assume c: "pr_crossing s = Some c"
    and "pass_through_step eg sample now_ns w s = mission_accept (xw_crossing_error_m c) (eg_norm eg (sm_velocity sample)) s"
  with assms(2) have "mission_accept (xw_crossing_error_m c) (eg_norm eg (sm_velocity sample)) s = (d, t)" by simp
  from accept_decision [OF this assms(3)] crossing_okD [OF assms(1) c] show ?thesis by auto
qed (use assms in simp)

lemma stop_accept_evidence:
  assumes "stop_step eg sample now_ns w s = (d, t)" "md_accepted d = Some g"
  shows "g = pr_gate s \<and> (\<exists>a b. stop_evidence eg sample now_ns w a b s)"
  using stop_cases [of eg sample now_ns w s]
proof (elim disjE exE conjE)
  fix a b assume ev: "stop_evidence eg sample now_ns w a b s"
    and "stop_step eg sample now_ns w s = mission_accept (eg_norm eg (vsub (sm_position sample) (mw_position_enu w)))
      (eg_norm eg (sm_velocity sample)) (s\<lparr>pr_stop_confirmation_start_ns := Some a, pr_stop_hold_start_ns := Some b\<rparr>)"
  with assms(1) have "mission_accept (eg_norm eg (vsub (sm_position sample) (mw_position_enu w)))
      (eg_norm eg (sm_velocity sample)) (s\<lparr>pr_stop_confirmation_start_ns := Some a, pr_stop_hold_start_ns := Some b\<rparr>) = (d, t)" by simp
  from accept_decision [OF this assms(2)] ev show ?thesis by auto
qed (use assms in simp)

lemma ordered_evidence:
  assumes "crossing_ok eg S s" "observe_ordered eg sample now s = (d, t)" "\<not> progress_complete s"
    and "ordered_sample S sample (pr_previous s) s"
  shows "crossing_ok eg S t \<and> (md_accepted d = Some g \<longrightarrow> accepted_on_evidence eg S (EvMeasured sample now) d g s)"
proof -
  define route where "route = route_update eg (sm_position sample) (pr_measured_route s)"
  define s1 where "s1 = s\<lparr>pr_measured_route := route, pr_previous := Some sample, pr_latest := Some sample\<rparr>"
  define rc where "rc = reverse_motion eg sample (pr_previous s) s1"
  define s2 where "s2 = (if rg_backtracking_exceeded (ro_state route) \<or> rc then s1\<lparr>pr_crossing := None\<rparr> else s1)"
  have s2: "same_gate_state s s2" "ro_waypoints (pr_measured_route s2) = ro_waypoints (pr_measured_route s)"
    "pr_continuation s2 = pr_continuation s" "pr_stop_confirmation_start_ns s2 = pr_stop_confirmation_start_ns s"
    "pr_stop_hold_start_ns s2 = pr_stop_hold_start_ns s" "pr_active s2 = pr_active s"
    and segs: "ro_segments (pr_measured_route s2) = ro_segments (pr_measured_route s)" and prev: "pr_previous s2 = Some sample"
    by (simp_all add: s2_def s1_def route_def same_gate_state_def)
  have "pr_crossing s2 = None \<or> pr_crossing s2 = pr_crossing s" by (simp add: s2_def s1_def)
  with crossing_ok_frame [OF assms(1) s2(1,2) segs] prev assms(4) have ok: "crossing_ok eg S s2"
    by (simp add: ordered_sample_def)
  note same = s2(1) [unfolded same_gate_state_def]
  have ord: "ordered_sample S sample (pr_previous s) s2" using assms(4) same by (simp add: ordered_sample_def)
  have wps: "ro_waypoints (pr_measured_route s) = ms_waypoints (pr_mission s)" using assms(1) by (simp add: crossing_ok_def)
  note unfolded = assms(2) [unfolded observe_ordered_def Let_def, folded route_def, folded s1_def, folded rc_def, folded s2_def]
  let ?w = "ms_waypoints (pr_mission s2) ! gate_index (pr_gate s2)"
  consider "\<not> pr_active s2" | "pr_active s2" "gi_request_id (pr_gate s2) = 0"
    | "pr_active s2" "gi_request_id (pr_gate s2) \<noteq> 0" "gate_index (pr_gate s2) \<ge> length (ms_waypoints (pr_mission s2))"
    | "pr_active s2" "gi_request_id (pr_gate s2) \<noteq> 0" "\<not> gate_index (pr_gate s2) \<ge> length (ms_waypoints (pr_mission s2))"
      "mw_behavior ?w = PassThrough"
    | "pr_active s2" "gi_request_id (pr_gate s2) \<noteq> 0" "\<not> gate_index (pr_gate s2) \<ge> length (ms_waypoints (pr_mission s2))"
      "mw_behavior ?w \<noteq> PassThrough" by blast
  then show ?thesis
  proof cases
    case 2
    with ok have "pr_crossing s2 = None" by (cases "pr_crossing s2") (auto simp: crossing_ok_def)
    with unfolded 2 ok show ?thesis by (auto simp: crossing_ok_def goal_decision_def no_decision_def)
  next
    case 4
    let ?s3 = "record_crossing eg sample (pr_previous s) (rg_projection (ro_state (pr_measured_route s))) rc s2"
    from unfolded 4 have step: "pass_through_step eg sample now ?w ?s3 = (d, t)" by simp
    have ok3: "crossing_ok eg S ?s3" by (rule record_crossing_ok [OF ok 4(2) ord])
    have f: "pr_gate ?s3 = pr_gate s" "pr_identity ?s3 = pr_identity s"
      using record_crossing_frame [of s2 eg sample "pr_previous s" "rg_projection (ro_state (pr_measured_route s))" rc] same
      by (simp_all add: same_gate_state_def)
    have "pr_measured_route ?s3 = pr_measured_route s2" by (auto simp: record_crossing_def Let_def split: option.split)
    then have cr: "crossed eg (pr_measured_route ?s3) i b a e = crossed eg (pr_measured_route s) i b a e" for i b a e
      using crossed_frame [OF s2(2) segs] by simp
    show ?thesis
    proof (intro conjI impI)
      show "crossing_ok eg S t" by (rule pass_through_crossing_ok [OF ok3 step])
      assume "md_accepted d = Some g"
      note ev = pass_through_evidence [OF ok3 step this, unfolded f cr]
      then have "g = pr_gate s" by blast
      with ev same 4 s2(6) assms(3) wps show "accepted_on_evidence eg S (EvMeasured sample now) d g s"
        unfolding accepted_on_evidence_def Let_def by simp
    qed
  next
    case 5
    with unfolded have step: "stop_step eg sample now ?w s2 = (d, t)" by simp
    from stop_accept_evidence [OF step] stop_evidence_frame [OF s2(1-5)] same 5 s2(6) assms(3) wps stop_crossing_ok [OF ok step]
    show ?thesis by (auto simp: accepted_on_evidence_def)
  qed (use unfolded ok in auto)
qed

lemma evidence_frame:
  assumes "accepted_on_evidence eg S e d g (s\<lparr>pr_crossing := c, pr_previous := p\<rparr>)"
  shows "accepted_on_evidence eg S e d g s"
proof -
  let ?t = "s\<lparr>pr_crossing := c, pr_previous := p\<rparr>"
  have st: "stop_evidence eg sample now w a b ?t = stop_evidence eg sample now w a b s" for sample now w a b
    by (rule stop_evidence_frame) (simp_all add: same_gate_state_def)
  have pc: "progress_complete ?t = progress_complete s" by (simp add: progress_complete_def split: option.split)
  have frame: "pr_gate ?t = pr_gate s" "pr_mission ?t = pr_mission s" "pr_active ?t = pr_active s" "pr_identity ?t = pr_identity s"
    "pr_measured_route ?t = pr_measured_route s" by simp_all
  show ?thesis using assms unfolding accepted_on_evidence_def st pc frame .
qed

text \<open>A measured sample is ignored, drops the crossing, or is observed after the previous one, or without one.\<close>

lemma measured_cases:
  "observeMeasured eg sample now s = (no_decision, s) \<or>
   observeMeasured eg sample now s = (no_decision, s\<lparr>pr_crossing := None, pr_previous := None\<rparr>) \<or>
   \<not> progress_complete s \<and> sm_localization_epoch sample = ri_localization_epoch (pr_identity s) \<and>
     (\<forall>p. pr_previous s = Some p \<longrightarrow> sm_source_stamp_ns p < sm_source_stamp_ns sample) \<and>
     observeMeasured eg sample now s = observe_ordered eg sample now s \<or>
   \<not> progress_complete s \<and> sm_localization_epoch sample = ri_localization_epoch (pr_identity s) \<and>
     observeMeasured eg sample now s = observe_ordered eg sample now (s\<lparr>pr_crossing := None, pr_previous := None\<rparr>)"
  by (cases "pr_previous s") (simp_all add: observeMeasured_def not_le)

lemma measured_evidence:
  assumes "crossing_ok eg S s" "observeMeasured eg sample now s = (d, t)" "sample \<in> S"
  shows "crossing_ok eg S t \<and> (md_accepted d = Some g \<longrightarrow> accepted_on_evidence eg S (EvMeasured sample now) d g s)"
proof -
  let ?s = "s\<lparr>pr_crossing := None, pr_previous := None\<rparr>"
  have ok: "crossing_ok eg S ?s" using assms(1) by (simp add: crossing_ok_def)
  have pc: "progress_complete ?s = progress_complete s" by (simp add: progress_complete_def split: option.split)
  show ?thesis
    using measured_cases [of eg sample now s]
  proof (elim disjE conjE, goal_cases)
    case 1
    then show ?thesis using assms(1,2) by simp
  next
    case 2
    then show ?thesis using assms(2) ok by (auto simp only: no_decision_simps option.distinct prod.inject)
  next
    case 3
    then have "ordered_sample S sample (pr_previous s) s"
      using assms(1,3) by (simp add: ordered_sample_def crossing_ok_def)
    moreover have "observe_ordered eg sample now s = (d, t)" using 3(4) assms(2) by simp
    ultimately show ?thesis using ordered_evidence [OF assms(1) _ 3(1)] by blast
  next
    case 4
    then have "ordered_sample S sample (pr_previous ?s) ?s" using assms(3) by (simp add: ordered_sample_def)
    moreover have "observe_ordered eg sample now ?s = (d, t)" "\<not> progress_complete ?s" using 4 pc assms(2) by simp_all
    ultimately show ?thesis using ordered_evidence [OF ok] evidence_frame by blast
  qed
qed

lemma continuation_evidence:
  assumes "crossing_ok eg S s" "observeContinuation eg w now s = (d, t)"
  shows "crossing_ok eg S t \<and> (md_accepted d = Some g \<longrightarrow> accepted_on_evidence eg S (EvContinuation w now) d g s)"
  using continuation_cases [of eg w now s]
proof (elim disjE exE conjE)
  fix k assume "observeContinuation eg w now s = (no_decision, s\<lparr>pr_continuation := k\<rparr>)"
  with assms(2) have "d = no_decision" and t: "t = s\<lparr>pr_continuation := k\<rparr>" by auto
  moreover have "crossing_ok eg S t" unfolding t
    by (rule crossing_ok_frame [OF assms(1)]) (simp_all add: same_gate_state_def)
  ultimately show ?thesis by simp
next
  fix c assume c: "pr_crossing s = Some c" "gate_index (pr_gate s) < length (ms_waypoints (pr_mission s))"
    "mw_behavior (ms_waypoints (pr_mission s) ! gate_index (pr_gate s)) = PassThrough" "\<not> continuation_rejected w now s"
    "observeContinuation eg w now s = mission_accept (xw_crossing_error_m c) (eg_norm eg (sm_velocity (xw_after c)))
       (s\<lparr>pr_continuation := Some w\<rparr>)"
  then have a: "mission_accept (xw_crossing_error_m c) (eg_norm eg (sm_velocity (xw_after c))) (s\<lparr>pr_continuation := Some w\<rparr>) = (d, t)"
    using assms(2) by simp
  have "crossing_ok eg S (s\<lparr>pr_continuation := Some w\<rparr>)"
    by (rule crossing_ok_frame [OF assms(1)]) (simp_all add: same_gate_state_def)
  with a have "crossing_ok eg S t" by (rule accept_crossing_ok)
  moreover have "accepted_on_evidence eg S (EvContinuation w now) d g s" if "md_accepted d = Some g"
  proof -
    have "g = pr_gate s" "md_acceptance_error_m d = xw_crossing_error_m c" using accept_decision [OF a that] by simp_all
    moreover have "ro_waypoints (pr_measured_route s) = ms_waypoints (pr_mission s)" using assms(1) by (simp add: crossing_ok_def)
    ultimately show ?thesis
      using c(2-4) crossing_okD [OF assms(1) c(1)] unfolding accepted_on_evidence_def continuation_rejected_def Let_def by auto
  qed
  ultimately show ?thesis by blast
qed

lemma activate_crossing:
  "crossing_ok eg S s \<Longrightarrow> mission_activate s = (d, t) \<Longrightarrow> crossing_ok eg S t \<and> md_accepted d = None"
proof -
  assume ok: "crossing_ok eg S s" and act: "mission_activate s = (d, t)"
  from act have "t = s \<or> pr_crossing t = None \<and> pr_mission t = pr_mission s \<and> pr_measured_route t = pr_measured_route s \<and>
      pr_previous t = pr_previous s \<and> pr_identity t = pr_identity s"
    by (auto simp: mission_activate_def Let_def split: if_splits)
  moreover from act have "md_accepted d = None"
    by (auto simp: mission_activate_def goal_decision_def Let_def split: if_splits)
  ultimately show ?thesis using ok by (auto simp: crossing_ok_def)
qed

lemma reset_waypoints [simp]: "ro_waypoints (route_reset r) = ro_waypoints r"
  by (simp add: route_reset_def)

lemma reset_crossing: "crossing_ok eg S s \<Longrightarrow> resetIdentity revision epoch s = Some t \<Longrightarrow> crossing_ok eg S t"
proof -
  assume ok: "crossing_ok eg S s" and r: "resetIdentity revision epoch s = Some t"
  from r have "pr_crossing t = None" "pr_previous t = None" "pr_mission t = pr_mission s"
    "ro_waypoints (pr_measured_route t) = ro_waypoints (pr_measured_route s)"
    by (auto simp: resetIdentity_def Let_def split: if_splits)
  then show ?thesis using ok by (simp add: crossing_ok_def)
qed

fun event_samples :: "mission_event \<Rightarrow> MissionMeasuredSample set" where
  "event_samples (EvMeasured sample now_ns) = {sample}"
| "event_samples _ = {}"

definition delivered :: "mission_event list \<Rightarrow> MissionMeasuredSample set" where
  "delivered events = (\<Union>e \<in> set events. event_samples e)"

lemma apply_evidence:
  assumes "crossing_ok eg S s" "mission_apply eg e s = (d, t)"
  shows "crossing_ok eg (S \<union> event_samples e) t \<and>
    (md_accepted d = Some g \<longrightarrow> accepted_on_evidence eg (S \<union> event_samples e) e d g s)"
proof (cases e)
  case (EvReset revision epoch)
  with assms reset_crossing [OF assms(1)] show ?thesis by (auto split: option.splits)
next
  case EvDeactivate
  with assms show ?thesis by (auto simp: mission_deactivate_def crossing_ok_def)
next
  case EvActivate
  with assms(2) activate_crossing [OF assms(1)] show ?thesis by fastforce
next
  case (EvContinuation w now)
  with assms(2) show ?thesis using continuation_evidence [OF assms(1), of w now d t g] by simp
next
  case (EvMeasured sample now)
  have "crossing_ok eg (S \<union> {sample}) s" using assms(1) by (rule crossing_ok_mono) blast
  with EvMeasured assms(2) show ?thesis using measured_evidence [of eg "S \<union> {sample}" s sample now d t g] by simp
qed

lemma make_crossing_ok: "makeMissionProgress eg mission = Inr s \<Longrightarrow> crossing_ok eg S s"
  by (auto simp: makeMissionProgress_def makeRouteProgress_def crossing_ok_def Let_def split: sum.splits if_splits prod.splits)

lemma run_crossing_ok:
  "mission_run eg events s = (decisions, t) \<Longrightarrow> crossing_ok eg S s \<Longrightarrow> crossing_ok eg (S \<union> delivered events) t"
proof (induction events arbitrary: s S decisions)
  case (Cons e events)
  obtain d u where u: "mission_apply eg e s = (d, u)" by fastforce
  with Cons.prems(1) obtain ds where "mission_run eg events u = (ds, t)" by (auto split: prod.splits)
  from Cons.IH [OF this conjunct1 [OF apply_evidence [OF Cons.prems(2) u]]] show ?case by (simp add: delivered_def Un_assoc)
qed (simp add: delivered_def)


section \<open>A concrete mission\<close>

text \<open>
  The route starts under localization epoch 5; a first sample at the first waypoint validates the
  projection, the mission is activated, and the next sample crosses the first waypoint at rest.
\<close>

lemma half_literal: "dlit (1 / 2) = Fin (1 / 2)"
proof (rule b64.fround_exact)
  show "representable binary64 (1 / 2)"
    unfolding representable_def by (intro exI [of _ 1] exI [of _ "- 1"]) (simp add: binary64_def)
qed (simp add: binary64_def)

definition ex_progress_route :: RouteProgress where
  "ex_progress_route = ex_route\<lparr>ro_backtrack_tolerance_m := Fin (1 / 2)\<rparr>"

definition ex_progress :: MissionProgress where
  "ex_progress = \<lparr>pr_mission = ex_mission, pr_measured_route = ex_progress_route,
     pr_identity = \<lparr>ri_mission_id = ''m'', ri_revision = 1, ri_localization_epoch = 0\<rparr>,
     pr_gate = \<lparr>gi_waypoint_index = 0, gi_request_id = 0\<rparr>, pr_accepted = None, pr_previous = None, pr_crossing = None,
     pr_continuation = None, pr_latest = None, pr_stop_confirmation_start_ns = None, pr_stop_hold_start_ns = None,
     pr_active = False\<rparr>"

lemma ex_make: "makeMissionProgress ex_eigen ex_mission = Inr ex_progress"
proof -
  have "fp_less kMinimumSegmentLengthM (Fin 4)" unfolding kMinimumSegmentLengthM_def nano_literal by simp
  moreover have "ms_waypoints ex_mission = [ex_waypoint ''a'' 0 PassThrough, ex_waypoint ''b'' 4 Stop]" "ms_id ex_mission = ''m''"
    by (simp_all add: ex_mission_def)
  ultimately show ?thesis
    using ex_mission_valid
    by (simp add: makeMissionProgress_def makeRouteProgress_def waypoint_geometry_valid_def ex_waypoint_def vfinite_def vsub_def
        fp_sub_def ex_eigen_def fp_simps vdiv_def ex_route_def ex_segment_def vzero_def default_backtrack_tolerance_m_def
        half_literal ex_progress_def ex_progress_route_def Let_def)
qed

definition ex_sample :: "i64 \<Rightarrow> u64 \<Rightarrow> MissionMeasuredSample" where
  "ex_sample stamp n = \<lparr>sm_position = ex_position 0, sm_velocity = vzero, sm_source_stamp_ns = stamp, sm_sequence = n,
     sm_localization_epoch = 5\<rparr>"

definition ex_started :: "mission_event list" where
  "ex_started = [EvReset 1 5, EvMeasured (ex_sample 1000 1) 1000, EvActivate]"

definition ex_located :: RouteProgress where
  "ex_located = ex_progress_route\<lparr>ro_state := \<lparr>rg_valid = True, rg_backtracking_exceeded = False,
     rg_projection = projection_on 0 ex_segment (Fin 0) (Fin 0), rg_progress_arc_m = Fin 0\<rparr>\<rparr>"

lemmas ex_route_simps = route_update_def route_project_def ex_route_def ex_segment_def ex_mission_def vfinite_def raw_fraction_def
  ex_eigen_def vsub_def fp_sub_def fp_simps vzero_def fp_clamp_def segment_point_def vadd_def vscale_def keep_active_leg_def
  resolve_branch_def default_progress_state_def projection_on_def segment_arc_def ex_progress_route_def ex_located_def Let_def

lemma ex_locate: "route_update ex_eigen (ex_position 0) ex_progress_route = ex_located"
  by (simp add: ex_route_simps)

lemma ex_locate_again: "route_update ex_eigen (ex_position 0) ex_located = ex_located"
  by (simp add: ex_route_simps fp_max_def)

definition ex_active :: MissionProgress where
  "ex_active = ex_progress\<lparr>pr_identity := \<lparr>ri_mission_id = ''m'', ri_revision = 1, ri_localization_epoch = 5\<rparr>,
     pr_measured_route := ex_located, pr_previous := Some (ex_sample 1000 1), pr_latest := Some (ex_sample 1000 1),
     pr_gate := \<lparr>gi_waypoint_index = 0, gi_request_id = 1\<rparr>, pr_active := True\<rparr>"

lemma ex_run_started:
  "mission_run ex_eigen ex_started ex_progress =
     ([no_decision, no_decision, goal_decision \<lparr>gi_waypoint_index = 0, gi_request_id = 1\<rparr>], ex_active)"
proof -
  let ?s = "ex_progress\<lparr>pr_identity := \<lparr>ri_mission_id = ''m'', ri_revision = 1, ri_localization_epoch = 5\<rparr>\<rparr>"
  let ?t = "?s\<lparr>pr_measured_route := ex_located, pr_previous := Some (ex_sample 1000 1), pr_latest := Some (ex_sample 1000 1)\<rparr>"
  have "mission_apply ex_eigen (EvReset 1 5) ex_progress = (no_decision, ?s)"
    by (simp add: resetIdentity_def ex_progress_def route_reset_def ex_progress_route_def ex_route_def Let_def)
  moreover have "mission_apply ex_eigen (EvMeasured (ex_sample 1000 1) 1000) ?s = (no_decision, ?t)"
    by (simp add: observeMeasured_def observe_ordered_def ex_sample_def sample_valid_def vfinite_def vzero_def progress_complete_def
        ex_progress_def ex_locate reverse_motion_def ex_located_def Let_def)
  moreover have "mission_apply ex_eigen EvActivate ?t =
      (goal_decision \<lparr>gi_waypoint_index = 0, gi_request_id = 1\<rparr>, ex_active)"
    by (simp add: mission_activate_def ex_progress_def progress_complete_def ex_located_def ex_active_def Let_def)
  ultimately show ?thesis unfolding ex_started_def by (simp only: mission_run.simps Let_def prod.case)
qed

definition ex_cross :: mission_event where
  "ex_cross = EvMeasured (ex_sample 1100 2) 1100"

definition ex_decision :: MissionProgressDecision where
  "ex_decision = \<lparr>md_kind = DecisionGoal, md_gate = \<lparr>gi_waypoint_index = 1, gi_request_id = 2\<rparr>,
     md_accepted = Some \<lparr>gi_waypoint_index = 0, gi_request_id = 1\<rparr>, md_acceptance_error_m = Fin 0, md_acceptance_speed_mps = Fin 0\<rparr>"

lemma ex_crossing_error: "sample_crossing_error ex_eigen (ex_sample 1100 2) (Some (ex_sample 1000 1)) s = Some (Fin 0)"
  if "pr_measured_route s = ex_located" "gate_index (pr_gate s) = 0"
proof -
  have "\<not> fp_less micro (Fin 0)" by (simp add: micro_def tolerance_not_less)
  with that show ?thesis
    by (simp add: sample_crossing_error_def measuredWaypointCrossingError_def ordered_projection_def ex_waypoint_def ex_sample_def
        ex_route_simps)
qed

definition ex_observed :: MissionProgress where
  "ex_observed = ex_active\<lparr>pr_previous := Some (ex_sample 1100 2), pr_latest := Some (ex_sample 1100 2),
     pr_crossing := Some \<lparr>xw_route = pr_identity ex_active, xw_gate = pr_gate ex_active, xw_before = ex_sample 1000 1,
       xw_after = ex_sample 1100 2, xw_before_cursor = rg_projection (ro_state ex_located),
       xw_after_cursor = rg_projection (ro_state ex_located), xw_crossing_error_m = Fin 0\<rparr>\<rparr>"

lemma ex_observe:
  "mission_apply ex_eigen ex_cross ex_active =
     pass_through_step ex_eigen (ex_sample 1100 2) 1100 (ex_waypoint ''a'' 0 PassThrough) ex_observed"
proof -
  let ?s = "ex_active\<lparr>pr_previous := Some (ex_sample 1100 2), pr_latest := Some (ex_sample 1100 2)\<rparr>"
  have active: "pr_measured_route ex_active = ex_located" "pr_previous ex_active = Some (ex_sample 1000 1)" "pr_crossing ex_active = None"
    "pr_gate ex_active = \<lparr>gi_waypoint_index = 0, gi_request_id = 1\<rparr>" "pr_active ex_active" "pr_accepted ex_active = None"
    "ri_localization_epoch (pr_identity ex_active) = 5" "pr_mission ex_active = ex_mission"
    "ms_waypoints ex_mission = [ex_waypoint ''a'' 0 PassThrough, ex_waypoint ''b'' 4 Stop]"
    by (simp_all add: ex_active_def ex_progress_def ex_mission_def)
  have crossing: "sample_crossing_error ex_eigen (ex_sample 1100 2) (Some (ex_sample 1000 1)) ?s = Some (Fin 0)"
    using active by (intro ex_crossing_error) simp_all
  have update: "ex_active\<lparr>pr_measured_route := ex_located\<rparr> = ex_active" by (simp add: ex_active_def)
  have backtracking: "\<not> rg_backtracking_exceeded (ro_state ex_located)" by (simp add: ex_located_def)
  have "observe_ordered ex_eigen (ex_sample 1100 2) 1100 ex_active =
      pass_through_step ex_eigen (ex_sample 1100 2) 1100 (ex_waypoint ''a'' 0 PassThrough) ex_observed"
    using active crossing backtracking
    by (simp add: observe_ordered_def reverse_motion_def record_crossing_def update ex_locate_again ex_observed_def Let_def)
      (simp add: ex_sample_def ex_locate_again update ex_waypoint_def)
  moreover have "mission_apply ex_eigen ex_cross ex_active = observe_ordered ex_eigen (ex_sample 1100 2) 1100 ex_active"
    using active
    by (simp add: ex_cross_def observeMeasured_def sample_valid_def progress_complete_def ex_sample_def vfinite_def vzero_def
        kMaximumCrossingSampleGapNs_def word_le_nat_alt)
  ultimately show ?thesis by simp
qed

lemma ex_accepts: "\<exists>t. mission_apply ex_eigen ex_cross ex_active = (ex_decision, t)"
proof -
  have "pr_crossing ex_observed \<noteq> None" "pr_gate ex_observed = \<lparr>gi_waypoint_index = 0, gi_request_id = 1\<rparr>"
    "pr_mission ex_observed = ex_mission" "pr_continuation ex_observed = None"
    by (simp_all add: ex_observed_def ex_active_def ex_progress_def)
  moreover obtain c where "pr_crossing ex_observed = Some c" "xw_crossing_error_m c = Fin 0" by (simp add: ex_observed_def)
  moreover have "(1 :: u64) \<noteq> u64_max" by (simp add: u64_max_def)
  ultimately show ?thesis unfolding ex_observe
    by (simp add: pass_through_step_def ex_waypoint_def ex_mission_def ex_sample_def mission_accept_def ex_decision_def
        ex_eigen_def vzero_def vsub_def fp_sub_def fp_simps continuationMatches_def Let_def)
qed

theorem waypoints_accepted_in_order_witness:
  "\<exists>k \<le> 2. accepted_gates (fst (mission_run ex_eigen (ex_started @ [ex_cross]) ex_progress)) = [0..<k] \<and> k \<ge> 1"
proof -
  obtain t where t: "mission_apply ex_eigen ex_cross ex_active = (ex_decision, t)" using ex_accepts by blast
  have "mission_run eg (es @ [e]) s = (let (ds, u) = mission_run eg es s; (d, t) = mission_apply eg e u in (ds @ [d], t))"
    for eg es e s by (induction es arbitrary: s) (auto simp: Let_def split: prod.splits)
  with t ex_run_started have r: "mission_run ex_eigen (ex_started @ [ex_cross]) ex_progress =
      ([no_decision, no_decision, goal_decision \<lparr>gi_waypoint_index = 0, gi_request_id = 1\<rparr>, ex_decision], t)" by simp
  have one: "\<forall>revision epoch. EvReset revision epoch \<in> set (ex_started @ [ex_cross]) \<longrightarrow> revision = 1"
    by (simp add: ex_started_def ex_cross_def)
  have "length (ex_started @ [ex_cross]) < 2 ^ 64 - 1" by (simp add: ex_started_def)
  moreover have len: "length (ms_waypoints ex_mission) = 2" by (simp add: ex_mission_def)
  ultimately obtain k where k: "k \<le> 2"
    "accepted_gates [no_decision, no_decision, goal_decision \<lparr>gi_waypoint_index = 0, gi_request_id = 1\<rparr>, ex_decision] = [0..<k]"
    using waypoints_accepted_in_order [OF ex_make r one, unfolded len] by blast
  moreover have "accepted_gates [no_decision, no_decision, goal_decision \<lparr>gi_waypoint_index = 0, gi_request_id = 1\<rparr>, ex_decision] = [0]"
    by (simp add: accepted_gates_def List.map_filter_simps goal_decision_def ex_decision_def)
  ultimately show ?thesis unfolding r by (intro exI [of _ k]) (cases k, auto)
qed


end
