(* ===== verification/World_Store.thy ===== *)
theory World_Store
  imports Authority_Properties
begin

text \<open>
  \<open>navigation_mapping/world_snapshot_store.hpp\<close>: the publication boundary between the owner of the mutable
  map and the planners that pin immutable views, and its composition with the execution authority in the
  mapping callback of the runtime, where the certificate transition runs as the finalizer of a publication.
\<close>

section \<open>The store\<close>

record WorldValidationLease =
  wl_view :: "WorldModelView ptr option"
  wl_identity :: WorldSnapshotIdentity

record WorldSnapshotStore =
  ws_latest :: "WorldModelView ptr option"

datatype store_error = NullSnapshot | InvalidWorldIdentity | NotMonotonic

definition strictlyAdvances :: "WorldSnapshotIdentity \<Rightarrow> WorldSnapshotIdentity \<Rightarrow> bool" where
  "strictlyAdvances current next_id =
     (if wid_localization_epoch next_id \<noteq> wid_localization_epoch current
      then wid_localization_epoch next_id > wid_localization_epoch current
      else if wid_generation next_id \<noteq> wid_generation current
      then wid_generation next_id > wid_generation current
      else wid_revision next_id > wid_revision current \<and>
           wid_observation_stamp_ns next_id \<ge> wid_observation_stamp_ns current)"

text \<open>\<open>load\<close> and \<open>latest\<close> return the same pair, as a pin and as a validation lease.\<close>

definition world_latest :: "WorldSnapshotStore \<Rightarrow> WorldValidationLease" where
  "world_latest ws = \<lparr>wl_view = ws_latest ws,
     wl_identity = (case ws_latest ws of None \<Rightarrow> default_world_identity | Some v \<Rightarrow> view_identity (deref v))\<rparr>"

definition identity_publishable :: "WorldSnapshotIdentity \<Rightarrow> bool" where
  "identity_publishable identity \<longleftrightarrow>
     \<not> (wid_localization_epoch identity = 0 \<or> wid_generation identity = 0 \<or> wid_observation_stamp_ns identity < 0)"

text \<open>The checks both publication functions start with; \<open>Inr\<close> is the snapshot that may be stored.\<close>

definition publication_check :: "WorldModelView ptr option \<Rightarrow> WorldSnapshotStore \<Rightarrow> store_error + WorldModelView ptr" where
  "publication_check next_view ws =
     (case next_view of None \<Rightarrow> Inl NullSnapshot
      | Some v \<Rightarrow>
        if \<not> identity_publishable (view_identity (deref v)) then Inl InvalidWorldIdentity
        else if (case ws_latest ws of None \<Rightarrow> False
                 | Some current \<Rightarrow> \<not> strictlyAdvances (view_identity (deref current)) (view_identity (deref v)))
        then Inl NotMonotonic
        else Inr v)"

definition world_publish :: "WorldModelView ptr option \<Rightarrow> WorldSnapshotStore \<Rightarrow> store_error + WorldSnapshotStore" where
  "world_publish next_view ws =
     (case publication_check next_view ws of Inl e \<Rightarrow> Inl e | Inr v \<Rightarrow> Inr (ws\<lparr>ws_latest := Some v\<rparr>))"

text \<open>
  A finalizer runs on the state \<open>'s\<close> it captures. It returns a decision or a Boolean, as the overload has
  it, or throws.
\<close>

datatype finalize_result = FinalizedDecision WorldCommitDecision | FinalizedBool bool | FinalizeThrew

fun finalize_decision :: "finalize_result \<Rightarrow> WorldCommitDecision" where
  "finalize_decision (FinalizedDecision d) = d"
| "finalize_decision (FinalizedBool b) = (if b then WorldCommitted else WorldCancelled)"
| "finalize_decision FinalizeThrew = WorldCancelled"

definition publishAndFinalizeDecision ::
    "WorldModelView ptr option \<Rightarrow> ('s \<Rightarrow> finalize_result \<times> 's) \<Rightarrow> WorldSnapshotStore \<Rightarrow> 's \<Rightarrow>
     (store_error + WorldCommitDecision) \<times> WorldSnapshotStore \<times> 's" where
  "publishAndFinalizeDecision next_view finalize ws s =
     (case publication_check next_view ws of Inl e \<Rightarrow> (Inl e, ws, s)
      | Inr v \<Rightarrow>
        (case finalize s of (result, s') \<Rightarrow>
           if finalize_decision result \<noteq> WorldCommitted then (Inr (finalize_decision result), ws, s')
           else (Inr WorldCommitted, ws\<lparr>ws_latest := Some v\<rparr>, s')))"

definition publishAndFinalize ::
    "WorldModelView ptr option \<Rightarrow> ('s \<Rightarrow> finalize_result \<times> 's) \<Rightarrow> WorldSnapshotStore \<Rightarrow> 's \<Rightarrow>
     (store_error + bool) \<times> WorldSnapshotStore \<times> 's" where
  "publishAndFinalize next_view finalize ws s =
     (case publishAndFinalizeDecision next_view finalize ws s of
        (Inl e, ws', s') \<Rightarrow> (Inl e, ws', s')
      | (Inr d, ws', s') \<Rightarrow> (Inr (d = WorldCommitted), ws', s'))"

text \<open>A commit callback that throws leaves through the gate: \<open>None\<close>.\<close>

definition commit_outcome :: "bool option \<Rightarrow> WorldCommitDecision option" where
  "commit_outcome result = map_option (\<lambda>ok. if ok then WorldCommitted else WorldCancelled) result"

definition world_authorize ::
    "WorldSnapshotIdentity \<Rightarrow> ('s \<Rightarrow> bool option \<times> 's) \<Rightarrow> WorldSnapshotStore \<Rightarrow> 's \<Rightarrow> WorldCommitDecision option \<times> 's" where
  "world_authorize validated commit ws s =
     (case ws_latest ws of None \<Rightarrow> (Some WorldNoPublishedWorld, s)
      | Some v \<Rightarrow>
        if \<not> sameWorldSnapshotIdentity (view_identity (deref v)) validated then (Some WorldWorldAdvanced, s)
        else (case commit s of (result, s') \<Rightarrow> (commit_outcome result, s')))"

definition commitIfCurrent ::
    "WorldSnapshotIdentity \<Rightarrow> ('s \<Rightarrow> bool option \<times> 's) \<Rightarrow> WorldSnapshotStore \<Rightarrow> 's \<Rightarrow> WorldCommitDecision option \<times> 's" where
  "commitIfCurrent validated final_commit ws s = world_authorize validated final_commit ws s"

definition commitIfCurrentOrUnaffected ::
    "WorldSnapshotIdentity \<Rightarrow> AxisAlignedBox \<Rightarrow> (WorldValidationLease \<Rightarrow> 's \<Rightarrow> bool option \<times> 's) \<Rightarrow>
     WorldSnapshotStore \<Rightarrow> 's \<Rightarrow> WorldCommitDecision option \<times> 's" where
  "commitIfCurrentOrUnaffected validated region final_commit ws s =
     (case ws_latest ws of None \<Rightarrow> (Some WorldNoPublishedWorld, s)
      | Some v \<Rightarrow>
        let latest_identity = view_identity (deref v)
        in if \<not> sameWorldSnapshotIdentity latest_identity validated \<and>
              view_changedRegionIntersectsSince (deref v) validated region
           then (Some WorldWorldAdvanced, s)
           else (case final_commit \<lparr>wl_view = Some v, wl_identity = latest_identity\<rparr> s of
                   (result, s') \<Rightarrow> (commit_outcome result, s')))"

text \<open>The default of the interface \<open>WorldCommitAuthorizer\<close>, which knows no change history.\<close>

definition default_commitIfCurrentOrUnaffected ::
    "WorldSnapshotIdentity \<Rightarrow> AxisAlignedBox \<Rightarrow> (WorldValidationLease \<Rightarrow> 's \<Rightarrow> bool option \<times> 's) \<Rightarrow>
     WorldSnapshotStore \<Rightarrow> 's \<Rightarrow> WorldCommitDecision option \<times> 's" where
  "default_commitIfCurrentOrUnaffected validated region final_commit ws s =
     commitIfCurrent validated (final_commit (world_latest ws)) ws s"

lemma strictlyAdvances_eq: "strictlyAdvances = advances"
  by (intro ext) (simp add: strictlyAdvances_def advances_def)

lemma publication_check_Inr:
  "publication_check next_view ws = Inr v \<Longrightarrow> next_view = Some v \<and> identity_publishable (view_identity (deref v)) \<and>
     (\<forall>c. ws_latest ws = Some c \<longrightarrow> advances (view_identity (deref c)) (view_identity (deref v)))"
  by (auto simp: publication_check_def strictlyAdvances_eq split: option.splits if_splits)

section \<open>Commits against the published world\<close>

text \<open>
  The operations that hold the publication gate, in any order and by any thread: publications, publications
  with a finalizer, and authorized commits. The state the callbacks capture is the second component.
\<close>

inductive gate_step :: "WorldSnapshotStore \<times> 's \<Rightarrow> WorldSnapshotStore \<times> 's \<Rightarrow> bool" where
  gate_publish: "world_publish next_view ws = Inr ws' \<Longrightarrow> gate_step (ws, s) (ws', s)"
| gate_finalize: "publishAndFinalizeDecision next_view finalize ws s = (r, ws', s') \<Longrightarrow> gate_step (ws, s) (ws', s')"
| gate_authorize: "commitIfCurrent validated commit ws s = (d, s') \<Longrightarrow> gate_step (ws, s) (ws, s')"
| gate_commit: "commitIfCurrentOrUnaffected validated region final_commit ws s = (d, s') \<Longrightarrow> gate_step (ws, s) (ws, s')"

lemma gate_step_store:
  assumes "gate_step a b"
  shows "fst b = fst a \<or> (\<exists>v. ws_latest (fst b) = Some v \<and>
    (\<forall>c. ws_latest (fst a) = Some c \<longrightarrow> advances (view_identity (deref c)) (view_identity (deref v))))"
  using assms
proof cases
  case (gate_publish next_view ws ws' s)
  then show ?thesis using publication_check_Inr [of next_view ws] by (auto simp: world_publish_def split: sum.splits)
next
  case (gate_finalize next_view finalize ws s r ws' s')
  then show ?thesis
    using publication_check_Inr [of next_view ws]
    by (auto simp: publishAndFinalizeDecision_def split: sum.splits prod.splits if_splits)
qed auto

definition latest_identity :: "WorldSnapshotStore \<Rightarrow> WorldSnapshotIdentity option" where
  "latest_identity ws = map_option (\<lambda>v. view_identity (deref v)) (ws_latest ws)"

interpretation gate: monotone_publisher "\<lambda>a. fst a = \<lparr>ws_latest = None\<rparr>" gate_step advances "\<lambda>a. latest_identity (fst a)"
  by unfold_locales (drule gate_step_store, auto simp: world_order.reaches_def latest_identity_def split: option.splits)

text \<open>Publications strictly advance, so the identity a reader pinned comes back only if nothing was published.\<close>

lemma gate_run_store:
  assumes "gate.run n a b" "ws_latest (fst a) = Some v"
  shows "fst b = fst a \<or>
    (\<exists>u. ws_latest (fst b) = Some u \<and> advances (view_identity (deref v)) (view_identity (deref u)))"
  using assms
proof (induction rule: gate.run.induct)
  case (run_step n a b c)
  from run_step.IH [OF run_step.prems] gate_step_store [OF run_step.hyps(2)] run_step.prems show ?case
    by (auto dest: world_order.adv_trans)
qed simp

text \<open>
  C13. A planner's commit is linearized with world publication. Let a planner pin the published view, validate its
  candidate outside the gate while publications and other commits go on, and then commit. If the identity it
  validated is still the published one, then nothing was published in between; otherwise the published world
  has advanced from it. The callback runs exactly when nothing was published or the published view proves
  that the changes since the validated world miss the protected region, and the lease it is given is the
  view published at that moment; the commit succeeds exactly when it ran and agreed. A commit refused
  because the world advanced leaves the captured state alone.
\<close>

theorem commit_linearized_with_publications:
  assumes "ws_latest ws = Some v" "gate.run n (ws, s0) (ws', s)"
    and "commitIfCurrentOrUnaffected (view_identity (deref v)) region final_commit ws' s = (decision, s')"
  shows "\<exists>u. ws_latest ws' = Some u \<and>
    (view_identity (deref u) = view_identity (deref v) \<longleftrightarrow> ws' = ws) \<and>
    (ws' \<noteq> ws \<longrightarrow> advances (view_identity (deref v)) (view_identity (deref u))) \<and>
    (let affected = view_changedRegionIntersectsSince (deref u) (view_identity (deref v)) region;
         (result, t) = final_commit \<lparr>wl_view = Some u, wl_identity = view_identity (deref u)\<rparr> s
     in if ws' = ws \<or> \<not> affected
        then s' = t \<and> (decision = Some WorldCommitted \<longleftrightarrow> result = Some True) \<and>
          (decision = Some WorldCancelled \<longleftrightarrow> result = Some False) \<and> (decision = None \<longleftrightarrow> result = None)
        else decision = Some WorldWorldAdvanced \<and> s' = s)"
proof -
  have latest: "ws_latest (fst (ws, s0)) = Some v" using assms(1) by simp
  from gate_run_store [OF assms(2) latest] assms(1) obtain u where u: "ws_latest ws' = Some u"
    "ws' = ws \<and> u = v \<or> advances (view_identity (deref v)) (view_identity (deref u))" by auto
  then have same: "view_identity (deref u) = view_identity (deref v) \<longleftrightarrow> ws' = ws"
    using assms(1) world_order.adv_irrefl by auto
  obtain result t where r: "final_commit \<lparr>wl_view = Some u, wl_identity = view_identity (deref u)\<rparr> s = (result, t)" by fastforce
  show ?thesis
    using u same r assms(3)
    by (intro exI [of _ u], cases result)
      (auto simp: commitIfCurrentOrUnaffected_def commit_outcome_def Let_def split: if_splits)
qed

section \<open>Publication composed with the execution authority\<close>

text \<open>
  The mapping callback holds the publication gate while it pins the authority, prepares the recertified
  command, commits it, and stores the new view last. The other operations of the authority run at any of
  these points, since they do not take the gate.
\<close>

datatype publication =
    GateFree
  | GateChecked "WorldModelView ptr" WorldRequest
  | GatePinned "WorldModelView ptr" WorldRequest ExecutionAuthority
  | GateStoring "WorldModelView ptr"

record world_system =
  sy_store :: WorldSnapshotStore
  sy_authority :: ExecutionAuthority
  sy_gate :: publication

inductive system_init :: "world_system \<Rightarrow> bool" where
  "world_publish (Some v) \<lparr>ws_latest = None\<rparr> = Inr ws \<Longrightarrow>
     system_init \<lparr>sy_store = ws, sy_authority = initial_authority, sy_gate = GateFree\<rparr>"

inductive system_step :: "(vec3 \<Rightarrow> double) \<Rightarrow> world_system \<Rightarrow> world_system \<Rightarrow> bool" for nrm where
  system_check:
    "sy_gate s = GateFree \<Longrightarrow> publication_check next_view (sy_store s) = Inr v \<Longrightarrow>
     wr_identity r = view_identity (deref v) \<Longrightarrow> system_step nrm s (s\<lparr>sy_gate := GateChecked v r\<rparr>)"
| system_pin:
    "sy_gate s = GateChecked v r \<Longrightarrow> system_step nrm s (s\<lparr>sy_gate := GatePinned v r (sy_authority s)\<rparr>)"
| system_commit:
    "sy_gate s = GatePinned v r pinned \<Longrightarrow> pin_alive pinned (sy_authority s) \<Longrightarrow>
     publishWorldIdentityIfCurrentAndFinalizeRevocation nrm r aa ap pinned (sy_authority s) = (d, revoked, a) \<Longrightarrow>
     system_step nrm s (s\<lparr>sy_authority := a, sy_gate := (if d = WorldCommitted then GateStoring v else GateFree)\<rparr>)"
| system_store:
    "sy_gate s = GateStoring v \<Longrightarrow>
     system_step nrm s (s\<lparr>sy_store := (sy_store s)\<lparr>ws_latest := Some v\<rparr>, sy_gate := GateFree\<rparr>)"
| system_authority:
    "authority_step nrm (sy_authority s) a \<Longrightarrow> ea_world_identity a = ea_world_identity (sy_authority s) \<Longrightarrow>
     system_step nrm s (s\<lparr>sy_authority := a\<rparr>)"

text \<open>
  Run without interruption, the gate steps are \<open>publishAndFinalizeDecision\<close> with the transition of the
  authority as its finalizer.
\<close>

definition certificate_transition ::
    "(vec3 \<Rightarrow> double) \<Rightarrow> WorldRequest \<Rightarrow> nat option \<Rightarrow> nat option \<Rightarrow> ExecutionAuthority \<Rightarrow> finalize_result \<times> ExecutionAuthority" where
  "certificate_transition nrm r aa ap s =
     (case publishWorldIdentityIfCurrentAndFinalizeRevocation nrm r aa ap s s of (d, _, t) \<Rightarrow> (FinalizedDecision d, t))"

lemma pin_alive_refl [simp]: "pin_alive s s"
  by (simp add: pin_alive_def)

interpretation world_system: transition_system system_init "system_step nrm" for nrm .

lemma uninterrupted_publication:
  assumes "sy_gate s = GateFree" "publication_check next_view (sy_store s) = Inr v" "wr_identity r = view_identity (deref v)"
    and "publishAndFinalizeDecision next_view (certificate_transition nrm r aa ap) (sy_store s) (sy_authority s) = (res, ws, a)"
  shows "\<exists>n \<le> 4. world_system.run nrm n s \<lparr>sy_store = ws, sy_authority = a, sy_gate = GateFree\<rparr>"
proof -
  obtain d rv t where p: "publishWorldIdentityIfCurrentAndFinalizeRevocation nrm r aa ap (sy_authority s) (sy_authority s) = (d, rv, t)"
    by (metis prod_cases3)
  let ?s1 = "s\<lparr>sy_gate := GateChecked v r\<rparr>"
  let ?s2 = "?s1\<lparr>sy_gate := GatePinned v r (sy_authority s)\<rparr>"
  let ?s3 = "?s2\<lparr>sy_authority := t, sy_gate := (if d = WorldCommitted then GateStoring v else GateFree)\<rparr>"
  have 1: "system_step nrm s ?s1" using assms(1-3) by (rule system_check)
  have 2: "system_step nrm ?s1 ?s2" using system_pin [of ?s1 v r nrm] by simp
  have 3: "system_step nrm ?s2 ?s3" using system_commit [of ?s2 v r "sy_authority s" nrm aa ap d rv t] p by simp
  have run3: "world_system.run nrm 3 s ?s3"
    using world_system.run_step [OF world_system.run_step [OF world_system.run_step [OF world_system.run_refl 1] 2] 3]
    by (simp add: numeral_3_eq_3)
  show ?thesis
  proof (cases "d = WorldCommitted")
    case True
    then have "system_step nrm ?s3 (?s3\<lparr>sy_store := (sy_store ?s3)\<lparr>ws_latest := Some v\<rparr>, sy_gate := GateFree\<rparr>)"
      by (intro system_store) simp
    from world_system.run_step [OF run3 this] True assms(2,4) p show ?thesis
      by (intro exI [of _ 4]; cases s) (simp add: publishAndFinalizeDecision_def certificate_transition_def)
  next
    case False
    with run3 assms(1,2,4) p show ?thesis
      by (intro exI [of _ 3]; cases s) (simp add: publishAndFinalizeDecision_def certificate_transition_def)
  qed
qed

definition published_identity :: "world_system \<Rightarrow> WorldSnapshotIdentity option" where
  "published_identity s = map_option (\<lambda>v. view_identity (deref v)) (ws_latest (sy_store s))"

text \<open>The authority knows no world yet, or the published one, or the one about to be stored.\<close>

definition system_ok :: "(vec3 \<Rightarrow> double) \<Rightarrow> world_system \<Rightarrow> bool" where
  "system_ok nrm s \<longleftrightarrow> authority_ok nrm (sy_authority s) \<and>
     (\<exists>w. published_identity s = Some w \<and>
       (case sy_gate s of
          GateStoring v \<Rightarrow> ea_world_identity (sy_authority s) = Some (view_identity (deref v)) \<and> advances w (view_identity (deref v))
        | GateFree \<Rightarrow> ea_world_identity (sy_authority s) \<in> {None, Some w}
        | GateChecked v r \<Rightarrow> ea_world_identity (sy_authority s) \<in> {None, Some w} \<and>
            wr_identity r = view_identity (deref v) \<and> advances w (view_identity (deref v))
        | GatePinned v r p \<Rightarrow> ea_world_identity (sy_authority s) \<in> {None, Some w} \<and>
            wr_identity r = view_identity (deref v) \<and> advances w (view_identity (deref v))))"

lemma system_init_ok: "system_init s \<Longrightarrow> system_ok nrm s"
proof (erule system_init.cases)
  fix v ws assume ws: "world_publish (Some v) \<lparr>ws_latest = None\<rparr> = Inr ws"
    and s: "s = \<lparr>sy_store = ws, sy_authority = initial_authority, sy_gate = GateFree\<rparr>"
  have "ea_world_identity initial_authority = None" by (simp add: initial_authority_def)
  with ws initial_ok show ?thesis
    by (auto simp: s system_ok_def published_identity_def world_publish_def split: sum.splits)
qed

lemma system_step_ok:
  assumes "system_step nrm s t" "system_ok nrm s"
  shows "system_ok nrm t"
  using assms
proof (induction rule: system_step.induct)
  case (system_check s next_view v r)
  then show ?case using publication_check_Inr [OF system_check.hyps(2)] by (auto simp: system_ok_def published_identity_def)
next
  case (system_pin s v r)
  then show ?case by (auto simp: system_ok_def published_identity_def)
next
  case (system_commit s v r pinned aa ap d revoked a)
  have "authority_step nrm (sy_authority s) a"
    using step_publishWorld [OF system_commit.hyps(2), of nrm r aa ap] system_commit.hyps(3) by simp
  then have "authority_ok nrm a" using step_ok system_commit.prems by (auto simp: system_ok_def)
  with system_commit publish_world [OF system_commit.hyps(2,3)] show ?case
    by (auto simp: system_ok_def published_identity_def)
next
  case (system_store s v)
  then show ?case by (auto simp: system_ok_def published_identity_def)
next
  case (system_authority s a)
  then have "authority_ok nrm a" using step_ok by (auto simp: system_ok_def)
  with system_authority show ?case by (cases "sy_gate s") (auto simp: system_ok_def published_identity_def)
qed

lemma system_reachable_ok: "world_system.reachable nrm s \<Longrightarrow> system_ok nrm s"
  by (erule world_system.invariant_reachable [rotated 2]) (auto intro: system_init_ok system_step_ok)

text \<open>
  C12. Readers never see a new world while the command in force is still bound to an older one. In every
  interleaving of map publications with the operations of the authority, the world of the active bundle is
  the published one, or a newer one whose publication holds the gate and is about to store it; no staged
  successor is bound to another world than the active bundle.
\<close>

theorem command_world_never_behind:
  assumes "world_system.reachable nrm s" "ea_active_bundle (sy_authority s) = Some a"
  shows "\<exists>w. published_identity s = Some w \<and> \<not> advances (cb_world_identity (deref a)) w \<and>
    (cb_world_identity (deref a) = w \<or>
     (\<exists>v. sy_gate s = GateStoring v \<and> cb_world_identity (deref a) = view_identity (deref v) \<and> advances w (view_identity (deref v)))) \<and>
    (\<forall>c. ea_staged_bundle (sy_authority s) = Some c \<longrightarrow> cb_world_identity (deref c) = cb_world_identity (deref a))"
proof -
  have ok: "system_ok nrm s" using assms(1) by (rule system_reachable_ok)
  then have world: "ea_world_identity (sy_authority s) = Some (cb_world_identity (deref a))"
    and staged: "\<forall>c. ea_staged_bundle (sy_authority s) = Some c \<longrightarrow> cb_world_identity (deref c) = cb_world_identity (deref a)"
    using assms(2) by (auto simp: system_ok_def authority_ok_def active_ok_def staged_ok_def)
  with ok show ?thesis
    using world_order.adv_irrefl world_order.adv_asym by (cases "sy_gate s") (auto simp: system_ok_def)
qed

section \<open>A concrete system\<close>

definition ex_view :: "WorldSnapshotIdentity \<Rightarrow> WorldModelView ptr" where
  "ex_view identity = Ptr 7 \<lparr>view_identity = identity, view_changedRegionIntersectsSince = (\<lambda>_ _. False),
     view_classify = (\<lambda>_ _. CellKnownFree), view_contains = (\<lambda>_. True), view_isSegmentTraversable = (\<lambda>_ _ _ _. True)\<rparr>"

definition ex_initial_world :: WorldSnapshotIdentity where
  "ex_initial_world = ex_world\<lparr>wid_revision := 0, wid_observation_stamp_ns := 0\<rparr>"

definition ex_system :: "ExecutionAuthority \<Rightarrow> world_system" where
  "ex_system a = \<lparr>sy_store = \<lparr>ws_latest = Some (ex_view ex_world)\<rparr>, sy_authority = a, sy_gate = GateFree\<rparr>"

lemma ex_system_published: "world_system.reachable nrm (ex_system ex_published)"
proof -
  let ?w = "\<lparr>ws_latest = Some (ex_view ex_initial_world)\<rparr>"
  let ?s = "\<lparr>sy_store = ?w, sy_authority = initial_authority, sy_gate = GateFree\<rparr>"
  have "system_init ?s"
    by (rule system_init.intros [of "ex_view ex_initial_world"])
      (simp add: world_publish_def publication_check_def identity_publishable_def ex_view_def ex_initial_world_def ex_world_def)
  then have "world_system.reachable nrm ?s" by (rule world_system.reach_init)
  moreover have "system_step nrm ?s (?s\<lparr>sy_authority := ex_begun\<rparr>)"
  proof (rule system_authority)
    show "authority_step nrm (sy_authority ?s) ex_begun"
      using step_beginGoal [of nrm initial_authority 1 1 False] by (simp add: ex_begun_def)
  qed (simp add: ex_begun_eq initial_authority_def)
  ultimately have r: "world_system.reachable nrm (?s\<lparr>sy_authority := ex_begun\<rparr>)" by (rule world_system.reach_step)
  have chk: "publication_check (Some (ex_view ex_world)) ?w = Inr (ex_view ex_world)"
    by (simp add: publication_check_def identity_publishable_def ex_view_def ex_initial_world_def ex_world_def strictlyAdvances_def)
  have "\<exists>n \<le> 4. world_system.run nrm n (?s\<lparr>sy_authority := ex_begun\<rparr>)
      \<lparr>sy_store = \<lparr>ws_latest = Some (ex_view ex_world)\<rparr>, sy_authority = ex_published, sy_gate = GateFree\<rparr>"
    using chk ex_publish [of nrm None None]
    by (intro uninterrupted_publication [of _ "Some (ex_view ex_world)" "ex_view ex_world" ex_request _ None None])
      (simp_all add: publishAndFinalizeDecision_def certificate_transition_def ex_request_def ex_view_def)
  then show ?thesis using world_system.reachable_run [OF _ r] by (auto simp: ex_system_def)
qed

lemma ex_system_committed: "world_system.reachable nrm (ex_system (ex_committed 1))"
proof -
  have "authority_step nrm ex_published (ex_committed 1)"
    using step_commit [of nrm ex_published "ex_token 1" "Some ex_goal" "Some (Ptr 100 (ex_bundle_at 1 1000000000))"]
    by (simp add: ex_commit)
  then have "system_step nrm (ex_system ex_published) ((ex_system ex_published)\<lparr>sy_authority := ex_committed 1\<rparr>)"
    by (intro system_authority) (simp_all add: ex_system_def ex_published_def ex_committed_def)
  from world_system.reach_step [OF ex_system_published this] show ?thesis by (simp add: ex_system_def)
qed

theorem command_world_never_behind_witness:
  "\<exists>a. ea_active_bundle (ex_committed 1) = Some a \<and> published_identity (ex_system (ex_committed 1)) = Some ex_world \<and>
     \<not> advances (cb_world_identity (deref a)) ex_world"
proof -
  obtain a where a: "ea_active_bundle (ex_committed 1) = Some a" by (simp add: ex_committed_def)
  then have "ea_active_bundle (sy_authority (ex_system (ex_committed 1))) = Some a" by (simp add: ex_system_def)
  from command_world_never_behind [OF ex_system_committed [of "\<lambda>_. Fin 1"] this] a show ?thesis
    by (auto simp: published_identity_def ex_system_def ex_view_def)
qed

text \<open>A world is published between the validation and the commit; its changes miss the protected region.\<close>

theorem commit_linearized_with_publications_witness:
  "\<exists>ws'. world_publish (Some (ex_view ex_world2)) \<lparr>ws_latest = Some (ex_view ex_world)\<rparr> = Inr ws' \<and>
     ws' \<noteq> \<lparr>ws_latest = Some (ex_view ex_world)\<rparr> \<and>
     fst (commitIfCurrentOrUnaffected ex_world \<lparr>box_minimum = vzero, box_maximum = vzero\<rparr>
       (\<lambda>lease n. (Some (wl_identity lease = ex_world2), n + 1)) ws' (0 :: nat)) = Some WorldCommitted"
proof -
  let ?ws = "\<lparr>ws_latest = Some (ex_view ex_world)\<rparr>" and ?ws' = "\<lparr>ws_latest = Some (ex_view ex_world2)\<rparr>"
  let ?commit = "\<lambda>lease (n :: nat). (Some (wl_identity lease = ex_world2), n + 1)"
  have p: "world_publish (Some (ex_view ex_world2)) ?ws = Inr ?ws'"
    by (simp add: world_publish_def publication_check_def identity_publishable_def ex_view_def ex_world_def ex_world2_def
        strictlyAdvances_def)
  have run: "gate.run 1 (?ws, 0 :: nat) (?ws', 0)"
    using gate.run_step [OF gate.run_refl gate_publish [OF p]] by simp
  have ids: "view_identity (deref (ex_view w)) = w" "\<not> view_changedRegionIntersectsSince (deref (ex_view w)) i b" for w i b
    by (simp_all add: ex_view_def)
  have ne: "?ws' \<noteq> ?ws" using ids(1) [of ex_world] ids(1) [of ex_world2] by (auto simp: ex_world_def ex_world2_def)
  obtain decision s' where c: "commitIfCurrentOrUnaffected (view_identity (deref (ex_view ex_world))) \<lparr>box_minimum = vzero, box_maximum = vzero\<rparr> ?commit ?ws' 0 =
      (decision, s')" by fastforce
  have v: "ws_latest ?ws = Some (ex_view ex_world)" by simp
  from commit_linearized_with_publications [OF v run c] ne have "decision = Some WorldCommitted" by (auto simp: ids)
  with p ne c show ?thesis by (intro exI [of _ ?ws']) (simp add: ids)
qed

end
