(* ===== verification/Observation_Accounting.thy ===== *)
theory Observation_Accounting
  imports Nav_Prelude
begin

text \<open>
  \<open>navigation_mapping/observation_accounting.hpp\<close>: the lifecycle counters of the single-latest mapping inbox.
  Every method is one critical section; the counters are 64-bit words, so the balance equations are
  equations of words and survive wrap-around.
\<close>

record ObservationAccounting =
  oa_received :: u64
  oa_rejected_before_inbox :: u64
  oa_accepted_to_inbox :: u64
  oa_replaced_waiting :: u64
  oa_discarded_waiting :: u64
  oa_discarded_nonmonotonic :: u64
  oa_ready_submitted :: u64
  oa_waiting :: u64
  oa_replaced_ready :: u64
  oa_discarded_ready :: u64
  oa_discarded_shutdown_ready :: u64
  oa_ready :: u64
  oa_replaced_pending :: u64
  oa_discarded_pending :: u64
  oa_mapping_started :: u64
  oa_mapping_published :: u64
  oa_mapping_failed :: u64
  oa_pending :: u64
  oa_in_flight :: u64
  oa_violation_count :: u64

definition initial_accounting :: ObservationAccounting where
  "initial_accounting = \<lparr>oa_received = 0, oa_rejected_before_inbox = 0, oa_accepted_to_inbox = 0, oa_replaced_waiting = 0,
     oa_discarded_waiting = 0, oa_discarded_nonmonotonic = 0, oa_ready_submitted = 0, oa_waiting = 0, oa_replaced_ready = 0,
     oa_discarded_ready = 0, oa_discarded_shutdown_ready = 0, oa_ready = 0, oa_replaced_pending = 0, oa_discarded_pending = 0,
     oa_mapping_started = 0, oa_mapping_published = 0, oa_mapping_failed = 0, oa_pending = 0, oa_in_flight = 0,
     oa_violation_count = 0\<rparr>"

section \<open>The published invariants\<close>

definition inputInvariantHolds :: "ObservationAccounting \<Rightarrow> bool" where
  "inputInvariantHolds a \<longleftrightarrow> oa_received a = oa_rejected_before_inbox a + oa_accepted_to_inbox a"

definition inboxInvariantHolds :: "ObservationAccounting \<Rightarrow> bool" where
  "inboxInvariantHolds a \<longleftrightarrow>
     oa_accepted_to_inbox a = oa_replaced_waiting a + oa_discarded_waiting a + oa_ready_submitted a + oa_waiting a"

definition readyInvariantHolds :: "ObservationAccounting \<Rightarrow> bool" where
  "readyInvariantHolds a \<longleftrightarrow>
     oa_ready_submitted a = oa_replaced_ready a + oa_discarded_ready a + oa_discarded_shutdown_ready a +
       oa_mapping_started a + oa_ready a"

definition mappingInvariantHolds :: "ObservationAccounting \<Rightarrow> bool" where
  "mappingInvariantHolds a \<longleftrightarrow> oa_mapping_started a = oa_mapping_published a + oa_mapping_failed a + oa_in_flight a"

definition allInvariantsHold :: "ObservationAccounting \<Rightarrow> bool" where
  "allInvariantsHold a \<longleftrightarrow> inputInvariantHolds a \<and> inboxInvariantHolds a \<and> readyInvariantHolds a \<and>
     mappingInvariantHolds a \<and> oa_violation_count a = 0"

lemmas invariant_defs = inputInvariantHolds_def inboxInvariantHolds_def readyInvariantHolds_def mappingInvariantHolds_def
  allInvariantsHold_def

section \<open>Transitions\<close>

definition violation :: "ObservationAccounting \<Rightarrow> ObservationAccounting" where
  "violation a = a\<lparr>oa_violation_count := oa_violation_count a + 1\<rparr>"

definition recordRejectedBeforeInbox :: "ObservationAccounting \<Rightarrow> ObservationAccounting" where
  "recordRejectedBeforeInbox a =
     a\<lparr>oa_received := oa_received a + 1, oa_rejected_before_inbox := oa_rejected_before_inbox a + 1\<rparr>"

definition recordAcceptedToInbox :: "ObservationAccounting \<Rightarrow> bool \<times> ObservationAccounting" where
  "recordAcceptedToInbox a =
     (let b = a\<lparr>oa_received := oa_received a + 1, oa_accepted_to_inbox := oa_accepted_to_inbox a + 1\<rparr>;
          replaced = (oa_waiting b \<noteq> 0)
      in (replaced,
          if replaced then b\<lparr>oa_replaced_waiting := oa_replaced_waiting b + 1, oa_replaced_pending := oa_replaced_pending b + 1\<rparr>
          else b\<lparr>oa_waiting := 1, oa_pending := 1\<rparr>))"

definition discardedPending :: "ObservationAccounting \<Rightarrow> ObservationAccounting" where
  "discardedPending a =
     (if oa_waiting a = 0 then violation a
      else a\<lparr>oa_waiting := 0, oa_pending := oa_ready a, oa_discarded_waiting := oa_discarded_waiting a + 1,
             oa_discarded_pending := oa_discarded_pending a + 1\<rparr>)"

definition discardedNonmonotonicWaiting :: "ObservationAccounting \<Rightarrow> ObservationAccounting" where
  "discardedNonmonotonicWaiting a =
     (if oa_waiting a = 0 then violation a
      else a\<lparr>oa_waiting := 0, oa_pending := oa_ready a, oa_discarded_waiting := oa_discarded_waiting a + 1,
             oa_discarded_nonmonotonic := oa_discarded_nonmonotonic a + 1,
             oa_discarded_pending := oa_discarded_pending a + 1\<rparr>)"

definition waitingSubmitted :: "bool \<Rightarrow> ObservationAccounting \<Rightarrow> ObservationAccounting" where
  "waitingSubmitted replaced_ready a =
     (if oa_waiting a = 0 then violation a
      else let b = a\<lparr>oa_waiting := 0, oa_ready_submitted := oa_ready_submitted a + 1\<rparr>
           in if replaced_ready
              then if oa_ready b = 0 then violation b
                   else let c = b\<lparr>oa_replaced_ready := oa_replaced_ready b + 1, oa_replaced_pending := oa_replaced_pending b + 1\<rparr>
                        in c\<lparr>oa_pending := oa_waiting c + oa_ready c\<rparr>
              else if oa_ready b \<noteq> 0 then violation b
                   else let c = b\<lparr>oa_ready := 1\<rparr> in c\<lparr>oa_pending := oa_waiting c + oa_ready c\<rparr>)"

definition discardedShutdownReady :: "ObservationAccounting \<Rightarrow> ObservationAccounting" where
  "discardedShutdownReady a =
     (if oa_ready a = 0 then violation a
      else a\<lparr>oa_ready := 0, oa_pending := oa_waiting a, oa_discarded_shutdown_ready := oa_discarded_shutdown_ready a + 1,
             oa_discarded_pending := oa_discarded_pending a + 1\<rparr>)"

definition discardedReady :: "ObservationAccounting \<Rightarrow> ObservationAccounting" where
  "discardedReady a =
     (if oa_ready a = 0 then violation a
      else a\<lparr>oa_ready := 0, oa_pending := oa_waiting a, oa_discarded_ready := oa_discarded_ready a + 1,
             oa_discarded_pending := oa_discarded_pending a + 1\<rparr>)"

definition mappingStarted :: "ObservationAccounting \<Rightarrow> ObservationAccounting" where
  "mappingStarted a =
     (if oa_ready a = 0 then violation a
      else a\<lparr>oa_ready := 0, oa_pending := oa_waiting a, oa_mapping_started := oa_mapping_started a + 1,
             oa_in_flight := oa_in_flight a + 1\<rparr>)"

definition mappingPublished :: "ObservationAccounting \<Rightarrow> ObservationAccounting" where
  "mappingPublished a =
     (if oa_in_flight a = 0 then violation a
      else a\<lparr>oa_in_flight := oa_in_flight a - 1, oa_mapping_published := oa_mapping_published a + 1\<rparr>)"

definition mappingFailed :: "ObservationAccounting \<Rightarrow> ObservationAccounting" where
  "mappingFailed a =
     (if oa_in_flight a = 0 then violation a
      else a\<lparr>oa_in_flight := oa_in_flight a - 1, oa_mapping_failed := oa_mapping_failed a + 1\<rparr>)"

lemmas accounting_defs = recordRejectedBeforeInbox_def recordAcceptedToInbox_def discardedPending_def
  discardedNonmonotonicWaiting_def waitingSubmitted_def discardedShutdownReady_def discardedReady_def mappingStarted_def
  mappingPublished_def mappingFailed_def violation_def

section \<open>A balanced account\<close>

text \<open>
  The account is balanced and its three slots hold what the caller says: a waiting item, a ready item and an
  item in flight. Each transition of a caller that respects its slot keeps the account balanced.
\<close>

definition slots :: "bool \<Rightarrow> bool \<Rightarrow> bool \<Rightarrow> ObservationAccounting \<Rightarrow> bool" where
  "slots waiting ready in_flight a \<longleftrightarrow> allInvariantsHold a \<and> oa_waiting a = of_bool waiting \<and> oa_ready a = of_bool ready \<and>
     oa_in_flight a = of_bool in_flight"

named_theorems account_intros "transitions that keep an account balanced"

lemma slots_initial [account_intros]: "slots False False False initial_accounting"
  by (simp add: slots_def initial_accounting_def invariant_defs)

lemma slots_rejected [account_intros]: "slots w r f a \<Longrightarrow> slots w r f (recordRejectedBeforeInbox a)"
  by (simp add: slots_def invariant_defs accounting_defs)

lemma slots_pending_discarded [account_intros]: "slots True r f a \<Longrightarrow> slots False r f (discardedPending a)"
  by (simp add: slots_def invariant_defs accounting_defs)

lemma slots_nonmonotonic [account_intros]: "slots True r f a \<Longrightarrow> slots False r f (discardedNonmonotonicWaiting a)"
  by (simp add: slots_def invariant_defs accounting_defs)

lemma slots_submitted [account_intros]: "slots True r f a \<Longrightarrow> slots False True f (waitingSubmitted r a)"
  by (cases r) (simp_all add: slots_def invariant_defs accounting_defs Let_def)

lemma slots_ready_discarded [account_intros]:
  "slots w True f a \<Longrightarrow> slots w False f (discardedReady a)" "slots w True f a \<Longrightarrow> slots w False f (discardedShutdownReady a)"
  by (simp_all add: slots_def invariant_defs accounting_defs)

lemma slots_started [account_intros]: "slots w True False a \<Longrightarrow> slots w False True (mappingStarted a)"
  by (simp add: slots_def invariant_defs accounting_defs)

lemma slots_ended [account_intros]:
  "slots w r True a \<Longrightarrow> slots w r False (mappingPublished a)" "slots w r True a \<Longrightarrow> slots w r False (mappingFailed a)"
  by (simp_all add: slots_def invariant_defs accounting_defs)

text \<open>The first half of an acceptance; an empty waiting slot is filled, a full one is replaced.\<close>

lemma slots_accepted [account_intros]: "slots w r f a \<Longrightarrow> slots True r f (snd (recordAcceptedToInbox a))"
  by (cases w) (simp_all add: slots_def invariant_defs accounting_defs Let_def)

lemma accepted_replaces: "slots w r f a \<Longrightarrow> fst (recordAcceptedToInbox a) = w"
  by (simp add: slots_def accounting_defs Let_def)

end
