(* ===== verification/Mapping_Worker.thy ===== *)
theory Mapping_Worker
  imports Observation_Accounting
begin

text \<open>
  \<open>navigation_mapping/mapping_worker.hpp\<close>: the bounded single-owner executor of mapping observations. Each
  critical section of the class is one function; the worker thread and its one client (the registered-scan
  ingress of the runtime, which also requests the resets) are program points of a transition system.
\<close>

section \<open>State\<close>

text \<open>
  \<open>validate_\<close> and \<open>order_key_\<close> are optional callbacks; \<open>None\<close> as their result is a thrown exception.
\<close>

record 'o MappingWorker =
  wk_accounting :: ObservationAccounting
  wk_validate :: "('o \<Rightarrow> bool option) option"
  wk_order_key :: "('o \<Rightarrow> i64 option) option"
  wk_ready :: "'o option"
  wk_accepting :: bool
  wk_started :: bool
  wk_fatal :: bool
  wk_shutdown_started :: bool
  wk_stop_requested :: bool
  wk_joined :: bool
  wk_resetting :: bool
  wk_in_flight :: bool
  wk_highest_admitted_key :: i64

definition makeMappingWorker :: "ObservationAccounting \<Rightarrow> ('o \<Rightarrow> bool option) option \<Rightarrow> 'o MappingWorker" where
  "makeMappingWorker accounting validate =
     \<lparr>wk_accounting = accounting, wk_validate = validate, wk_order_key = None, wk_ready = None, wk_accepting = True,
      wk_started = False, wk_fatal = False, wk_shutdown_started = False, wk_stop_requested = False, wk_joined = False,
      wk_resetting = False, wk_in_flight = False, wk_highest_admitted_key = 0\<rparr>"

abbreviation account :: "(ObservationAccounting \<Rightarrow> ObservationAccounting) \<Rightarrow> 'o MappingWorker \<Rightarrow> 'o MappingWorker" where
  "account f s \<equiv> s\<lparr>wk_accounting := f (wk_accounting s)\<rparr>"

section \<open>Operations of the client\<close>

text \<open>\<open>None\<close> is the thrown \<open>std::logic_error\<close>.\<close>

definition setStrictlyIncreasingOrderKey ::
    "('o \<Rightarrow> i64 option) option \<Rightarrow> i64 \<Rightarrow> 'o MappingWorker \<Rightarrow> 'o MappingWorker option" where
  "setStrictlyIncreasingOrderKey key initial_key s =
     (if wk_started s \<or> wk_ready s \<noteq> None then None
      else Some (s\<lparr>wk_order_key := key, wk_highest_admitted_key := initial_key\<rparr>))"

definition worker_start :: "'o MappingWorker \<Rightarrow> 'o MappingWorker option" where
  "worker_start s = (if wk_started s \<or> wk_shutdown_started s then None else Some (s\<lparr>wk_started := True\<rparr>))"

definition submission_failed :: "'o MappingWorker \<Rightarrow> 'o MappingWorker" where
  "submission_failed s = (account discardedPending s)\<lparr>wk_fatal := True, wk_accepting := False\<rparr>"

definition submit_ready :: "'o \<Rightarrow> 'o MappingWorker \<Rightarrow> 'o MappingWorker" where
  "submit_ready observation s = (account (waitingSubmitted (wk_ready s \<noteq> None)) s)\<lparr>wk_ready := Some observation\<rparr>"

definition submit_ordered :: "'o \<Rightarrow> 'o MappingWorker \<Rightarrow> bool \<times> 'o MappingWorker" where
  "submit_ordered observation s =
     (case wk_order_key s of None \<Rightarrow> (True, submit_ready observation s)
      | Some order_key \<Rightarrow>
        (case order_key observation of None \<Rightarrow> (False, submission_failed s)
         | Some key \<Rightarrow>
           if key \<le> wk_highest_admitted_key s then (False, account discardedNonmonotonicWaiting s)
           else (True, submit_ready observation (s\<lparr>wk_highest_admitted_key := key\<rparr>))))"

definition submitFromWaiting :: "'o \<Rightarrow> 'o MappingWorker \<Rightarrow> bool \<times> 'o MappingWorker" where
  "submitFromWaiting observation s =
     (if \<not> wk_accepting s \<or> wk_fatal s \<or> wk_resetting s then (False, account discardedPending s)
      else case wk_validate s of None \<Rightarrow> submit_ordered observation s
      | Some validate \<Rightarrow>
        (case validate observation of None \<Rightarrow> (False, submission_failed s)
         | Some valid \<Rightarrow> if \<not> valid then (False, account discardedPending s) else submit_ordered observation s))"

text \<open>A reset in two critical sections: the second waits until nothing is in flight.\<close>

definition discard_ready :: "(ObservationAccounting \<Rightarrow> ObservationAccounting) \<Rightarrow> 'o MappingWorker \<Rightarrow> 'o MappingWorker" where
  "discard_ready how s = (if wk_ready s = None then s else account how (s\<lparr>wk_ready := None\<rparr>))"

definition reset_begin :: "'o MappingWorker \<Rightarrow> 'o MappingWorker" where
  "reset_begin s = discard_ready discardedReady (s\<lparr>wk_resetting := True\<rparr>)"

definition reset_finish :: "'o MappingWorker \<Rightarrow> 'o MappingWorker" where
  "reset_finish s = s\<lparr>wk_highest_admitted_key := 0, wk_resetting := False\<rparr>"

definition shutdown_begin :: "'o MappingWorker \<Rightarrow> 'o MappingWorker" where
  "shutdown_begin s =
     (let s1 = s\<lparr>wk_shutdown_started := True, wk_accepting := False\<rparr>
      in if \<not> wk_started s1 then discard_ready discardedShutdownReady s1 else s1)"

section \<open>The worker thread\<close>

datatype 'o worker_point = WorkerIdle | WorkerWaiting | WorkerProcessing 'o | WorkerFailed | WorkerPublished | WorkerExited

text \<open>The critical section at the head of the loop, entered when an item is ready or a stop was requested.\<close>

definition worker_take :: "'o MappingWorker \<Rightarrow> 'o worker_point \<times> 'o MappingWorker" where
  "worker_take s =
     (if wk_stop_requested s then (WorkerExited, discard_ready discardedShutdownReady s)
      else case wk_ready s of None \<Rightarrow> (WorkerWaiting, s)
      | Some observation \<Rightarrow>
        let started = (WorkerProcessing observation, (account mappingStarted (s\<lparr>wk_ready := None\<rparr>))\<lparr>wk_in_flight := True\<rparr>)
        in case wk_validate s of None \<Rightarrow> started
           | Some validate \<Rightarrow>
             (case validate observation of
                None \<Rightarrow> (WorkerExited, (discard_ready discardedReady s)\<lparr>wk_fatal := True, wk_accepting := False\<rparr>)
              | Some valid \<Rightarrow> if \<not> valid then (WorkerWaiting, discard_ready discardedReady s) else started))"

text \<open>The critical section after a failed callback: the worker becomes fatal and drops the ready item.\<close>

definition worker_abort :: "'o MappingWorker \<Rightarrow> 'o MappingWorker" where
  "worker_abort s =
     (discard_ready discardedShutdownReady (s\<lparr>wk_fatal := True, wk_accepting := False\<rparr>))\<lparr>wk_in_flight := False\<rparr>"

section \<open>Interleaving\<close>

datatype 'o client_point = ClientIdle | ClientOwns 'o | ClientResetting

datatype shutdown_point = ShutdownNone | ShutdownFlagged | ShutdownStopping | ShutdownDone

text \<open>\<open>sys_started\<close> lists the observations handed to the map since the last reset, latest first.\<close>

record 'o mapping_system =
  sys_worker :: "'o MappingWorker"
  sys_point :: "'o worker_point"
  sys_client :: "'o client_point"
  sys_shutdown :: shutdown_point
  sys_started :: "'o list"

abbreviation on_worker :: "'o mapping_system \<Rightarrow> 'o MappingWorker \<Rightarrow> 'o mapping_system" where
  "on_worker s w \<equiv> s\<lparr>sys_worker := w\<rparr>"

inductive mapping_step :: "'o mapping_system \<Rightarrow> 'o mapping_system \<Rightarrow> bool" where
  map_start: "worker_start (sys_worker s) = Some w \<Longrightarrow> mapping_step s (s\<lparr>sys_worker := w, sys_point := WorkerWaiting\<rparr>)"
| map_reject: "mapping_step s (on_worker s (account recordRejectedBeforeInbox (sys_worker s)))"
| map_accept: "sys_client s = ClientIdle \<Longrightarrow>
    mapping_step s (s\<lparr>sys_worker := account (\<lambda>a. snd (recordAcceptedToInbox a)) (sys_worker s), sys_client := ClientOwns observation\<rparr>)"
| map_submit: "sys_client s = ClientOwns observation \<Longrightarrow>
    mapping_step s (s\<lparr>sys_worker := snd (submitFromWaiting observation (sys_worker s)), sys_client := ClientIdle\<rparr>)"
| map_reset_begin: "sys_client s = ClientIdle \<Longrightarrow> \<not> wk_shutdown_started (sys_worker s) \<Longrightarrow>
    mapping_step s (s\<lparr>sys_worker := reset_begin (sys_worker s), sys_client := ClientResetting\<rparr>)"
| map_reset_finish: "sys_client s = ClientResetting \<Longrightarrow> \<not> wk_in_flight (sys_worker s) \<Longrightarrow>
    mapping_step s (s\<lparr>sys_worker := reset_finish (sys_worker s), sys_client := ClientIdle, sys_started := []\<rparr>)"
| map_shutdown_begin: "sys_shutdown s = ShutdownNone \<Longrightarrow>
    mapping_step s (s\<lparr>sys_worker := shutdown_begin (sys_worker s), sys_shutdown := ShutdownFlagged\<rparr>)"
| map_shutdown_stop: "sys_shutdown s = ShutdownFlagged \<Longrightarrow>
    mapping_step s (s\<lparr>sys_worker := (sys_worker s)\<lparr>wk_stop_requested := True\<rparr>, sys_shutdown := ShutdownStopping\<rparr>)"
| map_shutdown_join: "sys_shutdown s = ShutdownStopping \<Longrightarrow> sys_point s \<in> {WorkerIdle, WorkerExited} \<Longrightarrow>
    mapping_step s (s\<lparr>sys_worker := (sys_worker s)\<lparr>wk_joined := True\<rparr>, sys_shutdown := ShutdownDone\<rparr>)"
| map_take: "sys_point s = WorkerWaiting \<Longrightarrow> worker_take (sys_worker s) = (p, w) \<Longrightarrow>
    mapping_step s (s\<lparr>sys_worker := w, sys_point := p,
      sys_started := (case p of WorkerProcessing observation \<Rightarrow> observation # sys_started s | _ \<Rightarrow> sys_started s)\<rparr>)"
| map_published: "sys_point s = WorkerProcessing observation \<Longrightarrow>
    mapping_step s (s\<lparr>sys_worker := account mappingPublished (sys_worker s), sys_point := WorkerPublished\<rparr>)"
| map_failed: "sys_point s = WorkerProcessing observation \<Longrightarrow>
    mapping_step s (s\<lparr>sys_worker := account mappingFailed (sys_worker s), sys_point := WorkerFailed\<rparr>)"
| map_abort: "sys_point s \<in> {WorkerFailed, WorkerPublished} \<Longrightarrow>
    mapping_step s (s\<lparr>sys_worker := worker_abort (sys_worker s), sys_point := WorkerExited\<rparr>)"
| map_finish: "sys_point s = WorkerPublished \<Longrightarrow>
    mapping_step s (s\<lparr>sys_worker := (sys_worker s)\<lparr>wk_in_flight := False\<rparr>, sys_point := WorkerWaiting\<rparr>)"

inductive mapping_init :: "'o mapping_system \<Rightarrow> bool" where
  "setStrictlyIncreasingOrderKey key initial_key (makeMappingWorker initial_accounting validate) = Some w \<Longrightarrow>
     mapping_init \<lparr>sys_worker = w, sys_point = WorkerIdle, sys_client = ClientIdle, sys_shutdown = ShutdownNone, sys_started = []\<rparr>"

interpretation mapping: transition_system mapping_init mapping_step .

section \<open>The invariant\<close>

definition busy :: "'o worker_point \<Rightarrow> bool" where
  "busy p \<longleftrightarrow> (case p of WorkerProcessing _ \<Rightarrow> True | WorkerFailed \<Rightarrow> True | WorkerPublished \<Rightarrow> True | _ \<Rightarrow> False)"

definition processing :: "'o worker_point \<Rightarrow> bool" where
  "processing p \<longleftrightarrow> (case p of WorkerProcessing _ \<Rightarrow> True | _ \<Rightarrow> False)"

definition owns :: "'o client_point \<Rightarrow> bool" where
  "owns c \<longleftrightarrow> (case c of ClientOwns _ \<Rightarrow> True | _ \<Rightarrow> False)"

lemma point_simps [simp]:
  "busy WorkerIdle = False" "busy WorkerWaiting = False" "busy (WorkerProcessing x) = True" "busy WorkerFailed = True"
  "busy WorkerPublished = True" "busy WorkerExited = False"
  "processing WorkerIdle = False" "processing WorkerWaiting = False" "processing (WorkerProcessing x) = True"
  "processing WorkerFailed = False" "processing WorkerPublished = False" "processing WorkerExited = False"
  "owns ClientIdle = False" "owns (ClientOwns x) = True" "owns ClientResetting = False"
  by (simp_all add: busy_def processing_def owns_def)

text \<open>The flags follow the program points, and nothing is ready where nobody would take it.\<close>

definition flags_ok :: "'o mapping_system \<Rightarrow> bool" where
  "flags_ok s \<longleftrightarrow> (let w = sys_worker s in
     wk_in_flight w = busy (sys_point s) \<and> wk_started w = (sys_point s \<noteq> WorkerIdle) \<and>
     wk_resetting w = (sys_client s = ClientResetting) \<and>
     wk_shutdown_started w = (sys_shutdown s \<noteq> ShutdownNone) \<and>
     wk_stop_requested w = (sys_shutdown s \<in> {ShutdownStopping, ShutdownDone}) \<and>
     (wk_shutdown_started w \<longrightarrow> \<not> wk_accepting w) \<and>
     (sys_point s = WorkerExited \<longrightarrow> \<not> wk_accepting w) \<and>
     (wk_resetting w \<or> sys_point s = WorkerExited \<or> sys_point s = WorkerIdle \<and> wk_shutdown_started w \<longrightarrow> wk_ready w = None) \<and>
     (sys_shutdown s = ShutdownDone \<longrightarrow> sys_point s \<in> {WorkerIdle, WorkerExited}))"

definition account_ok :: "'o mapping_system \<Rightarrow> bool" where
  "account_ok s \<longleftrightarrow> slots (owns (sys_client s)) (wk_ready (sys_worker s) \<noteq> None) (processing (sys_point s))
     (wk_accounting (sys_worker s))"

text \<open>Keys of the observations handed over are increasing, and the ready one comes after all of them.\<close>

definition order_ok :: "'o mapping_system \<Rightarrow> bool" where
  "order_ok s \<longleftrightarrow> (let w = sys_worker s in
     \<forall>f. wk_order_key w = Some f \<longrightarrow>
       sorted_wrt (\<lambda>a b. the (f b) < the (f a)) (sys_started s) \<and>
       (\<forall>x \<in> set (sys_started s). the (f x) \<le> wk_highest_admitted_key w) \<and>
       (\<forall>r. wk_ready w = Some r \<longrightarrow> the (f r) \<le> wk_highest_admitted_key w \<and> (\<forall>x \<in> set (sys_started s). the (f x) < the (f r))))"

definition mapping_ok :: "'o mapping_system \<Rightarrow> bool" where
  "mapping_ok s \<longleftrightarrow> flags_ok s \<and> account_ok s \<and> order_ok s"

lemma discard_ready_simps [simp]:
  "wk_ready (discard_ready h s) = None" "wk_order_key (discard_ready h s) = wk_order_key s"
  "wk_highest_admitted_key (discard_ready h s) = wk_highest_admitted_key s" "wk_accepting (discard_ready h s) = wk_accepting s"
  "wk_started (discard_ready h s) = wk_started s" "wk_shutdown_started (discard_ready h s) = wk_shutdown_started s"
  "wk_stop_requested (discard_ready h s) = wk_stop_requested s" "wk_resetting (discard_ready h s) = wk_resetting s"
  "wk_in_flight (discard_ready h s) = wk_in_flight s"
  by (simp_all add: discard_ready_def)

lemma discard_ready_slots:
  "slots w (wk_ready s \<noteq> None) f (wk_accounting s) \<Longrightarrow> h \<in> {discardedReady, discardedShutdownReady} \<Longrightarrow>
   slots w False f (wk_accounting (discard_ready h s))"
  by (auto simp: discard_ready_def intro: account_intros)

text \<open>The ways a submission ends, and what the worker takes.\<close>

lemma ordered_cases:
  "submit_ordered x w = (False, submission_failed w) \<or>
   submit_ordered x w = (False, account discardedNonmonotonicWaiting w) \<or>
   submit_ordered x w = (True, submit_ready x w) \<and> wk_order_key w = None \<or>
   (\<exists>f k. submit_ordered x w = (True, submit_ready x (w\<lparr>wk_highest_admitted_key := k\<rparr>)) \<and>
      wk_order_key w = Some f \<and> f x = Some k \<and> wk_highest_admitted_key w < k)"
proof (cases "wk_order_key w")
  case (Some f)
  then show ?thesis by (cases "f x") (auto simp: submit_ordered_def)
qed (simp add: submit_ordered_def)

lemma validated_cases:
  "submitFromWaiting x w = (False, account discardedPending w) \<or>
   submitFromWaiting x w = (False, submission_failed w) \<or>
   submitFromWaiting x w = submit_ordered x w \<and> wk_accepting w \<and> \<not> wk_resetting w"
proof (cases "wk_validate w")
  case (Some v)
  then show ?thesis by (cases "v x") (auto simp: submitFromWaiting_def)
qed (auto simp: submitFromWaiting_def)

lemma submit_cases:
  obtains (rejected) "submitFromWaiting x w = (False, account discardedPending w)"
  | (failed) "submitFromWaiting x w = (False, submission_failed w)"
  | (nonmonotonic) "submitFromWaiting x w = (False, account discardedNonmonotonicWaiting w)"
  | (unordered) "submitFromWaiting x w = (True, submit_ready x w)" "wk_accepting w" "\<not> wk_resetting w" "wk_order_key w = None"
  | (ordered) f k where "submitFromWaiting x w = (True, submit_ready x (w\<lparr>wk_highest_admitted_key := k\<rparr>))" "wk_accepting w"
      "\<not> wk_resetting w" "wk_order_key w = Some f" "f x = Some k" "wk_highest_admitted_key w < k"
  using validated_cases [of x w] ordered_cases [of x w] by metis

lemma take_cases:
  "worker_take w = (WorkerExited, discard_ready discardedShutdownReady w) \<and> wk_stop_requested w \<or>
   worker_take w = (WorkerWaiting, w) \<or>
   worker_take w = (WorkerWaiting, discard_ready discardedReady w) \<or>
   worker_take w = (WorkerExited, (discard_ready discardedReady w)\<lparr>wk_fatal := True, wk_accepting := False\<rparr>) \<or>
   (\<exists>x. worker_take w = (WorkerProcessing x, (account mappingStarted (w\<lparr>wk_ready := None\<rparr>))\<lparr>wk_in_flight := True\<rparr>) \<and>
      wk_ready w = Some x)"
proof (cases "wk_stop_requested w \<or> wk_ready w = None")
  case False
  then obtain x where x: "wk_ready w = Some x" "\<not> wk_stop_requested w" by auto
  show ?thesis
  proof (cases "wk_validate w")
    case (Some v)
    with x show ?thesis by (cases "v x") (auto simp: worker_take_def)
  qed (use x in \<open>simp add: worker_take_def\<close>)
qed (auto simp: worker_take_def)

lemmas worker_defs = worker_start_def submission_failed_def submit_ready_def reset_begin_def reset_finish_def shutdown_begin_def
  worker_abort_def

lemma submit_flags:
  assumes "submitFromWaiting x w = (b, w')"
  shows "wk_started w' = wk_started w \<and> wk_in_flight w' = wk_in_flight w \<and> wk_resetting w' = wk_resetting w \<and>
    wk_shutdown_started w' = wk_shutdown_started w \<and> wk_stop_requested w' = wk_stop_requested w \<and>
    (wk_accepting w' \<longrightarrow> wk_accepting w) \<and> (wk_ready w' = wk_ready w \<or> wk_accepting w \<and> \<not> wk_resetting w)"
proof -
  have w': "w' = snd (submitFromWaiting x w)" using assms by simp
  show ?thesis unfolding w' by (rule submit_cases [of x w]) (simp_all add: worker_defs)
qed

lemma step_flags: "mapping_step s t \<Longrightarrow> flags_ok s \<Longrightarrow> flags_ok t"
proof (induction rule: mapping_step.induct)
  case (map_submit s x)
  obtain b w' where w': "submitFromWaiting x (sys_worker s) = (b, w')" by fastforce
  have owner: "\<not> wk_resetting (sys_worker s)" using map_submit by (simp add: flags_ok_def Let_def)
  with map_submit submit_flags [OF w'] show ?case by (simp add: flags_ok_def Let_def w') argo
next
  case (map_take s p w)
  from map_take(1,3) map_take(2) take_cases [of "sys_worker s"] show ?case
    by (elim disjE conjE exE) (auto simp: flags_ok_def Let_def)
next
  case (map_start s w)
  then have "w = (sys_worker s)\<lparr>wk_started := True\<rparr>" "\<not> wk_started (sys_worker s)" "\<not> wk_shutdown_started (sys_worker s)"
    by (simp_all add: worker_start_def split: if_splits)
  with map_start show ?case by (simp add: flags_ok_def Let_def)
next
  case (map_abort s)
  then show ?case by (cases "sys_point s") (simp_all add: flags_ok_def worker_abort_def Let_def)
qed (simp_all add: flags_ok_def worker_defs Let_def split: if_splits)

lemma step_account: "mapping_step s t \<Longrightarrow> flags_ok s \<Longrightarrow> account_ok s \<Longrightarrow> account_ok t"
proof (induction rule: mapping_step.induct)
  case (map_submit s x)
  then have slot: "slots True (wk_ready (sys_worker s) \<noteq> None) (processing (sys_point s)) (wk_accounting (sys_worker s))"
    by (simp add: account_ok_def)
  show ?case
    by (rule submit_cases [of x "sys_worker s"])
      (use slot in \<open>auto simp: account_ok_def worker_defs intro!: account_intros\<close>)
next
  case (map_take s p w)
  then have slot: "slots (owns (sys_client s)) (wk_ready (sys_worker s) \<noteq> None) False (wk_accounting (sys_worker s))"
    by (simp add: account_ok_def)
  from map_take(2) take_cases [of "sys_worker s"] show ?case
    by (elim disjE conjE exE) (use slot in \<open>auto simp: account_ok_def intro!: account_intros discard_ready_slots\<close>)
next
  case (map_start s w)
  then have "w = (sys_worker s)\<lparr>wk_started := True\<rparr>" "sys_point s = WorkerIdle"
    by (auto simp: worker_start_def flags_ok_def Let_def split: if_splits)
  with map_start show ?case by (simp add: account_ok_def)
next
  case (map_reset_begin s)
  then show ?case by (auto simp: account_ok_def reset_begin_def intro!: discard_ready_slots)
next
  case (map_shutdown_begin s)
  then show ?case
    by (auto simp: account_ok_def shutdown_begin_def Let_def intro!: discard_ready_slots split: if_splits)
next
  case (map_abort s)
  then show ?case by (auto simp: account_ok_def worker_abort_def intro!: discard_ready_slots)
qed (auto simp: account_ok_def worker_defs intro!: account_intros)

lemma step_order: "mapping_step s t \<Longrightarrow> flags_ok s \<Longrightarrow> order_ok s \<Longrightarrow> order_ok t"
proof (induction rule: mapping_step.induct)
  case (map_submit s x)
  show ?case
    by (rule submit_cases [of x "sys_worker s"])
      (use map_submit in \<open>auto simp: order_ok_def worker_defs Let_def\<close>)
next
  case (map_take s p w)
  from map_take(2) take_cases [of "sys_worker s"] show ?case
    by (elim disjE conjE exE) (use map_take in \<open>auto simp: order_ok_def Let_def\<close>)
next
  case (map_reset_finish s)
  then show ?case by (simp add: order_ok_def flags_ok_def reset_finish_def Let_def)
qed (auto simp: order_ok_def worker_defs discard_ready_def Let_def split: if_splits)

lemma mapping_init_ok: "mapping_init s \<Longrightarrow> mapping_ok s"
  by (erule mapping_init.cases)
    (auto simp: mapping_ok_def flags_ok_def account_ok_def order_ok_def setStrictlyIncreasingOrderKey_def makeMappingWorker_def
      Let_def intro: account_intros)

lemma mapping_reachable_ok: "mapping.reachable s \<Longrightarrow> mapping_ok s"
proof (erule mapping.invariant_reachable [rotated 2])
  fix s t :: "'a mapping_system" assume "mapping_ok s" "mapping_step s t"
  then show "mapping_ok t" using step_flags step_account step_order by (auto simp: mapping_ok_def)
qed (rule mapping_init_ok)

section \<open>Properties\<close>

text \<open>
  C21. Every observation is accounted for exactly once. In every interleaving of the ingress, the worker thread,
  resets and the shutdown, the published invariants of the account hold with no violation counted, its slots
  tell what the worker holds, and what was received is what was rejected, replaced, discarded, published,
  failed, or is still waiting, ready or in flight.
\<close>

theorem mapping_accounting_exact:
  assumes "mapping.reachable s"
  shows "let a = wk_accounting (sys_worker s) in allInvariantsHold a \<and>
    (oa_ready a = 1 \<longleftrightarrow> wk_ready (sys_worker s) \<noteq> None) \<and> (oa_in_flight a = 1 \<longleftrightarrow> processing (sys_point s)) \<and>
    oa_received a = oa_rejected_before_inbox a +
      (oa_replaced_waiting a + oa_replaced_ready a) +
      (oa_discarded_waiting a + oa_discarded_ready a + oa_discarded_shutdown_ready a) +
      (oa_mapping_published a + oa_mapping_failed a) + (oa_waiting a + oa_ready a + oa_in_flight a)"
proof -
  have "slots (owns (sys_client s)) (wk_ready (sys_worker s) \<noteq> None) (processing (sys_point s)) (wk_accounting (sys_worker s))"
    using mapping_reachable_ok [OF assms] by (simp add: mapping_ok_def account_ok_def)
  then show ?thesis by (simp add: slots_def invariant_defs Let_def algebra_simps)
qed

text \<open>
  C20. The map sees observations in the order of their keys: between two resets the keys of the observations
  handed to the map are strictly increasing, whatever is submitted, and the one that is ready comes after
  all of them. A reset that is complete leaves nothing of the old epoch behind: while it holds its barrier
  nothing is ready, and it ends only when nothing is in flight.
\<close>

theorem mapping_in_order:
  assumes "mapping.reachable s" "wk_order_key (sys_worker s) = Some f"
  shows "sorted_wrt (\<lambda>later earlier. the (f earlier) < the (f later)) (sys_started s) \<and>
    (\<forall>r. wk_ready (sys_worker s) = Some r \<longrightarrow> (\<forall>x \<in> set (sys_started s). the (f x) < the (f r))) \<and>
    (sys_client s = ClientResetting \<longrightarrow> wk_ready (sys_worker s) = None \<and>
      (\<not> wk_in_flight (sys_worker s) \<longrightarrow> \<not> busy (sys_point s) \<and> oa_in_flight (wk_accounting (sys_worker s)) = 0))"
proof -
  have ok: "flags_ok s" "account_ok s" "order_ok s" using mapping_reachable_ok [OF assms(1)] by (simp_all add: mapping_ok_def)
  have "processing p \<Longrightarrow> busy p" for p :: "'a worker_point" by (cases p) simp_all
  with ok(1,2) have "sys_client s = ClientResetting \<longrightarrow> wk_ready (sys_worker s) = None \<and>
      (\<not> wk_in_flight (sys_worker s) \<longrightarrow> \<not> busy (sys_point s) \<and> oa_in_flight (wk_accounting (sys_worker s)) = 0)"
    by (auto simp: flags_ok_def account_ok_def slots_def Let_def)
  with ok(3) assms(2) show ?thesis by (auto simp: order_ok_def Let_def)
qed

text \<open>
  A shutdown that returned has drained the worker: the thread has ended, nothing is ready or in flight, no
  observation is admitted any more, and once the ingress has returned too every received observation has a
  terminal disposition.
\<close>

theorem mapping_shutdown_drains:
  assumes "mapping.reachable s" "sys_shutdown s = ShutdownDone"
  shows "\<not> busy (sys_point s) \<and> wk_ready (sys_worker s) = None \<and> (\<forall>x. \<not> fst (submitFromWaiting x (sys_worker s))) \<and>
    (let a = wk_accounting (sys_worker s) in \<not> owns (sys_client s) \<longrightarrow>
      oa_received a = oa_rejected_before_inbox a + (oa_replaced_waiting a + oa_replaced_ready a) +
        (oa_discarded_waiting a + oa_discarded_ready a + oa_discarded_shutdown_ready a) +
        (oa_mapping_published a + oa_mapping_failed a))"
proof -
  have ok: "flags_ok s" "account_ok s" using mapping_reachable_ok [OF assms(1)] by (simp_all add: mapping_ok_def)
  then have idle: "\<not> busy (sys_point s)" "\<not> processing (sys_point s)" "wk_ready (sys_worker s) = None" "\<not> wk_accepting (sys_worker s)"
    using assms(2) by (auto simp: flags_ok_def Let_def)
  with ok(2) have "let a = wk_accounting (sys_worker s) in \<not> owns (sys_client s) \<longrightarrow>
      oa_received a = oa_rejected_before_inbox a + (oa_replaced_waiting a + oa_replaced_ready a) +
        (oa_discarded_waiting a + oa_discarded_ready a + oa_discarded_shutdown_ready a) +
        (oa_mapping_published a + oa_mapping_failed a)"
    by (auto simp: account_ok_def slots_def invariant_defs Let_def algebra_simps)
  with idle show ?thesis by (simp add: submitFromWaiting_def)
qed

section \<open>A concrete run\<close>

text \<open>
  Two observations with the keys 5 and 7: the first is taken by the worker, the second is then ready; a
  shutdown lets the first finish and discards the second.
\<close>

definition ex_mapping :: "int mapping_system" where
  "ex_mapping = \<lparr>sys_worker = (makeMappingWorker initial_accounting None)\<lparr>wk_order_key := Some Some\<rparr>,
     sys_point = WorkerIdle, sys_client = ClientIdle, sys_shutdown = ShutdownNone, sys_started = []\<rparr>"

abbreviation ex_submit :: "int \<Rightarrow> int mapping_system \<Rightarrow> int mapping_system" where
  "ex_submit n s \<equiv> s\<lparr>sys_worker := snd (submitFromWaiting n (account (\<lambda>a. snd (recordAcceptedToInbox a)) (sys_worker s))),
     sys_client := ClientIdle\<rparr>"

definition ex_mapping_started :: "int mapping_system" where
  "ex_mapping_started = ex_mapping\<lparr>sys_worker := (sys_worker ex_mapping)\<lparr>wk_started := True\<rparr>, sys_point := WorkerWaiting\<rparr>"

definition ex_mapping_taken :: "int mapping_system" where
  "ex_mapping_taken = (let s = ex_submit 5 ex_mapping_started in
     s\<lparr>sys_worker := snd (worker_take (sys_worker s)), sys_point := WorkerProcessing 5, sys_started := [5]\<rparr>)"

definition ex_mapping_busy :: "int mapping_system" where
  "ex_mapping_busy = ex_submit 7 ex_mapping_taken"

lemma ex_submit_reachable:
  assumes "mapping.reachable s" "sys_client s = ClientIdle"
  shows "mapping.reachable (ex_submit n s)"
  using mapping.reach_step [OF mapping.reach_step [OF assms(1) map_accept [OF assms(2), of n]] map_submit] by simp

lemmas ex_mapping_defs = ex_mapping_def ex_mapping_started_def ex_mapping_taken_def ex_mapping_busy_def makeMappingWorker_def
  initial_accounting_def submitFromWaiting_def submit_ordered_def worker_defs worker_take_def accounting_defs discard_ready_def Let_def

lemma ex_busy_reachable: "mapping.reachable ex_mapping_busy"
proof -
  have "mapping_init ex_mapping"
    unfolding ex_mapping_def by (rule mapping_init.intros) (simp add: setStrictlyIncreasingOrderKey_def makeMappingWorker_def)
  then have "mapping.reachable ex_mapping" by (rule mapping.reach_init)
  moreover have "mapping_step ex_mapping ex_mapping_started"
    unfolding ex_mapping_started_def by (rule map_start) (simp add: worker_start_def ex_mapping_def makeMappingWorker_def)
  ultimately have started: "mapping.reachable ex_mapping_started" by (rule mapping.reach_step)
  have submitted: "mapping.reachable (ex_submit 5 ex_mapping_started)"
    by (rule ex_submit_reachable [OF started]) (simp add: ex_mapping_defs)
  have "mapping_step (ex_submit 5 ex_mapping_started) ex_mapping_taken"
    using map_take [of "ex_submit 5 ex_mapping_started" "WorkerProcessing 5"
        "snd (worker_take (sys_worker (ex_submit 5 ex_mapping_started)))"]
    by (simp add: ex_mapping_defs)
  with submitted have taken: "mapping.reachable ex_mapping_taken" by (rule mapping.reach_step)
  show ?thesis unfolding ex_mapping_busy_def
    by (rule ex_submit_reachable [OF taken]) (simp add: ex_mapping_defs)
qed

theorem mapping_accounting_exact_witness:
  "allInvariantsHold (wk_accounting (sys_worker ex_mapping_busy)) \<and> oa_received (wk_accounting (sys_worker ex_mapping_busy)) = 2 \<and>
   oa_ready (wk_accounting (sys_worker ex_mapping_busy)) = 1 \<and> oa_in_flight (wk_accounting (sys_worker ex_mapping_busy)) = 1"
  using mapping_accounting_exact [OF ex_busy_reachable] by (simp add: ex_mapping_defs)

theorem mapping_in_order_witness:
  "sys_started ex_mapping_busy = [5] \<and> wk_ready (sys_worker ex_mapping_busy) = Some 7 \<and> the (Some 5) < (7 :: int)"
proof -
  have f: "wk_order_key (sys_worker ex_mapping_busy) = Some Some" "sys_started ex_mapping_busy = [5]"
    "wk_ready (sys_worker ex_mapping_busy) = Some 7" by (simp_all add: ex_mapping_defs)
  from mapping_in_order [OF ex_busy_reachable f(1)] f show ?thesis by auto
qed

definition ex_mapping_stopped :: "int mapping_system" where
  "ex_mapping_stopped =
     (let s1 = ex_mapping_busy\<lparr>sys_worker := shutdown_begin (sys_worker ex_mapping_busy), sys_shutdown := ShutdownFlagged\<rparr>;
          s2 = s1\<lparr>sys_worker := (sys_worker s1)\<lparr>wk_stop_requested := True\<rparr>, sys_shutdown := ShutdownStopping\<rparr>;
          s3 = s2\<lparr>sys_worker := account mappingPublished (sys_worker s2), sys_point := WorkerPublished\<rparr>
      in s3\<lparr>sys_worker := (sys_worker s3)\<lparr>wk_in_flight := False\<rparr>, sys_point := WorkerWaiting\<rparr>)"

definition ex_mapping_exited :: "int mapping_system" where
  "ex_mapping_exited = ex_mapping_stopped\<lparr>sys_worker := snd (worker_take (sys_worker ex_mapping_stopped)),
     sys_point := WorkerExited, sys_started := sys_started ex_mapping_stopped\<rparr>"

definition ex_mapping_done :: "int mapping_system" where
  "ex_mapping_done = ex_mapping_exited\<lparr>sys_worker := (sys_worker ex_mapping_exited)\<lparr>wk_joined := True\<rparr>,
     sys_shutdown := ShutdownDone\<rparr>"

lemma ex_done_reachable: "mapping.reachable ex_mapping_done"
proof -
  have p: "sys_shutdown ex_mapping_busy = ShutdownNone" "sys_point ex_mapping_busy = WorkerProcessing 5"
    by (simp_all add: ex_mapping_defs)
  have stopped: "mapping.reachable ex_mapping_stopped" unfolding ex_mapping_stopped_def Let_def
    by (rule mapping.reach_step [OF mapping.reach_step [OF mapping.reach_step [OF mapping.reach_step [OF ex_busy_reachable
        map_shutdown_begin] map_shutdown_stop] map_published [of _ 5]] map_finish]) (use p in simp_all)
  have take: "worker_take (sys_worker ex_mapping_stopped) = (WorkerExited, snd (worker_take (sys_worker ex_mapping_stopped)))"
    "sys_point ex_mapping_stopped = WorkerWaiting" "sys_shutdown ex_mapping_stopped = ShutdownStopping"
    by (simp_all add: ex_mapping_stopped_def ex_mapping_defs)
  have exited: "mapping.reachable ex_mapping_exited"
    using mapping.reach_step [OF stopped map_take [OF take(2,1)]] by (simp add: ex_mapping_exited_def)
  show ?thesis unfolding ex_mapping_done_def
    by (rule mapping.reach_step [OF exited map_shutdown_join]) (use take(3) in \<open>simp_all add: ex_mapping_exited_def\<close>)
qed

theorem mapping_shutdown_drains_witness:
  "\<not> busy (sys_point ex_mapping_done) \<and> wk_ready (sys_worker ex_mapping_done) = None \<and>
   oa_discarded_shutdown_ready (wk_accounting (sys_worker ex_mapping_done)) = 1"
proof -
  have "sys_shutdown ex_mapping_done = ShutdownDone"
    "oa_discarded_shutdown_ready (wk_accounting (sys_worker ex_mapping_done)) = 1"
    by (simp_all add: ex_mapping_done_def ex_mapping_exited_def ex_mapping_stopped_def ex_mapping_defs)
  with mapping_shutdown_drains [OF ex_done_reachable] show ?thesis by blast
qed

end
