(* ===== verification/Planning_Worker.thy ===== *)
theory Planning_Worker
  imports Mapping_Worker
begin

text \<open>
  \<open>navigation_runtime/planning_worker.hpp\<close> with \<open>planning_supervisor.hpp\<close>, the planning key of
  \<open>planning_request.hpp\<close>, and \<open>heading_rebind_worker.hpp\<close>: the executors that run at most one job and keep at
  most one more. Each critical section is one function; the thread of the worker is a program point.
\<close>

section \<open>Keys and priorities\<close>

text \<open>\<open>StartModeOther\<close> is a value outside the enumerators, which the code tests for.\<close>

datatype PlanningStartMode = CommittedFutureState | StoppedMeasuredState | MeasuredEmergencyBrake | StartModeOther u8

definition planningStartModeKnown :: "PlanningStartMode \<Rightarrow> bool" where
  "planningStartModeKnown mode \<longleftrightarrow>
     mode = CommittedFutureState \<or> mode = StoppedMeasuredState \<or> mode = MeasuredEmergencyBrake"

record PlanningKey =
  pk_localization_epoch :: u64
  pk_goal_epoch :: u64
  pk_request_id :: u64
  pk_route_revision :: u64
  pk_committed_bundle_generation :: u64
  pk_pinned_world_generation :: u64
  pk_pinned_world_revision :: u64
  pk_start_mode :: PlanningStartMode
  pk_anchor_stamp_ns :: i64
  pk_dynamics_hash :: u64

definition key_valid :: "PlanningKey \<Rightarrow> bool" where
  "key_valid k \<longleftrightarrow> pk_localization_epoch k \<noteq> 0 \<and> pk_goal_epoch k \<noteq> 0 \<and> pk_request_id k \<noteq> 0 \<and> pk_route_revision k \<noteq> 0 \<and>
     pk_pinned_world_generation k \<noteq> 0 \<and> pk_pinned_world_revision k \<noteq> 0 \<and> planningStartModeKnown (pk_start_mode k) \<and>
     pk_anchor_stamp_ns k > 0 \<and> pk_dynamics_hash k \<noteq> 0"

text \<open>A priority is the 8-bit value of the enumeration, which may be out of its range.\<close>

type_synonym PlanningPriority = u8

definition kQualityRefinement :: PlanningPriority where "kQualityRefinement = 0"
definition kNormalRenewal :: PlanningPriority where "kNormalRenewal = 1"
definition kSafetyRenewal :: PlanningPriority where "kSafetyRenewal = 2"
definition kGoalTransition :: PlanningPriority where "kGoalTransition = 3"
definition kEmergencyPriority :: PlanningPriority where "kEmergencyPriority = 4"
definition kLocalizationReset :: PlanningPriority where "kLocalizationReset = 5"

definition planningPriorityKnown :: "PlanningPriority \<Rightarrow> bool" where
  "planningPriorityKnown priority \<longleftrightarrow> priority \<ge> kQualityRefinement \<and> priority \<le> kLocalizationReset"

definition higherPriority :: "PlanningPriority \<Rightarrow> PlanningPriority \<Rightarrow> bool" where
  "higherPriority lhs rhs \<longleftrightarrow> lhs > rhs"

definition samePlanningCancellationIdentity :: "PlanningKey \<Rightarrow> PlanningKey \<Rightarrow> bool" where
  "samePlanningCancellationIdentity lhs rhs \<longleftrightarrow>
     pk_localization_epoch lhs = pk_localization_epoch rhs \<and> pk_goal_epoch lhs = pk_goal_epoch rhs \<and>
     pk_request_id lhs = pk_request_id rhs \<and> pk_route_revision lhs = pk_route_revision rhs \<and>
     pk_committed_bundle_generation lhs = pk_committed_bundle_generation rhs \<and>
     pk_pinned_world_generation lhs = pk_pinned_world_generation rhs \<and> pk_start_mode lhs = pk_start_mode rhs \<and>
     pk_dynamics_hash lhs = pk_dynamics_hash rhs"

definition classifyPriority :: "bool \<Rightarrow> bool \<Rightarrow> bool \<Rightarrow> bool \<Rightarrow> PlanningPriority" where
  "classifyPriority localization_reset emergency goal_transition safety_renewal =
     (if localization_reset then kLocalizationReset else if emergency then kEmergencyPriority
      else if goal_transition then kGoalTransition else if safety_renewal then kSafetyRenewal else kNormalRenewal)"

definition resultStillCurrent :: "PlanningKey \<Rightarrow> PlanningKey \<Rightarrow> bool" where
  "resultStillCurrent request current \<longleftrightarrow>
     samePlanningCancellationIdentity request current \<and>
     pk_committed_bundle_generation request = pk_committed_bundle_generation current \<and>
     pk_pinned_world_generation request = pk_pinned_world_generation current"

section \<open>State of the planning worker\<close>

datatype PlanningSubmitDisposition =
  SubmitAccepted | SubmitReplacedPending | SubmitExactDuplicate | SubmitRejectedLowerPriority | SubmitRejectedInvalid | SubmitRejectedStopped

fun disposition_value :: "PlanningSubmitDisposition \<Rightarrow> u64" where
  "disposition_value SubmitAccepted = 0"
| "disposition_value SubmitReplacedPending = 1"
| "disposition_value SubmitExactDuplicate = 2"
| "disposition_value SubmitRejectedLowerPriority = 3"
| "disposition_value SubmitRejectedInvalid = 4"
| "disposition_value SubmitRejectedStopped = 5"

record PlanningWorkerSnapshot =
  pn_submitted :: u64
  pn_started :: u64
  pn_completed :: u64
  pn_cancelled :: u64
  pn_exact_duplicates :: u64
  pn_replaced_pending :: u64
  pn_rejected_lower_priority :: u64
  pn_accepted :: u64
  pn_rejected_invalid :: u64
  pn_rejected_stopped :: u64
  pn_last_enqueue_wait_us :: i64
  pn_last_worker_runtime_us :: i64
  pn_last_enqueue_time_steady_ns :: i64
  pn_last_worker_start_steady_ns :: i64
  pn_last_backend_entry_steady_ns :: i64
  pn_last_backend_exit_steady_ns :: i64
  pn_last_transaction_localization_epoch :: u64
  pn_last_transaction_goal_epoch :: u64
  pn_last_transaction_request_id :: u64
  pn_last_transaction_route_revision :: u64
  pn_last_transaction_committed_bundle_generation :: u64
  pn_last_transaction_pinned_world_generation :: u64
  pn_last_transaction_pinned_world_revision :: u64
  pn_last_transaction_anchor_stamp_ns :: u64
  pn_last_transaction_dynamics_hash :: u64
  pn_last_submit_disposition :: u64
  pn_in_flight :: bool
  pn_pending :: bool
  pn_fatal :: bool

record 'j WorkItem =
  wi_key :: PlanningKey
  wi_priority :: PlanningPriority
  wi_job :: 'j
  wi_enqueued_at :: i64

record ActiveItem =
  ai_key :: PlanningKey
  ai_priority :: PlanningPriority
  ai_stop_requested :: bool

text \<open>\<open>pw_interrupts\<close> records the key of the active item at each call of \<open>cancelActiveSolve\<close>.\<close>

record 'j PlanningWorker =
  pw_pending :: "'j WorkItem option"
  pw_active :: "ActiveItem option"
  pw_snapshot :: PlanningWorkerSnapshot
  pw_accepting :: bool
  pw_started :: bool
  pw_fatal :: bool
  pw_shutdown_started :: bool
  pw_stop_requested :: bool
  pw_joined :: bool
  pw_interrupts :: "PlanningKey list"

definition initial_planning_snapshot :: PlanningWorkerSnapshot where
  "initial_planning_snapshot = \<lparr>pn_submitted = 0, pn_started = 0, pn_completed = 0, pn_cancelled = 0, pn_exact_duplicates = 0,
     pn_replaced_pending = 0, pn_rejected_lower_priority = 0, pn_accepted = 0, pn_rejected_invalid = 0, pn_rejected_stopped = 0,
     pn_last_enqueue_wait_us = 0, pn_last_worker_runtime_us = 0, pn_last_enqueue_time_steady_ns = 0,
     pn_last_worker_start_steady_ns = 0, pn_last_backend_entry_steady_ns = 0, pn_last_backend_exit_steady_ns = 0,
     pn_last_transaction_localization_epoch = 0, pn_last_transaction_goal_epoch = 0, pn_last_transaction_request_id = 0,
     pn_last_transaction_route_revision = 0, pn_last_transaction_committed_bundle_generation = 0, pn_last_transaction_pinned_world_generation = 0,
     pn_last_transaction_pinned_world_revision = 0, pn_last_transaction_anchor_stamp_ns = 0, pn_last_transaction_dynamics_hash = 0,
     pn_last_submit_disposition = 0, pn_in_flight = False, pn_pending = False, pn_fatal = False\<rparr>"

definition makePlanningWorker :: "'j PlanningWorker" where
  "makePlanningWorker = \<lparr>pw_pending = None, pw_active = None, pw_snapshot = initial_planning_snapshot, pw_accepting = True,
     pw_started = False, pw_fatal = False, pw_shutdown_started = False, pw_stop_requested = False, pw_joined = False,
     pw_interrupts = []\<rparr>"

abbreviation on_snapshot :: "(PlanningWorkerSnapshot \<Rightarrow> PlanningWorkerSnapshot) \<Rightarrow> 'j PlanningWorker \<Rightarrow> 'j PlanningWorker" where
  "on_snapshot f s \<equiv> s\<lparr>pw_snapshot := f (pw_snapshot s)\<rparr>"

section \<open>Operations\<close>

definition planning_start :: "'j PlanningWorker \<Rightarrow> 'j PlanningWorker option" where
  "planning_start s = (if pw_started s \<or> pw_shutdown_started s then None else Some (s\<lparr>pw_started := True\<rparr>))"

text \<open>Request the stop of the active item (counted once) and interrupt the backend.\<close>

definition cancel_active :: "'j PlanningWorker \<Rightarrow> 'j PlanningWorker" where
  "cancel_active s =
     (case pw_active s of None \<Rightarrow> s
      | Some a \<Rightarrow>
        let s1 = (if ai_stop_requested a then s else on_snapshot (\<lambda>n. n\<lparr>pn_cancelled := pn_cancelled n + 1\<rparr>) s)
        in s1\<lparr>pw_active := Some (a\<lparr>ai_stop_requested := True\<rparr>), pw_interrupts := pw_interrupts s1 @ [ai_key a]\<rparr>)"

definition supersedes_active :: "PlanningKey \<Rightarrow> PlanningPriority \<Rightarrow> 'j PlanningWorker \<Rightarrow> bool" where
  "supersedes_active key priority s =
     (case pw_active s of None \<Rightarrow> False
      | Some a \<Rightarrow> \<not> samePlanningCancellationIdentity (ai_key a) key \<or> higherPriority priority (ai_priority a))"

definition incumbent_priority :: "'j PlanningWorker \<Rightarrow> PlanningPriority" where
  "incumbent_priority s =
     (case pw_pending s of Some w \<Rightarrow> wi_priority w
      | None \<Rightarrow> (case pw_active s of Some a \<Rightarrow> ai_priority a | None \<Rightarrow> kQualityRefinement))"

definition noted :: "PlanningSubmitDisposition \<Rightarrow> PlanningWorkerSnapshot \<Rightarrow> PlanningWorkerSnapshot" where
  "noted d n = n\<lparr>pn_last_submit_disposition := disposition_value d\<rparr>"

text \<open>The identity of the latest worker transaction; the stamp is cast to an unsigned value.\<close>

definition note_transaction :: "PlanningKey \<Rightarrow> PlanningWorkerSnapshot \<Rightarrow> PlanningWorkerSnapshot" where
  "note_transaction k n = n\<lparr>pn_last_transaction_localization_epoch := pk_localization_epoch k,
     pn_last_transaction_goal_epoch := pk_goal_epoch k, pn_last_transaction_request_id := pk_request_id k,
     pn_last_transaction_route_revision := pk_route_revision k,
     pn_last_transaction_committed_bundle_generation := pk_committed_bundle_generation k,
     pn_last_transaction_pinned_world_generation := pk_pinned_world_generation k,
     pn_last_transaction_pinned_world_revision := pk_pinned_world_revision k,
     pn_last_transaction_anchor_stamp_ns := word_of_int (pk_anchor_stamp_ns k),
     pn_last_transaction_dynamics_hash := pk_dynamics_hash k\<rparr>"

definition enqueue :: "'j WorkItem \<Rightarrow> 'j PlanningWorker \<Rightarrow> PlanningSubmitDisposition \<times> 'j PlanningWorker" where
  "enqueue work s =
     (let replaced = (pw_pending s \<noteq> None);
          disposition = (if replaced then SubmitReplacedPending else SubmitAccepted);
          s1 = (if replaced then on_snapshot (\<lambda>n. n\<lparr>pn_replaced_pending := pn_replaced_pending n + 1\<rparr>) s else s)
      in (disposition,
          on_snapshot (\<lambda>n. (note_transaction (wi_key work) (noted disposition n))\<lparr>pn_submitted := pn_submitted n + 1, pn_accepted := pn_accepted n + 1,
              pn_last_enqueue_time_steady_ns := wi_enqueued_at work, pn_pending := True\<rparr>)
            (s1\<lparr>pw_pending := Some work\<rparr>)))"

definition planning_submit ::
    "PlanningKey \<Rightarrow> PlanningPriority \<Rightarrow> 'j option \<Rightarrow> i64 \<Rightarrow> 'j PlanningWorker \<Rightarrow> PlanningSubmitDisposition \<times> 'j PlanningWorker" where
  "planning_submit key priority job now s =
     (case job of
        None \<Rightarrow> (SubmitRejectedInvalid, on_snapshot (\<lambda>n. (noted SubmitRejectedInvalid n)\<lparr>pn_rejected_invalid := pn_rejected_invalid n + 1\<rparr>) s)
      | Some j \<Rightarrow>
        if \<not> key_valid key \<or> \<not> planningPriorityKnown priority
        then (SubmitRejectedInvalid, on_snapshot (\<lambda>n. (noted SubmitRejectedInvalid n)\<lparr>pn_rejected_invalid := pn_rejected_invalid n + 1\<rparr>) s)
        else if \<not> pw_accepting s \<or> pw_fatal s \<or> pw_shutdown_started s
        then (SubmitRejectedStopped, on_snapshot (\<lambda>n. (noted SubmitRejectedStopped n)\<lparr>pn_rejected_stopped := pn_rejected_stopped n + 1\<rparr>) s)
        else if map_option ai_key (pw_active s) = Some key \<or> map_option wi_key (pw_pending s) = Some key
        then (SubmitExactDuplicate, on_snapshot (\<lambda>n. (noted SubmitExactDuplicate n)\<lparr>pn_exact_duplicates := pn_exact_duplicates n + 1\<rparr>) s)
        else let superseded = supersedes_active key priority s; s1 = (if superseded then cancel_active s else s)
             in if \<not> superseded \<and> (pw_pending s \<noteq> None \<or> pw_active s \<noteq> None) \<and> higherPriority (incumbent_priority s) priority
                then (SubmitRejectedLowerPriority,
                      on_snapshot (\<lambda>n. (noted SubmitRejectedLowerPriority n)\<lparr>pn_rejected_lower_priority := pn_rejected_lower_priority n + 1\<rparr>) s1)
                else enqueue \<lparr>wi_key = key, wi_priority = priority, wi_job = j, wi_enqueued_at = now\<rparr> s1)"

definition cancelActive :: "'j PlanningWorker \<Rightarrow> 'j PlanningWorker" where
  "cancelActive s = cancel_active s"

definition cancelActiveIfExecutionIdentity ::
    "u64 \<Rightarrow> u64 \<Rightarrow> u64 \<Rightarrow> u64 \<Rightarrow> 'j PlanningWorker \<Rightarrow> bool \<times> 'j PlanningWorker" where
  "cancelActiveIfExecutionIdentity localization_epoch goal_epoch request_id generation s =
     (if localization_epoch = 0 \<or> goal_epoch = 0 \<or> request_id = 0 \<or> generation = 0 then (False, s)
      else case pw_active s of None \<Rightarrow> (False, s)
      | Some a \<Rightarrow>
        if pk_localization_epoch (ai_key a) \<noteq> localization_epoch \<or> pk_goal_epoch (ai_key a) \<noteq> goal_epoch \<or>
           pk_request_id (ai_key a) \<noteq> request_id \<or> pk_committed_bundle_generation (ai_key a) \<noteq> generation
        then (False, s) else (True, cancel_active s))"

definition planning_shutdown_begin :: "'j PlanningWorker \<Rightarrow> 'j PlanningWorker" where
  "planning_shutdown_begin s =
     cancel_active (on_snapshot (\<lambda>n. n\<lparr>pn_pending := False\<rparr>)
       (s\<lparr>pw_shutdown_started := True, pw_accepting := False, pw_pending := None\<rparr>))"

definition planning_snapshot :: "'j PlanningWorker \<Rightarrow> PlanningWorkerSnapshot" where
  "planning_snapshot s = (pw_snapshot s)\<lparr>pn_in_flight := (pw_active s \<noteq> None), pn_pending := (pw_pending s \<noteq> None), pn_fatal := pw_fatal s\<rparr>"

text \<open>\<open>duration_cast\<close> to microseconds truncates towards zero.\<close>

definition micros_of_nanos :: "i64 \<Rightarrow> i64" where
  "micros_of_nanos d = (if 0 \<le> d then d div 1000 else - ((- d) div 1000))"

definition planning_take :: "i64 \<Rightarrow> 'j PlanningWorker \<Rightarrow> 'j WorkItem option \<times> 'j PlanningWorker" where
  "planning_take now s =
     (if pw_stop_requested s then (None, s)
      else case pw_pending s of None \<Rightarrow> (None, s)
      | Some work \<Rightarrow>
        (Some work, on_snapshot (\<lambda>n. n\<lparr>pn_last_worker_start_steady_ns := now,
             pn_last_enqueue_wait_us := micros_of_nanos (now - wi_enqueued_at work), pn_pending := False, pn_in_flight := True,
             pn_started := pn_started n + 1\<rparr>)
           (s\<lparr>pw_pending := None,
              pw_active := Some \<lparr>ai_key = wi_key work, ai_priority = wi_priority work, ai_stop_requested = False\<rparr>\<rparr>)))"

definition backend_entry :: "i64 \<Rightarrow> 'j PlanningWorker \<Rightarrow> 'j PlanningWorker" where
  "backend_entry now s = on_snapshot (\<lambda>n. n\<lparr>pn_last_backend_entry_steady_ns := now\<rparr>) s"

definition backend_exit :: "i64 \<Rightarrow> 'j PlanningWorker \<Rightarrow> 'j PlanningWorker" where
  "backend_exit now s = on_snapshot (\<lambda>n. n\<lparr>pn_last_backend_exit_steady_ns := now\<rparr>) s"

definition planning_failed :: "'j PlanningWorker \<Rightarrow> 'j PlanningWorker" where
  "planning_failed s =
     on_snapshot (\<lambda>n. n\<lparr>pn_in_flight := False, pn_pending := False\<rparr>)
       (s\<lparr>pw_fatal := True, pw_accepting := False, pw_active := None, pw_pending := None\<rparr>)"

definition planning_completed :: "i64 \<Rightarrow> i64 \<Rightarrow> 'j PlanningWorker \<Rightarrow> 'j PlanningWorker" where
  "planning_completed started_at now s =
     on_snapshot (\<lambda>n. n\<lparr>pn_last_worker_runtime_us := micros_of_nanos (now - started_at), pn_in_flight := False,
         pn_completed := pn_completed n + 1\<rparr>) (s\<lparr>pw_active := None\<rparr>)"

section \<open>Interleaving\<close>

datatype 'j planner_point =
  PlannerIdle | PlannerWaiting | PlannerTaken "'j WorkItem" i64 | PlannerSolving "'j WorkItem" i64 | PlannerSolved i64 | PlannerExited

record 'j planning_system =
  ps_worker :: "'j PlanningWorker"
  ps_point :: "'j planner_point"
  ps_shutdown :: shutdown_point

inductive planning_step :: "'j planning_system \<Rightarrow> 'j planning_system \<Rightarrow> bool" where
  plan_start: "planning_start (ps_worker s) = Some w \<Longrightarrow> planning_step s (s\<lparr>ps_worker := w, ps_point := PlannerWaiting\<rparr>)"
| plan_submit: "planning_step s (s\<lparr>ps_worker := snd (planning_submit key priority job now (ps_worker s))\<rparr>)"
| plan_cancel: "planning_step s (s\<lparr>ps_worker := cancelActive (ps_worker s)\<rparr>)"
| plan_cancel_identity: "planning_step s (s\<lparr>ps_worker := snd (cancelActiveIfExecutionIdentity l g r b (ps_worker s))\<rparr>)"
| plan_shutdown_begin: "ps_shutdown s = ShutdownNone \<Longrightarrow>
    planning_step s (s\<lparr>ps_worker := planning_shutdown_begin (ps_worker s), ps_shutdown := ShutdownFlagged\<rparr>)"
| plan_shutdown_stop: "ps_shutdown s = ShutdownFlagged \<Longrightarrow>
    planning_step s (s\<lparr>ps_worker := (ps_worker s)\<lparr>pw_stop_requested := True\<rparr>, ps_shutdown := ShutdownStopping\<rparr>)"
| plan_shutdown_join: "ps_shutdown s = ShutdownStopping \<Longrightarrow> ps_point s \<in> {PlannerIdle, PlannerExited} \<Longrightarrow>
    planning_step s (s\<lparr>ps_worker := (ps_worker s)\<lparr>pw_joined := True\<rparr>, ps_shutdown := ShutdownDone\<rparr>)"
| plan_exit: "ps_point s = PlannerWaiting \<Longrightarrow> pw_stop_requested (ps_worker s) \<Longrightarrow> planning_step s (s\<lparr>ps_point := PlannerExited\<rparr>)"
| plan_take: "ps_point s = PlannerWaiting \<Longrightarrow> planning_take now (ps_worker s) = (Some work, w) \<Longrightarrow>
    planning_step s (s\<lparr>ps_worker := w, ps_point := PlannerTaken work now\<rparr>)"
| plan_enter: "ps_point s = PlannerTaken work started_at \<Longrightarrow>
    planning_step s (s\<lparr>ps_worker := backend_entry now (ps_worker s), ps_point := PlannerSolving work started_at\<rparr>)"
| plan_leave: "ps_point s = PlannerSolving work started_at \<Longrightarrow>
    planning_step s (s\<lparr>ps_worker := backend_exit now (ps_worker s), ps_point := PlannerSolved started_at\<rparr>)"
| plan_fail: "ps_point s = PlannerSolving work started_at \<Longrightarrow>
    planning_step s (s\<lparr>ps_worker := planning_failed (ps_worker s), ps_point := PlannerExited\<rparr>)"
| plan_complete: "ps_point s = PlannerSolved started_at \<Longrightarrow>
    planning_step s (s\<lparr>ps_worker := planning_completed started_at now (ps_worker s), ps_point := PlannerWaiting\<rparr>)"

definition planning_init :: "'j planning_system \<Rightarrow> bool" where
  "planning_init s \<longleftrightarrow> s = \<lparr>ps_worker = makePlanningWorker, ps_point = PlannerIdle, ps_shutdown = ShutdownNone\<rparr>"

interpretation planning: transition_system planning_init planning_step .

section \<open>The invariant\<close>

definition solving :: "'j planner_point \<Rightarrow> bool" where
  "solving p \<longleftrightarrow> (case p of PlannerTaken _ _ \<Rightarrow> True | PlannerSolving _ _ \<Rightarrow> True | PlannerSolved _ \<Rightarrow> True | _ \<Rightarrow> False)"

lemma solving_simps [simp]:
  "solving PlannerIdle = False" "solving PlannerWaiting = False" "solving (PlannerTaken w t) = True"
  "solving (PlannerSolving w t) = True" "solving (PlannerSolved t) = True" "solving PlannerExited = False"
  by (simp_all add: solving_def)

text \<open>The item the thread works on is the active one.\<close>

definition point_ok :: "'j planner_point \<Rightarrow> ActiveItem option \<Rightarrow> bool" where
  "point_ok p active \<longleftrightarrow> (case p of
       PlannerTaken w _ \<Rightarrow> map_option ai_key active = Some (wi_key w)
     | PlannerSolving w _ \<Rightarrow> map_option ai_key active = Some (wi_key w)
     | PlannerSolved _ \<Rightarrow> active \<noteq> None
     | _ \<Rightarrow> active = None)"

text \<open>Whoever waits behind a solve that was not asked to stop wants the same thing as urgently.\<close>

definition queue_ok :: "ActiveItem option \<Rightarrow> 'j WorkItem option \<Rightarrow> bool" where
  "queue_ok active pending \<longleftrightarrow>
     (\<forall>a w. active = Some a \<and> pending = Some w \<and> \<not> ai_stop_requested a \<longrightarrow>
        samePlanningCancellationIdentity (ai_key a) (wi_key w) \<and> wi_priority w = ai_priority a) \<and>
     (\<forall>w. pending = Some w \<longrightarrow> key_valid (wi_key w) \<and> planningPriorityKnown (wi_priority w) \<and>
        map_option ai_key active \<noteq> Some (wi_key w)) \<and>
     (\<forall>a. active = Some a \<longrightarrow> key_valid (ai_key a) \<and> planningPriorityKnown (ai_priority a))"

text \<open>The counters: every accepted job was started, replaced, or is pending; only a stop or a failure drops one.\<close>

definition ledger_ok :: "PlanningWorkerSnapshot \<Rightarrow> bool \<Rightarrow> bool \<Rightarrow> bool \<Rightarrow> bool \<Rightarrow> bool" where
  "ledger_ok n pending active accepting fatal \<longleftrightarrow>
     pn_accepted n = pn_submitted n \<and>
     (pn_submitted n = pn_started n + pn_replaced_pending n + of_bool pending \<or>
      \<not> accepting \<and> \<not> pending \<and> pn_submitted n = pn_started n + pn_replaced_pending n + 1) \<and>
     (pn_started n = pn_completed n + of_bool active \<or> fatal \<and> \<not> active \<and> pn_started n = pn_completed n + 1)"

definition counters_ok :: "'j planning_system \<Rightarrow> bool" where
  "counters_ok s \<longleftrightarrow> (let w = ps_worker s in
     ledger_ok (pw_snapshot w) (pw_pending w \<noteq> None) (pw_active w \<noteq> None) (pw_accepting w) (pw_fatal w))"

definition flow_ok :: "'j planning_system \<Rightarrow> bool" where
  "flow_ok s \<longleftrightarrow> (let w = ps_worker s in
     point_ok (ps_point s) (pw_active w) \<and> queue_ok (pw_active w) (pw_pending w) \<and>
     pw_started w = (ps_point s \<noteq> PlannerIdle) \<and>
     pw_shutdown_started w = (ps_shutdown s \<noteq> ShutdownNone) \<and>
     pw_stop_requested w = (ps_shutdown s \<in> {ShutdownStopping, ShutdownDone}) \<and>
     (pw_fatal w \<longrightarrow> ps_point s = PlannerExited) \<and>
     (\<not> pw_accepting w \<longleftrightarrow> pw_fatal w \<or> pw_shutdown_started w) \<and>
     (\<not> pw_accepting w \<longrightarrow> pw_pending w = None) \<and>
     (pw_shutdown_started w \<longrightarrow> (\<forall>a. pw_active w = Some a \<longrightarrow> ai_stop_requested a)) \<and>
     (ps_shutdown s = ShutdownDone \<longrightarrow> ps_point s \<in> {PlannerIdle, PlannerExited}))"

text \<open>A change of the snapshot that no flow counter notices.\<close>

definition quiet :: "PlanningWorkerSnapshot \<Rightarrow> PlanningWorkerSnapshot \<Rightarrow> bool" where
  "quiet n n' \<longleftrightarrow> pn_submitted n' = pn_submitted n \<and> pn_accepted n' = pn_accepted n \<and> pn_started n' = pn_started n \<and>
     pn_replaced_pending n' = pn_replaced_pending n \<and> pn_completed n' = pn_completed n"

lemma planning_submit_cases:
  obtains (refused) d n where "planning_submit key priority job now s = (d, s\<lparr>pw_snapshot := n\<rparr>)" "quiet (pw_snapshot s) n"
      "d \<notin> {SubmitAccepted, SubmitReplacedPending}"
  | (queued) j where "job = Some j" "key_valid key" "planningPriorityKnown priority" "pw_accepting s"
      "map_option ai_key (pw_active s) \<noteq> Some key" "map_option wi_key (pw_pending s) \<noteq> Some key"
      "supersedes_active key priority s \<or> pw_pending s = None \<and> pw_active s = None \<or> incumbent_priority s \<le> priority"
      "planning_submit key priority job now s =
         enqueue \<lparr>wi_key = key, wi_priority = priority, wi_job = j, wi_enqueued_at = now\<rparr>
           (if supersedes_active key priority s then cancel_active s else s)"
proof (cases job)
  case None
  then show ?thesis by (intro refused [of SubmitRejectedInvalid "(noted SubmitRejectedInvalid (pw_snapshot s))\<lparr>pn_rejected_invalid := pn_rejected_invalid (pw_snapshot s) + 1\<rparr>"])
      (simp_all add: planning_submit_def quiet_def noted_def)
next
  case (Some j)
  let ?known = "key_valid key \<and> planningPriorityKnown priority"
  let ?open = "pw_accepting s \<and> \<not> pw_fatal s \<and> \<not> pw_shutdown_started s"
  let ?dup = "map_option ai_key (pw_active s) = Some key \<or> map_option wi_key (pw_pending s) = Some key"
  let ?low = "\<not> supersedes_active key priority s \<and> (pw_pending s \<noteq> None \<or> pw_active s \<noteq> None) \<and>
    higherPriority (incumbent_priority s) priority"
  consider "\<not> ?known" | "?known" "\<not> ?open" | "?known" "?open" "?dup" | "?known" "?open" "\<not> ?dup" "?low"
    | "?known" "?open" "\<not> ?dup" "\<not> ?low" by blast
  then show ?thesis
  proof cases
    case 1
    with Some show ?thesis by (intro refused [of SubmitRejectedInvalid "(noted SubmitRejectedInvalid (pw_snapshot s))\<lparr>pn_rejected_invalid := pn_rejected_invalid (pw_snapshot s) + 1\<rparr>"])
      (simp_all add: planning_submit_def quiet_def noted_def)
  next
    case 2
    with Some show ?thesis by (intro refused [of SubmitRejectedStopped "(noted SubmitRejectedStopped (pw_snapshot s))\<lparr>pn_rejected_stopped := pn_rejected_stopped (pw_snapshot s) + 1\<rparr>"])
      (auto simp: planning_submit_def quiet_def noted_def)
  next
    case 3
    with Some show ?thesis by (intro refused [of SubmitExactDuplicate "(noted SubmitExactDuplicate (pw_snapshot s))\<lparr>pn_exact_duplicates := pn_exact_duplicates (pw_snapshot s) + 1\<rparr>"])
      (simp_all add: planning_submit_def quiet_def noted_def)
  next
    case 4
    with Some show ?thesis by (intro refused [of SubmitRejectedLowerPriority "(noted SubmitRejectedLowerPriority (pw_snapshot s))\<lparr>pn_rejected_lower_priority := pn_rejected_lower_priority (pw_snapshot s) + 1\<rparr>"])
      (simp_all add: planning_submit_def quiet_def noted_def Let_def)
  next
    case 5
    with Some show ?thesis
      by (intro queued [of j]) (auto simp: planning_submit_def higherPriority_def not_less Let_def)
  qed
qed

text \<open>What a cancellation leaves alone, and what an accepted job changes.\<close>

lemma cancel_frame [simp]:
  "pw_pending (cancel_active s) = pw_pending s" "pw_accepting (cancel_active s) = pw_accepting s"
  "pw_started (cancel_active s) = pw_started s" "pw_fatal (cancel_active s) = pw_fatal s"
  "pw_shutdown_started (cancel_active s) = pw_shutdown_started s" "pw_stop_requested (cancel_active s) = pw_stop_requested s"
  "pw_joined (cancel_active s) = pw_joined s"
  "pw_active (cancel_active s) = map_option (\<lambda>a. a\<lparr>ai_stop_requested := True\<rparr>) (pw_active s)"
  by (simp_all add: cancel_active_def Let_def split: option.split)

lemma cancel_quiet: "quiet (pw_snapshot s) (pw_snapshot (cancel_active s))"
  by (simp add: cancel_active_def quiet_def Let_def split: option.split)

lemma enqueue_frame:
  assumes "enqueue work s = (d, t)"
  shows "pw_pending t = Some work \<and> pw_active t = pw_active s \<and> pw_accepting t = pw_accepting s \<and> pw_started t = pw_started s \<and>
    pw_fatal t = pw_fatal s \<and> pw_shutdown_started t = pw_shutdown_started s \<and> pw_stop_requested t = pw_stop_requested s \<and>
    pw_interrupts t = pw_interrupts s \<and> d = (if pw_pending s = None then SubmitAccepted else SubmitReplacedPending)"
  using assms by (auto simp: enqueue_def Let_def)

lemma enqueue_counters:
  assumes "enqueue work s = (d, t)"
  shows "pn_submitted (pw_snapshot t) = pn_submitted (pw_snapshot s) + 1 \<and> pn_accepted (pw_snapshot t) = pn_accepted (pw_snapshot s) + 1 \<and>
    pn_started (pw_snapshot t) = pn_started (pw_snapshot s) \<and> pn_completed (pw_snapshot t) = pn_completed (pw_snapshot s) \<and>
    pn_replaced_pending (pw_snapshot t) = pn_replaced_pending (pw_snapshot s) + of_bool (pw_pending s \<noteq> None)"
  using assms by (auto simp: enqueue_def noted_def note_transaction_def Let_def)

lemma point_ok_cancel: "point_ok p (map_option (\<lambda>a. a\<lparr>ai_stop_requested := True\<rparr>) active) = point_ok p active"
  by (cases p; cases active) (auto simp: point_ok_def)

lemma queue_ok_cancel:
  "queue_ok active pending \<Longrightarrow> queue_ok (map_option (\<lambda>a. a\<lparr>ai_stop_requested := True\<rparr>) active) pending"
  by (cases active) (auto simp: queue_ok_def)

lemma identity_refl [simp]: "samePlanningCancellationIdentity k k"
  by (simp add: samePlanningCancellationIdentity_def)

lemma queue_ok_submit:
  assumes "queue_ok (pw_active s) (pw_pending s)" "key_valid key" "planningPriorityKnown priority"
    and "map_option ai_key (pw_active s) \<noteq> Some key"
    and "supersedes_active key priority s \<or> pw_pending s = None \<and> pw_active s = None \<or> incumbent_priority s \<le> priority"
  shows "queue_ok (pw_active (if supersedes_active key priority s then cancel_active s else s))
    (Some \<lparr>wi_key = key, wi_priority = priority, wi_job = j, wi_enqueued_at = now\<rparr>)"
proof (cases "pw_active s")
  case None
  with assms(2,3) show ?thesis by (simp add: queue_ok_def supersedes_active_def)
next
  case (Some a)
  show ?thesis
  proof (cases "supersedes_active key priority s")
    case True
    with assms(1-4) Some show ?thesis by (auto simp: queue_ok_def)
  next
    case False
    with Some have same: "samePlanningCancellationIdentity (ai_key a) key" "priority \<le> ai_priority a"
      by (auto simp: supersedes_active_def higherPriority_def)
    have "ai_stop_requested a \<or> ai_priority a \<le> priority"
    proof (cases "pw_pending s")
      case None
      with False assms(5) Some show ?thesis by (simp add: incumbent_priority_def)
    next
      case (Some w)
      with \<open>pw_active s = Some a\<close> False assms(1,5) show ?thesis by (auto simp: incumbent_priority_def queue_ok_def)
    qed
    with same False Some assms(1-4) show ?thesis by (auto simp: queue_ok_def)
  qed
qed

lemma submit_flow:
  assumes "flow_ok s"
  shows "flow_ok (s\<lparr>ps_worker := snd (planning_submit key priority job now (ps_worker s))\<rparr>)"
proof (cases rule: planning_submit_cases [of key priority job now "ps_worker s"])
  case (refused d n)
  with assms show ?thesis by (simp add: flow_ok_def Let_def)
next
  case (queued j)
  let ?s1 = "if supersedes_active key priority (ps_worker s) then cancel_active (ps_worker s) else ps_worker s"
  obtain d t where t: "enqueue \<lparr>wi_key = key, wi_priority = priority, wi_job = j, wi_enqueued_at = now\<rparr> ?s1 = (d, t)" by fastforce
  have q: "queue_ok (pw_active ?s1) (Some \<lparr>wi_key = key, wi_priority = priority, wi_job = j, wi_enqueued_at = now\<rparr>)"
    using assms queued by (intro queue_ok_submit) (simp_all add: flow_ok_def Let_def)
  have p: "point_ok (ps_point s) (pw_active ?s1)" using assms by (simp add: flow_ok_def point_ok_cancel Let_def)
  have "\<not> pw_shutdown_started (ps_worker s)" using assms queued(4) by (auto simp: flow_ok_def Let_def)
  with assms q p enqueue_frame [OF t] queued(4,8) t show ?thesis by (simp add: flow_ok_def Let_def split: if_splits)
qed

lemma cancel_flow: "flow_ok s \<Longrightarrow> flow_ok (s\<lparr>ps_worker := cancel_active (ps_worker s)\<rparr>)"
  by (auto simp: flow_ok_def Let_def point_ok_cancel intro: queue_ok_cancel)

lemma cancel_identity_cases:
  "cancelActiveIfExecutionIdentity l g r b s = (False, s) \<or>
   cancelActiveIfExecutionIdentity l g r b s = (True, cancel_active s)"
  by (cases "pw_active s") (auto simp: cancelActiveIfExecutionIdentity_def)

lemma take_frame:
  assumes "planning_take now s = (Some work, t)"
  shows "\<not> pw_stop_requested s \<and> pw_pending s = Some work \<and> pw_pending t = None \<and>
    pw_active t = Some \<lparr>ai_key = wi_key work, ai_priority = wi_priority work, ai_stop_requested = False\<rparr> \<and>
    pw_accepting t = pw_accepting s \<and> pw_started t = pw_started s \<and> pw_fatal t = pw_fatal s \<and>
    pw_shutdown_started t = pw_shutdown_started s \<and> pw_stop_requested t = pw_stop_requested s \<and>
    pn_started (pw_snapshot t) = pn_started (pw_snapshot s) + 1 \<and> pn_submitted (pw_snapshot t) = pn_submitted (pw_snapshot s) \<and>
    pn_accepted (pw_snapshot t) = pn_accepted (pw_snapshot s) \<and> pn_completed (pw_snapshot t) = pn_completed (pw_snapshot s) \<and>
    pn_replaced_pending (pw_snapshot t) = pn_replaced_pending (pw_snapshot s)"
  using assms by (auto simp: planning_take_def split: if_splits option.splits)

lemma planning_step_flow: "planning_step s t \<Longrightarrow> flow_ok s \<Longrightarrow> flow_ok t"
proof (induction rule: planning_step.induct)
  case (plan_start s w)
  then have "w = (ps_worker s)\<lparr>pw_started := True\<rparr>" "\<not> pw_started (ps_worker s)" "\<not> pw_shutdown_started (ps_worker s)"
    by (simp_all add: planning_start_def split: if_splits)
  with plan_start show ?case by (auto simp: flow_ok_def point_ok_def Let_def)
next
  case (plan_submit s key priority job now)
  then show ?case by (rule submit_flow)
next
  case (plan_cancel s)
  then show ?case by (simp add: cancelActive_def cancel_flow)
next
  case (plan_cancel_identity s l g r b)
  then show ?case using cancel_identity_cases [of l g r b "ps_worker s"] cancel_flow [of s] by fastforce
next
  case (plan_shutdown_begin s)
  let ?w = "on_snapshot (\<lambda>n. n\<lparr>pn_pending := False\<rparr>)
    ((ps_worker s)\<lparr>pw_shutdown_started := True, pw_accepting := False, pw_pending := None\<rparr>)"
  have "queue_ok (map_option (\<lambda>a. a\<lparr>ai_stop_requested := True\<rparr>) (pw_active (ps_worker s))) None"
    using plan_shutdown_begin by (intro queue_ok_cancel) (auto simp: flow_ok_def queue_ok_def Let_def)
  with plan_shutdown_begin show ?case
    by (auto simp: flow_ok_def planning_shutdown_begin_def point_ok_cancel Let_def)
next
  case (plan_take s now work w)
  from take_frame [OF plan_take.hyps(2)] plan_take show ?case
    by (auto simp: flow_ok_def queue_ok_def point_ok_def Let_def)
next
  case (plan_shutdown_stop s)
  then show ?case by (auto simp: flow_ok_def Let_def)
next
  case (plan_shutdown_join s)
  then show ?case by (auto simp: flow_ok_def Let_def)
qed (auto simp: flow_ok_def point_ok_def queue_ok_def backend_entry_def backend_exit_def planning_failed_def planning_completed_def
  Let_def)

text \<open>The counters see an operation through five fields and the two queue slots.\<close>

lemma ledger_quiet: "quiet n n' \<Longrightarrow> ledger_ok n' pending active accepting fatal = ledger_ok n pending active accepting fatal"
  by (simp add: quiet_def ledger_ok_def)

lemma counters_quiet:
  assumes "counters_ok s" "quiet (pw_snapshot (ps_worker s)) (pw_snapshot w)" "pw_pending w = pw_pending (ps_worker s)"
    and "(pw_active w = None) = (pw_active (ps_worker s) = None)" "pw_accepting w = pw_accepting (ps_worker s)"
    and "pw_fatal w = pw_fatal (ps_worker s)"
  shows "counters_ok (s\<lparr>ps_worker := w\<rparr>)"
  using assms(1,3-6) ledger_quiet [OF assms(2)] unfolding counters_ok_def Let_def by simp

lemma quiet_refl [simp]: "quiet n n"
  by (simp add: quiet_def)

lemma submit_counters:
  assumes "flow_ok s" "counters_ok s"
  shows "counters_ok (s\<lparr>ps_worker := snd (planning_submit key priority job now (ps_worker s))\<rparr>)"
proof (cases rule: planning_submit_cases [of key priority job now "ps_worker s"])
  case (refused d n)
  with assms(2) counters_quiet [of s "(ps_worker s)\<lparr>pw_snapshot := n\<rparr>"] show ?thesis by simp
next
  case (queued j)
  let ?s1 = "if supersedes_active key priority (ps_worker s) then cancel_active (ps_worker s) else ps_worker s"
  obtain d t where t: "enqueue \<lparr>wi_key = key, wi_priority = priority, wi_job = j, wi_enqueued_at = now\<rparr> ?s1 = (d, t)" by fastforce
  have q: "quiet (pw_snapshot (ps_worker s)) (pw_snapshot ?s1)" by (simp add: cancel_quiet)
  have a: "(pw_active ?s1 = None) = (pw_active (ps_worker s) = None)" "pw_pending ?s1 = pw_pending (ps_worker s)"
    "pw_accepting ?s1 = pw_accepting (ps_worker s)" "pw_fatal ?s1 = pw_fatal (ps_worker s)" by simp_all
  from queued(4) assms(2) q a enqueue_frame [OF t] enqueue_counters [OF t]
  have "counters_ok (s\<lparr>ps_worker := t\<rparr>)" by (auto simp: counters_ok_def ledger_ok_def quiet_def Let_def)
  with queued(8) t show ?thesis by simp
qed

lemma cancel_counters: "counters_ok s \<Longrightarrow> counters_ok (s\<lparr>ps_worker := cancel_active (ps_worker s)\<rparr>)"
  using counters_quiet [of s "cancel_active (ps_worker s)"] by (simp add: cancel_quiet)

lemma planning_step_counters: "planning_step s t \<Longrightarrow> flow_ok s \<Longrightarrow> counters_ok s \<Longrightarrow> counters_ok t"
proof (induction rule: planning_step.induct)
  case (plan_start s w)
  then have "w = (ps_worker s)\<lparr>pw_started := True\<rparr>" by (simp add: planning_start_def split: if_splits)
  with plan_start show ?case by (simp add: counters_ok_def Let_def)
next
  case (plan_submit s key priority job now)
  then show ?case by (rule submit_counters)
next
  case (plan_cancel s)
  then show ?case by (simp add: cancelActive_def cancel_counters)
next
  case (plan_cancel_identity s l g r b)
  then show ?case using cancel_identity_cases [of l g r b "ps_worker s"] cancel_counters [of s] by fastforce
next
  case (plan_shutdown_begin s)
  let ?w = "on_snapshot (\<lambda>n. n\<lparr>pn_pending := False\<rparr>)
    ((ps_worker s)\<lparr>pw_shutdown_started := True, pw_accepting := False, pw_pending := None\<rparr>)"
  have "counters_ok (s\<lparr>ps_worker := ?w\<rparr>)"
    using plan_shutdown_begin.prems(2) by (cases "pw_pending (ps_worker s)") (auto simp: counters_ok_def ledger_ok_def Let_def)
  from cancel_counters [OF this] show ?case by (simp add: planning_shutdown_begin_def counters_ok_def)
next
  case (plan_take s now work w)
  then have "pw_active (ps_worker s) = None" "\<not> pw_fatal (ps_worker s)" by (auto simp: flow_ok_def point_ok_def Let_def)
  with take_frame [OF plan_take.hyps(2)] plan_take.prems(2) show ?case by (auto simp: counters_ok_def ledger_ok_def Let_def)
next
  case (plan_fail s work started_at)
  then have "pw_active (ps_worker s) \<noteq> None" "\<not> pw_fatal (ps_worker s)" by (auto simp: flow_ok_def point_ok_def Let_def)
  with plan_fail show ?case
    by (cases "pw_pending (ps_worker s)") (auto simp: counters_ok_def ledger_ok_def planning_failed_def Let_def)
next
  case (plan_complete s started_at now)
  then have "pw_active (ps_worker s) \<noteq> None" "\<not> pw_fatal (ps_worker s)" by (auto simp: flow_ok_def point_ok_def Let_def)
  with plan_complete show ?case by (auto simp: counters_ok_def ledger_ok_def planning_completed_def Let_def)
qed (simp_all add: counters_ok_def ledger_ok_def backend_entry_def backend_exit_def Let_def)

lemma planning_reachable_ok: "planning.reachable s \<Longrightarrow> flow_ok s \<and> counters_ok s"
proof (rule planning.invariant_reachable [where I = "\<lambda>s. flow_ok s \<and> counters_ok s"])
  fix s :: "'j planning_system"
  assume "planning_init s"
  then show "flow_ok s \<and> counters_ok s"
    by (simp add: planning_init_def makePlanningWorker_def initial_planning_snapshot_def flow_ok_def point_ok_def queue_ok_def
        counters_ok_def ledger_ok_def Let_def)
qed (simp_all add: planning_step_flow planning_step_counters)

section \<open>The worker is correct\<close>

text \<open>
  C16. In every reachable state a job that waits behind a solve nobody asked to stop wants the same plan (the
  same epoch, goal, request, route, committed bundle, world generation, start mode and dynamics) with the same
  priority: whoever wants something else, or wants it more urgently, has interrupted the solve. What waits or
  runs was submitted with a valid key and a known priority, the two keys differ, and a worker that no longer
  accepts jobs holds none.
\<close>

theorem planning_queue_discipline:
  assumes "planning.reachable s" "w = ps_worker s"
  shows "(\<forall>a p. pw_active w = Some a \<and> pw_pending w = Some p \<and> \<not> ai_stop_requested a \<longrightarrow>
      samePlanningCancellationIdentity (ai_key a) (wi_key p) \<and> wi_priority p = ai_priority a) \<and>
    (\<forall>p. pw_pending w = Some p \<longrightarrow> key_valid (wi_key p) \<and> planningPriorityKnown (wi_priority p) \<and> pw_accepting w) \<and>
    (\<forall>a. pw_active w = Some a \<longrightarrow> key_valid (ai_key a) \<and> planningPriorityKnown (ai_priority a) \<and>
      (\<forall>p. pw_pending w = Some p \<longrightarrow> wi_key p \<noteq> ai_key a))"
proof -
  have "flow_ok s" using planning_reachable_ok [OF assms(1)] by simp
  then have "queue_ok (pw_active w) (pw_pending w)" "\<not> pw_accepting w \<longrightarrow> pw_pending w = None"
    by (simp_all add: flow_ok_def assms(2) Let_def)
  then show ?thesis by (auto simp: queue_ok_def)
qed

text \<open>
  C19. No job is lost or counted twice: every accepted job was started, was replaced while it waited, or waits
  now, and at most one was dropped, by a shutdown or by the failure of a solve; every job that was started has
  completed or is the active one, but for the one that failed. The counters are exact modulo \<open>2 ^ 64\<close>.
\<close>

theorem planning_accounting_exact:
  assumes "planning.reachable s" "w = ps_worker s" "n = planning_snapshot w"
  shows "pn_accepted n = pn_submitted n \<and>
    pn_submitted n - pn_started n - pn_replaced_pending n \<in> {of_bool (pn_pending n), of_bool (\<not> pw_accepting w)} \<and>
    pn_started n - pn_completed n \<in> {of_bool (pn_in_flight n), of_bool (pn_fatal n)} \<and>
    (pw_accepting w \<longrightarrow> pn_submitted n = pn_started n + pn_replaced_pending n + of_bool (pn_pending n) \<and>
       pn_started n = pn_completed n + of_bool (pn_in_flight n))"
proof -
  have "flow_ok s" "counters_ok s" using planning_reachable_ok [OF assms(1)] by simp_all
  then have "ledger_ok (pw_snapshot w) (pw_pending w \<noteq> None) (pw_active w \<noteq> None) (pw_accepting w) (pw_fatal w)"
    "pw_fatal w \<longrightarrow> \<not> pw_accepting w"
    by (auto simp: flow_ok_def counters_ok_def assms(2) Let_def)
  then show ?thesis by (auto simp: ledger_ok_def assms(3) planning_snapshot_def)
qed

section \<open>Shutdown\<close>

text \<open>Steps the thread of the worker and the thread in \<open>shutdown\<close> still have to take.\<close>

fun point_rank :: "'j planner_point \<Rightarrow> nat" where
  "point_rank (PlannerTaken w t) = 4"
| "point_rank (PlannerSolving w t) = 3"
| "point_rank (PlannerSolved t) = 2"
| "point_rank PlannerWaiting = 1"
| "point_rank PlannerIdle = 0"
| "point_rank PlannerExited = 0"

fun join_rank :: "shutdown_point \<Rightarrow> nat" where
  "join_rank ShutdownNone = 3"
| "join_rank ShutdownFlagged = 2"
| "join_rank ShutdownStopping = 1"
| "join_rank ShutdownDone = 0"

definition shutdown_rank :: "'j planning_system \<Rightarrow> nat" where
  "shutdown_rank s = point_rank (ps_point s) + join_rank (ps_shutdown s)"

lemma shutdown_step_descends:
  assumes "planning_step s t" "flow_ok s" "ps_shutdown s \<noteq> ShutdownNone"
  shows "shutdown_rank t < shutdown_rank s \<or> ps_point t = ps_point s \<and> ps_shutdown t = ps_shutdown s"
  using assms
proof (induction rule: planning_step.induct)
  case (plan_start s w)
  then show ?case by (simp add: flow_ok_def planning_start_def Let_def split: if_splits)
next
  case (plan_take s now work w)
  from take_frame [OF plan_take.hyps(2)] plan_take.prems show ?case by (auto simp: flow_ok_def Let_def)
next
  case (plan_shutdown_begin s)
  then show ?case by simp
next
  case (plan_shutdown_join s)
  then show ?case by (auto simp: shutdown_rank_def)
qed (simp_all add: shutdown_rank_def)

lemma shutdown_step_enabled:
  assumes "flow_ok s" "ps_shutdown s \<noteq> ShutdownNone" "ps_shutdown s \<noteq> ShutdownDone"
  shows "\<exists>t. planning_step s t \<and> shutdown_rank t < shutdown_rank s"
proof (cases "ps_shutdown s")
  case ShutdownFlagged
  then show ?thesis using plan_shutdown_stop [of s] by (intro exI conjI) (assumption, simp_all add: shutdown_rank_def)
next
  case ShutdownStopping
  show ?thesis
  proof (cases "ps_point s")
    case PlannerIdle
    with ShutdownStopping show ?thesis
      using plan_shutdown_join [of s] by (intro exI conjI) (simp, simp_all add: shutdown_rank_def)
  next
    case PlannerExited
    with ShutdownStopping show ?thesis
      using plan_shutdown_join [of s] by (intro exI conjI) (simp, simp_all add: shutdown_rank_def)
  next
    case PlannerWaiting
    moreover have "pw_stop_requested (ps_worker s)" using assms(1) ShutdownStopping by (simp add: flow_ok_def Let_def)
    ultimately show ?thesis using plan_exit [of s] by (intro exI conjI) (assumption, simp_all add: shutdown_rank_def)
  next
    case (PlannerTaken w t)
    with plan_enter [of s w t 0] show ?thesis by (intro exI conjI) (assumption, simp_all add: shutdown_rank_def)
  next
    case (PlannerSolving w t)
    with plan_leave [of s w t 0] show ?thesis by (intro exI conjI) (assumption, simp_all add: shutdown_rank_def)
  next
    case (PlannerSolved t)
    with plan_complete [of s t 0] show ?thesis by (intro exI conjI) (assumption, simp_all add: shutdown_rank_def)
  qed
qed (use assms in simp_all)

text \<open>
  C17. A shutdown that has begun ends. Whatever the clients do meanwhile, every step of the worker's thread or
  of the thread in \<open>shutdown\<close> brings the end closer, six of them are enough, and one is enabled until the
  join. Then the thread has ended or never ran, nothing is active or pending, and every submission is refused.
\<close>

theorem planning_shutdown_ends:
  assumes "planning.reachable s" "ps_shutdown s \<noteq> ShutdownNone"
  shows "shutdown_rank s \<le> 6 \<and>
    (\<forall>t. planning_step s t \<longrightarrow> shutdown_rank t < shutdown_rank s \<or> ps_point t = ps_point s \<and> ps_shutdown t = ps_shutdown s) \<and>
    (ps_shutdown s \<noteq> ShutdownDone \<longrightarrow> (\<exists>t. planning_step s t \<and> shutdown_rank t < shutdown_rank s)) \<and>
    (ps_shutdown s = ShutdownDone \<longrightarrow> ps_point s \<in> {PlannerIdle, PlannerExited} \<and> pw_active (ps_worker s) = None \<and>
      pw_pending (ps_worker s) = None \<and>
      (\<forall>key priority job now. fst (planning_submit key priority job now (ps_worker s)) \<in> {SubmitRejectedInvalid, SubmitRejectedStopped}))"
proof -
  have ok: "flow_ok s" using planning_reachable_ok [OF assms(1)] by simp
  have "point_rank p \<le> 4" for p :: "'a planner_point" by (cases p) simp_all
  then have "shutdown_rank s \<le> 6"
    using assms(2) add_mono [of "point_rank (ps_point s)" 4 "join_rank (ps_shutdown s)" 2]
    by (cases "ps_shutdown s") (simp_all add: shutdown_rank_def)
  moreover have stopped: "\<not> pw_accepting (ps_worker s)" "pw_pending (ps_worker s) = None"
    using ok assms(2) by (auto simp: flow_ok_def Let_def)
  then have "fst (planning_submit key priority job now (ps_worker s)) \<in> {SubmitRejectedInvalid, SubmitRejectedStopped}"
    for key priority job now by (cases job) (simp_all add: planning_submit_def)
  moreover have "ps_shutdown s = ShutdownDone \<longrightarrow> ps_point s \<in> {PlannerIdle, PlannerExited} \<and> pw_active (ps_worker s) = None"
    using ok by (auto simp: flow_ok_def point_ok_def Let_def)
  ultimately show ?thesis using stopped shutdown_step_descends [OF _ ok assms(2)] shutdown_step_enabled [OF ok assms(2)] by auto
qed

section \<open>A concrete run\<close>

text \<open>
  A renewal is submitted and taken, a second one for a later anchor waits behind it; then the worker is shut
  down.
\<close>

definition ex_key :: "i64 \<Rightarrow> PlanningKey" where
  "ex_key stamp = \<lparr>pk_localization_epoch = 1, pk_goal_epoch = 1, pk_request_id = 1, pk_route_revision = 1,
     pk_committed_bundle_generation = 0, pk_pinned_world_generation = 1, pk_pinned_world_revision = 1,
     pk_start_mode = CommittedFutureState, pk_anchor_stamp_ns = stamp, pk_dynamics_hash = 9\<rparr>"

abbreviation ex_plan :: "i64 \<Rightarrow> int planning_system \<Rightarrow> int planning_system" where
  "ex_plan stamp s \<equiv> s\<lparr>ps_worker := snd (planning_submit (ex_key stamp) kNormalRenewal (Some stamp) (10 * stamp) (ps_worker s))\<rparr>"

definition ex_planning :: "int planning_system" where
  "ex_planning = \<lparr>ps_worker = makePlanningWorker, ps_point = PlannerIdle, ps_shutdown = ShutdownNone\<rparr>"

definition ex_planning_queued :: "int planning_system" where
  "ex_planning_queued = ex_plan 100 (ex_planning\<lparr>ps_worker := (ps_worker ex_planning)\<lparr>pw_started := True\<rparr>, ps_point := PlannerWaiting\<rparr>)"

definition ex_planning_taken :: "int planning_system" where
  "ex_planning_taken = ex_planning_queued\<lparr>ps_worker := snd (planning_take 1500 (ps_worker ex_planning_queued)),
     ps_point := PlannerTaken \<lparr>wi_key = ex_key 100, wi_priority = kNormalRenewal, wi_job = 100, wi_enqueued_at = 1000\<rparr> 1500\<rparr>"

definition ex_planning_busy :: "int planning_system" where
  "ex_planning_busy = ex_plan 200 ex_planning_taken"

definition ex_planning_stopping :: "int planning_system" where
  "ex_planning_stopping = ex_planning_busy\<lparr>ps_worker := planning_shutdown_begin (ps_worker ex_planning_busy), ps_shutdown := ShutdownFlagged\<rparr>"

lemmas planning_submit_defs = planning_submit_def key_valid_def planningStartModeKnown_def planningPriorityKnown_def
  kQualityRefinement_def kNormalRenewal_def kLocalizationReset_def supersedes_active_def higherPriority_def
  samePlanningCancellationIdentity_def incumbent_priority_def enqueue_def

lemmas ex_planning_defs = ex_planning_busy_def ex_planning_taken_def ex_planning_queued_def ex_planning_def ex_key_def
  makePlanningWorker_def initial_planning_snapshot_def planning_take_def note_transaction_def noted_def

lemma ex_planning_reachable: "planning.reachable ex_planning_busy"
proof -
  have "planning.reachable ex_planning" by (rule planning.reach_init) (simp add: planning_init_def ex_planning_def)
  moreover have "planning_start (ps_worker ex_planning) = Some ((ps_worker ex_planning)\<lparr>pw_started := True\<rparr>)"
    by (simp add: planning_start_def ex_planning_def makePlanningWorker_def)
  ultimately have queued: "planning.reachable ex_planning_queued"
    unfolding ex_planning_queued_def by (intro planning.reach_step [OF _ plan_submit] planning.reach_step [OF _ plan_start])
  have t: "planning_take 1500 (ps_worker ex_planning_queued) =
      (Some \<lparr>wi_key = ex_key 100, wi_priority = kNormalRenewal, wi_job = 100, wi_enqueued_at = 1000\<rparr>,
       snd (planning_take 1500 (ps_worker ex_planning_queued)))" "ps_point ex_planning_queued = PlannerWaiting"
    by (simp_all add: ex_planning_defs planning_submit_defs Let_def)
  have "planning.reachable ex_planning_taken"
    unfolding ex_planning_taken_def by (rule planning.reach_step [OF queued plan_take [OF t(2,1)]])
  then show ?thesis unfolding ex_planning_busy_def by (rule planning.reach_step) (rule plan_submit)
qed

lemma ex_planning_slots:
  "pw_active (ps_worker ex_planning_busy) = Some \<lparr>ai_key = ex_key 100, ai_priority = kNormalRenewal, ai_stop_requested = False\<rparr>"
  "pw_pending (ps_worker ex_planning_busy) =
     Some \<lparr>wi_key = ex_key 200, wi_priority = kNormalRenewal, wi_job = 200, wi_enqueued_at = 2000\<rparr>"
  "ps_shutdown ex_planning_busy = ShutdownNone" "pn_submitted (pw_snapshot (ps_worker ex_planning_busy)) = 2"
  "pw_accepting (ps_worker ex_planning_busy)"
  by (simp_all add: ex_planning_defs planning_submit_defs Let_def)

theorem planning_queue_discipline_witness:
  "samePlanningCancellationIdentity (ex_key 100) (ex_key 200) \<and> key_valid (ex_key 200) \<and> ex_key 200 \<noteq> ex_key 100"
  using planning_queue_discipline [OF ex_planning_reachable refl] ex_planning_slots by auto

theorem planning_accounting_exact_witness:
  "let n = planning_snapshot (ps_worker ex_planning_busy)
   in pn_submitted n = 2 \<and> pn_pending n \<and> pn_in_flight n \<and> pn_started n = pn_completed n + 1"
  using planning_accounting_exact [OF ex_planning_reachable refl refl] ex_planning_slots
  by (simp add: planning_snapshot_def Let_def)

theorem planning_shutdown_ends_witness:
  "shutdown_rank ex_planning_stopping = 6 \<and> (\<exists>t. planning_step ex_planning_stopping t \<and> shutdown_rank t < 6)"
proof -
  have r: "planning.reachable ex_planning_stopping" unfolding ex_planning_stopping_def
    by (rule planning.reach_step [OF ex_planning_reachable plan_shutdown_begin]) (rule ex_planning_slots(3))
  have "ps_shutdown ex_planning_stopping = ShutdownFlagged" "shutdown_rank ex_planning_stopping = 6"
    by (simp_all add: ex_planning_stopping_def ex_planning_busy_def ex_planning_taken_def shutdown_rank_def)
  with planning_shutdown_ends [OF r] show ?thesis by simp
qed

end
