(* ===== verification/Heading_Worker.thy ===== *)
theory Heading_Worker
  imports Planning_Worker
begin

text \<open>
  \<open>navigation_runtime/heading_rebind_worker.hpp\<close>: the latest-only worker of the heading path, and the contract
  it shares with the planning worker: a job is handed over through one slot, and the job that is taken is the
  last one that was accepted.
\<close>

section \<open>The contract of a latest-only slot\<close>

locale latest_only =
  fixes slot :: "'s \<Rightarrow> 'w option"
    and submit :: "'r \<Rightarrow> 's \<Rightarrow> bool \<times> 's"
    and work_of :: "'r \<Rightarrow> 'w"
    and take_work :: "'s \<Rightarrow> 'w option \<times> 's"
  assumes accepted: "submit r s = (True, t) \<Longrightarrow> slot t = Some (work_of r)"
    and refused: "submit r s = (False, t) \<Longrightarrow> slot t = slot s"
    and taken: "take_work s = (Some w, t) \<Longrightarrow> slot s = Some w \<and> slot t = None"
begin

text \<open>The requests of a sequence that are accepted, the last one first.\<close>

fun submit_all :: "'r list \<Rightarrow> 's \<Rightarrow> 'r list \<times> 's" where
  "submit_all [] s = ([], s)"
| "submit_all (r # rs) s =
     (let (ok, t) = submit r s; (later, u) = submit_all rs t in (later @ (if ok then [r] else []), u))"

lemma slot_latest:
  "submit_all rs s = (acc, t) \<Longrightarrow> slot t = (case acc of [] \<Rightarrow> slot s | r # _ \<Rightarrow> Some (work_of r))"
proof (induction rs arbitrary: s acc)
  case (Cons r rs)
  obtain ok u where u: "submit r s = (ok, u)" by fastforce
  obtain later v where v: "submit_all rs u = (later, v)" by fastforce
  with Cons.prems u have "acc = later @ (if ok then [r] else [])" "t = v" by simp_all
  with Cons.IH [of u later] v u accepted [of r s u] refused [of r s u] show ?case by (cases later; cases ok) simp_all
qed simp

lemma takes_latest:
  assumes "submit_all rs s = (acc, t)" "take_work t = (Some w, u)"
  shows "slot u = None \<and> w = (case acc of [] \<Rightarrow> the (slot s) | r # _ \<Rightarrow> work_of r)"
  using slot_latest [OF assms(1)] taken [OF assms(2)] by (cases acc) (auto dest: sym)

end

section \<open>The planning worker keeps it\<close>

type_synonym 'j planning_request = "PlanningKey \<times> PlanningPriority \<times> 'j option \<times> i64"

definition submit_request :: "'j planning_request \<Rightarrow> 'j PlanningWorker \<Rightarrow> bool \<times> 'j PlanningWorker" where
  "submit_request r s = (case r of (key, priority, job, now) \<Rightarrow>
     let (d, t) = planning_submit key priority job now s in (d \<in> {SubmitAccepted, SubmitReplacedPending}, t))"

definition request_work :: "'j planning_request \<Rightarrow> 'j WorkItem" where
  "request_work r = (case r of (key, priority, job, now) \<Rightarrow>
     \<lparr>wi_key = key, wi_priority = priority, wi_job = the job, wi_enqueued_at = now\<rparr>)"

lemma submit_request_slot:
  assumes "submit_request r s = (ok, t)"
  shows "pw_pending t = (if ok then Some (request_work r) else pw_pending s)"
proof -
  obtain key priority job now where r: "r = (key, priority, job, now)" by (cases r) auto
  show ?thesis
  proof (cases rule: planning_submit_cases [of key priority job now s])
    case (refused d n)
    with assms r show ?thesis by (auto simp: submit_request_def)
  next
    case (queued j)
    let ?s1 = "if supersedes_active key priority s then cancel_active s else s"
    obtain d u where u: "enqueue \<lparr>wi_key = key, wi_priority = priority, wi_job = j, wi_enqueued_at = now\<rparr> ?s1 = (d, u)" by fastforce
    with assms r queued(8) enqueue_frame [OF u] have "ok" "t = u" by (auto simp: submit_request_def split: if_splits)
    with r queued(1) enqueue_frame [OF u] show ?thesis by (simp add: request_work_def)
  qed
qed

interpretation planning_inbox: latest_only pw_pending submit_request request_work "planning_take now"
  by unfold_locales (use submit_request_slot take_frame in fastforce)+

section \<open>State and operations of the heading worker\<close>

record HeadingRebindWorkerSnapshot =
  hs_submitted :: u64
  hs_started :: u64
  hs_completed :: u64
  hs_replaced_pending :: u64
  hs_in_flight :: bool
  hs_pending :: bool

record 'j HeadingRebindWorker =
  hw_pending :: "'j option"
  hw_snapshot :: HeadingRebindWorkerSnapshot
  hw_started :: bool
  hw_stopping :: bool
  hw_stop_requested :: bool
  hw_joined :: bool

definition makeHeadingRebindWorker :: "'j HeadingRebindWorker" where
  "makeHeadingRebindWorker = \<lparr>hw_pending = None,
     hw_snapshot = \<lparr>hs_submitted = 0, hs_started = 0, hs_completed = 0, hs_replaced_pending = 0, hs_in_flight = False, hs_pending = False\<rparr>,
     hw_started = False, hw_stopping = False, hw_stop_requested = False, hw_joined = False\<rparr>"

abbreviation on_heading :: "(HeadingRebindWorkerSnapshot \<Rightarrow> HeadingRebindWorkerSnapshot) \<Rightarrow> 'j HeadingRebindWorker \<Rightarrow> 'j HeadingRebindWorker" where
  "on_heading f s \<equiv> s\<lparr>hw_snapshot := f (hw_snapshot s)\<rparr>"

text \<open>The flag says that a thread was created.\<close>

definition heading_start :: "'j HeadingRebindWorker \<Rightarrow> bool \<times> 'j HeadingRebindWorker" where
  "heading_start s = (if hw_started s \<or> hw_stopping s then (False, s) else (True, s\<lparr>hw_started := True\<rparr>))"

text \<open>\<open>None\<close> is an empty \<open>std::function\<close>.\<close>

definition heading_submit :: "'j option \<Rightarrow> 'j HeadingRebindWorker \<Rightarrow> bool \<times> 'j HeadingRebindWorker" where
  "heading_submit job s =
     (case job of None \<Rightarrow> (False, s)
      | Some j \<Rightarrow>
        if \<not> hw_started s \<or> hw_stopping s then (False, s)
        else let s1 = (if hw_pending s \<noteq> None then on_heading (\<lambda>n. n\<lparr>hs_replaced_pending := hs_replaced_pending n + 1\<rparr>) s else s)
             in (True, on_heading (\<lambda>n. n\<lparr>hs_submitted := hs_submitted n + 1, hs_pending := True\<rparr>) (s1\<lparr>hw_pending := Some j\<rparr>)))"

definition heading_shutdown_begin :: "'j HeadingRebindWorker \<Rightarrow> 'j HeadingRebindWorker" where
  "heading_shutdown_begin s = on_heading (\<lambda>n. n\<lparr>hs_pending := False\<rparr>) (s\<lparr>hw_stopping := True, hw_pending := None\<rparr>)"

definition heading_snapshot :: "'j HeadingRebindWorker \<Rightarrow> HeadingRebindWorkerSnapshot" where
  "heading_snapshot s = (hw_snapshot s)\<lparr>hs_pending := (hw_pending s \<noteq> None)\<rparr>"

definition heading_take :: "'j HeadingRebindWorker \<Rightarrow> 'j option \<times> 'j HeadingRebindWorker" where
  "heading_take s =
     (if hw_stop_requested s then (None, s)
      else case hw_pending s of None \<Rightarrow> (None, s)
      | Some j \<Rightarrow> (Some j, on_heading (\<lambda>n. n\<lparr>hs_pending := False, hs_in_flight := True, hs_started := hs_started n + 1\<rparr>)
          (s\<lparr>hw_pending := None\<rparr>)))"

text \<open>A job that throws ends like one that returns.\<close>

definition heading_finish :: "'j HeadingRebindWorker \<Rightarrow> 'j HeadingRebindWorker" where
  "heading_finish s = on_heading (\<lambda>n. n\<lparr>hs_in_flight := False, hs_completed := hs_completed n + 1\<rparr>) s"

interpretation heading_inbox: latest_only hw_pending heading_submit "the" heading_take
  by unfold_locales (auto simp: heading_submit_def heading_take_def Let_def split: option.splits if_splits)

section \<open>Interleaving\<close>

datatype 'j heading_point = HeadingIdle | HeadingWaiting | HeadingRunning 'j | HeadingExited

record 'j heading_system =
  hy_worker :: "'j HeadingRebindWorker"
  hy_point :: "'j heading_point"
  hy_shutdown :: shutdown_point

inductive heading_step :: "'j heading_system \<Rightarrow> 'j heading_system \<Rightarrow> bool" where
  head_start: "heading_start (hy_worker s) = (True, w) \<Longrightarrow> heading_step s (s\<lparr>hy_worker := w, hy_point := HeadingWaiting\<rparr>)"
| head_submit: "heading_step s (s\<lparr>hy_worker := snd (heading_submit job (hy_worker s))\<rparr>)"
| head_shutdown_begin: "hy_shutdown s = ShutdownNone \<Longrightarrow>
    heading_step s (s\<lparr>hy_worker := heading_shutdown_begin (hy_worker s), hy_shutdown := ShutdownFlagged\<rparr>)"
| head_shutdown_stop: "hy_shutdown s = ShutdownFlagged \<Longrightarrow>
    heading_step s (s\<lparr>hy_worker := (hy_worker s)\<lparr>hw_stop_requested := True\<rparr>, hy_shutdown := ShutdownStopping\<rparr>)"
| head_shutdown_join: "hy_shutdown s = ShutdownStopping \<Longrightarrow> hy_point s \<in> {HeadingIdle, HeadingExited} \<Longrightarrow>
    heading_step s (s\<lparr>hy_worker := (hy_worker s)\<lparr>hw_joined := True\<rparr>, hy_shutdown := ShutdownDone\<rparr>)"
| head_exit: "hy_point s = HeadingWaiting \<Longrightarrow> hw_stop_requested (hy_worker s) \<Longrightarrow> heading_step s (s\<lparr>hy_point := HeadingExited\<rparr>)"
| head_take: "hy_point s = HeadingWaiting \<Longrightarrow> heading_take (hy_worker s) = (Some j, w) \<Longrightarrow>
    heading_step s (s\<lparr>hy_worker := w, hy_point := HeadingRunning j\<rparr>)"
| head_finish: "hy_point s = HeadingRunning j \<Longrightarrow>
    heading_step s (s\<lparr>hy_worker := heading_finish (hy_worker s), hy_point := HeadingWaiting\<rparr>)"

definition heading_init :: "'j heading_system \<Rightarrow> bool" where
  "heading_init s \<longleftrightarrow> s = \<lparr>hy_worker = makeHeadingRebindWorker, hy_point = HeadingIdle, hy_shutdown = ShutdownNone\<rparr>"

interpretation heading: transition_system heading_init heading_step .

definition running :: "'j heading_point \<Rightarrow> bool" where
  "running p \<longleftrightarrow> (case p of HeadingRunning _ \<Rightarrow> True | _ \<Rightarrow> False)"

lemma running_simps [simp]:
  "\<not> running HeadingIdle" "\<not> running HeadingWaiting" "running (HeadingRunning j)" "\<not> running HeadingExited"
  by (simp_all add: running_def)

definition heading_ok :: "'j heading_system \<Rightarrow> bool" where
  "heading_ok s \<longleftrightarrow> (let w = hy_worker s; n = hw_snapshot w in
     hw_started w = (hy_point s \<noteq> HeadingIdle) \<and> hw_stopping w = (hy_shutdown s \<noteq> ShutdownNone) \<and>
     (hw_pending w \<noteq> None \<longrightarrow> hw_started w \<and> \<not> hw_stopping w) \<and>
     (hy_shutdown s = ShutdownDone \<longrightarrow> hy_point s \<in> {HeadingIdle, HeadingExited}) \<and>
     hs_in_flight n = running (hy_point s) \<and> hs_pending n = (hw_pending w \<noteq> None) \<and>
     hs_started n = hs_completed n + of_bool (hs_in_flight n) \<and>
     (hs_submitted n = hs_started n + hs_replaced_pending n + of_bool (hs_pending n) \<or>
      hw_stopping w \<and> hs_submitted n = hs_started n + hs_replaced_pending n + 1))"

lemma heading_step_ok: "heading_step s t \<Longrightarrow> heading_ok s \<Longrightarrow> heading_ok t"
proof (induction rule: heading_step.induct)
  case (head_start s w)
  then have "w = (hy_worker s)\<lparr>hw_started := True\<rparr>" "\<not> hw_started (hy_worker s)" "\<not> hw_stopping (hy_worker s)"
    by (simp_all add: heading_start_def split: if_splits)
  with head_start show ?case by (auto simp: heading_ok_def Let_def)
next
  case (head_submit s job)
  then show ?case by (cases job) (auto simp: heading_ok_def heading_submit_def Let_def)
next
  case (head_shutdown_begin s)
  then show ?case by (cases "hw_pending (hy_worker s)") (auto simp: heading_ok_def heading_shutdown_begin_def Let_def)
next
  case (head_take s j w)
  then show ?case by (auto simp: heading_ok_def heading_take_def Let_def split: if_splits option.splits)
next
  case (head_finish s j)
  then show ?case by (auto simp: heading_ok_def heading_finish_def Let_def)
qed (auto simp: heading_ok_def Let_def)

lemma heading_reachable_ok: "heading.reachable s \<Longrightarrow> heading_ok s"
proof (rule heading.invariant_reachable [where I = heading_ok])
  fix s :: "'j heading_system"
  assume "heading_init s"
  then show "heading_ok s" by (simp add: heading_init_def makeHeadingRebindWorker_def heading_ok_def)
qed (rule heading_step_ok)

section \<open>The executors are correct\<close>

text \<open>
  C18. Both executors run the latest job: whatever sequence of jobs is submitted while the thread is away, the
  job it takes next is the last one that was accepted, or the one that waited before when all were refused, and
  its slot is then free. Jobs accepted earlier are never run after it.
\<close>

theorem executors_run_latest:
  "(planning_inbox.submit_all requests w = (acc, w') \<and> planning_take now w' = (Some work, w'') \<longrightarrow>
      pw_pending w'' = None \<and> work = (case acc of [] \<Rightarrow> the (pw_pending w) | r # _ \<Rightarrow> request_work r)) \<and>
   (heading_inbox.submit_all jobs h = (hacc, h') \<and> heading_take h' = (Some job, h'') \<longrightarrow>
      hw_pending h'' = None \<and> job = (case hacc of [] \<Rightarrow> the (hw_pending h) | j # _ \<Rightarrow> the j))"
  using planning_inbox.takes_latest [of requests w acc w' now work w''] heading_inbox.takes_latest [of jobs h hacc h' job h'']
  by blast

text \<open>
  The heading worker's books balance in every reachable state: a started job has completed or runs now, and
  an accepted one was started, replaced, or waits; only a shutdown drops one. The published flags are those of
  the slot and of the thread, and a shutdown that returned leaves no job and no running thread.
\<close>

theorem heading_worker_exact:
  assumes "heading.reachable s" "n = heading_snapshot (hy_worker s)"
  shows "hs_started n = hs_completed n + of_bool (running (hy_point s)) \<and>
    hs_in_flight n = running (hy_point s) \<and> hs_pending n = (hw_pending (hy_worker s) \<noteq> None) \<and>
    (hs_submitted n = hs_started n + hs_replaced_pending n + of_bool (hs_pending n) \<or>
      hw_stopping (hy_worker s) \<and> \<not> hs_pending n \<and> hs_submitted n = hs_started n + hs_replaced_pending n + 1) \<and>
    (hy_shutdown s = ShutdownDone \<longrightarrow> \<not> running (hy_point s) \<and> \<not> hs_pending n)"
proof -
  have "heading_ok s" by (rule heading_reachable_ok [OF assms(1)])
  then show ?thesis by (auto simp: heading_ok_def heading_snapshot_def assms(2) Let_def)
qed

text \<open>A job is accepted and replaced by another, which the thread takes.\<close>

definition ex_heading :: "int heading_system" where
  "ex_heading = \<lparr>hy_worker = makeHeadingRebindWorker\<lparr>hw_started := True\<rparr>, hy_point = HeadingWaiting, hy_shutdown = ShutdownNone\<rparr>"

definition ex_heading_queued :: "int heading_system" where
  "ex_heading_queued = (let s = ex_heading\<lparr>hy_worker := snd (heading_submit (Some 1) (hy_worker ex_heading))\<rparr>
     in s\<lparr>hy_worker := snd (heading_submit (Some 2) (hy_worker s))\<rparr>)"

lemma ex_heading_reachable: "heading.reachable ex_heading_queued"
proof -
  let ?s = "\<lparr>hy_worker = makeHeadingRebindWorker, hy_point = HeadingIdle, hy_shutdown = ShutdownNone\<rparr> :: int heading_system"
  have "heading_start (hy_worker ?s) = (True, makeHeadingRebindWorker\<lparr>hw_started := True\<rparr>)"
    by (simp add: heading_start_def makeHeadingRebindWorker_def)
  from heading.reach_step [OF heading.reach_init head_start [OF this]] have "heading.reachable ex_heading"
    by (simp add: heading_init_def ex_heading_def)
  then show ?thesis unfolding ex_heading_queued_def Let_def
    by (rule heading.reach_step [OF heading.reach_step [OF _ head_submit] head_submit])
qed

theorem heading_worker_exact_witness:
  "let n = heading_snapshot (hy_worker ex_heading_queued) in hs_submitted n = 2 \<and> hs_replaced_pending n = 1 \<and> hs_started n = hs_completed n"
proof -
  have "hs_submitted (heading_snapshot (hy_worker ex_heading_queued)) = 2" "hs_replaced_pending (heading_snapshot (hy_worker ex_heading_queued)) = 1"
    "\<not> running (hy_point ex_heading_queued)"
    by (simp_all add: ex_heading_queued_def ex_heading_def heading_submit_def heading_snapshot_def makeHeadingRebindWorker_def Let_def)
  with heading_worker_exact [OF ex_heading_reachable refl] show ?thesis by (simp add: Let_def)
qed

theorem executors_run_latest_witness:
  "fst (planning_take 1500 (ps_worker ex_planning_queued)) =
     Some (request_work (ex_key 100, kNormalRenewal, Some 100, 1000)) \<and>
   fst (heading_take (hy_worker ex_heading_queued)) = Some 2"
proof -
  let ?w = "(ps_worker ex_planning)\<lparr>pw_started := True\<rparr>"
  have p: "planning_inbox.submit_all [(ex_key 100, kNormalRenewal, Some 100, 1000)] ?w =
      ([(ex_key 100, kNormalRenewal, Some 100, 1000)], ps_worker ex_planning_queued)"
    by (simp add: submit_request_def ex_planning_defs planning_submit_defs Let_def)
  obtain work w'' where t: "planning_take 1500 (ps_worker ex_planning_queued) = (Some work, w'')"
    by (simp add: ex_planning_defs planning_submit_defs Let_def)
  have h: "heading_inbox.submit_all [Some 1, Some 2] (hy_worker ex_heading) = ([Some 2, Some 1], hy_worker ex_heading_queued)"
    by (simp add: ex_heading_queued_def ex_heading_def heading_submit_def makeHeadingRebindWorker_def Let_def)
  obtain job h'' where j: "heading_take (hy_worker ex_heading_queued) = (Some job, h'')"
    by (simp add: heading_take_def ex_heading_queued_def ex_heading_def heading_submit_def makeHeadingRebindWorker_def Let_def)
  from executors_run_latest [THEN conjunct1, rule_format, OF conjI [OF p t]] executors_run_latest [THEN conjunct2, rule_format, OF conjI [OF h j]]
  show ?thesis using t j by simp
qed

end
