(* ===== verification/Bridge_Time.thy ===== *)
theory Bridge_Time
  imports Nav_Time
begin

text \<open>
  Time and identity of the PX4 bridge: \<open>time_validator.cpp\<close> (samples received from PX4),
  \<open>timestamp_conversion.cpp\<close> (samples sent to PX4), \<open>frame_generation_policy.hpp\<close> (source identities and
  frame generations) and \<open>external_lio_health.hpp\<close> (the typed health stream of the estimator).
\<close>

section \<open>Timestamps received from PX4\<close>

definition checked_microseconds_to_nanoseconds :: "u64 \<Rightarrow> i64 option" where
  "checked_microseconds_to_nanoseconds timestamp_us = microsecondsToNanoseconds timestamp_us"

definition checked_ros_time_to_nanoseconds :: "i32 \<Rightarrow> u32 \<Rightarrow> i64 option" where
  "checked_ros_time_to_nanoseconds s n =
     (case rosTimeToNanoseconds \<lparr>sec = s, nanosec = n\<rparr> of
        Some ns \<Rightarrow> if ns > 0 then Some ns else None | None \<Rightarrow> None)"

record TimeValidationConfig =
  vc_max_stale_ns :: i64
  vc_max_future_ns :: i64
  vc_probable_restart_regression_ns :: i64
  vc_restart_low_epoch_max_ns :: i64

definition default_time_validation :: TimeValidationConfig where
  "default_time_validation = \<lparr>vc_max_stale_ns = 200000000, vc_max_future_ns = 200000000,
     vc_probable_restart_regression_ns = 1000000000, vc_restart_low_epoch_max_ns = 10000000000\<rparr>"

datatype TimestampEvent =
  TimestampAccepted | TimestampDuplicate | TimestampSmallRegression | TimestampProbableSourceRestart
| TimestampStale | TimestampFuture | TimestampInvalid

record TimeValidationResult =
  vr_accepted :: bool
  vr_generation :: u64
  vr_reason :: string
  vr_event :: TimestampEvent

record TimestampValidator =
  vt_config :: TimeValidationConfig
  vt_last_timestamp_ns :: "i64 option"
  vt_generation :: u64

text \<open>\<open>None\<close> is the exception of the constructor.\<close>

definition makeTimestampValidator :: "TimeValidationConfig \<Rightarrow> TimestampValidator option" where
  "makeTimestampValidator config =
     (if vc_max_stale_ns config \<le> 0 \<or> vc_max_future_ns config \<le> 0 \<or> vc_probable_restart_regression_ns config \<le> 0 \<or>
         vc_restart_low_epoch_max_ns config \<le> 0
      then None else Some \<lparr>vt_config = config, vt_last_timestamp_ns = None, vt_generation = 0\<rparr>)"

definition refuse_time :: "string \<Rightarrow> TimestampEvent \<Rightarrow> TimestampValidator \<Rightarrow> TimeValidationResult \<times> TimestampValidator" where
  "refuse_time reason event s = (\<lparr>vr_accepted = False, vr_generation = vt_generation s, vr_reason = reason, vr_event = event\<rparr>, s)"

text \<open>A timestamp that is not after the last one: a duplicate, a regression, or the restart of the source.\<close>

definition observe_regression :: "i64 \<Rightarrow> i64 \<Rightarrow> TimestampValidator \<Rightarrow> TimeValidationResult \<times> TimestampValidator" where
  "observe_regression last_ns timestamp_ns s =
     (if timestamp_ns = last_ns then refuse_time ''duplicate PX4 sample timestamp'' TimestampDuplicate s
      else case checkedDifference last_ns timestamp_ns of
        None \<Rightarrow> refuse_time ''timestamp delta is not representable'' TimestampInvalid s
      | Some regression_ns \<Rightarrow>
        if regression_ns \<ge> vc_probable_restart_regression_ns (vt_config s) \<and>
           last_ns > vc_restart_low_epoch_max_ns (vt_config s) \<and> timestamp_ns \<le> vc_restart_low_epoch_max_ns (vt_config s)
        then if vt_generation s = -1 then refuse_time ''timestamp generation exhausted'' TimestampInvalid s
             else let g = vt_generation s + 1
                  in (\<lparr>vr_accepted = True, vr_generation = g, vr_reason = ''probable PX4 source restart'',
                       vr_event = TimestampProbableSourceRestart\<rparr>,
                      s\<lparr>vt_generation := g, vt_last_timestamp_ns := Some timestamp_ns\<rparr>)
        else refuse_time ''small PX4 timestamp regression'' TimestampSmallRegression s)"

definition observe_advance :: "i64 \<Rightarrow> i64 \<Rightarrow> TimestampValidator \<Rightarrow> TimeValidationResult \<times> TimestampValidator" where
  "observe_advance now_ns timestamp_ns s =
     (case checkedDifference now_ns timestamp_ns of
        None \<Rightarrow> refuse_time ''timestamp delta is not representable'' TimestampInvalid s
      | Some age \<Rightarrow>
        if age > vc_max_stale_ns (vt_config s) then refuse_time ''stale PX4 sample timestamp'' TimestampStale s
        else case checkedDifference timestamp_ns now_ns of
          None \<Rightarrow> refuse_time ''timestamp delta is not representable'' TimestampInvalid s
        | Some future \<Rightarrow>
          if future > vc_max_future_ns (vt_config s) then refuse_time ''future PX4 sample timestamp'' TimestampFuture s
          else (\<lparr>vr_accepted = True, vr_generation = vt_generation s, vr_reason = '''', vr_event = TimestampAccepted\<rparr>,
                s\<lparr>vt_last_timestamp_ns := Some timestamp_ns\<rparr>))"

definition observe_time :: "u64 \<Rightarrow> i64 \<Rightarrow> TimestampValidator \<Rightarrow> TimeValidationResult \<times> TimestampValidator" where
  "observe_time timestamp_us now_ns s =
     (if now_ns \<le> 0 then refuse_time ''invalid current time'' TimestampInvalid s
      else case checked_microseconds_to_nanoseconds timestamp_us of
        None \<Rightarrow> refuse_time ''timestamp conversion overflow/zero'' TimestampInvalid s
      | Some timestamp_ns \<Rightarrow>
        (case vt_last_timestamp_ns s of
           Some last_ns \<Rightarrow> if timestamp_ns \<le> last_ns then observe_regression last_ns timestamp_ns s
                          else observe_advance now_ns timestamp_ns s
         | None \<Rightarrow> observe_advance now_ns timestamp_ns s))"

definition clear_time :: "TimestampValidator \<Rightarrow> TimestampValidator" where
  "clear_time s = s\<lparr>vt_last_timestamp_ns := None,
     vt_generation := (if vt_generation s \<noteq> -1 then vt_generation s + 1 else vt_generation s)\<rparr>"

section \<open>Timestamps sent to PX4\<close>

record TimestampConversionResult =
  cr_valid :: bool
  cr_suppressed :: bool
  cr_source_domain :: string
  cr_target_domain :: string
  cr_measurement_time_us :: u64
  cr_publication_time_us :: u64
  cr_timestamp_mapping_generation :: u64
  cr_timestamp_age_ns :: i64
  cr_reason :: string

definition default_conversion_result :: TimestampConversionResult where
  "default_conversion_result = \<lparr>cr_valid = False, cr_suppressed = False, cr_source_domain = ''UNRESOLVED'',
     cr_target_domain = ''PX4_TIME_UNRESOLVED'', cr_measurement_time_us = 0, cr_publication_time_us = 0,
     cr_timestamp_mapping_generation = 0, cr_timestamp_age_ns = 0, cr_reason = ''TIME_DOMAIN_UNRESOLVED''\<rparr>"

record TimestampConversionDiagnostics =
  td_regression_count :: u64
  td_timestamp_sample_regression_count :: u64
  td_publication_timestamp_regression_count :: u64
  td_duplicate_measurement_suppressed_count :: u64
  td_timestamp_mapping_generation :: u64
  td_timestamp_mapping_generation_change_count :: u64
  td_conversion_failure_count :: u64
  td_failure_reason :: string

datatype TimestampMappingMode = MappingUnresolved | MappingSimulationIdentity | MappingRealtimeTransport

definition timestampMappingModeFor :: "bool \<Rightarrow> string \<Rightarrow> TimestampMappingMode" where
  "timestampMappingModeFor use_sim_time input_clock_domain =
     (if use_sim_time \<and> input_clock_domain = ''simulation_time'' then MappingSimulationIdentity
      else if \<not> use_sim_time \<and> (input_clock_domain = ''ros_time'' \<or> input_clock_domain = ''system_time'')
      then MappingRealtimeTransport else MappingUnresolved)"

record TimestampConverter =
  tk_maximum_age_ns :: i64
  tk_last_measurement_time_us :: "u64 option"
  tk_last_publication_time_us :: "u64 option"
  tk_last_timestamp_mapping_generation :: "u64 option"
  tk_diagnostics :: TimestampConversionDiagnostics

definition makeTimestampConverter :: "i64 \<Rightarrow> TimestampConverter option" where
  "makeTimestampConverter maximum_age_ns =
     (if maximum_age_ns \<le> 0 then None
      else Some \<lparr>tk_maximum_age_ns = maximum_age_ns, tk_last_measurement_time_us = None, tk_last_publication_time_us = None,
        tk_last_timestamp_mapping_generation = None,
        tk_diagnostics = \<lparr>td_regression_count = 0, td_timestamp_sample_regression_count = 0,
          td_publication_timestamp_regression_count = 0, td_duplicate_measurement_suppressed_count = 0,
          td_timestamp_mapping_generation = 0, td_timestamp_mapping_generation_change_count = 0,
          td_conversion_failure_count = 0, td_failure_reason = ''NONE''\<rparr>\<rparr>)"

definition invalid_result :: "u64 \<Rightarrow> string \<Rightarrow> TimestampConversionResult" where
  "invalid_result generation reason =
     default_conversion_result\<lparr>cr_timestamp_mapping_generation := generation, cr_reason := reason\<rparr>"

abbreviation on_diagnostics :: "(TimestampConversionDiagnostics \<Rightarrow> TimestampConversionDiagnostics) \<Rightarrow> TimestampConverter \<Rightarrow> TimestampConverter" where
  "on_diagnostics f s \<equiv> s\<lparr>tk_diagnostics := f (tk_diagnostics s)\<rparr>"

definition convert_fail :: "u64 \<Rightarrow> string \<Rightarrow> TimestampConverter \<Rightarrow> TimestampConversionResult \<times> TimestampConverter" where
  "convert_fail generation reason s =
     (invalid_result generation reason,
      on_diagnostics (\<lambda>d. d\<lparr>td_conversion_failure_count := td_conversion_failure_count d + 1, td_failure_reason := reason\<rparr>) s)"

definition adopt_generation :: "u64 \<Rightarrow> TimestampConverter \<Rightarrow> TimestampConverter" where
  "adopt_generation generation s =
     (let s1 = (if tk_last_timestamp_mapping_generation s \<noteq> None
                then on_diagnostics (\<lambda>d. d\<lparr>td_timestamp_mapping_generation_change_count := td_timestamp_mapping_generation_change_count d + 1\<rparr>) s
                else s)
      in on_diagnostics (\<lambda>d. d\<lparr>td_timestamp_mapping_generation := generation\<rparr>)
           (s1\<lparr>tk_last_timestamp_mapping_generation := Some generation, tk_last_measurement_time_us := None,
               tk_last_publication_time_us := None\<rparr>))"

text \<open>The comparison with the previous sample of the same generation; \<open>None\<close> lets the sample pass.\<close>

definition after_stamp :: "(u64 \<Rightarrow> bool) \<Rightarrow> u64 option \<Rightarrow> bool" where
  "after_stamp p stamp = (case stamp of Some t \<Rightarrow> p t | None \<Rightarrow> False)"

definition order_failure ::
    "u64 \<Rightarrow> u64 \<Rightarrow> u64 \<Rightarrow> i64 \<Rightarrow> TimestampConverter \<Rightarrow> (TimestampConversionResult \<times> TimestampConverter) option" where
  "order_failure generation measurement_us publication_us age s =
     (if after_stamp (\<lambda>t. measurement_us < t) (tk_last_measurement_time_us s)
      then Some (convert_fail generation ''TIMESTAMP_SAMPLE_REGRESSION''
        (on_diagnostics (\<lambda>d. d\<lparr>td_regression_count := td_regression_count d + 1,
           td_timestamp_sample_regression_count := td_timestamp_sample_regression_count d + 1\<rparr>) s))
      else if after_stamp (\<lambda>t. measurement_us = t) (tk_last_measurement_time_us s)
      then Some ((invalid_result generation ''DUPLICATE_MEASUREMENT_SUPPRESSED'')
                   \<lparr>cr_suppressed := True, cr_measurement_time_us := measurement_us, cr_publication_time_us := publication_us,
                    cr_timestamp_age_ns := age\<rparr>,
        on_diagnostics (\<lambda>d. d\<lparr>td_duplicate_measurement_suppressed_count := td_duplicate_measurement_suppressed_count d + 1,
           td_failure_reason := ''DUPLICATE_MEASUREMENT_SUPPRESSED''\<rparr>) s)
      else if after_stamp (\<lambda>t. publication_us < t) (tk_last_publication_time_us s)
      then Some (convert_fail generation ''PUBLICATION_TIMESTAMP_REGRESSION''
        (on_diagnostics (\<lambda>d. d\<lparr>td_regression_count := td_regression_count d + 1,
           td_publication_timestamp_regression_count := td_publication_timestamp_regression_count d + 1\<rparr>) s))
      else None)"

definition conversion_result :: "TimestampMappingMode \<Rightarrow> u64 \<Rightarrow> u64 \<Rightarrow> u64 \<Rightarrow> i64 \<Rightarrow> TimestampConversionResult" where
  "conversion_result mode generation measurement_us publication_us age =
     \<lparr>cr_valid = True, cr_suppressed = False,
      cr_source_domain = (if mode = MappingSimulationIdentity then ''ROS_SIMULATION_TIME'' else ''ROS_SYSTEM_TIME''),
      cr_target_domain = (if mode = MappingSimulationIdentity then ''PX4_SIMULATION_TIME'' else ''PX4_TIME_VIA_UXRCE_TIMESYNC''),
      cr_measurement_time_us = measurement_us, cr_publication_time_us = publication_us,
      cr_timestamp_mapping_generation = generation, cr_timestamp_age_ns = age,
      cr_reason = (if mode = MappingSimulationIdentity then ''VALID_SIMULATION_TIME_EQUIVALENCE'' else ''VALID_REALTIME_UXRCE_MAPPING'')\<rparr>"

definition convert_checked ::
    "i64 \<Rightarrow> i64 \<Rightarrow> TimestampMappingMode \<Rightarrow> u64 \<Rightarrow> bool \<Rightarrow> TimestampConverter \<Rightarrow> TimestampConversionResult \<times> TimestampConverter" where
  "convert_checked measurement_time_ns publication_time_ns mode generation changed s =
     (case (nanosecondsToMicroseconds measurement_time_ns, nanosecondsToMicroseconds publication_time_ns) of
        (Some measurement_us, Some publication_us) \<Rightarrow>
          (case checkedDifference publication_time_ns measurement_time_ns of
             None \<Rightarrow> convert_fail generation ''TIMESTAMP_DELTA_OVERFLOW'' s
           | Some age \<Rightarrow>
             if age > tk_maximum_age_ns s then convert_fail generation ''TIMESTAMP_STALE'' s
             else if age < - tk_maximum_age_ns s then convert_fail generation ''TIMESTAMP_FUTURE'' s
             else case (if changed then None else order_failure generation measurement_us publication_us age s) of
               Some failure \<Rightarrow> failure
             | None \<Rightarrow> (conversion_result mode generation measurement_us publication_us age,
                       s\<lparr>tk_last_measurement_time_us := Some measurement_us, tk_last_publication_time_us := Some publication_us\<rparr>))
      | _ \<Rightarrow> convert_fail generation ''TIMESTAMP_ZERO_OR_OVERFLOW'' s)"

definition convert_time ::
    "i64 \<Rightarrow> i64 \<Rightarrow> TimestampMappingMode \<Rightarrow> u64 \<Rightarrow> TimestampConverter \<Rightarrow> TimestampConversionResult \<times> TimestampConverter" where
  "convert_time measurement_time_ns publication_time_ns mode generation s =
     (if mode = MappingUnresolved then convert_fail generation ''TIME_DOMAIN_UNRESOLVED'' s
      else if generation = 0 then convert_fail generation ''TIMESTAMP_MAPPING_GENERATION_INVALID'' s
      else let changed = (tk_last_timestamp_mapping_generation s \<noteq> Some generation)
           in convert_checked measurement_time_ns publication_time_ns mode generation changed
                (if changed then adopt_generation generation s else s))"

section \<open>Identities and health\<close>

definition strictly_newer_source_identity :: "u64 \<Rightarrow> u64 \<Rightarrow> u64 \<Rightarrow> u64 \<Rightarrow> bool" where
  "strictly_newer_source_identity highest_epoch highest_sequence epoch sequence =
     (if epoch = 0 \<or> sequence = 0 then False else if highest_epoch = 0 then True
      else epoch > highest_epoch \<or> epoch = highest_epoch \<and> sequence > highest_sequence)"

definition frame_generation_after_source_restart :: "u64 \<Rightarrow> bool \<Rightarrow> u64 option" where
  "frame_generation_after_source_restart current_generation public_frame_exists =
     (if current_generation = 0 then None else if \<not> public_frame_exists then Some current_generation
      else if current_generation = -1 then None else Some (current_generation + 1))"

text \<open>The fields of the health message that the bridge reads; \<open>TRACKING\<close> is state 2.\<close>

record EstimatorHealth =
  eh_stamp :: ros_time
  eh_localization_epoch :: u64
  eh_state :: u8
  eh_navigation_valid :: bool
  eh_covariance_valid :: bool
  eh_observability_valid :: bool
  eh_correction_fresh :: bool
  eh_propagation_valid :: bool

record ExternalLioHealthSnapshot =
  hl_source_stamp_ns :: i64
  hl_public_frame_generation :: u64
  hl_public_frame_generation_valid :: bool
  hl_lio_valid :: bool
  hl_covariance_valid :: bool

definition externalLioHealthSnapshot :: "EstimatorHealth \<Rightarrow> ExternalLioHealthSnapshot option" where
  "externalLioHealthSnapshot message =
     (case rosTimeToNanoseconds (eh_stamp message) of
        None \<Rightarrow> None
      | Some ns \<Rightarrow>
        if ns \<le> 0 \<or> eh_localization_epoch message = 0 then None
        else Some \<lparr>hl_source_stamp_ns = ns, hl_public_frame_generation = eh_localization_epoch message,
          hl_public_frame_generation_valid = True,
          hl_lio_valid = (eh_state message = 2 \<and> eh_navigation_valid message \<and> eh_observability_valid message \<and>
            eh_correction_fresh message \<and> eh_propagation_valid message),
          hl_covariance_valid = eh_covariance_valid message\<rparr>)"

definition externalLioHealthIsNewer :: "ExternalLioHealthSnapshot option \<Rightarrow> i64 \<Rightarrow> bool" where
  "externalLioHealthIsNewer health last_source_stamp_ns =
     (case health of None \<Rightarrow> False | Some h \<Rightarrow> hl_source_stamp_ns h > last_source_stamp_ns)"

section \<open>The validator\<close>

text \<open>A refusal leaves the validator as it was; a restart and an advance change it in one way each.\<close>

lemma observe_time_cases:
  obtains (refused) reason event where "observe_time timestamp_us now_ns s = refuse_time reason event s"
  | (restarted) ns last_ns where "microsecondsToNanoseconds timestamp_us = Some ns" "vt_last_timestamp_ns s = Some last_ns" "ns < last_ns"
      "last_ns - ns \<ge> vc_probable_restart_regression_ns (vt_config s)" "ns \<le> vc_restart_low_epoch_max_ns (vt_config s)"
      "vc_restart_low_epoch_max_ns (vt_config s) < last_ns" "vt_generation s \<noteq> -1"
      "observe_time timestamp_us now_ns s =
         (\<lparr>vr_accepted = True, vr_generation = vt_generation s + 1, vr_reason = ''probable PX4 source restart'',
           vr_event = TimestampProbableSourceRestart\<rparr>,
          s\<lparr>vt_generation := vt_generation s + 1, vt_last_timestamp_ns := Some ns\<rparr>)"
  | (advanced) ns where "microsecondsToNanoseconds timestamp_us = Some ns" "0 < now_ns"
      "\<forall>last_ns. vt_last_timestamp_ns s = Some last_ns \<longrightarrow> last_ns < ns"
      "now_ns - ns \<le> vc_max_stale_ns (vt_config s)" "ns - now_ns \<le> vc_max_future_ns (vt_config s)"
      "observe_time timestamp_us now_ns s =
         (\<lparr>vr_accepted = True, vr_generation = vt_generation s, vr_reason = '''', vr_event = TimestampAccepted\<rparr>,
          s\<lparr>vt_last_timestamp_ns := Some ns\<rparr>)"
proof -
  have advance: thesis if "0 < now_ns" "microsecondsToNanoseconds timestamp_us = Some ns"
    "observe_time timestamp_us now_ns s = observe_advance now_ns ns s"
    "\<forall>last_ns. vt_last_timestamp_ns s = Some last_ns \<longrightarrow> last_ns < ns" for ns
    using that refused advanced [of ns]
    by (auto simp: observe_advance_def checkedDifference_eq split: if_splits)
  show thesis
  proof (cases "0 < now_ns \<and> microsecondsToNanoseconds timestamp_us \<noteq> None")
    case False
    then have "\<exists>reason event. observe_time timestamp_us now_ns s = refuse_time reason event s"
      by (auto simp: observe_time_def checked_microseconds_to_nanoseconds_def)
    then show thesis using refused by auto
  next
    case True
    then obtain ns where ns: "0 < now_ns" "microsecondsToNanoseconds timestamp_us = Some ns" by auto
    show thesis
    proof (cases "vt_last_timestamp_ns s")
      case None
      with ns advance [of ns] show thesis by (simp add: observe_time_def checked_microseconds_to_nanoseconds_def)
    next
      case (Some last_ns)
      show thesis
      proof (cases "ns \<le> last_ns")
        case False
        with ns Some advance [of ns] show thesis by (simp add: observe_time_def checked_microseconds_to_nanoseconds_def)
      next
        case le: True
        with ns Some have o: "observe_time timestamp_us now_ns s = observe_regression last_ns ns s"
          by (simp add: observe_time_def checked_microseconds_to_nanoseconds_def)
        let ?restart = "ns \<noteq> last_ns \<and> in_i64 (last_ns - ns) \<and> last_ns - ns \<ge> vc_probable_restart_regression_ns (vt_config s) \<and>
          last_ns > vc_restart_low_epoch_max_ns (vt_config s) \<and> ns \<le> vc_restart_low_epoch_max_ns (vt_config s) \<and> vt_generation s \<noteq> -1"
        show thesis
        proof (cases ?restart)
          case False
          then have "\<exists>reason event. observe_regression last_ns ns s = refuse_time reason event s"
            by (auto simp: observe_regression_def checkedDifference_eq)
          with o refused show thesis by auto
        next
          case True
          with o le ns Some restarted [of ns last_ns] show thesis
            by (simp add: observe_regression_def checkedDifference_eq Let_def)
        qed
      qed
    qed
  qed
qed

text \<open>
  The observations of one source and the resets between them. A reset at the largest generation is left out: it
  drops the last stamp and cannot count a new generation.
\<close>

inductive validator_step :: "TimestampValidator \<Rightarrow> TimestampValidator \<Rightarrow> bool" where
  validator_observe: "validator_step s (snd (observe_time timestamp_us now_ns s))"
| validator_clear: "vt_generation s \<noteq> -1 \<Longrightarrow> validator_step s (clear_time s)"

definition validator_init :: "TimestampValidator \<Rightarrow> bool" where
  "validator_init s \<longleftrightarrow> (\<exists>config. makeTimestampValidator config = Some s)"

interpretation validator: transition_system validator_init validator_step .

text \<open>Later states have a later generation, or the same one and a later stamp.\<close>

definition time_reached :: "u64 \<times> i64 \<Rightarrow> TimestampValidator \<Rightarrow> bool" where
  "time_reached p s \<longleftrightarrow>
     fst p < vt_generation s \<or> fst p = vt_generation s \<and> (\<exists>ns. vt_last_timestamp_ns s = Some ns \<and> snd p \<le> ns)"

lemma u64_succ_greater:
  assumes "g \<noteq> (-1 :: u64)"
  shows "g < g + 1"
proof -
  have "unat (- 1 :: u64) = 2 ^ 64 - 1" by (simp add: unsigned_minus_1_eq_mask mask_eq_exp_minus_1)
  then have "unat g \<noteq> 2 ^ 64 - 1" using assms by (metis unsigned_word_eqI)
  moreover have "unat g < 2 ^ 64" using unsigned_less [of g] by simp
  ultimately show ?thesis by (simp add: word_less_nat_alt unat_word_ariths)
qed

lemma time_reached_step:
  assumes "validator_step s t" "time_reached p s"
  shows "time_reached p t"
  using assms
proof cases
  case (validator_observe timestamp_us now_ns)
  show ?thesis
  proof (cases rule: observe_time_cases [of timestamp_us now_ns s])
    case (refused reason event)
    with validator_observe assms(2) show ?thesis by (simp add: refuse_time_def)
  next
    case (restarted ns last_ns)
    then have "vt_generation s < vt_generation t" using validator_observe by (simp add: u64_succ_greater)
    with assms(2) show ?thesis by (auto simp: time_reached_def)
  next
    case (advanced ns)
    with validator_observe assms(2) show ?thesis by (force simp: time_reached_def)
  qed
next
  case validator_clear
  then have "vt_generation s < vt_generation t" by (simp add: clear_time_def u64_succ_greater)
  with assms(2) show ?thesis by (auto simp: time_reached_def)
qed

lemma accepted_stamp:
  assumes "observe_time timestamp_us now_ns s = (r, t)" "vr_accepted r"
  shows "time_reached (vr_generation r, the (microsecondsToNanoseconds timestamp_us)) t"
  using assms by (cases rule: observe_time_cases [of timestamp_us now_ns s]) (auto simp: refuse_time_def time_reached_def)

lemma accepted_after:
  assumes "observe_time timestamp_us now_ns s = (r, t)" "vr_accepted r" "time_reached p s"
  shows "fst p < vr_generation r \<or> fst p = vr_generation r \<and> snd p < the (microsecondsToNanoseconds timestamp_us)"
proof (cases rule: observe_time_cases [of timestamp_us now_ns s])
  case (refused reason event)
  with assms show ?thesis by (auto simp: refuse_time_def)
next
  case (restarted ns last_ns)
  then have "vt_generation s < vr_generation r" using assms(1) by (auto simp: u64_succ_greater)
  with assms(3) show ?thesis by (auto simp: time_reached_def)
next
  case (advanced ns)
  with assms show ?thesis by (force simp: time_reached_def)
qed

text \<open>
  C29. The stream of samples that the validator accepts never goes back in time: of two accepted samples the
  later one has a later generation, or the same generation and a strictly later stamp, whatever was refused
  between them. A sample accepted without a restart is neither older nor further in the future than the
  configuration allows. The steps in between are the observations and the calls of \<open>clear\<close>, except a \<open>clear\<close> of
  a validator whose generation counter is saturated at its largest value: there the code forgets the last stamp
  without a new generation, so that after \<open>2 ^ 64 - 1\<close> generations the order is no longer kept.
\<close>

theorem accepted_timestamps_advance:
  assumes "observe_time us now_ns s = (r, s1)" "vr_accepted r" "validator.run n s1 t"
    and "observe_time us' now_ns' t = (r', t1)" "vr_accepted r'"
  shows "(vr_generation r < vr_generation r' \<or>
      vr_generation r = vr_generation r' \<and> the (microsecondsToNanoseconds us) < the (microsecondsToNanoseconds us')) \<and>
    (vr_event r = TimestampAccepted \<longrightarrow>
      now_ns - the (microsecondsToNanoseconds us) \<le> vc_max_stale_ns (vt_config s) \<and>
      the (microsecondsToNanoseconds us) - now_ns \<le> vc_max_future_ns (vt_config s))"
proof -
  let ?p = "(vr_generation r, the (microsecondsToNanoseconds us))"
  have "time_reached ?p t"
    using time_reached_step accepted_stamp [OF assms(1,2)]
    by (intro validator.invariant_run [where I = "time_reached ?p", OF _ assms(3)]) auto
  from accepted_after [OF assms(4,5) this] have "vr_generation r < vr_generation r' \<or>
      vr_generation r = vr_generation r' \<and> the (microsecondsToNanoseconds us) < the (microsecondsToNanoseconds us')" by simp
  moreover have "vr_event r = TimestampAccepted \<longrightarrow>
      now_ns - the (microsecondsToNanoseconds us) \<le> vc_max_stale_ns (vt_config s) \<and>
      the (microsecondsToNanoseconds us) - now_ns \<le> vc_max_future_ns (vt_config s)"
    using assms(1,2) by (cases rule: observe_time_cases [of us now_ns s]) (auto simp: refuse_time_def)
  ultimately show ?thesis ..
qed

definition ex_validator :: TimestampValidator where
  "ex_validator = \<lparr>vt_config = default_time_validation, vt_last_timestamp_ns = None, vt_generation = 0\<rparr>"

theorem accepted_timestamps_advance_witness:
  "vr_accepted (fst (observe_time 5000000 5000000000 ex_validator)) \<and>
   (let s1 = snd (observe_time 5000000 5000000000 ex_validator)
    in vr_accepted (fst (observe_time 5020000 5020000000 s1)) \<and> the (microsecondsToNanoseconds 5000000) < the (microsecondsToNanoseconds 5020000))"
proof -
  have us: "microsecondsToNanoseconds 5000000 = Some 5000000000" "microsecondsToNanoseconds 5020000 = Some 5020000000"
    by (simp_all add: microsecondsToNanoseconds_def i64_max_def time_consts)
  have a: "observe_time 5000000 5000000000 ex_validator =
      (\<lparr>vr_accepted = True, vr_generation = 0, vr_reason = '''', vr_event = TimestampAccepted\<rparr>,
       ex_validator\<lparr>vt_last_timestamp_ns := Some 5000000000\<rparr>)" (is "_ = (?r, ?s1)")
    by (simp add: observe_time_def checked_microseconds_to_nanoseconds_def us observe_advance_def checkedDifference_eq ex_validator_def
        default_time_validation_def i64_simps)
  have b: "observe_time 5020000 5020000000 ?s1 =
      (\<lparr>vr_accepted = True, vr_generation = 0, vr_reason = '''', vr_event = TimestampAccepted\<rparr>,
       ex_validator\<lparr>vt_last_timestamp_ns := Some 5020000000\<rparr>)"
    by (simp add: observe_time_def checked_microseconds_to_nanoseconds_def us observe_advance_def checkedDifference_eq ex_validator_def
        default_time_validation_def i64_simps)
  from accepted_timestamps_advance [OF a _ validator.run_refl b] a b show ?thesis by simp
qed

section \<open>The converter\<close>

lemma convert_checked_effect:
  assumes "convert_checked m p mode g changed s = (r, t)"
  shows "tk_maximum_age_ns t = tk_maximum_age_ns s \<and>
    tk_last_timestamp_mapping_generation t = tk_last_timestamp_mapping_generation s \<and>
    (if cr_valid r
     then (\<exists>mu pu. nanosecondsToMicroseconds m = Some mu \<and> nanosecondsToMicroseconds p = Some pu \<and>
       cr_measurement_time_us r = mu \<and> cr_publication_time_us r = pu \<and> \<bar>p - m\<bar> \<le> tk_maximum_age_ns s \<and>
       tk_last_measurement_time_us t = Some mu \<and> tk_last_publication_time_us t = Some pu \<and>
       (\<not> changed \<longrightarrow> (\<forall>u. tk_last_measurement_time_us s = Some u \<longrightarrow> u < mu) \<and> (\<forall>u. tk_last_publication_time_us s = Some u \<longrightarrow> u \<le> pu)))
     else tk_last_measurement_time_us t = tk_last_measurement_time_us s \<and> tk_last_publication_time_us t = tk_last_publication_time_us s)"
proof -
  have o: "\<not> cr_valid (fst x) \<and> tk_maximum_age_ns (snd x) = tk_maximum_age_ns s \<and>
      tk_last_timestamp_mapping_generation (snd x) = tk_last_timestamp_mapping_generation s \<and>
      tk_last_measurement_time_us (snd x) = tk_last_measurement_time_us s \<and>
      tk_last_publication_time_us (snd x) = tk_last_publication_time_us s"
    if "order_failure g mu pu age s = Some x" for mu pu age x
    using that by (auto simp: order_failure_def convert_fail_def invalid_result_def default_conversion_result_def split: if_splits)
  have n: "(\<forall>u. tk_last_measurement_time_us s = Some u \<longrightarrow> u < mu) \<and> (\<forall>u. tk_last_publication_time_us s = Some u \<longrightarrow> u \<le> pu)"
    if "order_failure g mu pu age s = None" for mu pu age
    using that by (auto simp: order_failure_def after_stamp_def split: if_splits)
  show ?thesis
  proof (cases "nanosecondsToMicroseconds m = None \<or> nanosecondsToMicroseconds p = None \<or> \<not> in_i64 (p - m) \<or> \<bar>p - m\<bar> > tk_maximum_age_ns s")
    case True
    then have "\<exists>reason. convert_checked m p mode g changed s = convert_fail g reason s"
      by (auto simp: convert_checked_def checkedDifference_eq abs_if split: option.splits if_splits)
    with assms show ?thesis by (auto simp: convert_fail_def invalid_result_def default_conversion_result_def)
  next
    case False
    then obtain mu pu where u: "nanosecondsToMicroseconds m = Some mu" "nanosecondsToMicroseconds p = Some pu" "in_i64 (p - m)"
      "\<bar>p - m\<bar> \<le> tk_maximum_age_ns s" by auto
    then have c: "convert_checked m p mode g changed s =
        (case (if changed then None else order_failure g mu pu (p - m) s) of
           Some failure \<Rightarrow> failure
         | None \<Rightarrow> (conversion_result mode g mu pu (p - m),
                   s\<lparr>tk_last_measurement_time_us := Some mu, tk_last_publication_time_us := Some pu\<rparr>))"
      by (simp add: convert_checked_def checkedDifference_eq abs_le_iff)
    show ?thesis
    proof (cases "if changed then None else order_failure g mu pu (p - m) s")
      case None
      with c assms u n [of mu pu "p - m"] show ?thesis by (auto simp: conversion_result_def)
    next
      case (Some x)
      with c assms o [of mu pu "p - m" x] show ?thesis by (auto split: if_splits)
    qed
  qed
qed

lemma convert_effect:
  assumes "convert_time m p mode g s = (r, t)" "tk_last_timestamp_mapping_generation s \<in> {None, Some g}"
    "tk_last_timestamp_mapping_generation s = None \<Longrightarrow> tk_last_measurement_time_us s = None \<and> tk_last_publication_time_us s = None"
  shows "tk_maximum_age_ns t = tk_maximum_age_ns s \<and> tk_last_timestamp_mapping_generation t \<in> {None, Some g} \<and>
    (tk_last_timestamp_mapping_generation t = None \<longrightarrow> tk_last_measurement_time_us t = None \<and> tk_last_publication_time_us t = None) \<and>
    (if cr_valid r
     then (\<exists>mu pu. nanosecondsToMicroseconds m = Some mu \<and> nanosecondsToMicroseconds p = Some pu \<and>
       cr_measurement_time_us r = mu \<and> cr_publication_time_us r = pu \<and> \<bar>p - m\<bar> \<le> tk_maximum_age_ns s \<and>
       tk_last_measurement_time_us t = Some mu \<and> tk_last_publication_time_us t = Some pu \<and>
       (\<forall>u. tk_last_measurement_time_us s = Some u \<longrightarrow> u < mu) \<and> (\<forall>u. tk_last_publication_time_us s = Some u \<longrightarrow> u \<le> pu))
     else tk_last_measurement_time_us t = tk_last_measurement_time_us s \<and> tk_last_publication_time_us t = tk_last_publication_time_us s)"
proof (cases "mode = MappingUnresolved \<or> g = 0")
  case True
  then have "\<exists>reason. convert_time m p mode g s = convert_fail g reason s" by (auto simp: convert_time_def)
  with assms show ?thesis by (auto simp: convert_fail_def invalid_result_def default_conversion_result_def)
next
  case False
  show ?thesis
  proof (cases "tk_last_timestamp_mapping_generation s")
    case None
    with False assms(1) have "convert_checked m p mode g True (adopt_generation g s) = (r, t)" by (simp add: convert_time_def)
    from convert_checked_effect [OF this] assms(3) [OF None] None show ?thesis by (auto simp: adopt_generation_def Let_def)
  next
    case (Some g')
    with assms(2) have g: "g' = g" by simp
    with False assms(1) Some have "convert_checked m p mode g False s = (r, t)" by (simp add: convert_time_def)
    from convert_checked_effect [OF this] Some g show ?thesis by auto
  qed
qed

end
