(* ===== verification/Frame_Conversion.thy ===== *)
theory Frame_Conversion
  imports Bridge_Time Fp_Geometry
begin

text \<open>
  \<open>navigation_common/frame_conventions.hpp\<close> and the PX4 bridge's \<open>frame_converter.cpp\<close> and
  \<open>reference_point_converter.cpp\<close>: rotations of vectors, attitudes and variances between the NED/FRD frames of
  PX4 and the ENU/FLU frames of ROS. The inner products and quaternion operations of Eigen, whose evaluation
  order is not in these sources, are the argument \<open>eigen3\<close>.
\<close>

section \<open>Matrices and quaternions\<close>

record mat3 =
  row0 :: vec3
  row1 :: vec3
  row2 :: vec3

record quat =
  qw :: double
  qx :: double
  qy :: double
  qz :: double

record eigen3 =
  e3_dot :: "vec3 \<Rightarrow> vec3 \<Rightarrow> double"
  e3_sum :: "vec3 \<Rightarrow> double"
  e3_norm :: "vec3 \<Rightarrow> double"
  e3_inverse :: "mat3 \<Rightarrow> mat3"
  e3_minEigenvalue :: "mat3 \<Rightarrow> double option"
  e3_angleAxisZ :: "double \<Rightarrow> mat3"
  e3_toRotationMatrix :: "quat \<Rightarrow> mat3"
  e3_fromMatrix :: "mat3 \<Rightarrow> quat"
  e3_normalized :: "quat \<Rightarrow> quat"
  e3_quatNorm :: "quat \<Rightarrow> double"
  e3_quatSquaredNorm :: "quat \<Rightarrow> double"
  e3_quatDot :: "quat \<Rightarrow> quat \<Rightarrow> double"
  e3_slerp :: "quat \<Rightarrow> double \<Rightarrow> quat \<Rightarrow> quat"
  e3_angularDistance :: "quat \<Rightarrow> quat \<Rightarrow> double"

definition mtranspose :: "mat3 \<Rightarrow> mat3" where
  "mtranspose a = \<lparr>row0 = \<lparr>vx = vx (row0 a), vy = vx (row1 a), vz = vx (row2 a)\<rparr>,
     row1 = \<lparr>vx = vy (row0 a), vy = vy (row1 a), vz = vy (row2 a)\<rparr>,
     row2 = \<lparr>vx = vz (row0 a), vy = vz (row1 a), vz = vz (row2 a)\<rparr>\<rparr>"

definition mapply :: "eigen3 \<Rightarrow> mat3 \<Rightarrow> vec3 \<Rightarrow> vec3" where
  "mapply e a v = \<lparr>vx = e3_dot e (row0 a) v, vy = e3_dot e (row1 a) v, vz = e3_dot e (row2 a) v\<rparr>"

definition mmul :: "eigen3 \<Rightarrow> mat3 \<Rightarrow> mat3 \<Rightarrow> mat3" where
  "mmul e a b = (let t = mtranspose b in
     \<lparr>row0 = mapply e t (row0 a), row1 = mapply e t (row1 a), row2 = mapply e t (row2 a)\<rparr>)"

definition mfinite :: "mat3 \<Rightarrow> bool" where
  "mfinite a \<longleftrightarrow> vfinite (row0 a) \<and> vfinite (row1 a) \<and> vfinite (row2 a)"

definition midentity :: mat3 where
  "midentity = \<lparr>row0 = \<lparr>vx = Fin 1, vy = Fin 0, vz = Fin 0\<rparr>, row1 = \<lparr>vx = Fin 0, vy = Fin 1, vz = Fin 0\<rparr>,
     row2 = \<lparr>vx = Fin 0, vy = Fin 0, vz = Fin 1\<rparr>\<rparr>"

definition qfinite :: "quat \<Rightarrow> bool" where
  "qfinite q \<longleftrightarrow> isfinite (qw q) \<and> isfinite (qx q) \<and> isfinite (qy q) \<and> isfinite (qz q)"

definition qidentity :: quat where
  "qidentity = \<lparr>qw = Fin 1, qx = Fin 0, qy = Fin 0, qz = Fin 0\<rparr>"

definition qscale :: "double \<Rightarrow> quat \<Rightarrow> quat" where
  "qscale k q = \<lparr>qw = dmul (qw q) k, qx = dmul (qx q) k, qy = dmul (qy q) k, qz = dmul (qz q) k\<rparr>"

definition vconst :: "double \<Rightarrow> vec3" where
  "vconst k = \<lparr>vx = k, vy = k, vz = k\<rparr>"

text \<open>\<open>(value.array() >= 0.0).all()\<close>\<close>

definition vnonneg :: "vec3 \<Rightarrow> bool" where
  "vnonneg v \<longleftrightarrow> fp_le (Fin 0) (vx v) \<and> fp_le (Fin 0) (vy v) \<and> fp_le (Fin 0) (vz v)"

text \<open>
  What the frame changes rely on: the inner product with a row that has one coefficient \<open>1\<close> or \<open>-1\<close> and
  zeros elsewhere picks that component of a finite vector.
\<close>

definition eigen3_ok :: "eigen3 \<Rightarrow> bool" where
  "eigen3_ok e \<longleftrightarrow> (\<forall>v s. vfinite v \<and> s \<in> {1, -1} \<longrightarrow>
     e3_dot e \<lparr>vx = Fin s, vy = Fin 0, vz = Fin 0\<rparr> v = dmul (Fin s) (vx v) \<and>
     e3_dot e \<lparr>vx = Fin 0, vy = Fin s, vz = Fin 0\<rparr> v = dmul (Fin s) (vy v) \<and>
     e3_dot e \<lparr>vx = Fin 0, vy = Fin 0, vz = Fin s\<rparr> v = dmul (Fin s) (vz v))"

definition unit_quaternion :: "eigen3 \<Rightarrow> quat \<Rightarrow> bool" where
  "unit_quaternion e q \<longleftrightarrow> qfinite q \<and> isfinite (e3_quatSquaredNorm e q) \<and>
     \<not> fp_less (dlit (1 / 1000000)) (fp_abs (dsub (e3_quatSquaredNorm e q) (Fin 1)))"

section \<open>Frame conventions\<close>

definition c_enu_ned :: mat3 where
  "c_enu_ned = \<lparr>row0 = \<lparr>vx = Fin 0, vy = Fin 1, vz = Fin 0\<rparr>, row1 = \<lparr>vx = Fin 1, vy = Fin 0, vz = Fin 0\<rparr>,
     row2 = \<lparr>vx = Fin 0, vy = Fin 0, vz = Fin (-1)\<rparr>\<rparr>"

definition c_flu_frd :: mat3 where
  "c_flu_frd = \<lparr>row0 = \<lparr>vx = Fin 1, vy = Fin 0, vz = Fin 0\<rparr>, row1 = \<lparr>vx = Fin 0, vy = Fin (-1), vz = Fin 0\<rparr>,
     row2 = \<lparr>vx = Fin 0, vy = Fin 0, vz = Fin (-1)\<rparr>\<rparr>"

definition enuToNed :: "eigen3 \<Rightarrow> vec3 \<Rightarrow> vec3" where
  "enuToNed e value_enu = mapply e c_enu_ned value_enu"

definition nedToEnu :: "eigen3 \<Rightarrow> vec3 \<Rightarrow> vec3" where
  "nedToEnu e value_ned = mapply e c_enu_ned value_ned"

definition fluToFrd :: "eigen3 \<Rightarrow> vec3 \<Rightarrow> vec3" where
  "fluToFrd e value_flu = mapply e c_flu_frd value_flu"

definition frdToFlu :: "eigen3 \<Rightarrow> vec3 \<Rightarrow> vec3" where
  "frdToFlu e value_frd = mapply e c_flu_frd value_frd"

section \<open>Samples\<close>

text \<open>\<open>PoseOther\<close> and \<open>VelocityOther\<close> are values outside the enumerators that a cast from the message can give.\<close>

datatype PoseFrame = PoseUnknown | PoseNed | PoseFrd | PoseOther u8

datatype VelocityFrame = VelocityUnknown | VelocityNed | VelocityFrd | VelocityBodyFrd | VelocityOther u8

datatype WorldConvention = ConventionUnknown | ConventionRosEnu | ConventionPx4FrdLocal

definition pose_frame_of :: "u8 \<Rightarrow> PoseFrame" where
  "pose_frame_of n = (if n = 0 then PoseUnknown else if n = 1 then PoseNed else if n = 2 then PoseFrd else PoseOther n)"

definition velocity_frame_of :: "u8 \<Rightarrow> VelocityFrame" where
  "velocity_frame_of n = (if n = 0 then VelocityUnknown else if n = 1 then VelocityNed else if n = 2 then VelocityFrd
     else if n = 3 then VelocityBodyFrd else VelocityOther n)"

record Px4OdometrySample =
  po_timestamp_ns :: i64
  po_pose_frame :: PoseFrame
  po_velocity_frame :: VelocityFrame
  po_position :: vec3
  po_orientation :: quat
  po_velocity :: vec3
  po_angular_velocity :: vec3
  po_position_variance :: vec3
  po_velocity_variance :: vec3
  po_orientation_variance :: vec3
  po_reset_counter :: u8
  po_angular_velocity_valid :: bool

record ConvertedOdometry =
  co_timestamp_ns :: i64
  co_source_pose_frame :: PoseFrame
  co_source_velocity_frame :: VelocityFrame
  co_world_convention :: WorldConvention
  co_position :: vec3
  co_orientation :: quat
  co_velocity_world :: vec3
  co_velocity_body :: vec3
  co_angular_velocity_body :: vec3
  co_position_variance :: vec3
  co_velocity_variance :: vec3
  co_orientation_variance :: vec3
  co_reset_counter :: u8
  co_reset_event_generation :: u64
  co_frame_generation :: u64
  co_reset_generation :: u64
  co_time_generation :: u64
  co_position_covariance_available :: bool
  co_velocity_covariance_available :: bool
  co_orientation_covariance_available :: bool
  co_angular_velocity_valid :: bool

definition default_converted :: ConvertedOdometry where
  "default_converted = \<lparr>co_timestamp_ns = 0, co_source_pose_frame = PoseUnknown, co_source_velocity_frame = VelocityUnknown,
     co_world_convention = ConventionUnknown, co_position = vzero, co_orientation = qidentity, co_velocity_world = vzero,
     co_velocity_body = vzero, co_angular_velocity_body = vzero, co_position_variance = vconst (Fin (-1)),
     co_velocity_variance = vconst (Fin (-1)), co_orientation_variance = vconst (Fin (-1)), co_reset_counter = 0,
     co_reset_event_generation = 0, co_frame_generation = 0, co_reset_generation = 0, co_time_generation = 0,
     co_position_covariance_available = False, co_velocity_covariance_available = False,
     co_orientation_covariance_available = False, co_angular_velocity_valid = False\<rparr>"

text \<open>\<open>nav_msgs::msg::Odometry\<close>, which both bridges exchange with ROS; a covariance has 36 entries.\<close>

record OdometryMessage =
  om_stamp :: ros_time
  om_frame_id :: string
  om_child_frame_id :: string
  om_position :: vec3
  om_orientation :: quat
  om_linear :: vec3
  om_angular :: vec3
  om_pose_covariance :: "double list"
  om_twist_covariance :: "double list"

section \<open>The frame converter\<close>

text \<open>\<open>rotation.row(i).array().square() * variance\<close>, summed; a component that is negative or not finite keeps \<open>-1\<close>.\<close>

definition rotated_component :: "eigen3 \<Rightarrow> vec3 \<Rightarrow> vec3 \<Rightarrow> double \<Rightarrow> double" where
  "rotated_component e row variance own =
     (if fp_less own (Fin 0) \<or> \<not> isfinite own then Fin (-1)
      else e3_sum e \<lparr>vx = dmul (dmul (vx row) (vx row)) (vx variance), vy = dmul (dmul (vy row) (vy row)) (vy variance),
                      vz = dmul (dmul (vz row) (vz row)) (vz variance)\<rparr>)"

definition rotate_variance :: "eigen3 \<Rightarrow> mat3 \<Rightarrow> vec3 \<Rightarrow> vec3" where
  "rotate_variance e rotation variance =
     (if \<not> vfinite variance then vconst (Fin (-1))
      else \<lparr>vx = rotated_component e (row0 rotation) variance (vx variance),
            vy = rotated_component e (row1 rotation) variance (vy variance),
            vz = rotated_component e (row2 rotation) variance (vz variance)\<rparr>)"

definition continuous_orientation :: "eigen3 \<Rightarrow> quat option \<Rightarrow> quat \<Rightarrow> quat" where
  "continuous_orientation e previous q =
     (case previous of None \<Rightarrow> q
      | Some p \<Rightarrow> if fp_less (e3_quatDot e p q) (Fin 0) then qscale (Fin (-1)) q else q)"

definition converted_velocity :: "eigen3 \<Rightarrow> mat3 \<Rightarrow> Px4OdometrySample \<Rightarrow> string + vec3" where
  "converted_velocity e world_from_flu sample =
     (case po_velocity_frame sample of
        VelocityNed \<Rightarrow>
          if po_pose_frame sample \<noteq> PoseNed then Inl ''NED velocity cannot be combined with a non-NED pose frame''
          else Inr (mapply e c_enu_ned (po_velocity sample))
      | VelocityFrd \<Rightarrow> Inl ''PX4 FRD world velocity requires an explicit world alignment''
      | VelocityBodyFrd \<Rightarrow> Inr (mapply e (mmul e world_from_flu c_flu_frd) (po_velocity sample))
      | _ \<Rightarrow> Inl ''unsupported PX4 velocity frame'')"

definition converted_output :: "eigen3 \<Rightarrow> mat3 \<Rightarrow> vec3 \<Rightarrow> Px4OdometrySample \<Rightarrow> ConvertedOdometry" where
  "converted_output e world_from_flu velocity_world sample =
     (let position_variance = rotate_variance e c_enu_ned (po_position_variance sample);
          velocity_variance =
            (if po_velocity_frame sample = VelocityBodyFrd then rotate_variance e c_flu_frd (po_velocity_variance sample)
             else rotate_variance e (mtranspose world_from_flu) (rotate_variance e c_enu_ned (po_velocity_variance sample)));
          orientation_variance = rotate_variance e (mmul e world_from_flu c_flu_frd) (po_orientation_variance sample)
      in default_converted\<lparr>co_timestamp_ns := po_timestamp_ns sample, co_source_pose_frame := po_pose_frame sample,
           co_source_velocity_frame := po_velocity_frame sample,
           co_world_convention := (if po_pose_frame sample = PoseNed then ConventionRosEnu else ConventionPx4FrdLocal),
           co_position := mapply e c_enu_ned (po_position sample),
           co_orientation := e3_normalized e (e3_fromMatrix e world_from_flu), co_velocity_world := velocity_world,
           co_velocity_body := mapply e (mtranspose world_from_flu) velocity_world,
           co_angular_velocity_body := mapply e c_flu_frd (po_angular_velocity sample),
           co_position_variance := position_variance, co_velocity_variance := velocity_variance,
           co_orientation_variance := orientation_variance, co_reset_counter := po_reset_counter sample,
           co_position_covariance_available := (vfinite position_variance \<and> vnonneg position_variance),
           co_velocity_covariance_available := (vfinite velocity_variance \<and> vnonneg velocity_variance),
           co_orientation_covariance_available := (vfinite orientation_variance \<and> vnonneg orientation_variance),
           co_angular_velocity_valid := True\<rparr>)"

text \<open>The state of a \<open>FrameConverter\<close> is \<open>previous_orientation_\<close>, which \<open>reset_sign_continuity\<close> clears.\<close>

definition frame_convert :: "eigen3 \<Rightarrow> Px4OdometrySample \<Rightarrow> quat option \<Rightarrow> (string + ConvertedOdometry) \<times> quat option" where
  "frame_convert e sample previous =
     (if po_timestamp_ns sample \<le> 0 \<or> \<not> vfinite (po_position sample) \<or> \<not> vfinite (po_velocity sample) \<or>
         \<not> vfinite (po_angular_velocity sample)
      then (Inl ''timestamp or vector contains a non-finite/invalid value'', previous)
      else if \<not> po_angular_velocity_valid sample then (Inl ''PX4 angular velocity is invalid'', previous)
      else let norm = e3_quatNorm e (po_orientation sample)
           in if \<not> isfinite norm \<or> fp_less norm (dlit (1 / 1000000000))
              then (Inl ''PX4 quaternion is near zero or non-finite'', previous)
              else let q = continuous_orientation e previous (e3_normalized e (po_orientation sample))
                   in (case po_pose_frame sample of
                         PoseNed \<Rightarrow>
                           (let world_from_flu = mmul e (mmul e c_enu_ned (e3_toRotationMatrix e q)) c_flu_frd
                            in case converted_velocity e world_from_flu sample of
                                 Inl reason \<Rightarrow> Inl reason
                               | Inr velocity_world \<Rightarrow> Inr (converted_output e world_from_flu velocity_world sample))
                       | PoseFrd \<Rightarrow> Inl ''PX4 FRD pose frame requires an explicit world alignment''
                       | _ \<Rightarrow> Inl ''unsupported PX4 pose frame'', Some q))"

definition reset_sign_continuity :: "quat option \<Rightarrow> quat option" where
  "reset_sign_continuity previous = None"

section \<open>The reference point\<close>

text \<open>\<open>base_from_source\<close> is the rotation and translation of an isometry; \<open>cross\<close> is Eigen's, component by component.\<close>

definition vcross :: "vec3 \<Rightarrow> vec3 \<Rightarrow> vec3" where
  "vcross a b = \<lparr>vx = dsub (dmul (vy a) (vz b)) (dmul (vz a) (vy b)), vy = dsub (dmul (vz a) (vx b)) (dmul (vx a) (vz b)),
     vz = dsub (dmul (vx a) (vy b)) (dmul (vy a) (vx b))\<rparr>"

definition convert_reference_point :: "eigen3 \<Rightarrow> mat3 \<Rightarrow> vec3 \<Rightarrow> ConvertedOdometry \<Rightarrow> ConvertedOdometry" where
  "convert_reference_point e base_from_source r_base_source source =
     (let world_from_base = e3_toRotationMatrix e (co_orientation source);
          source_velocity_world = mapply e world_from_base (co_velocity_body source);
          omega_base = co_angular_velocity_body source;
          origin_velocity_world = vsub source_velocity_world (mapply e world_from_base (vcross omega_base r_base_source))
      in source\<lparr>co_position := vsub (co_position source) (mapply e world_from_base r_base_source),
           co_velocity_body := mapply e base_from_source (mapply e (mtranspose world_from_base) origin_velocity_world),
           co_orientation := e3_normalized e (e3_fromMatrix e (mmul e world_from_base (mtranspose base_from_source))),
           co_angular_velocity_body := mapply e base_from_source omega_base\<rparr>)"

section \<open>Frame changes are exact\<close>

definition vdouble :: "vec3 \<Rightarrow> bool" where
  "vdouble v \<longleftrightarrow> vfinite v \<and> fp_ok binary64 (vx v) \<and> fp_ok binary64 (vy v) \<and> fp_ok binary64 (vz v)"

lemma fp_ok_neg: "fp_ok binary64 (Fin x) \<Longrightarrow> fp_ok binary64 (Fin (- x))"
proof -
  assume "fp_ok binary64 (Fin x)"
  then obtain m k where "x = of_int m * 2 powi k" "\<bar>m\<bar> < 2 ^ precision binary64" "unit_exponent binary64 \<le> k"
    "\<bar>x\<bar> < 2 powi overflow_exponent binary64"
    by (auto simp: fp_ok_def representable_def)
  then have "- x = of_int (- m) * 2 powi k \<and> \<bar>- m\<bar> < 2 ^ precision binary64 \<and> unit_exponent binary64 \<le> k" by simp
  then have "representable binary64 (- x)" unfolding representable_def by blast
  with \<open>\<bar>x\<bar> < 2 powi overflow_exponent binary64\<close> show "fp_ok binary64 (Fin (- x))" by (simp add: fp_ok_def)
qed

lemma dmul_unit:
  "fp_ok binary64 (Fin x) \<Longrightarrow> dmul (Fin 1) (Fin x) = Fin x"
  "fp_ok binary64 (Fin x) \<Longrightarrow> dmul (Fin (- 1)) (Fin x) = Fin (- x)"
  by (simp_all add: b64.fround_ok b64.fround_ok [OF fp_ok_neg])

lemma frame_components:
  assumes "eigen3_ok e" "vdouble v"
  shows "mapply e c_enu_ned v = \<lparr>vx = vy v, vy = vx v, vz = fp_neg (vz v)\<rparr>"
    and "mapply e c_flu_frd v = \<lparr>vx = vx v, vy = fp_neg (vy v), vz = fp_neg (vz v)\<rparr>"
proof -
  obtain x y z where v: "v = \<lparr>vx = Fin x, vy = Fin y, vz = Fin z\<rparr>"
    using assms(2) by (cases v) (auto simp: vdouble_def vfinite_def isfinite_iff)
  then have ok: "fp_ok binary64 (Fin x)" "fp_ok binary64 (Fin y)" "fp_ok binary64 (Fin z)" "vfinite v"
    using assms(2) by (auto simp: vdouble_def)
  from assms(1) ok(4) have "e3_dot e \<lparr>vx = Fin s, vy = Fin 0, vz = Fin 0\<rparr> v = dmul (Fin s) (vx v)"
      "e3_dot e \<lparr>vx = Fin 0, vy = Fin s, vz = Fin 0\<rparr> v = dmul (Fin s) (vy v)"
      "e3_dot e \<lparr>vx = Fin 0, vy = Fin 0, vz = Fin s\<rparr> v = dmul (Fin s) (vz v)" if "s \<in> {1, -1}" for s
    using that by (auto simp: eigen3_ok_def)
  note d = this [of 1, simplified] this [of "- 1", simplified]
  show "mapply e c_enu_ned v = \<lparr>vx = vy v, vy = vx v, vz = fp_neg (vz v)\<rparr>"
    "mapply e c_flu_frd v = \<lparr>vx = vx v, vy = fp_neg (vy v), vz = fp_neg (vz v)\<rparr>"
    by (simp_all add: mapply_def c_enu_ned_def c_flu_frd_def d) (simp_all only: v ok dmul_unit vec3.simps fp_neg.simps simp_thms)
qed

text \<open>
  C30. The frame changes are exact and undo each other on finite doubles: going from ENU to NED swaps the first
  two components and negates the third, going from FLU to FRD negates the last two, and applying a change
  twice gives the vector back, with no rounding.
\<close>

theorem frame_changes_roundtrip:
  assumes "eigen3_ok e" "vdouble v"
  shows "enuToNed e v = \<lparr>vx = vy v, vy = vx v, vz = fp_neg (vz v)\<rparr> \<and>
    fluToFrd e v = \<lparr>vx = vx v, vy = fp_neg (vy v), vz = fp_neg (vz v)\<rparr> \<and>
    nedToEnu e (enuToNed e v) = v \<and> frdToFlu e (fluToFrd e v) = v"
proof -
  obtain x y z where v: "v = \<lparr>vx = Fin x, vy = Fin y, vz = Fin z\<rparr>"
    using assms(2) by (cases v) (auto simp: vdouble_def vfinite_def isfinite_iff)
  have "vdouble \<lparr>vx = vy v, vy = vx v, vz = fp_neg (vz v)\<rparr>" "vdouble \<lparr>vx = vx v, vy = fp_neg (vy v), vz = fp_neg (vz v)\<rparr>"
    using assms(2) by (auto simp: v vdouble_def vfinite_def fp_ok_neg)
  then show ?thesis using assms
    by (simp add: enuToNed_def nedToEnu_def fluToFrd_def frdToFlu_def frame_components) (simp add: v)
qed

definition ex_eigen3 :: eigen3 where
  "ex_eigen3 = \<lparr>e3_dot = (\<lambda>a b. dadd (dadd (dmul (vx a) (vx b)) (dmul (vy a) (vy b))) (dmul (vz a) (vz b))),
     e3_sum = (\<lambda>a. dadd (dadd (vx a) (vy a)) (vz a)), e3_norm = (\<lambda>a. Fin 0), e3_inverse = (\<lambda>m. m),
     e3_minEigenvalue = (\<lambda>m. Some (Fin 0)), e3_angleAxisZ = (\<lambda>a. midentity), e3_toRotationMatrix = (\<lambda>q. midentity),
     e3_fromMatrix = (\<lambda>m. qidentity), e3_normalized = (\<lambda>q. q), e3_quatNorm = (\<lambda>q. Fin 1), e3_quatSquaredNorm = (\<lambda>q. Fin 1),
     e3_quatDot = (\<lambda>p q. Fin 1), e3_slerp = (\<lambda>p a q. p), e3_angularDistance = (\<lambda>p q. Fin 0)\<rparr>"

lemma dadd_zero: "fp_ok binary64 v \<Longrightarrow> dadd (Fin 0) v = v" "fp_ok binary64 v \<Longrightarrow> dadd v (Fin 0) = v"
  by (cases v; simp add: b64.fround_ok)+

lemma ex_eigen3_ok: "eigen3_ok ex_eigen3"
proof -
  have "dmul (Fin 0) v = Fin 0" if "isfinite v" for v using that by (cases v) simp_all
  then show ?thesis
    by (auto simp: eigen3_ok_def ex_eigen3_def vfinite_def dadd_zero b64.fp_mul_ok b64.zero_ok simp del: fp_mul.simps fp_add.simps)
qed

theorem frame_changes_roundtrip_witness:
  "nedToEnu ex_eigen3 (enuToNed ex_eigen3 \<lparr>vx = Fin 1, vy = Fin 2, vz = Fin 3\<rparr>) = \<lparr>vx = Fin 1, vy = Fin 2, vz = Fin 3\<rparr>"
proof -
  have "vdouble \<lparr>vx = Fin 1, vy = Fin 2, vz = Fin 3\<rparr>" by (simp add: vdouble_def vfinite_def fp_simps)
  from frame_changes_roundtrip [OF ex_eigen3_ok this] show ?thesis by blast
qed

end
