(* ===== verification/Reset_Compensator.thy ===== *)
theory Reset_Compensator
  imports Frame_Conversion
begin

text \<open>
  \<open>reset_compensator.cpp\<close> of the PX4 bridge: estimator resets announced by an 8-bit counter are compensated by a
  continuity transform, or refused when they cannot be associated with metadata.
\<close>

section \<open>State\<close>

record DetailedResetMetadata =
  rm_timestamp_ns :: i64
  rm_matched_odometry_timestamp_ns :: i64
  rm_available :: bool
  rm_association_invalid :: bool
  rm_position_xy_reset :: bool
  rm_position_z_reset :: bool
  rm_velocity_xy_reset :: bool
  rm_velocity_z_reset :: bool
  rm_heading_reset :: bool
  rm_attitude_reset :: bool
  rm_position_delta_source :: vec3
  rm_velocity_delta_source :: vec3
  rm_heading_delta_rad :: double
  rm_attitude_delta :: quat
  rm_xy_reset_counter :: u8
  rm_z_reset_counter :: u8
  rm_vxy_reset_counter :: u8
  rm_vz_reset_counter :: u8
  rm_heading_reset_counter :: u8
  rm_attitude_reset_counter :: u8

definition default_reset_metadata :: DetailedResetMetadata where
  "default_reset_metadata = \<lparr>rm_timestamp_ns = 0, rm_matched_odometry_timestamp_ns = 0, rm_available = False,
     rm_association_invalid = False, rm_position_xy_reset = False, rm_position_z_reset = False, rm_velocity_xy_reset = False,
     rm_velocity_z_reset = False, rm_heading_reset = False, rm_attitude_reset = False, rm_position_delta_source = vzero,
     rm_velocity_delta_source = vzero, rm_heading_delta_rad = Fin 0, rm_attitude_delta = qidentity, rm_xy_reset_counter = 0,
     rm_z_reset_counter = 0, rm_vxy_reset_counter = 0, rm_vz_reset_counter = 0, rm_heading_reset_counter = 0,
     rm_attitude_reset_counter = 0\<rparr>"

definition hasReset :: "DetailedResetMetadata \<Rightarrow> bool" where
  "hasReset m \<longleftrightarrow> rm_position_xy_reset m \<or> rm_position_z_reset m \<or> rm_velocity_xy_reset m \<or> rm_velocity_z_reset m \<or>
     rm_heading_reset m \<or> rm_attitude_reset m"

datatype ResetObservationStatus =
  ResetAccepted | ResetTransitionSuppressed | ResetMetadataPending | ResetInvalidMetadata | ResetCounterDiscontinuity
| ResetInvalidResetRotation | ResetInvalidCompensatedOutput | ResetProbableSourceRestart | ResetGenerationExhausted

fun reset_status_string :: "ResetObservationStatus \<Rightarrow> string" where
  "reset_status_string ResetAccepted = ''accepted''"
| "reset_status_string ResetTransitionSuppressed = ''reset_transition_suppressed''"
| "reset_status_string ResetMetadataPending = ''metadata_pending''"
| "reset_status_string ResetInvalidMetadata = ''invalid_metadata''"
| "reset_status_string ResetCounterDiscontinuity = ''counter_discontinuity''"
| "reset_status_string ResetInvalidResetRotation = ''invalid_reset_rotation''"
| "reset_status_string ResetInvalidCompensatedOutput = ''invalid_compensated_output''"
| "reset_status_string ResetProbableSourceRestart = ''probable_source_restart''"
| "reset_status_string ResetGenerationExhausted = ''generation_exhausted''"

record ResetObservation =
  ob_status :: ResetObservationStatus
  ob_sample :: "ConvertedOdometry option"
  ob_reset_generation :: u64

record ResetCompensator =
  cp_initialized :: bool
  cp_last_counter :: u8
  cp_reset_generation :: u64
  cp_continuity_rotation :: mat3
  cp_continuity_translation :: vec3
  cp_continuity_velocity_translation :: vec3
  cp_last_output :: "ConvertedOdometry option"

definition makeResetCompensator :: ResetCompensator where
  "makeResetCompensator = \<lparr>cp_initialized = False, cp_last_counter = 0, cp_reset_generation = 0, cp_continuity_rotation = midentity,
     cp_continuity_translation = vzero, cp_continuity_velocity_translation = vzero, cp_last_output = None\<rparr>"

section \<open>Validity of a sample\<close>

definition valid_variance :: "vec3 \<Rightarrow> bool \<Rightarrow> bool" where
  "valid_variance value available \<longleftrightarrow> vfinite value \<and> (\<not> available \<or> vnonneg value)"

text \<open>The numeric part, which the output of the compensator is tested for again.\<close>

definition sample_numeric :: "eigen3 \<Rightarrow> ConvertedOdometry \<Rightarrow> bool" where
  "sample_numeric e sample \<longleftrightarrow>
     vfinite (co_position sample) \<and> vfinite (co_velocity_world sample) \<and> vfinite (co_velocity_body sample) \<and>
     vfinite (co_angular_velocity_body sample) \<and> unit_quaternion e (co_orientation sample) \<and>
     valid_variance (co_position_variance sample) (co_position_covariance_available sample) \<and>
     valid_variance (co_velocity_variance sample) (co_velocity_covariance_available sample) \<and>
     valid_variance (co_orientation_variance sample) (co_orientation_covariance_available sample)"

definition knownPoseFrame :: "PoseFrame \<Rightarrow> bool" where
  "knownPoseFrame frame \<longleftrightarrow> frame = PoseNed \<or> frame = PoseFrd"

definition knownVelocityFrame :: "VelocityFrame \<Rightarrow> bool" where
  "knownVelocityFrame frame \<longleftrightarrow> frame = VelocityNed \<or> frame = VelocityFrd \<or> frame = VelocityBodyFrd"

definition knownWorldConvention :: "WorldConvention \<Rightarrow> bool" where
  "knownWorldConvention convention \<longleftrightarrow> convention = ConventionRosEnu \<or> convention = ConventionPx4FrdLocal"

definition sample_admissible :: "eigen3 \<Rightarrow> ConvertedOdometry \<Rightarrow> bool" where
  "sample_admissible e sample \<longleftrightarrow>
     co_timestamp_ns sample > 0 \<and> co_frame_generation sample \<noteq> 0 \<and> knownPoseFrame (co_source_pose_frame sample) \<and>
     knownVelocityFrame (co_source_velocity_frame sample) \<and> knownWorldConvention (co_world_convention sample) \<and>
     sample_numeric e sample"

section \<open>Operations\<close>

definition reset_refused :: "ResetObservationStatus \<Rightarrow> ResetCompensator \<Rightarrow> ResetObservation \<times> ResetCompensator" where
  "reset_refused status s = (\<lparr>ob_status = status, ob_sample = None, ob_reset_generation = cp_reset_generation s\<rparr>, s)"

text \<open>Unlike \<open>rotate_variance\<close>, an input that is not finite is returned as it is.\<close>

definition rotateDiagonalVariance :: "eigen3 \<Rightarrow> mat3 \<Rightarrow> vec3 \<Rightarrow> vec3" where
  "rotateDiagonalVariance e rotation variance =
     (if \<not> vfinite variance then variance
      else \<lparr>vx = rotated_component e (row0 rotation) variance (vx variance),
            vy = rotated_component e (row1 rotation) variance (vy variance),
            vz = rotated_component e (row2 rotation) variance (vz variance)\<rparr>)"

text \<open>The rotation of the reset in the world frame; \<open>None\<close> is an attitude delta that is no rotation.\<close>

definition reset_rotation :: "eigen3 \<Rightarrow> DetailedResetMetadata \<Rightarrow> mat3 option" where
  "reset_rotation e m =
     (if rm_attitude_reset m
      then if \<not> unit_quaternion e (rm_attitude_delta m) then None
           else Some (mmul e (mmul e c_enu_ned (e3_toRotationMatrix e (e3_normalized e (rm_attitude_delta m)))) (mtranspose c_enu_ned))
      else if rm_heading_reset m
      then Some (mmul e (mmul e c_enu_ned (e3_angleAxisZ e (rm_heading_delta_rad m))) (mtranspose c_enu_ned))
      else Some midentity)"

definition metadata_values_invalid :: "DetailedResetMetadata \<Rightarrow> bool" where
  "metadata_values_invalid m \<longleftrightarrow>
     rm_timestamp_ns m \<le> 0 \<or>
     (rm_position_xy_reset m \<or> rm_position_z_reset m) \<and> \<not> vfinite (rm_position_delta_source m) \<or>
     (rm_velocity_xy_reset m \<or> rm_velocity_z_reset m) \<and> \<not> vfinite (rm_velocity_delta_source m) \<or>
     rm_heading_reset m \<and> \<not> isfinite (rm_heading_delta_rad m)"

definition compensated :: "eigen3 \<Rightarrow> mat3 \<Rightarrow> DetailedResetMetadata \<Rightarrow> ResetCompensator \<Rightarrow> ResetCompensator" where
  "compensated e rotation m s =
     (let next_rotation = mmul e (cp_continuity_rotation s) (mtranspose rotation);
          shift = (\<lambda>delta origin. vsub origin (mapply e next_rotation (mapply e c_enu_ned delta)))
      in s\<lparr>cp_continuity_rotation := next_rotation,
           cp_continuity_translation := (if rm_position_xy_reset m \<or> rm_position_z_reset m
             then shift (rm_position_delta_source m) (cp_continuity_translation s) else cp_continuity_translation s),
           cp_continuity_velocity_translation := (if rm_velocity_xy_reset m \<or> rm_velocity_z_reset m
             then shift (rm_velocity_delta_source m) (cp_continuity_velocity_translation s) else cp_continuity_velocity_translation s)\<rparr>)"

definition transform_finite :: "ResetCompensator \<Rightarrow> bool" where
  "transform_finite s \<longleftrightarrow> mfinite (cp_continuity_rotation s) \<and> vfinite (cp_continuity_translation s) \<and>
     vfinite (cp_continuity_velocity_translation s)"

definition reset_transition ::
    "eigen3 \<Rightarrow> ConvertedOdometry \<Rightarrow> DetailedResetMetadata \<Rightarrow> ResetCompensator \<Rightarrow> ResetObservation \<times> ResetCompensator" where
  "reset_transition e sample m s =
     (if co_reset_counter sample - cp_last_counter s \<noteq> 1 then reset_refused ResetCounterDiscontinuity s
      else if rm_association_invalid m then reset_refused ResetInvalidMetadata s
      else if \<not> rm_available m \<or> \<not> hasReset m then reset_refused ResetMetadataPending s
      else if cp_reset_generation s = -1 then reset_refused ResetGenerationExhausted s
      else if cp_last_output s = None \<or> metadata_values_invalid m then reset_refused ResetInvalidMetadata s
      else case reset_rotation e m of
        None \<Rightarrow> reset_refused ResetInvalidResetRotation s
      | Some rotation \<Rightarrow>
        let t = compensated e rotation m s
        in if \<not> transform_finite t then reset_refused ResetInvalidCompensatedOutput s
           else reset_refused ResetTransitionSuppressed
                  (t\<lparr>cp_reset_generation := cp_reset_generation s + 1, cp_last_counter := co_reset_counter sample\<rparr>))"

definition continuous_sample :: "eigen3 \<Rightarrow> ResetCompensator \<Rightarrow> ConvertedOdometry \<Rightarrow> ConvertedOdometry" where
  "continuous_sample e s sample =
     (let orientation = e3_normalized e (e3_fromMatrix e (mmul e (cp_continuity_rotation s) (e3_toRotationMatrix e (co_orientation sample))));
          velocity_world = vadd (cp_continuity_velocity_translation s) (mapply e (cp_continuity_rotation s) (co_velocity_world sample))
      in sample\<lparr>co_position := vadd (cp_continuity_translation s) (mapply e (cp_continuity_rotation s) (co_position sample)),
           co_orientation := orientation,
           co_position_variance := rotateDiagonalVariance e (cp_continuity_rotation s) (co_position_variance sample),
           co_velocity_world := velocity_world,
           co_velocity_body := mapply e (mtranspose (e3_toRotationMatrix e orientation)) velocity_world,
           co_reset_generation := cp_reset_generation s, co_reset_event_generation := cp_reset_generation s\<rparr>)"

definition emit_sample :: "eigen3 \<Rightarrow> ConvertedOdometry \<Rightarrow> ResetCompensator \<Rightarrow> ResetObservation \<times> ResetCompensator" where
  "emit_sample e sample s =
     (let out = continuous_sample e s sample
      in if \<not> sample_numeric e out then reset_refused ResetInvalidCompensatedOutput s
         else (\<lparr>ob_status = ResetAccepted, ob_sample = Some out, ob_reset_generation = cp_reset_generation s\<rparr>,
               s\<lparr>cp_last_output := Some out\<rparr>))"

definition compensator_observe ::
    "eigen3 \<Rightarrow> ConvertedOdometry \<Rightarrow> DetailedResetMetadata \<Rightarrow> ResetCompensator \<Rightarrow> ResetObservation \<times> ResetCompensator" where
  "compensator_observe e sample m s =
     (if \<not> sample_admissible e sample then reset_refused ResetInvalidMetadata s
      else if rm_matched_odometry_timestamp_ns m \<noteq> 0 \<and> rm_matched_odometry_timestamp_ns m \<noteq> co_timestamp_ns sample
      then reset_refused ResetInvalidMetadata s
      else if \<not> cp_initialized s
      then emit_sample e sample (s\<lparr>cp_initialized := True, cp_last_counter := co_reset_counter sample\<rparr>)
      else if co_reset_counter sample \<noteq> cp_last_counter s then reset_transition e sample m s
      else emit_sample e sample s)"

definition rebasePositionAtCurrentOutput :: "ResetCompensator \<Rightarrow> vec3 option \<times> ResetCompensator" where
  "rebasePositionAtCurrentOutput s =
     (case cp_last_output s of None \<Rightarrow> (None, s)
      | Some out \<Rightarrow>
        if \<not> vfinite (co_position out) then (None, s)
        else let origin = co_position out; translation = vsub (cp_continuity_translation s) origin; position = vsub (co_position out) origin
             in if \<not> vfinite translation \<or> \<not> vfinite position then (None, s)
                else (Some origin, s\<lparr>cp_continuity_translation := translation, cp_last_output := Some (out\<lparr>co_position := position\<rparr>)\<rparr>))"

definition compensator_clear :: "ResetCompensator \<Rightarrow> ResetCompensator" where
  "compensator_clear s = makeResetCompensator"

section \<open>Resets are compensated or refused\<close>

lemma reset_transition_cases:
  obtains (refused) status where "reset_transition e sample m s = reset_refused status s" "status \<notin> {ResetAccepted, ResetTransitionSuppressed}"
  | (suppressed) rotation where "reset_rotation e m = Some rotation" "transform_finite (compensated e rotation m s)"
      "rm_available m" "hasReset m" "\<not> rm_association_invalid m" "\<not> metadata_values_invalid m" "cp_last_output s \<noteq> None"
      "cp_reset_generation s \<noteq> -1" "co_reset_counter sample = cp_last_counter s + 1"
      "reset_transition e sample m s = reset_refused ResetTransitionSuppressed
         ((compensated e rotation m s)\<lparr>cp_reset_generation := cp_reset_generation s + 1, cp_last_counter := co_reset_counter sample\<rparr>)"
proof (cases "co_reset_counter sample - cp_last_counter s = 1 \<and> \<not> rm_association_invalid m \<and> rm_available m \<and> hasReset m \<and>
    cp_reset_generation s \<noteq> -1 \<and> cp_last_output s \<noteq> None \<and> \<not> metadata_values_invalid m")
  case False
  then have "\<exists>status. reset_transition e sample m s = reset_refused status s \<and> status \<notin> {ResetAccepted, ResetTransitionSuppressed}"
    by (auto simp: reset_transition_def)
  then show thesis using refused by blast
next
  case True
  show thesis
  proof (cases "\<exists>rotation. reset_rotation e m = Some rotation \<and> transform_finite (compensated e rotation m s)")
    case False
    then have "\<exists>status. reset_transition e sample m s = reset_refused status s \<and> status \<notin> {ResetAccepted, ResetTransitionSuppressed}"
      using True by (cases "reset_rotation e m") (auto simp: reset_transition_def Let_def)
    then show thesis using refused by blast
  next
    case f: True
    then obtain rotation where r: "reset_rotation e m = Some rotation" "transform_finite (compensated e rotation m s)" by blast
    have "co_reset_counter sample = cp_last_counter s + 1" using True by (metis add.commute diff_add_cancel)
    moreover have "reset_transition e sample m s = reset_refused ResetTransitionSuppressed
        ((compensated e rotation m s)\<lparr>cp_reset_generation := cp_reset_generation s + 1, cp_last_counter := co_reset_counter sample\<rparr>)"
      using r True by (auto simp: reset_transition_def Let_def)
    ultimately show thesis using r True suppressed [of rotation] by blast
  qed
qed

lemma emit_cases:
  obtains (invalid) "emit_sample e sample s = reset_refused ResetInvalidCompensatedOutput s"
  | (emitted) "sample_numeric e (continuous_sample e s sample)"
      "emit_sample e sample s =
         (\<lparr>ob_status = ResetAccepted, ob_sample = Some (continuous_sample e s sample), ob_reset_generation = cp_reset_generation s\<rparr>,
          s\<lparr>cp_last_output := Some (continuous_sample e s sample)\<rparr>)"
  by (cases "sample_numeric e (continuous_sample e s sample)") (auto simp: emit_sample_def Let_def)

text \<open>
  C26. Every observation of the compensator either emits a sample, or absorbs one reset, or leaves the continuity
  transform and the reset generation alone. An emitted sample comes from an admissible input of the same
  instant, is itself numerically valid and carries the generation. A reset is absorbed only when the counter
  advanced by exactly one modulo 256 and associated metadata describe it; the generation then advances by
  exactly one, the transform stays finite and the sample of the transition is withheld.
\<close>

theorem reset_compensation_sound:
  assumes "compensator_observe e sample m s = (r, t)"
  shows "(ob_sample r \<noteq> None \<longleftrightarrow> ob_status r = ResetAccepted) \<and> ob_reset_generation r = cp_reset_generation t \<and>
    (\<forall>out. ob_sample r = Some out \<longrightarrow> sample_admissible e sample \<and> sample_numeric e out \<and>
      co_timestamp_ns out = co_timestamp_ns sample \<and> co_reset_generation out = cp_reset_generation t \<and> cp_last_output t = Some out \<and>
      cp_last_counter t = co_reset_counter sample) \<and>
    (if ob_status r = ResetTransitionSuppressed
     then cp_reset_generation s \<noteq> -1 \<and> cp_reset_generation t = cp_reset_generation s + 1 \<and>
       cp_last_counter t = cp_last_counter s + 1 \<and> co_reset_counter sample = cp_last_counter t \<and> transform_finite t \<and>
       rm_available m \<and> hasReset m \<and> \<not> rm_association_invalid m
     else cp_reset_generation t = cp_reset_generation s \<and> cp_continuity_rotation t = cp_continuity_rotation s \<and>
       cp_continuity_translation t = cp_continuity_translation s \<and>
       cp_continuity_velocity_translation t = cp_continuity_velocity_translation s)"
proof -
  let ?s1 = "s\<lparr>cp_initialized := True, cp_last_counter := co_reset_counter sample\<rparr>"
  let ?match = "rm_matched_odometry_timestamp_ns m = 0 \<or> rm_matched_odometry_timestamp_ns m = co_timestamp_ns sample"
  consider "\<not> sample_admissible e sample \<or> \<not> ?match" | "sample_admissible e sample" ?match "\<not> cp_initialized s"
    | "sample_admissible e sample" ?match "cp_initialized s" "co_reset_counter sample = cp_last_counter s"
    | "sample_admissible e sample" ?match "cp_initialized s" "co_reset_counter sample \<noteq> cp_last_counter s" by blast
  then show ?thesis
  proof cases
    case 1
    with assms have "reset_refused ResetInvalidMetadata s = (r, t)" by (auto simp: compensator_observe_def split: if_splits)
    then show ?thesis by (auto simp: reset_refused_def)
  next
    case 2
    with assms have "emit_sample e sample ?s1 = (r, t)" by (auto simp: compensator_observe_def)
    with 2(1) show ?thesis
      by (cases rule: emit_cases [of e sample ?s1]) (auto simp: reset_refused_def continuous_sample_def Let_def)
  next
    case 3
    with assms have "emit_sample e sample s = (r, t)" by (auto simp: compensator_observe_def)
    with 3(1,4) show ?thesis
      by (cases rule: emit_cases [of e sample s]) (auto simp: reset_refused_def continuous_sample_def Let_def)
  next
    case 4
    with assms have "reset_transition e sample m s = (r, t)" by (auto simp: compensator_observe_def)
    then show ?thesis
      by (cases rule: reset_transition_cases [of e sample m s]) (auto simp: reset_refused_def transform_finite_def)
  qed
qed

definition ex_converted :: "i64 \<Rightarrow> ConvertedOdometry" where
  "ex_converted stamp = default_converted\<lparr>co_timestamp_ns := stamp, co_frame_generation := 1, co_source_pose_frame := PoseNed,
     co_source_velocity_frame := VelocityNed, co_world_convention := ConventionRosEnu\<rparr>"

lemma ex_converted_admissible: "0 < stamp \<Longrightarrow> sample_admissible ex_eigen3 (ex_converted stamp)"
  by (simp add: sample_admissible_def sample_numeric_def ex_converted_def default_converted_def knownPoseFrame_def knownVelocityFrame_def
      knownWorldConvention_def vzero_def vconst_def vfinite_def unit_quaternion_def qfinite_def qidentity_def valid_variance_def
      ex_eigen3_def fp_sub_def fp_simps)

lemma emit_accepted: "sample_numeric e (continuous_sample e s sample) \<Longrightarrow> emit_sample e sample s = (r, t) \<Longrightarrow> ob_status r = ResetAccepted"
  by (auto simp: emit_sample_def Let_def)

theorem reset_compensation_sound_witness:
  "\<exists>out. ob_sample (fst (compensator_observe ex_eigen3 (ex_converted 1000) default_reset_metadata makeResetCompensator)) = Some out \<and>
     sample_numeric ex_eigen3 out \<and> co_timestamp_ns out = 1000"
proof -
  obtain r t where o: "compensator_observe ex_eigen3 (ex_converted 1000) default_reset_metadata makeResetCompensator = (r, t)" by fastforce
  let ?s = "makeResetCompensator\<lparr>cp_initialized := True, cp_last_counter := co_reset_counter (ex_converted 1000)\<rparr>"
  have "compensator_observe ex_eigen3 (ex_converted 1000) default_reset_metadata makeResetCompensator = emit_sample ex_eigen3 (ex_converted 1000) ?s"
    using ex_converted_admissible [of 1000]
    by (simp add: compensator_observe_def default_reset_metadata_def makeResetCompensator_def)
  moreover have "sample_numeric ex_eigen3 (continuous_sample ex_eigen3 ?s (ex_converted 1000))"
    by (simp add: sample_numeric_def continuous_sample_def makeResetCompensator_def ex_converted_def default_converted_def vzero_def vconst_def
        vfinite_def unit_quaternion_def qfinite_def qidentity_def valid_variance_def ex_eigen3_def mapply_def midentity_def mtranspose_def
        vadd_def rotateDiagonalVariance_def rotated_component_def fp_sub_def fp_simps Let_def)
  ultimately have "ob_status r = ResetAccepted" using o emit_accepted [of ex_eigen3 ?s "ex_converted 1000" r t] by (simp only:)
  with reset_compensation_sound [OF o] have "ob_sample r \<noteq> None" by blast
  then obtain out where out: "ob_sample r = Some out" by blast
  with reset_compensation_sound [OF o]
  have "sample_numeric ex_eigen3 out \<and> co_timestamp_ns out = co_timestamp_ns (ex_converted 1000)" by blast
  moreover have "co_timestamp_ns (ex_converted 1000) = 1000" by (simp add: ex_converted_def)
  ultimately show ?thesis by (simp add: o out)
qed

end
