(* ===== verification/Odometry_Buffer.thy ===== *)
theory Odometry_Buffer
  imports Reset_Compensator
begin

text \<open>
  \<open>odometry_ring_buffer.cpp\<close> of the PX4 bridge: a bounded history of continuous samples of one frame generation,
  queried by time with interpolation between neighbours. The deque is a list, oldest sample first.
\<close>

section \<open>State and operations\<close>

record RingBufferConfig =
  bc_duration_ns :: i64
  bc_capacity :: nat
  bc_max_gap_ns :: i64
  bc_stable_samples :: u64

definition default_ring_buffer :: RingBufferConfig where
  "default_ring_buffer = \<lparr>bc_duration_ns = 2000000000, bc_capacity = 512, bc_max_gap_ns = 50000000, bc_stable_samples = 3\<rparr>"

record SampledOdometry =
  so_value :: ConvertedOdometry
  so_interpolated :: bool

record OdometryRingBuffer =
  rb_config :: RingBufferConfig
  rb_samples :: "ConvertedOdometry list"
  rb_current_generation :: u64
  rb_generation_initialized :: bool
  rb_stable_sample_count :: u64
  rb_post_reset_stable :: bool

definition makeOdometryRingBuffer :: "RingBufferConfig \<Rightarrow> OdometryRingBuffer option" where
  "makeOdometryRingBuffer config =
     (if bc_duration_ns config \<le> 0 \<or> bc_capacity config = 0 \<or> bc_max_gap_ns config \<le> 0 \<or> bc_stable_samples config = 0 then None
      else Some \<lparr>rb_config = config, rb_samples = [], rb_current_generation = 0, rb_generation_initialized = False,
        rb_stable_sample_count = 0, rb_post_reset_stable = False\<rparr>)"

definition validConvertedOdometry :: "eigen3 \<Rightarrow> ConvertedOdometry \<Rightarrow> bool" where
  "validConvertedOdometry e sample \<longleftrightarrow>
     co_timestamp_ns sample > 0 \<and> co_frame_generation sample \<noteq> 0 \<and> sample_numeric e sample"

text \<open>The loop that drops old samples; its test reads the last and the first sample.\<close>

definition overfull :: "RingBufferConfig \<Rightarrow> ConvertedOdometry list \<Rightarrow> bool" where
  "overfull config samples \<longleftrightarrow>
     length samples > bc_capacity config \<or>
     (case checkedDifference (co_timestamp_ns (List.last samples)) (co_timestamp_ns (hd samples)) of
        None \<Rightarrow> True | Some width \<Rightarrow> width > bc_duration_ns config)"

fun drop_old :: "RingBufferConfig \<Rightarrow> ConvertedOdometry list \<Rightarrow> ConvertedOdometry list" where
  "drop_old config [] = []"
| "drop_old config (x # xs) = (if overfull config (x # xs) then drop_old config xs else x # xs)"

definition enter_generation :: "u64 \<Rightarrow> OdometryRingBuffer \<Rightarrow> OdometryRingBuffer" where
  "enter_generation generation s =
     s\<lparr>rb_samples := (if rb_generation_initialized s then [] else rb_samples s), rb_current_generation := generation,
       rb_generation_initialized := True, rb_stable_sample_count := 0, rb_post_reset_stable := False\<rparr>"

definition buffer_push :: "eigen3 \<Rightarrow> ConvertedOdometry \<Rightarrow> OdometryRingBuffer \<Rightarrow> bool \<times> OdometryRingBuffer" where
  "buffer_push e sample s =
     (if \<not> validConvertedOdometry e sample \<or> rb_samples s \<noteq> [] \<and> co_timestamp_ns sample \<le> co_timestamp_ns (List.last (rb_samples s))
      then (False, s\<lparr>rb_samples := [], rb_post_reset_stable := False, rb_stable_sample_count := 0\<rparr>)
      else let s1 = (if \<not> rb_generation_initialized s \<or> co_frame_generation sample \<noteq> rb_current_generation s
                     then enter_generation (co_frame_generation sample) s else s);
               s2 = s1\<lparr>rb_stable_sample_count := rb_stable_sample_count s1 + 1\<rparr>
           in if rb_stable_sample_count s2 < bc_stable_samples (rb_config s2) then (False, s2)
              else (True, s2\<lparr>rb_post_reset_stable := True, rb_samples := drop_old (rb_config s2) (rb_samples s2 @ [sample])\<rparr>))"

definition fp_cwise_max :: "double \<Rightarrow> double \<Rightarrow> double" where
  "fp_cwise_max a b = (if fp_less a b then b else a)"

definition vmax :: "vec3 \<Rightarrow> vec3 \<Rightarrow> vec3" where
  "vmax a b = \<lparr>vx = fp_cwise_max (vx a) (vx b), vy = fp_cwise_max (vy a) (vy b), vz = fp_cwise_max (vz a) (vz b)\<rparr>"

definition lerp :: "double \<Rightarrow> vec3 \<Rightarrow> vec3 \<Rightarrow> vec3" where
  "lerp alpha a b = vadd a (vscale alpha (vsub b a))"

definition interpolate :: "eigen3 \<Rightarrow> ConvertedOdometry \<Rightarrow> ConvertedOdometry \<Rightarrow> i64 \<Rightarrow> ConvertedOdometry" where
  "interpolate e a b timestamp_ns =
     (case (checkedDifference timestamp_ns (co_timestamp_ns a), checkedDifference (co_timestamp_ns b) (co_timestamp_ns a)) of
        (Some numerator, Some denominator) \<Rightarrow>
          if denominator \<le> 0 then a\<lparr>co_timestamp_ns := 0\<rparr>
          else let alpha = ddiv (fp_of_int binary64 numerator) (fp_of_int binary64 denominator)
               in if \<not> isfinite alpha \<or> fp_less alpha (Fin 0) \<or> fp_less (Fin 1) alpha then a\<lparr>co_timestamp_ns := 0\<rparr>
                  else a\<lparr>co_timestamp_ns := timestamp_ns, co_position := lerp alpha (co_position a) (co_position b),
                    co_velocity_world := lerp alpha (co_velocity_world a) (co_velocity_world b),
                    co_velocity_body := lerp alpha (co_velocity_body a) (co_velocity_body b),
                    co_angular_velocity_body := lerp alpha (co_angular_velocity_body a) (co_angular_velocity_body b),
                    co_orientation := e3_normalized e (e3_slerp e (co_orientation a) alpha (co_orientation b)),
                    co_position_variance := vmax (co_position_variance a) (co_position_variance b),
                    co_velocity_variance := vmax (co_velocity_variance a) (co_velocity_variance b),
                    co_orientation_variance := vmax (co_orientation_variance a) (co_orientation_variance b),
                    co_angular_velocity_valid := (co_angular_velocity_valid a \<and> co_angular_velocity_valid b)\<rparr>
      | _ \<Rightarrow> a\<lparr>co_timestamp_ns := 0\<rparr>)"

definition buffer_sample :: "eigen3 \<Rightarrow> i64 \<Rightarrow> OdometryRingBuffer \<Rightarrow> SampledOdometry option" where
  "buffer_sample e timestamp_ns s =
     (let xs = rb_samples s
      in if xs = [] \<or> timestamp_ns < co_timestamp_ns (hd xs) \<or> timestamp_ns > co_timestamp_ns (List.last xs) then None
         else let upper = lower_bound (\<lambda>x. co_timestamp_ns x < timestamp_ns) xs
              in if upper \<noteq> length xs \<and> co_timestamp_ns (xs ! upper) = timestamp_ns
                 then Some \<lparr>so_value = xs ! upper, so_interpolated = False\<rparr>
                 else if upper = 0 \<or> upper = length xs then None
                 else let before = xs ! (upper - 1); after = xs ! upper
                      in if co_frame_generation after \<noteq> co_frame_generation before \<or> co_time_generation after \<noteq> co_time_generation before \<or>
                            (case checkedDifference (co_timestamp_ns after) (co_timestamp_ns before) of
                               None \<Rightarrow> True | Some gap \<Rightarrow> gap > bc_max_gap_ns (rb_config s))
                         then None
                         else let sampled = interpolate e before after timestamp_ns
                              in if \<not> validConvertedOdometry e sampled then None
                                 else Some \<lparr>so_value = sampled, so_interpolated = True\<rparr>)"

definition buffer_clear :: "OdometryRingBuffer \<Rightarrow> OdometryRingBuffer" where
  "buffer_clear s = s\<lparr>rb_samples := [], rb_current_generation := 0, rb_generation_initialized := False, rb_stable_sample_count := 0,
     rb_post_reset_stable := False\<rparr>"

definition setStableSamples :: "u64 \<Rightarrow> OdometryRingBuffer \<Rightarrow> OdometryRingBuffer" where
  "setStableSamples stable_samples s =
     s\<lparr>rb_config := (rb_config s)\<lparr>bc_stable_samples := max 1 stable_samples\<rparr>, rb_stable_sample_count := 0, rb_post_reset_stable := False\<rparr>"

section \<open>The invariant\<close>

definition by_time :: "ConvertedOdometry list \<Rightarrow> bool" where
  "by_time xs \<longleftrightarrow> sorted_wrt (\<lambda>a b. co_timestamp_ns a < co_timestamp_ns b) xs"

definition within_bounds :: "RingBufferConfig \<Rightarrow> ConvertedOdometry list \<Rightarrow> bool" where
  "within_bounds config xs \<longleftrightarrow> length xs \<le> bc_capacity config \<and>
     (xs \<noteq> [] \<longrightarrow> co_timestamp_ns (List.last xs) - co_timestamp_ns (hd xs) \<le> bc_duration_ns config)"

definition buffer_ok :: "eigen3 \<Rightarrow> OdometryRingBuffer \<Rightarrow> bool" where
  "buffer_ok e s \<longleftrightarrow> (let xs = rb_samples s; config = rb_config s in
     0 < bc_duration_ns config \<and> 0 < bc_capacity config \<and> 0 < bc_max_gap_ns config \<and> bc_stable_samples config \<noteq> 0 \<and>
     by_time xs \<and> within_bounds config xs \<and> list_all (validConvertedOdometry e) xs \<and>
     list_all (\<lambda>x. co_frame_generation x = rb_current_generation s) xs \<and> (xs \<noteq> [] \<longrightarrow> rb_generation_initialized s))"

inductive buffer_step :: "eigen3 \<Rightarrow> OdometryRingBuffer \<Rightarrow> OdometryRingBuffer \<Rightarrow> bool" for e where
  step_push: "buffer_step e s (snd (buffer_push e sample s))"
| step_clear: "buffer_step e s (buffer_clear s)"
| step_stable: "buffer_step e s (setStableSamples n s)"

definition buffer_init :: "OdometryRingBuffer \<Rightarrow> bool" where
  "buffer_init s \<longleftrightarrow> (\<exists>config. makeOdometryRingBuffer config = Some s)"

interpretation buffer: transition_system buffer_init "buffer_step e" for e .

lemma drop_old_suffix: "\<exists>ys. xs = ys @ drop_old config xs"
proof (induction xs)
  case (Cons x xs)
  then obtain ys where "xs = ys @ drop_old config xs" by blast
  then show ?case by (cases "overfull config (x # xs)") (auto intro: exI [of _ "x # ys"])
qed simp

lemma drop_old_last:
  assumes "0 < bc_capacity config" "0 < bc_duration_ns config" "xs \<noteq> []"
  shows "drop_old config xs \<noteq> [] \<and> List.last (drop_old config xs) = List.last xs \<and> \<not> overfull config (drop_old config xs)"
  using assms(3)
proof (induction xs)
  case (Cons x xs)
  show ?case
  proof (cases "xs = []")
    case True
    with assms(1,2) show ?thesis by (simp add: overfull_def checkedDifference_eq i64_simps)
  next
    case False
    with Cons.IH show ?thesis by (cases "overfull config (x # xs)") simp_all
  qed
qed simp

lemma by_time_last: "by_time xs \<Longrightarrow> x \<in> set xs \<Longrightarrow> co_timestamp_ns x \<le> co_timestamp_ns (List.last xs)"
  by (cases xs rule: rev_cases) (auto simp: by_time_def sorted_wrt_append)

lemma not_overfull: "\<not> overfull config xs \<Longrightarrow> xs \<noteq> [] \<Longrightarrow> within_bounds config xs"
  by (auto simp: overfull_def within_bounds_def checkedDifference_eq split: if_splits)

lemma push_ok:
  assumes "buffer_ok e s"
  shows "buffer_ok e (snd (buffer_push e sample s))"
proof (cases "\<not> validConvertedOdometry e sample \<or> rb_samples s \<noteq> [] \<and> co_timestamp_ns sample \<le> co_timestamp_ns (List.last (rb_samples s))")
  case True
  with assms show ?thesis by (auto simp: buffer_push_def buffer_ok_def by_time_def within_bounds_def Let_def)
next
  case False
  define s1 where "s1 = (if \<not> rb_generation_initialized s \<or> co_frame_generation sample \<noteq> rb_current_generation s
     then enter_generation (co_frame_generation sample) s else s)"
  define s2 where "s2 = s1\<lparr>rb_stable_sample_count := rb_stable_sample_count s1 + 1\<rparr>"
  have s1: "buffer_ok e s1" "rb_generation_initialized s1" "rb_current_generation s1 = co_frame_generation sample" "rb_config s1 = rb_config s"
    and xs1: "rb_samples s1 = [] \<or> rb_samples s1 = rb_samples s"
    using assms by (auto simp: s1_def enter_generation_def buffer_ok_def by_time_def within_bounds_def Let_def)
  let ?xs = "rb_samples s1 @ [sample]"
  have time: "by_time ?xs"
  proof (cases "rb_samples s1")
    case Nil
    then show ?thesis by (simp add: by_time_def)
  next
    case (Cons y ys)
    with xs1 have "rb_samples s1 = rb_samples s" "rb_samples s \<noteq> []" by auto
    then have "co_timestamp_ns (List.last (rb_samples s1)) < co_timestamp_ns sample" using False by simp
    moreover have "co_timestamp_ns x \<le> co_timestamp_ns (List.last (rb_samples s1))" if "x \<in> set (rb_samples s1)" for x
      using s1(1) that by (intro by_time_last) (simp_all add: buffer_ok_def Let_def)
    ultimately show ?thesis using s1(1) by (fastforce simp: buffer_ok_def by_time_def sorted_wrt_append Let_def)
  qed
  obtain ys where ys: "?xs = ys @ drop_old (rb_config s1) ?xs" using drop_old_suffix by blast
  have pos: "0 < bc_capacity (rb_config s1)" "0 < bc_duration_ns (rb_config s1)" using s1(1) by (simp_all add: buffer_ok_def Let_def)
  have d: "drop_old (rb_config s1) ?xs \<noteq> []" "within_bounds (rb_config s1) (drop_old (rb_config s1) ?xs)"
    using drop_old_last [OF pos, of ?xs] not_overfull by auto
  have sub: "set (drop_old (rb_config s1) ?xs) \<subseteq> set ?xs" "by_time (drop_old (rb_config s1) ?xs)"
    using ys time by (metis set_append Un_upper2, metis by_time_def sorted_wrt_append)
  have "list_all (validConvertedOdometry e) (drop_old (rb_config s1) ?xs)"
    "list_all (\<lambda>x. co_frame_generation x = rb_current_generation s1) (drop_old (rb_config s1) ?xs)"
    using sub(1) s1 False by (auto simp: list_all_iff buffer_ok_def Let_def)
  moreover have "snd (buffer_push e sample s) =
      (if rb_stable_sample_count s2 < bc_stable_samples (rb_config s2) then s2
       else s2\<lparr>rb_post_reset_stable := True, rb_samples := drop_old (rb_config s2) (rb_samples s2 @ [sample])\<rparr>)"
    unfolding buffer_push_def if_not_P [OF False] Let_def s1_def [symmetric] s2_def [symmetric] by simp
  ultimately show ?thesis using s1 d sub(2) by (auto simp: s2_def buffer_ok_def Let_def)
qed

lemma buffer_step_ok: "buffer_step e s t \<Longrightarrow> buffer_ok e s \<Longrightarrow> buffer_ok e t"
proof (induction rule: buffer_step.induct)
  case (step_push s sample)
  then show ?case by (rule push_ok)
next
  case (step_clear s)
  then show ?case by (simp add: buffer_clear_def buffer_ok_def by_time_def within_bounds_def Let_def)
next
  case (step_stable s n)
  moreover have "max 1 n \<noteq> (0 :: u64)" by (auto simp: max_def)
  ultimately show ?case by (simp add: setStableSamples_def buffer_ok_def within_bounds_def Let_def)
qed

lemma buffer_reachable_ok: "buffer.reachable e s \<Longrightarrow> buffer_ok e s"
proof (rule buffer.invariant_reachable [where I = "buffer_ok e"])
  fix s
  assume "buffer_init s"
  then show "buffer_ok e s"
    by (auto simp: buffer_init_def makeOdometryRingBuffer_def buffer_ok_def by_time_def within_bounds_def split: if_splits)
qed (rule buffer_step_ok)

lemma push_kept:
  assumes "buffer_push e sample s = (True, t)"
  shows "\<exists>ys. rb_samples t = drop_old (rb_config s) (ys @ [sample])"
proof -
  define s1 where "s1 = (if \<not> rb_generation_initialized s \<or> co_frame_generation sample \<noteq> rb_current_generation s
     then enter_generation (co_frame_generation sample) s else s)"
  have "rb_config s1 = rb_config s" by (simp add: s1_def enter_generation_def)
  moreover have "rb_samples t = drop_old (rb_config s1) (rb_samples s1 @ [sample])"
    using assms unfolding buffer_push_def Let_def s1_def [symmetric] by (auto split: if_splits)
  ultimately show ?thesis by auto
qed

section \<open>The history is bounded, ordered and of one frame\<close>

text \<open>
  C27. Whatever is pushed, cleared or reconfigured, the history holds samples in strictly increasing time, all
  numerically valid and of the current frame generation, no more of them than the capacity and spanning no
  more than the configured duration. A push that reports success has kept the pushed sample as the newest one.
\<close>

theorem odometry_history_bounded:
  assumes "buffer.reachable e s"
  shows "let xs = rb_samples s in
    sorted_wrt (\<lambda>a b. co_timestamp_ns a < co_timestamp_ns b) xs \<and> length xs \<le> bc_capacity (rb_config s) \<and>
    (xs \<noteq> [] \<longrightarrow> co_timestamp_ns (List.last xs) - co_timestamp_ns (hd xs) \<le> bc_duration_ns (rb_config s)) \<and>
    (\<forall>x \<in> set xs. validConvertedOdometry e x \<and> co_frame_generation x = rb_current_generation s) \<and>
    (\<forall>sample t. buffer_push e sample s = (True, t) \<longrightarrow> rb_samples t \<noteq> [] \<and> List.last (rb_samples t) = sample)"
proof -
  have ok: "buffer_ok e s" by (rule buffer_reachable_ok [OF assms])
  have "rb_samples t \<noteq> [] \<and> List.last (rb_samples t) = sample" if p: "buffer_push e sample s = (True, t)" for sample t
  proof -
    obtain ys where "rb_samples t = drop_old (rb_config s) (ys @ [sample])" using push_kept [OF p] by blast
    with ok drop_old_last [of "rb_config s" "ys @ [sample]"] show ?thesis by (simp add: buffer_ok_def Let_def)
  qed
  with ok show ?thesis by (auto simp: buffer_ok_def by_time_def within_bounds_def list_all_iff Let_def)
qed

section \<open>Queries by time\<close>

lemma interpolate_valid: "validConvertedOdometry e (interpolate e a b ts) \<Longrightarrow> co_timestamp_ns (interpolate e a b ts) = ts"
  by (auto simp: interpolate_def validConvertedOdometry_def Let_def split: option.splits if_splits)

lemma by_time_nth: "by_time xs \<Longrightarrow> i < j \<Longrightarrow> j < length xs \<Longrightarrow> co_timestamp_ns (xs ! i) < co_timestamp_ns (xs ! j)"
  using sorted_wrt_nth_less [of _ xs i j] by (fastforce simp: by_time_def)

lemma time_lower_bound:
  assumes "by_time xs"
  shows "lower_bound (\<lambda>x. co_timestamp_ns x < ts) xs \<le> length xs"
    and "i < length xs \<Longrightarrow> co_timestamp_ns (xs ! i) < ts \<longleftrightarrow> i < lower_bound (\<lambda>x. co_timestamp_ns x < ts) xs"
proof -
  have "co_timestamp_ns (xs ! i) < ts" if "i \<le> j" "j < length xs" "co_timestamp_ns (xs ! j) < ts" for i j
    using that by_time_nth [OF assms, of i j] by (cases "i = j") auto
  then have "partitioned (\<lambda>x. co_timestamp_ns x < ts) xs" unfolding partitioned_def by blast
  from lower_bound_spec [OF this] show "lower_bound (\<lambda>x. co_timestamp_ns x < ts) xs \<le> length xs"
    "i < length xs \<Longrightarrow> co_timestamp_ns (xs ! i) < ts \<longleftrightarrow> i < lower_bound (\<lambda>x. co_timestamp_ns x < ts) xs" by auto
qed

text \<open>
  C28. A query at the instant of a stored sample returns that sample unchanged, found by binary search. A
  query answered by interpolation lies strictly between two neighbouring samples of the same frame and time
  generation that are no further apart than the configured gap, and the answer is the valid interpolation of
  these two at the requested instant; nothing is extrapolated.
\<close>

theorem odometry_query_exact:
  assumes "buffer.reachable e s" "xs = rb_samples s"
  shows "(\<forall>i < length xs. buffer_sample e (co_timestamp_ns (xs ! i)) s = Some \<lparr>so_value = xs ! i, so_interpolated = False\<rparr>) \<and>
    (\<forall>r. buffer_sample e ts s = Some r \<longrightarrow> co_timestamp_ns (so_value r) = ts \<and> validConvertedOdometry e (so_value r) \<and>
      (if so_interpolated r
       then (\<exists>i. Suc i < length xs \<and> co_timestamp_ns (xs ! i) < ts \<and> ts < co_timestamp_ns (xs ! Suc i) \<and>
         co_timestamp_ns (xs ! Suc i) - co_timestamp_ns (xs ! i) \<le> bc_max_gap_ns (rb_config s) \<and>
         co_time_generation (xs ! Suc i) = co_time_generation (xs ! i) \<and> so_value r = interpolate e (xs ! i) (xs ! Suc i) ts)
       else so_value r \<in> set xs))"
proof -
  have ok: "buffer_ok e s" by (rule buffer_reachable_ok [OF assms(1)])
  then have time: "by_time xs" and valid: "\<And>x. x \<in> set xs \<Longrightarrow> validConvertedOdometry e x"
    by (auto simp: buffer_ok_def assms(2) list_all_iff Let_def)
  have stored: "buffer_sample e (co_timestamp_ns (xs ! i)) s = Some \<lparr>so_value = xs ! i, so_interpolated = False\<rparr>" if i: "i < length xs" for i
  proof -
    let ?u = "lower_bound (\<lambda>x. co_timestamp_ns x < co_timestamp_ns (xs ! i)) xs"
    have "\<not> i < ?u" using time_lower_bound(2) [OF time i, of "co_timestamp_ns (xs ! i)"] by simp
    moreover have "j < ?u" if "j < i" for j
      using time_lower_bound(2) [OF time, of j "co_timestamp_ns (xs ! i)"] by_time_nth [OF time that i] i that by simp
    ultimately have "?u = i" using linorder_neqE_nat by blast
    moreover have "\<not> co_timestamp_ns (xs ! i) < co_timestamp_ns (hd xs)"
      using by_time_nth [OF time, of 0 i] i hd_conv_nth [of xs] by (cases "i = 0"; cases "xs = []") auto
    moreover have "co_timestamp_ns (xs ! i) \<le> co_timestamp_ns (List.last xs)" using by_time_last [OF time] i by simp
    ultimately show ?thesis using i by (auto simp: buffer_sample_def assms(2) [symmetric])
  qed
  have found: "co_timestamp_ns (so_value r) = ts \<and> validConvertedOdometry e (so_value r) \<and>
      (if so_interpolated r
       then (\<exists>i. Suc i < length xs \<and> co_timestamp_ns (xs ! i) < ts \<and> ts < co_timestamp_ns (xs ! Suc i) \<and>
         co_timestamp_ns (xs ! Suc i) - co_timestamp_ns (xs ! i) \<le> bc_max_gap_ns (rb_config s) \<and>
         co_time_generation (xs ! Suc i) = co_time_generation (xs ! i) \<and> so_value r = interpolate e (xs ! i) (xs ! Suc i) ts)
       else so_value r \<in> set xs)" if r: "buffer_sample e ts s = Some r" for r
  proof -
    let ?u = "lower_bound (\<lambda>x. co_timestamp_ns x < ts) xs"
    have u: "?u \<le> length xs" using time_lower_bound(1) [OF time] .
    consider "?u < length xs" "co_timestamp_ns (xs ! ?u) = ts" "r = \<lparr>so_value = xs ! ?u, so_interpolated = False\<rparr>"
      | "0 < ?u" "?u < length xs" "co_timestamp_ns (xs ! ?u) \<noteq> ts" "validConvertedOdometry e (interpolate e (xs ! (?u - 1)) (xs ! ?u) ts)"
        "co_time_generation (xs ! ?u) = co_time_generation (xs ! (?u - 1))"
        "co_timestamp_ns (xs ! ?u) - co_timestamp_ns (xs ! (?u - 1)) \<le> bc_max_gap_ns (rb_config s)"
        "r = \<lparr>so_value = interpolate e (xs ! (?u - 1)) (xs ! ?u) ts, so_interpolated = True\<rparr>"
      using r u by (auto simp: buffer_sample_def assms(2) [symmetric] checkedDifference_eq Let_def split: if_splits)
    then show ?thesis
    proof cases
      case 1
      then show ?thesis using valid by simp
    next
      case 2
      then have "co_timestamp_ns (xs ! (?u - 1)) < ts" using time_lower_bound(2) [OF time, of "?u - 1" ts] by simp
      moreover have "ts < co_timestamp_ns (xs ! ?u)" using 2(2,3) time_lower_bound(2) [OF time 2(2), of ts] by simp
      ultimately show ?thesis using 2 interpolate_valid [OF 2(4)] by (auto intro!: exI [of _ "?u - 1"])
    qed
  qed
  show ?thesis using stored found by blast
qed

section \<open>A concrete history\<close>

definition ex_history :: OdometryRingBuffer where
  "ex_history = \<lparr>rb_config = default_ring_buffer\<lparr>bc_stable_samples := 1\<rparr>, rb_samples = [], rb_current_generation = 0,
     rb_generation_initialized = False, rb_stable_sample_count = 0, rb_post_reset_stable = False\<rparr>"

definition ex_history_pushed :: OdometryRingBuffer where
  "ex_history_pushed = snd (buffer_push ex_eigen3 (ex_converted 1000) ex_history)"

lemma ex_history_samples: "rb_samples ex_history_pushed = [ex_converted 1000]"
  using ex_converted_admissible [of 1000]
  by (simp add: ex_history_pushed_def ex_history_def buffer_push_def validConvertedOdometry_def sample_admissible_def enter_generation_def
      default_ring_buffer_def overfull_def checkedDifference_eq i64_simps Let_def)

lemma ex_history_reachable: "buffer.reachable ex_eigen3 ex_history_pushed"
  unfolding ex_history_pushed_def
  by (rule buffer.reach_step [OF buffer.reach_init step_push])
    (simp add: buffer_init_def makeOdometryRingBuffer_def ex_history_def default_ring_buffer_def exI [of _ "default_ring_buffer\<lparr>bc_stable_samples := 1\<rparr>"])

theorem odometry_history_bounded_witness:
  "length (rb_samples ex_history_pushed) = 1 \<and> length (rb_samples ex_history_pushed) \<le> bc_capacity (rb_config ex_history_pushed)"
  using odometry_history_bounded [OF ex_history_reachable] by (simp add: ex_history_samples Let_def)

theorem odometry_query_exact_witness:
  "buffer_sample ex_eigen3 1000 ex_history_pushed = Some \<lparr>so_value = ex_converted 1000, so_interpolated = False\<rparr>"
proof -
  have "co_timestamp_ns (ex_converted 1000) = 1000" by (simp add: ex_converted_def)
  with odometry_query_exact [OF ex_history_reachable refl] ex_history_samples show ?thesis by simp
qed

end
