(* ===== verification/Px4_Odometry_Bridge.thy ===== *)
theory Px4_Odometry_Bridge
  imports Odometry_Buffer
begin

text \<open>
  \<open>px4_odometry_bridge_node.cpp\<close>: the node that turns PX4's odometry into continuous ROS odometry. Each callback
  is a function of the node's state; what it publishes is returned as a list. The clock and the conversion of
  \<open>rclcpp::Time\<close> are arguments; a message that carries \<open>float\<close> components holds them as doubles of the same value.
\<close>

section \<open>Messages\<close>

record VehicleLocalPosition =
  lp_timestamp_sample :: u64
  lp_delta_xy :: "double \<times> double"
  lp_delta_z :: double
  lp_delta_vxy :: "double \<times> double"
  lp_delta_vz :: double
  lp_delta_heading :: double
  lp_xy_reset_counter :: u8
  lp_z_reset_counter :: u8
  lp_vxy_reset_counter :: u8
  lp_vz_reset_counter :: u8
  lp_heading_reset_counter :: u8

record VehicleAttitude =
  va_timestamp_sample :: u64
  va_delta_q_reset :: quat
  va_quat_reset_counter :: u8

record VehicleOdometryInput =
  vo_timestamp_sample :: u64
  vo_pose_frame :: u8
  vo_velocity_frame :: u8
  vo_position :: vec3
  vo_q :: quat
  vo_velocity :: vec3
  vo_angular_velocity :: vec3
  vo_position_variance :: vec3
  vo_velocity_variance :: vec3
  vo_orientation_variance :: vec3
  vo_reset_counter :: u8

datatype bridge_output = BridgeDiagnostics string string | BridgeOdometry OdometryMessage

section \<open>State\<close>

record Px4OdometryBridge =
  nb_converter :: "quat option"
  nb_reset_compensator :: ResetCompensator
  nb_time_validator :: TimestampValidator
  nb_history :: OdometryRingBuffer
  nb_local_reset_history :: "DetailedResetMetadata list"
  nb_attitude_reset_history :: "DetailedResetMetadata list"
  nb_maximum_metadata_age_ns :: i64
  nb_maximum_metadata_association_gap_ns :: i64
  nb_last_px4_timestamp_sample_ns :: i64
  nb_last_px4_ros_output_stamp_ns :: i64
  nb_timestamp_rejected_count :: u64
  nb_conversion_rejected_count :: u64
  nb_reset_suppressed_count :: u64
  nb_startup_rebaseline_count :: u64
  nb_startup_rebaseline_generation :: u64
  nb_last_reset_observation_status :: string
  nb_output_valid :: bool
  nb_continuity_valid :: bool
  nb_startup_origin_rebased :: bool
  nb_last_valid_sample_time_ns :: i64
  nb_last_time_generation :: u64
  nb_frame_generation :: u64
  nb_reset_event_generation :: u64
  nb_last_input_reset_counter :: "u8 option"
  nb_last_world_convention :: WorldConvention

text \<open>The three parameters of the constructor; \<open>None\<close> is its exception.\<close>

definition makePx4OdometryBridge :: "double \<Rightarrow> double \<Rightarrow> i64 \<Rightarrow> Px4OdometryBridge option" where
  "makePx4OdometryBridge maximum_metadata_age_s maximum_metadata_association_gap_s stable_samples =
     (case secondsToNanoseconds maximum_metadata_age_s of None \<Rightarrow> None | Some age_ns \<Rightarrow>
      case secondsToNanoseconds maximum_metadata_association_gap_s of None \<Rightarrow> None | Some gap_ns \<Rightarrow>
      case makeTimestampValidator default_time_validation of None \<Rightarrow> None | Some validator \<Rightarrow>
      case makeOdometryRingBuffer default_ring_buffer of None \<Rightarrow> None | Some history \<Rightarrow>
          if \<not> isfinite maximum_metadata_age_s \<or> fp_le maximum_metadata_age_s (Fin 0) \<or> \<not> isfinite maximum_metadata_association_gap_s \<or>
             fp_less maximum_metadata_association_gap_s (Fin 0) \<or> age_ns \<le> 0 \<or> gap_ns < 0 \<or> stable_samples \<le> 0
          then None
          else Some \<lparr>nb_converter = None, nb_reset_compensator = makeResetCompensator, nb_time_validator = validator,
            nb_history = setStableSamples (word_of_int stable_samples) history, nb_local_reset_history = [], nb_attitude_reset_history = [],
            nb_maximum_metadata_age_ns = age_ns, nb_maximum_metadata_association_gap_ns = gap_ns, nb_last_px4_timestamp_sample_ns = 0,
            nb_last_px4_ros_output_stamp_ns = 0, nb_timestamp_rejected_count = 0, nb_conversion_rejected_count = 0,
            nb_reset_suppressed_count = 0, nb_startup_rebaseline_count = 0, nb_startup_rebaseline_generation = 0,
            nb_last_reset_observation_status = ''accepted'', nb_output_valid = False, nb_continuity_valid = True,
            nb_startup_origin_rebased = False, nb_last_valid_sample_time_ns = 0, nb_last_time_generation = 0, nb_frame_generation = 1,
            nb_reset_event_generation = 0, nb_last_input_reset_counter = None, nb_last_world_convention = ConventionUnknown\<rparr>)"

section \<open>Reset metadata\<close>

definition kResetHistoryCapacity :: nat where
  "kResetHistoryCapacity = 64"

definition counter_delta :: "u8 \<Rightarrow> u8 \<Rightarrow> u8" where
  "counter_delta before after = after - before"

text \<open>\<open>std::upper_bound\<close> by timestamp, as the partition point of the entries that are not later.\<close>

definition metadata_position :: "i64 \<Rightarrow> DetailedResetMetadata list \<Rightarrow> nat" where
  "metadata_position timestamp_ns history = lower_bound (\<lambda>entry. \<not> timestamp_ns < rm_timestamp_ns entry) history"

definition insert_metadata :: "DetailedResetMetadata \<Rightarrow> DetailedResetMetadata list \<Rightarrow> DetailedResetMetadata list" where
  "insert_metadata metadata history =
     (let position = metadata_position (rm_timestamp_ns metadata) history;
          inserted = take position history @ metadata # drop position history
      in drop (length inserted - kResetHistoryCapacity) inserted)"

definition record_local_reset_metadata :: "VehicleLocalPosition \<Rightarrow> Px4OdometryBridge \<Rightarrow> Px4OdometryBridge" where
  "record_local_reset_metadata message s =
     (case checked_microseconds_to_nanoseconds (lp_timestamp_sample message) of None \<Rightarrow> s
      | Some timestamp \<Rightarrow>
        s\<lparr>nb_local_reset_history := insert_metadata
          (default_reset_metadata\<lparr>rm_timestamp_ns := timestamp, rm_matched_odometry_timestamp_ns := timestamp,
             rm_position_delta_source := \<lparr>vx = fst (lp_delta_xy message), vy = snd (lp_delta_xy message), vz = lp_delta_z message\<rparr>,
             rm_velocity_delta_source := \<lparr>vx = fst (lp_delta_vxy message), vy = snd (lp_delta_vxy message), vz = lp_delta_vz message\<rparr>,
             rm_heading_delta_rad := lp_delta_heading message, rm_xy_reset_counter := lp_xy_reset_counter message,
             rm_z_reset_counter := lp_z_reset_counter message, rm_vxy_reset_counter := lp_vxy_reset_counter message,
             rm_vz_reset_counter := lp_vz_reset_counter message, rm_heading_reset_counter := lp_heading_reset_counter message\<rparr>)
          (nb_local_reset_history s)\<rparr>)"

definition record_attitude_reset_metadata :: "VehicleAttitude \<Rightarrow> Px4OdometryBridge \<Rightarrow> Px4OdometryBridge" where
  "record_attitude_reset_metadata message s =
     (case checked_microseconds_to_nanoseconds (va_timestamp_sample message) of None \<Rightarrow> s
      | Some timestamp \<Rightarrow>
        s\<lparr>nb_attitude_reset_history := insert_metadata
          (default_reset_metadata\<lparr>rm_timestamp_ns := timestamp, rm_matched_odometry_timestamp_ns := timestamp,
             rm_attitude_delta := va_delta_q_reset message, rm_attitude_reset_counter := va_quat_reset_counter message\<rparr>)
          (nb_attitude_reset_history s)\<rparr>)"

definition counted_resets :: "DetailedResetMetadata \<Rightarrow> DetailedResetMetadata \<Rightarrow> DetailedResetMetadata \<Rightarrow> DetailedResetMetadata" where
  "counted_resets previous current result =
     (let xy = counter_delta (rm_xy_reset_counter previous) (rm_xy_reset_counter current);
          z = counter_delta (rm_z_reset_counter previous) (rm_z_reset_counter current);
          vxy = counter_delta (rm_vxy_reset_counter previous) (rm_vxy_reset_counter current);
          vz = counter_delta (rm_vz_reset_counter previous) (rm_vz_reset_counter current);
          heading = counter_delta (rm_heading_reset_counter previous) (rm_heading_reset_counter current);
          attitude = counter_delta (rm_attitude_reset_counter previous) (rm_attitude_reset_counter current)
      in if xy > 1 \<or> z > 1 \<or> vxy > 1 \<or> vz > 1 \<or> heading > 1 \<or> attitude > 1
         then result\<lparr>rm_association_invalid := True, rm_available := False\<rparr>
         else let counted = result\<lparr>rm_position_xy_reset := (xy = 1), rm_position_z_reset := (z = 1), rm_velocity_xy_reset := (vxy = 1),
                    rm_velocity_z_reset := (vz = 1), rm_heading_reset := (heading = 1), rm_attitude_reset := (attitude = 1)\<rparr>
              in counted\<lparr>rm_available := (\<not> rm_association_invalid counted \<and> hasReset counted)\<rparr>)"

definition metadata_at :: "i64 \<Rightarrow> DetailedResetMetadata list \<Rightarrow> i64 \<Rightarrow> DetailedResetMetadata option" where
  "metadata_at maximum_age_ns history timestamp_ns =
     (let position = metadata_position timestamp_ns history
      in if history = [] \<or> position = 0 then None
         else let current = history ! (position - 1)
              in if timestamp_ns < rm_timestamp_ns current \<or> timestamp_ns - rm_timestamp_ns current > maximum_age_ns then None
                 else let result = current\<lparr>rm_matched_odometry_timestamp_ns := timestamp_ns\<rparr>
                      in if position = 1 then Some result else Some (counted_resets (history ! (position - 2)) current result))"

definition take_local :: "DetailedResetMetadata \<Rightarrow> DetailedResetMetadata \<Rightarrow> DetailedResetMetadata" where
  "take_local local result = result\<lparr>rm_position_xy_reset := rm_position_xy_reset local, rm_position_z_reset := rm_position_z_reset local,
     rm_velocity_xy_reset := rm_velocity_xy_reset local, rm_velocity_z_reset := rm_velocity_z_reset local,
     rm_heading_reset := rm_heading_reset local, rm_position_delta_source := rm_position_delta_source local,
     rm_velocity_delta_source := rm_velocity_delta_source local, rm_heading_delta_rad := rm_heading_delta_rad local,
     rm_xy_reset_counter := rm_xy_reset_counter local, rm_z_reset_counter := rm_z_reset_counter local,
     rm_vxy_reset_counter := rm_vxy_reset_counter local, rm_vz_reset_counter := rm_vz_reset_counter local,
     rm_heading_reset_counter := rm_heading_reset_counter local\<rparr>"

definition take_attitude :: "DetailedResetMetadata \<Rightarrow> DetailedResetMetadata \<Rightarrow> DetailedResetMetadata" where
  "take_attitude attitude result = result\<lparr>rm_attitude_reset := rm_attitude_reset attitude, rm_attitude_delta := rm_attitude_delta attitude,
     rm_attitude_reset_counter := rm_attitude_reset_counter attitude\<rparr>"

definition detailed_metadata_for :: "i64 \<Rightarrow> Px4OdometryBridge \<Rightarrow> DetailedResetMetadata option" where
  "detailed_metadata_for timestamp_ns s =
     (let local = metadata_at (nb_maximum_metadata_age_ns s) (nb_local_reset_history s) timestamp_ns;
          attitude = metadata_at (nb_maximum_metadata_age_ns s) (nb_attitude_reset_history s) timestamp_ns;
          invalid = (\<lambda>m. case m of None \<Rightarrow> False | Some x \<Rightarrow> rm_association_invalid x);
          apart = (case (local, attitude) of
            (Some l, Some a) \<Rightarrow> hasReset l \<and> hasReset a \<and>
              \<bar>rm_timestamp_ns l - rm_timestamp_ns a\<bar> > nb_maximum_metadata_association_gap_ns s | _ \<Rightarrow> False)
      in if local = None \<and> attitude = None then None
         else let r0 = default_reset_metadata\<lparr>rm_matched_odometry_timestamp_ns := timestamp_ns,
                    rm_association_invalid := (invalid local \<or> invalid attitude \<or> apart)\<rparr>;
                  r1 = (case local of None \<Rightarrow> r0 | Some l \<Rightarrow> take_local l r0);
                  r2 = (case attitude of None \<Rightarrow> r1 | Some a \<Rightarrow> take_attitude a r1)
              in Some (r2\<lparr>rm_available := (\<not> rm_association_invalid r2 \<and> hasReset r2)\<rparr>))"

section \<open>The odometry message\<close>

definition covariance_entry :: "(nat \<times> bool \<times> vec3) list \<Rightarrow> nat \<Rightarrow> double" where
  "covariance_entry blocks i =
     (case filter (\<lambda>(offset, available, v). available \<and> i \<in> {offset * 7, offset * 7 + 7, offset * 7 + 14}) blocks of
        [] \<Rightarrow> Fin 0
      | (offset, _, v) # _ \<Rightarrow> if i = offset * 7 then vx v else if i = offset * 7 + 7 then vy v else vz v)"

definition to_ros :: "(i64 \<Rightarrow> ros_time) \<Rightarrow> ConvertedOdometry \<Rightarrow> OdometryMessage" where
  "to_ros rclcpp_time sample =
     \<lparr>om_stamp = rclcpp_time (co_timestamp_ns sample), om_frame_id = ''px4_odom'', om_child_frame_id = ''base_link'',
      om_position = co_position sample, om_orientation = co_orientation sample, om_linear = co_velocity_body sample,
      om_angular = co_angular_velocity_body sample,
      om_pose_covariance = map (covariance_entry
        [(0, co_position_covariance_available sample, co_position_variance sample),
         (3, co_orientation_covariance_available sample, co_orientation_variance sample)]) [0..<36],
      om_twist_covariance = map (\<lambda>i. if i \<in> {21, 28, 35} then Fin (-1)
        else covariance_entry [(0, co_velocity_covariance_available sample, co_velocity_variance sample)] i) [0..<36]\<rparr>"

section \<open>The odometry callback\<close>

abbreviation diagnosed :: "string \<Rightarrow> string \<Rightarrow> Px4OdometryBridge \<Rightarrow> bridge_output list \<times> Px4OdometryBridge" where
  "diagnosed state message s \<equiv> ([BridgeDiagnostics state message], s)"

definition sample_of_message :: "i64 \<Rightarrow> VehicleOdometryInput \<Rightarrow> Px4OdometrySample" where
  "sample_of_message timestamp_ns message =
     \<lparr>po_timestamp_ns = timestamp_ns, po_pose_frame = pose_frame_of (vo_pose_frame message),
      po_velocity_frame = velocity_frame_of (vo_velocity_frame message), po_position = vo_position message, po_orientation = vo_q message,
      po_velocity = vo_velocity message, po_angular_velocity = vo_angular_velocity message,
      po_position_variance = vo_position_variance message, po_velocity_variance = vo_velocity_variance message,
      po_orientation_variance = vo_orientation_variance message, po_reset_counter = vo_reset_counter message,
      po_angular_velocity_valid = vfinite (vo_angular_velocity message)\<rparr>"

text \<open>The restart of the source: a new frame generation and empty histories.\<close>

definition source_restarted :: "u64 \<Rightarrow> u64 \<Rightarrow> Px4OdometryBridge \<Rightarrow> Px4OdometryBridge" where
  "source_restarted frame_generation time_generation s =
     s\<lparr>nb_frame_generation := frame_generation, nb_history := buffer_clear (nb_history s), nb_local_reset_history := [],
       nb_attitude_reset_history := [], nb_reset_compensator := compensator_clear (nb_reset_compensator s),
       nb_converter := reset_sign_continuity (nb_converter s), nb_startup_origin_rebased := False, nb_output_valid := False,
       nb_continuity_valid := False, nb_last_valid_sample_time_ns := 0, nb_last_time_generation := time_generation,
       nb_last_px4_timestamp_sample_ns := 0, nb_last_px4_ros_output_stamp_ns := 0\<rparr>"

text \<open>Observe the sample again from a cleared compensator.\<close>

definition reobserve :: "eigen3 \<Rightarrow> ConvertedOdometry \<Rightarrow> Px4OdometryBridge \<Rightarrow> ResetObservation \<times> Px4OdometryBridge" where
  "reobserve e converted s =
     (let (observation, compensator) = compensator_observe e converted default_reset_metadata (compensator_clear (nb_reset_compensator s))
      in (observation, s\<lparr>nb_history := buffer_clear (nb_history s), nb_reset_compensator := compensator,
            nb_converter := reset_sign_continuity (nb_converter s), nb_startup_origin_rebased := False, nb_continuity_valid := False,
            nb_last_reset_observation_status := reset_status_string (ob_status observation)\<rparr>))"

text \<open>The tail of the callback: what happens to an accepted observation.\<close>

definition publish_continuous ::
    "eigen3 \<Rightarrow> (i64 \<Rightarrow> ros_time) \<Rightarrow> u64 \<Rightarrow> ConvertedOdometry \<Rightarrow> u8 \<Rightarrow> ConvertedOdometry \<Rightarrow> Px4OdometryBridge \<Rightarrow>
     bridge_output list \<times> Px4OdometryBridge" where
  "publish_continuous e rclcpp_time time_generation converted reset_counter continuous_odometry s =
     (let c1 = continuous_odometry\<lparr>co_frame_generation := nb_frame_generation s, co_reset_generation := nb_reset_event_generation s,
                 co_reset_event_generation := nb_reset_event_generation s\<rparr>;
          (origin, compensator) = (if nb_startup_origin_rebased s then (Some vzero, nb_reset_compensator s)
                                   else rebasePositionAtCurrentOutput (nb_reset_compensator s))
      in case origin of
           None \<Rightarrow> diagnosed ''suppressed'' ''PX4 startup origin was not finite'' (s\<lparr>nb_continuity_valid := False\<rparr>)
         | Some origin_position \<Rightarrow>
           let c2 = (if nb_startup_origin_rebased s then c1 else c1\<lparr>co_position := vsub (co_position c1) origin_position\<rparr>);
               c3 = c2\<lparr>co_time_generation := time_generation\<rparr>;
               s1 = s\<lparr>nb_reset_compensator := compensator, nb_startup_origin_rebased := True\<rparr>;
               (pushed, history) = buffer_push e c3 (nb_history s1);
               s2 = s1\<lparr>nb_history := history\<rparr>
           in if \<not> pushed
              then diagnosed ''stabilizing'' ''PX4 post-reset stable sample gate active'' (s2\<lparr>nb_continuity_valid := False\<rparr>)
              else let output = to_ros rclcpp_time c3
                   in ([BridgeOdometry output, BridgeDiagnostics ''running'' ''VehicleOdometry converted and published''],
                       s2\<lparr>nb_continuity_valid := True, nb_output_valid := True, nb_last_world_convention := co_world_convention converted,
                          nb_last_valid_sample_time_ns := co_timestamp_ns c3, nb_last_time_generation := time_generation,
                          nb_last_input_reset_counter := Some reset_counter, nb_last_px4_timestamp_sample_ns := co_timestamp_ns c3,
                          nb_last_px4_ros_output_stamp_ns := sec (om_stamp output) * 1000000000 + uint (nanosec (om_stamp output))\<rparr>))"

definition reset_uncompensated :: "ResetObservationStatus \<Rightarrow> bool" where
  "reset_uncompensated status \<longleftrightarrow> status = ResetInvalidMetadata \<or> status = ResetCounterDiscontinuity \<or> status = ResetInvalidResetRotation"

text \<open>
  What follows the observation: the end of the public frame when a reset cannot be compensated, the new
  baseline during start-up, and the tail. The counters are checked before they advance.
\<close>

definition after_observation ::
    "eigen3 \<Rightarrow> (i64 \<Rightarrow> ros_time) \<Rightarrow> u64 \<Rightarrow> ConvertedOdometry \<Rightarrow> DetailedResetMetadata \<Rightarrow> bool \<Rightarrow> ResetObservation \<Rightarrow> Px4OdometryBridge \<Rightarrow>
     bridge_output list \<times> Px4OdometryBridge" where
  "after_observation e rclcpp_time time_generation converted metadata counter_changed observation s =
     (let suppressed = (ob_status observation = ResetTransitionSuppressed)
      in if suppressed \<and> nb_reset_event_generation s = -1
         then diagnosed ''rejected'' ''reset event generation exhausted'' (s\<lparr>nb_output_valid := False, nb_continuity_valid := False\<rparr>)
         else let s1 = (if suppressed then s\<lparr>nb_reset_event_generation := nb_reset_event_generation s + 1\<rparr> else s);
                  ends = (counter_changed \<and> nb_output_valid s1 \<and> reset_uncompensated (ob_status observation))
              in if ends \<and> nb_frame_generation s1 = -1
                 then diagnosed ''rejected'' ''public frame generation exhausted'' (s1\<lparr>nb_output_valid := False, nb_continuity_valid := False\<rparr>)
                 else let (o1, s2) = (if ends then reobserve e converted (s1\<lparr>nb_frame_generation := nb_frame_generation s1 + 1\<rparr>)
                                      else (observation, s1));
                          rebaseline = (ob_sample o1 = None \<and> \<not> nb_output_valid s2 \<and> ob_status o1 = ResetMetadataPending \<and>
                            \<not> rm_association_invalid metadata);
                          (o2, s3) = (if rebaseline then reobserve e converted (s2\<lparr>nb_last_valid_sample_time_ns := 0\<rparr>) else (o1, s2));
                          s4 = (if rebaseline then s3\<lparr>nb_startup_rebaseline_count := nb_startup_rebaseline_count s3 + 1,
                                  nb_startup_rebaseline_generation := nb_startup_rebaseline_generation s3 + 1\<rparr> else s3);
                          noted = (if rebaseline then [BridgeDiagnostics ''stabilizing'' ''PX4 startup baseline reinitialized before reset metadata''] else []);
                          (outputs, t) = (case ob_sample o2 of
                            None \<Rightarrow> diagnosed ''suppressed'' (''PX4 reset observation: '' @ reset_status_string (ob_status o2))
                              (s4\<lparr>nb_reset_suppressed_count := nb_reset_suppressed_count s4 + 1, nb_continuity_valid := False\<rparr>)
                          | Some continuous_odometry \<Rightarrow> publish_continuous e rclcpp_time time_generation converted (co_reset_counter converted) continuous_odometry s4)
                      in (noted @ outputs, t))"

definition on_sample ::
    "eigen3 \<Rightarrow> (i64 \<Rightarrow> ros_time) \<Rightarrow> i64 \<Rightarrow> TimeValidationResult \<Rightarrow> VehicleOdometryInput \<Rightarrow> Px4OdometryBridge \<Rightarrow>
     bridge_output list \<times> Px4OdometryBridge" where
  "on_sample e rclcpp_time timestamp_ns time_result message s =
     (let sample = sample_of_message timestamp_ns message; (result, orientation) = frame_convert e sample (nb_converter s);
          s1 = s\<lparr>nb_converter := orientation\<rparr>
      in case result of
           Inl reason \<Rightarrow> diagnosed ''rejected'' ''PX4 frame conversion rejected sample''
             (s1\<lparr>nb_conversion_rejected_count := nb_conversion_rejected_count s1 + 1\<rparr>)
         | Inr converted \<Rightarrow>
           let metadata = (case detailed_metadata_for timestamp_ns s1 of None \<Rightarrow> default_reset_metadata | Some m \<Rightarrow> m);
               counter_changed = (case nb_last_input_reset_counter s1 of None \<Rightarrow> False | Some c \<Rightarrow> c \<noteq> po_reset_counter sample);
               (observation, compensator) = compensator_observe e converted metadata (nb_reset_compensator s1)
           in after_observation e rclcpp_time (vr_generation time_result) converted metadata counter_changed observation
                (s1\<lparr>nb_reset_compensator := compensator, nb_last_reset_observation_status := reset_status_string (ob_status observation)\<rparr>))"

definition on_odometry ::
    "eigen3 \<Rightarrow> (i64 \<Rightarrow> ros_time) \<Rightarrow> i64 \<Rightarrow> VehicleOdometryInput \<Rightarrow> Px4OdometryBridge \<Rightarrow> bridge_output list \<times> Px4OdometryBridge" where
  "on_odometry e rclcpp_time now_ns message s =
     (case checked_microseconds_to_nanoseconds (vo_timestamp_sample message) of
        None \<Rightarrow> diagnosed ''rejected'' ''invalid PX4 timestamp'' (s\<lparr>nb_timestamp_rejected_count := nb_timestamp_rejected_count s + 1\<rparr>)
      | Some timestamp_ns \<Rightarrow>
        let (time_result, validator) = observe_time (vo_timestamp_sample message) now_ns (nb_time_validator s);
            s1 = s\<lparr>nb_time_validator := validator\<rparr>
        in if \<not> vr_accepted time_result
           then diagnosed ''rejected'' (vr_reason time_result) (s1\<lparr>nb_timestamp_rejected_count := nb_timestamp_rejected_count s1 + 1\<rparr>)
           else if vr_event time_result = TimestampProbableSourceRestart
           then case frame_generation_after_source_restart (nb_frame_generation s1) (nb_output_valid s1) of
                  None \<Rightarrow> diagnosed ''rejected'' ''public frame generation exhausted'' (s1\<lparr>nb_output_valid := False, nb_continuity_valid := False\<rparr>)
                | Some generation \<Rightarrow>
                  let (outputs, t) = on_sample e rclcpp_time timestamp_ns time_result message
                        (source_restarted generation (vr_generation time_result) s1)
                  in (BridgeDiagnostics ''restarting_time_generation'' (vr_reason time_result) # outputs, t)
           else on_sample e rclcpp_time timestamp_ns time_result message s1)"

section \<open>The sampling service\<close>

definition sample_odometry_at_time :: "eigen3 \<Rightarrow> i32 \<Rightarrow> u32 \<Rightarrow> Px4OdometryBridge \<Rightarrow> string + SampledOdometry" where
  "sample_odometry_at_time e s n b =
     (case checked_ros_time_to_nanoseconds s n of
        None \<Rightarrow> Inl ''requested time is invalid''
      | Some query \<Rightarrow>
        (case buffer_sample e query (nb_history b) of
           None \<Rightarrow> Inl ''time is outside buffered history or crosses a generation''
         | Some result \<Rightarrow> Inr result))"

section \<open>What the bridge publishes\<close>

lemma converted_without_generation:
  "frame_convert e sample previous = (Inr converted, orientation) \<Longrightarrow> co_frame_generation converted = 0"
  by (auto simp: frame_convert_def converted_output_def default_converted_def Let_def
      split: if_splits PoseFrame.splits sum.splits)

lemma observation_without_generation:
  "co_frame_generation converted = 0 \<Longrightarrow> compensator_observe e converted m s = reset_refused ResetInvalidMetadata s"
  by (simp add: compensator_observe_def sample_admissible_def)

text \<open>What a callback may do to the publication state when it publishes nothing.\<close>

definition silent :: "Px4OdometryBridge \<Rightarrow> bridge_output list \<times> Px4OdometryBridge \<Rightarrow> bool" where
  "silent s r \<longleftrightarrow> (\<forall>m. BridgeOdometry m \<notin> set (fst r)) \<and> (nb_output_valid (snd r) \<longrightarrow> nb_output_valid s) \<and>
     rb_samples (nb_history (snd r)) \<in> {[], rb_samples (nb_history s)}"

lemma reobserve_silent:
  assumes "co_frame_generation converted = 0" "reobserve e converted s = (r, t)"
  shows "ob_sample r = None \<and> ob_status r = ResetInvalidMetadata \<and> nb_output_valid t = nb_output_valid s \<and> rb_samples (nb_history t) = []"
  using assms by (auto simp: reobserve_def observation_without_generation reset_refused_def buffer_clear_def)

lemma after_observation_silent:
  assumes "co_frame_generation converted = 0" "ob_sample obs = None" "ob_status obs = ResetInvalidMetadata"
  shows "silent s (after_observation e rt g converted m changed obs s)"
proof (cases "changed \<and> nb_output_valid s")
  case False
  with assms show ?thesis by (auto simp: after_observation_def silent_def)
next
  case True
  obtain r t where r: "reobserve e converted (s\<lparr>nb_frame_generation := nb_frame_generation s + 1\<rparr>) = (r, t)" by fastforce
  from reobserve_silent [OF assms(1) r] True assms r show ?thesis
    by (auto simp: after_observation_def silent_def reset_uncompensated_def)
qed

lemma on_sample_silent: "silent s (on_sample e rt ts tr message s)"
proof -
  obtain result q where c: "frame_convert e (sample_of_message ts message) (nb_converter s) = (result, q)" by fastforce
  show ?thesis
  proof (cases result)
    case (Inl reason)
    with c show ?thesis by (simp add: on_sample_def silent_def)
  next
    case (Inr converted)
    with converted_without_generation c have g: "co_frame_generation converted = 0" by blast
    obtain s' m changed obs where "on_sample e rt ts tr message s = after_observation e rt (vr_generation tr) converted m changed obs s'"
      "ob_sample obs = None" "ob_status obs = ResetInvalidMetadata" "nb_output_valid s' = nb_output_valid s" "nb_history s' = nb_history s"
      using c Inr g by (simp add: on_sample_def observation_without_generation reset_refused_def Let_def)
    with after_observation_silent [OF g, of obs s' e rt "vr_generation tr" m changed] show ?thesis by (simp add: silent_def)
  qed
qed

lemma on_odometry_silent: "silent s (on_odometry e rt now message s)"
proof (cases "checked_microseconds_to_nanoseconds (vo_timestamp_sample message)")
  case None
  then show ?thesis by (simp add: on_odometry_def silent_def)
next
  case (Some ts)
  obtain tr v where o: "observe_time (vo_timestamp_sample message) now (nb_time_validator s) = (tr, v)" by fastforce
  let ?s1 = "s\<lparr>nb_time_validator := v\<rparr>"
  have keep: "silent s (on_sample e rt ts tr message ?s1)" using on_sample_silent [of ?s1 e rt ts tr message] by (simp add: silent_def)
  have restart: "silent s (BridgeDiagnostics a b # fst r, snd r)" if "r = on_sample e rt ts tr message (source_restarted g g' ?s1)" for a b g g' r
    using that on_sample_silent [of "source_restarted g g' ?s1" e rt ts tr message]
    by (auto simp: silent_def source_restarted_def buffer_clear_def)
  show ?thesis
  proof (cases "frame_generation_after_source_restart (nb_frame_generation s) (nb_output_valid s)")
    case None
    with Some o keep show ?thesis by (simp add: on_odometry_def Let_def) (simp add: silent_def)
  next
    case (Some g)
    with \<open>_ = Some ts\<close> o keep restart [OF refl, of "''restarting_time_generation''" "vr_reason tr" g "vr_generation tr"] show ?thesis
      by (simp add: on_odometry_def split_beta Let_def) (simp add: silent_def)
  qed
qed

inductive bridge_step :: "eigen3 \<Rightarrow> (i64 \<Rightarrow> ros_time) \<Rightarrow> Px4OdometryBridge \<Rightarrow> Px4OdometryBridge \<Rightarrow> bool" for e rt where
  bridge_odometry: "bridge_step e rt s (snd (on_odometry e rt now message s))"
| bridge_local: "bridge_step e rt s (record_local_reset_metadata local_message s)"
| bridge_attitude: "bridge_step e rt s (record_attitude_reset_metadata attitude_message s)"

definition bridge_init :: "Px4OdometryBridge \<Rightarrow> bool" where
  "bridge_init s \<longleftrightarrow> (\<exists>age gap n. makePx4OdometryBridge age gap n = Some s)"

interpretation bridge: transition_system bridge_init "bridge_step e rt" for e rt .

lemma make_bridge_empty:
  assumes "makePx4OdometryBridge age gap n = Some s"
  shows "\<not> nb_output_valid s \<and> rb_samples (nb_history s) = []"
proof -
  have "rb_samples h = []" if "makeOdometryRingBuffer default_ring_buffer = Some h" for h
    using that by (auto simp: makeOdometryRingBuffer_def split: if_splits)
  with assms show ?thesis
    by (cases "secondsToNanoseconds age"; cases "secondsToNanoseconds gap"; cases "makeTimestampValidator default_time_validation";
        cases "makeOdometryRingBuffer default_ring_buffer")
      (auto simp: makePx4OdometryBridge_def setStableSamples_def split: if_splits)
qed

lemma bridge_history_empty: "bridge.reachable e rt s \<Longrightarrow> \<not> nb_output_valid s \<and> rb_samples (nb_history s) = []"
proof (rule bridge.invariant_reachable [where I = "\<lambda>s. \<not> nb_output_valid s \<and> rb_samples (nb_history s) = []"])
  fix s
  assume "bridge_init s"
  then show "\<not> nb_output_valid s \<and> rb_samples (nb_history s) = []"
    using make_bridge_empty by (auto simp: bridge_init_def)
next
  fix s t
  assume s: "\<not> nb_output_valid s \<and> rb_samples (nb_history s) = []" and "bridge_step e rt s t"
  from this(2) show "\<not> nb_output_valid t \<and> rb_samples (nb_history t) = []"
  proof cases
    case (bridge_odometry now message)
    with s on_odometry_silent [of s e rt now message] show ?thesis by (auto simp: silent_def)
  next
    case (bridge_local message)
    with s show ?thesis by (simp add: record_local_reset_metadata_def split: option.split)
  next
    case (bridge_attitude message)
    with s show ?thesis by (simp add: record_attitude_reset_metadata_def split: option.split)
  qed
qed

text \<open>
  C25. The PX4 odometry bridge never publishes: in no state and for no message does the callback emit an odometry
  message, and in every reachable state the history is empty, so that the sampling service refuses every
  query. The converter leaves the frame generation of a sample at zero, the compensator refuses a sample with
  that generation, and the node sets the generation only after the compensator has accepted the sample.
\<close>

theorem px4_bridge_never_publishes:
  "(\<forall>m. BridgeOdometry m \<notin> set (fst (on_odometry e rclcpp_time now_ns message s))) \<and>
   (bridge.reachable e rclcpp_time t \<longrightarrow> \<not> nb_output_valid t \<and> (\<exists>reason. sample_odometry_at_time e seconds nanoseconds t = Inl reason))"
proof -
  have "\<exists>reason. sample_odometry_at_time e seconds nanoseconds t = Inl reason" if "bridge.reachable e rclcpp_time t"
    using bridge_history_empty [OF that] by (auto simp: sample_odometry_at_time_def buffer_sample_def split: option.split)
  with bridge_history_empty [of e rclcpp_time t] on_odometry_silent [of s e rclcpp_time now_ns message] show ?thesis
    by (auto simp: silent_def)
qed

definition ex_px4_bridge :: Px4OdometryBridge where
  "ex_px4_bridge = the (makePx4OdometryBridge (Fin 1) (Fin 0) 3)"

theorem px4_bridge_never_publishes_witness:
  "\<not> nb_output_valid ex_px4_bridge \<and> (\<exists>reason. sample_odometry_at_time ex_eigen3 5 0 ex_px4_bridge = Inl reason)"
proof -
  have "secondsToNanoseconds (Fin 1) = Some 1000000000" "secondsToNanoseconds (Fin 0) = Some 0"
    by (simp_all add: secondsToNanoseconds_def fp_convert_def fp_simps i64_max_def rounded_int [of 0, simplified])
  then have "makePx4OdometryBridge (Fin 1) (Fin 0) 3 \<noteq> None"
    by (simp add: makePx4OdometryBridge_def makeTimestampValidator_def default_time_validation_def makeOdometryRingBuffer_def default_ring_buffer_def)
  then have "bridge_init ex_px4_bridge" by (auto simp: bridge_init_def ex_px4_bridge_def)
  then have "bridge.reachable ex_eigen3 (\<lambda>ns. \<lparr>sec = 0, nanosec = 0\<rparr>) ex_px4_bridge" by (rule bridge.reach_init)
  with px4_bridge_never_publishes [of ex_eigen3 "\<lambda>ns. \<lparr>sec = 0, nanosec = 0\<rparr>" 0 undefined undefined ex_px4_bridge 5 0] show ?thesis by blast
qed

end
