(* ===== verification/External_Odometry.thy ===== *)
theory External_Odometry
  imports Frame_Conversion
begin

text \<open>
  The PX4 bridge towards the flight controller: \<open>external_odometry_conversion.cpp\<close> (LIO odometry into NED),
  \<open>geometric_jump_continuity.cpp\<close> and \<open>geometric_jump_latch.cpp\<close> (jumps of the estimate), and
  \<open>external_odometry_gate.cpp\<close> (the conditions of a publication).
\<close>

section \<open>Conversion\<close>

text \<open>\<open>float\<close>: binary32.\<close>

definition binary32 :: fp_format where
  "binary32 = \<lparr>precision = 24, unit_exponent = -149, overflow_exponent = 128\<rparr>"

definition to_float :: "double \<Rightarrow> fp" where
  "to_float v = fp_convert binary32 v"

record ExternalOdometryFrame =
  xf_timestamp_ns :: i64
  xf_position_ned :: vec3
  xf_orientation_ned :: quat
  xf_velocity_ned :: vec3
  xf_angular_velocity_body_frd :: vec3
  xf_position_variance :: vec3
  xf_orientation_variance :: vec3
  xf_velocity_variance :: vec3
  xf_frame_valid :: bool
  xf_covariance_valid :: bool

definition kSymmetryTolerance :: double where "kSymmetryTolerance = dlit (1 / 10 ^ 10)"

definition kPsdTolerance :: double where "kPsdTolerance = dlit (1 / 10 ^ 10)"

definition positive_variance :: "double \<Rightarrow> bool" where
  "positive_variance value \<longleftrightarrow> isfinite value \<and> fp_less (Fin 0) value"

definition covariance_block :: "double list \<Rightarrow> nat \<Rightarrow> mat3" where
  "covariance_block covariance block_offset =
     (let entry = (\<lambda>row column. covariance ! ((block_offset + row) * 6 + block_offset + column));
          row = (\<lambda>r. \<lparr>vx = entry r 0, vy = entry r 1, vz = entry r 2\<rparr>)
      in \<lparr>row0 = row 0, row1 = row 1, row2 = row 2\<rparr>)"

text \<open>Some coefficient of the difference to the transpose exceeds the tolerance; the diagonal differences are zero.\<close>

definition differ :: "double \<Rightarrow> double \<Rightarrow> bool" where
  "differ a b \<longleftrightarrow> fp_less kSymmetryTolerance (fp_abs (dsub a b)) \<or> fp_less kSymmetryTolerance (fp_abs (dsub b a))"

definition asymmetric :: "mat3 \<Rightarrow> bool" where
  "asymmetric block \<longleftrightarrow> differ (vy (row0 block)) (vx (row1 block)) \<or> differ (vz (row0 block)) (vx (row2 block)) \<or>
     differ (vz (row1 block)) (vy (row2 block))"

definition validated_block :: "eigen3 \<Rightarrow> double list \<Rightarrow> nat \<Rightarrow> mat3 option" where
  "validated_block e covariance block_offset =
     (if block_offset > 3 then None
      else let block = covariance_block covariance block_offset
           in if \<not> mfinite block \<or> asymmetric block then None
              else if \<not> positive_variance (vx (row0 block)) \<or> \<not> positive_variance (vy (row1 block)) \<or> \<not> positive_variance (vz (row2 block))
              then None
              else case e3_minEigenvalue e block of
                None \<Rightarrow> None
              | Some smallest \<Rightarrow> if fp_less smallest (fp_neg kPsdTolerance) then None else Some block)"

definition transformed_covariance_diagonal :: "eigen3 \<Rightarrow> double list \<Rightarrow> nat \<Rightarrow> mat3 \<Rightarrow> vec3 option" where
  "transformed_covariance_diagonal e covariance block_offset transform =
     (case validated_block e covariance block_offset of
        None \<Rightarrow> None
      | Some block \<Rightarrow>
        if \<not> mfinite transform then None
        else let transformed = mmul e (mmul e transform block) (mtranspose transform);
                 diagonal = \<lparr>vx = vx (row0 transformed), vy = vy (row1 transformed), vz = vz (row2 transformed)\<rparr>
             in if \<not> mfinite transformed \<or> \<not> positive_variance (vx diagonal) \<or> \<not> positive_variance (vy diagonal) \<or>
                   \<not> positive_variance (vz diagonal)
                then None else Some diagonal)"

definition positive_variance_to_px4_float :: "double \<Rightarrow> fp option" where
  "positive_variance_to_px4_float value =
     (if \<not> positive_variance value then None
      else let converted = to_float value in if \<not> isfinite converted \<or> fp_le converted (Fin 0) then None else Some converted)"

definition positive_variances_to_px4_float :: "vec3 \<Rightarrow> vec3 option" where
  "positive_variances_to_px4_float values =
     (case positive_variance_to_px4_float (vx values) of None \<Rightarrow> None | Some x \<Rightarrow>
      case positive_variance_to_px4_float (vy values) of None \<Rightarrow> None | Some y \<Rightarrow>
      case positive_variance_to_px4_float (vz values) of None \<Rightarrow> None | Some z \<Rightarrow> Some \<lparr>vx = x, vy = y, vz = z\<rparr>)"

definition external_frame :: "eigen3 \<Rightarrow> OdometryMessage \<Rightarrow> i64 \<Rightarrow> vec3 \<Rightarrow> vec3 \<Rightarrow> vec3 \<Rightarrow> ExternalOdometryFrame" where
  "external_frame e message timestamp position_variance orientation_variance velocity_variance =
     (let rotation_enu_flu = e3_toRotationMatrix e (e3_normalized e (om_orientation message));
          rotation_ned_frd = mmul e (mmul e c_enu_ned rotation_enu_flu) (e3_inverse e c_flu_frd);
          position = mapply e c_enu_ned (om_position message);
          orientation = e3_normalized e (e3_fromMatrix e rotation_ned_frd);
          velocity = mapply e (mmul e c_enu_ned rotation_enu_flu) (om_linear message);
          angular = mapply e c_flu_frd (om_angular message)
      in \<lparr>xf_timestamp_ns = timestamp, xf_position_ned = position, xf_orientation_ned = orientation, xf_velocity_ned = velocity,
          xf_angular_velocity_body_frd = angular, xf_position_variance = position_variance, xf_orientation_variance = orientation_variance,
          xf_velocity_variance = velocity_variance,
          xf_frame_valid = (vfinite position \<and> qfinite orientation \<and> vfinite velocity \<and> vfinite angular),
          xf_covariance_valid = (vfinite position_variance \<and> vfinite orientation_variance \<and> vfinite velocity_variance)\<rparr>)"

definition convert_ros_lio_odometry :: "eigen3 \<Rightarrow> OdometryMessage \<Rightarrow> ExternalOdometryFrame option" where
  "convert_ros_lio_odometry e message =
     (if om_frame_id message \<noteq> ''lio_odom'' \<or> om_child_frame_id message \<noteq> ''base_link'' then None
      else case rosTimeToNanoseconds (om_stamp message) of None \<Rightarrow> None | Some timestamp \<Rightarrow>
        if timestamp \<le> 0 then None
        else if \<not> qfinite (om_orientation message) \<or> fp_less (e3_quatNorm e (om_orientation message)) (dlit (1 / 1000000000)) then None
        else let rotation_enu_flu = e3_toRotationMatrix e (e3_normalized e (om_orientation message))
             in case transformed_covariance_diagonal e (om_pose_covariance message) 0 c_enu_ned of None \<Rightarrow> None | Some position_variance \<Rightarrow>
                case transformed_covariance_diagonal e (om_pose_covariance message) 3 (mmul e c_flu_frd (mtranspose rotation_enu_flu)) of
                  None \<Rightarrow> None | Some orientation_variance \<Rightarrow>
                case transformed_covariance_diagonal e (om_twist_covariance message) 0 (mmul e c_enu_ned rotation_enu_flu) of
                  None \<Rightarrow> None | Some velocity_variance \<Rightarrow>
                let result = external_frame e message timestamp position_variance orientation_variance velocity_variance
                in if \<not> xf_frame_valid result \<or> \<not> xf_covariance_valid result then None else Some result)"

section \<open>Geometric jumps\<close>

record GeometricJumpContinuityConfig =
  jc_position_jump_margin_m :: double
  jc_orientation_jump_margin_rad :: double
  jc_maximum_expected_speed_mps :: double
  jc_maximum_expected_angular_rate_rad_s :: double
  jc_minimum_continuity_dt_s :: double
  jc_maximum_continuity_dt_s :: double

datatype GeometricJumpContinuityReason =
  JumpNoBaseline | JumpSourceInvalid | JumpGenerationInvalid | JumpGenerationChanged | JumpPreviousFrameInvalid | JumpCurrentFrameInvalid
| JumpTimestampNotIncreasing | JumpDtTooSmall | JumpDtTooLarge | JumpThresholdOverflow | JumpWithinThreshold | JumpDetected

fun jump_reason_string :: "GeometricJumpContinuityReason \<Rightarrow> string" where
  "jump_reason_string JumpNoBaseline = ''NO_BASELINE''"
| "jump_reason_string JumpSourceInvalid = ''SOURCE_INVALID''"
| "jump_reason_string JumpGenerationInvalid = ''GENERATION_INVALID''"
| "jump_reason_string JumpGenerationChanged = ''GENERATION_CHANGED''"
| "jump_reason_string JumpPreviousFrameInvalid = ''PREVIOUS_FRAME_INVALID''"
| "jump_reason_string JumpCurrentFrameInvalid = ''CURRENT_FRAME_INVALID''"
| "jump_reason_string JumpTimestampNotIncreasing = ''TIMESTAMP_NOT_INCREASING''"
| "jump_reason_string JumpDtTooSmall = ''DT_TOO_SMALL''"
| "jump_reason_string JumpDtTooLarge = ''DT_TOO_LARGE''"
| "jump_reason_string JumpThresholdOverflow = ''THRESHOLD_OVERFLOW''"
| "jump_reason_string JumpWithinThreshold = ''WITHIN_THRESHOLD''"
| "jump_reason_string JumpDetected = ''JUMP_DETECTED''"

record GeometricJumpContinuityObservation =
  jo_evaluated :: bool
  jo_jumped :: bool
  jo_baseline_reseeded :: bool
  jo_sample_admissible :: bool
  jo_reason :: GeometricJumpContinuityReason
  jo_dt_s :: double
  jo_position_delta_m :: double
  jo_allowed_position_delta_m :: double
  jo_orientation_delta_rad :: double
  jo_allowed_orientation_delta_rad :: double

definition default_jump_observation :: GeometricJumpContinuityObservation where
  "default_jump_observation = \<lparr>jo_evaluated = False, jo_jumped = False, jo_baseline_reseeded = False, jo_sample_admissible = True,
     jo_reason = JumpNoBaseline, jo_dt_s = Fin 0, jo_position_delta_m = Fin 0, jo_allowed_position_delta_m = Fin 0,
     jo_orientation_delta_rad = Fin 0, jo_allowed_orientation_delta_rad = Fin 0\<rparr>"

record GeometricJumpContinuityState =
  js_last_received :: "ExternalOdometryFrame option"
  js_last_generation :: u64
  js_last_generation_valid :: bool
  js_continuity_trusted :: bool

definition initial_jump_state :: GeometricJumpContinuityState where
  "initial_jump_state = \<lparr>js_last_received = None, js_last_generation = 0, js_last_generation_valid = False, js_continuity_trusted = False\<rparr>"

definition double_max :: rat where
  "double_max = (2 ^ 53 - 1) * 2 ^ 971"

definition long_bound :: "double \<Rightarrow> double \<Rightarrow> double \<Rightarrow> long_double" where
  "long_bound margin rate dt = ldadd (fp_convert extended80 margin) (ldmul (fp_convert extended80 rate) (fp_convert extended80 dt))"

definition jump_config_valid :: "GeometricJumpContinuityConfig \<Rightarrow> bool" where
  "jump_config_valid c \<longleftrightarrow>
     isfinite (jc_position_jump_margin_m c) \<and> fp_le (Fin 0) (jc_position_jump_margin_m c) \<and>
     isfinite (jc_orientation_jump_margin_rad c) \<and> fp_le (Fin 0) (jc_orientation_jump_margin_rad c) \<and>
     isfinite (jc_maximum_expected_speed_mps c) \<and> fp_le (Fin 0) (jc_maximum_expected_speed_mps c) \<and>
     isfinite (jc_maximum_expected_angular_rate_rad_s c) \<and> fp_le (Fin 0) (jc_maximum_expected_angular_rate_rad_s c) \<and>
     isfinite (jc_minimum_continuity_dt_s c) \<and> fp_less (Fin 0) (jc_minimum_continuity_dt_s c) \<and>
     isfinite (jc_maximum_continuity_dt_s c) \<and> fp_le (jc_minimum_continuity_dt_s c) (jc_maximum_continuity_dt_s c) \<and>
     (let position_bound = long_bound (jc_position_jump_margin_m c) (jc_maximum_expected_speed_mps c) (jc_maximum_continuity_dt_s c);
          orientation_bound = long_bound (jc_orientation_jump_margin_rad c) (jc_maximum_expected_angular_rate_rad_s c) (jc_maximum_continuity_dt_s c)
      in isfinite position_bound \<and> fp_le position_bound (Fin double_max) \<and> isfinite orientation_bound \<and> fp_le orientation_bound (Fin double_max))"

definition external_frame_valid :: "eigen3 \<Rightarrow> ExternalOdometryFrame \<Rightarrow> bool" where
  "external_frame_valid e frame \<longleftrightarrow>
     xf_timestamp_ns frame > 0 \<and> vfinite (xf_position_ned frame) \<and> vfinite (xf_velocity_ned frame) \<and>
     vfinite (xf_angular_velocity_body_frd frame) \<and> unit_quaternion e (xf_orientation_ned frame)"

definition reseed ::
    "ExternalOdometryFrame \<Rightarrow> bool \<Rightarrow> u64 \<Rightarrow> GeometricJumpContinuityReason \<Rightarrow> bool \<Rightarrow> GeometricJumpContinuityState \<Rightarrow>
     GeometricJumpContinuityObservation \<times> GeometricJumpContinuityState" where
  "reseed current generation_valid generation reason continuity_trusted s =
     (default_jump_observation\<lparr>jo_baseline_reseeded := True, jo_reason := reason\<rparr>,
      s\<lparr>js_last_received := Some current, js_last_generation := generation, js_last_generation_valid := generation_valid,
        js_continuity_trusted := continuity_trusted\<rparr>)"

text \<open>The comparison with the previous frame of the same generation, \<open>dt\<close> nanoseconds before.\<close>

definition compare_frames ::
    "eigen3 \<Rightarrow> ExternalOdometryFrame \<Rightarrow> ExternalOdometryFrame \<Rightarrow> i64 \<Rightarrow> bool \<Rightarrow> u64 \<Rightarrow> GeometricJumpContinuityConfig \<Rightarrow>
     GeometricJumpContinuityState \<Rightarrow> GeometricJumpContinuityObservation \<times> GeometricJumpContinuityState" where
  "compare_frames e previous current dt generation_valid generation c s =
     (let dt_s = dmul (fp_of_int binary64 dt) (dlit (1 / 10 ^ 9))
      in if fp_less dt_s (jc_minimum_continuity_dt_s c)
         then (default_jump_observation\<lparr>jo_dt_s := dt_s, jo_reason := JumpDtTooSmall, jo_sample_admissible := False\<rparr>, s)
         else if fp_less (jc_maximum_continuity_dt_s c) dt_s
         then let (observation, t) = reseed current generation_valid generation JumpDtTooLarge False s in (observation\<lparr>jo_dt_s := dt_s\<rparr>, t)
         else let position_delta = e3_norm e (vsub (xf_position_ned current) (xf_position_ned previous));
                  orientation_delta = e3_angularDistance e (xf_orientation_ned previous) (xf_orientation_ned current);
                  allowed_position = fp_convert binary64 (long_bound (jc_position_jump_margin_m c) (jc_maximum_expected_speed_mps c) dt_s);
                  allowed_orientation =
                    fp_convert binary64 (long_bound (jc_orientation_jump_margin_rad c) (jc_maximum_expected_angular_rate_rad_s c) dt_s)
              in if \<not> isfinite allowed_position \<or> \<not> isfinite allowed_orientation
                 then reseed current generation_valid generation JumpThresholdOverflow False s
                 else let jumped = (fp_less allowed_position position_delta \<or> fp_less allowed_orientation orientation_delta)
                      in (\<lparr>jo_evaluated = True, jo_jumped = jumped, jo_baseline_reseeded = False, jo_sample_admissible = True,
                           jo_reason = (if jumped then JumpDetected else JumpWithinThreshold), jo_dt_s = dt_s,
                           jo_position_delta_m = position_delta, jo_allowed_position_delta_m = allowed_position,
                           jo_orientation_delta_rad = orientation_delta, jo_allowed_orientation_delta_rad = allowed_orientation\<rparr>,
                          s\<lparr>js_last_received := Some current, js_last_generation := generation, js_last_generation_valid := generation_valid,
                            js_continuity_trusted := True\<rparr>))"

definition observe_geometric_jump_continuity ::
    "eigen3 \<Rightarrow> ExternalOdometryFrame \<Rightarrow> bool \<Rightarrow> bool \<Rightarrow> u64 \<Rightarrow> GeometricJumpContinuityConfig \<Rightarrow> GeometricJumpContinuityState \<Rightarrow>
     GeometricJumpContinuityObservation \<times> GeometricJumpContinuityState" where
  "observe_geometric_jump_continuity e current source_valid generation_valid generation c s =
     (if \<not> jump_config_valid c \<or> \<not> external_frame_valid e current then reseed current False generation JumpCurrentFrameInvalid False s
      else if \<not> source_valid then reseed current generation_valid generation JumpSourceInvalid False s
      else if \<not> generation_valid \<or> generation = 0 then reseed current generation_valid generation JumpGenerationInvalid False s
      else if \<not> xf_frame_valid current then reseed current generation_valid generation JumpCurrentFrameInvalid False s
      else case js_last_received s of
        None \<Rightarrow> reseed current generation_valid generation JumpNoBaseline True s
      | Some previous \<Rightarrow>
        if \<not> js_last_generation_valid s \<or> \<not> js_continuity_trusted s
        then reseed current generation_valid generation JumpNoBaseline True s
        else if \<not> xf_frame_valid previous \<or> \<not> external_frame_valid e previous
        then reseed current generation_valid generation JumpPreviousFrameInvalid True s
        else if js_last_generation s \<noteq> generation then reseed current generation_valid generation JumpGenerationChanged True s
        else case checkedDifference (xf_timestamp_ns current) (xf_timestamp_ns previous) of
          None \<Rightarrow> (default_jump_observation\<lparr>jo_reason := JumpTimestampNotIncreasing, jo_sample_admissible := False\<rparr>, s)
        | Some dt \<Rightarrow>
          if dt \<le> 0 then (default_jump_observation\<lparr>jo_reason := JumpTimestampNotIncreasing, jo_sample_admissible := False\<rparr>, s)
          else compare_frames e previous current dt generation_valid generation c s)"

record GeometricJumpLatch =
  gl_latched :: bool
  gl_count :: u64
  gl_last_generation :: u64
  gl_last_operator_sequence :: u64
  gl_generation_known :: bool
  gl_operator_sequence_known :: bool

definition initial_jump_latch :: GeometricJumpLatch where
  "initial_jump_latch = \<lparr>gl_latched = False, gl_count = 0, gl_last_generation = 0, gl_last_operator_sequence = 0,
     gl_generation_known = False, gl_operator_sequence_known = False\<rparr>"

definition observeGeometricJump :: "bool \<Rightarrow> GeometricJumpLatch \<Rightarrow> bool \<times> GeometricJumpLatch" where
  "observeGeometricJump jump s =
     (if \<not> jump \<or> gl_latched s then (False, s) else (True, s\<lparr>gl_latched := True, gl_count := gl_count s + 1\<rparr>))"

definition observePublicFrameGeneration :: "bool \<Rightarrow> u64 \<Rightarrow> GeometricJumpLatch \<Rightarrow> bool \<times> GeometricJumpLatch" where
  "observePublicFrameGeneration valid generation s =
     (if \<not> valid \<or> generation = 0 then (False, s)
      else if \<not> gl_generation_known s then (False, s\<lparr>gl_generation_known := True, gl_last_generation := generation\<rparr>)
      else if generation \<le> gl_last_generation s then (False, s)
      else (True, s\<lparr>gl_last_generation := generation, gl_latched := False\<rparr>))"

definition observeOperatorReset :: "bool \<Rightarrow> u64 \<Rightarrow> GeometricJumpLatch \<Rightarrow> bool \<times> GeometricJumpLatch" where
  "observeOperatorReset requested sequence s =
     (let changed = (requested \<and> sequence \<noteq> 0 \<and> (\<not> gl_operator_sequence_known s \<or> sequence \<noteq> gl_last_operator_sequence s));
          s1 = (if sequence \<noteq> 0 then s\<lparr>gl_operator_sequence_known := True, gl_last_operator_sequence := sequence\<rparr> else s)
      in (changed, if changed then s1\<lparr>gl_latched := False\<rparr> else s1))"

definition public_frame_generation_to_reset_counter :: "u64 \<Rightarrow> u8" where
  "public_frame_generation_to_reset_counter generation = ucast (generation mod 256)"

section \<open>The gate\<close>

record ExternalOdometryGateInput =
  xg_node_ready :: bool
  xg_transport_ready :: bool
  xg_timestamp_ready :: bool
  xg_covariance_ready :: bool
  xg_public_frame_generation_valid :: bool
  xg_lio_valid :: bool
  xg_lio_fresh :: bool
  xg_frame_valid :: bool
  xg_geometric_continuity_trusted :: bool
  xg_geometric_jump_latched :: bool
  xg_geometric_sample_admissible :: bool

record ExternalOdometryGateResult =
  xr_node_ready :: bool
  xr_transport_ready :: bool
  xr_timestamp_ready :: bool
  xr_covariance_ready :: bool
  xr_public_frame_generation_valid :: bool
  xr_lio_valid :: bool
  xr_lio_fresh :: bool
  xr_frame_valid :: bool
  xr_geometric_continuity_trusted :: bool
  xr_geometric_jump_latched :: bool
  xr_publisher_ready :: bool
  xr_publication_ready :: bool
  xr_reason :: string

definition default_gate_result :: ExternalOdometryGateResult where
  "default_gate_result = \<lparr>xr_node_ready = False, xr_transport_ready = False, xr_timestamp_ready = False, xr_covariance_ready = False,
     xr_public_frame_generation_valid = False, xr_lio_valid = False, xr_lio_fresh = False, xr_frame_valid = False,
     xr_geometric_continuity_trusted = False, xr_geometric_jump_latched = False, xr_publisher_ready = False,
     xr_publication_ready = False, xr_reason = ''GATE_CLOSED''\<rparr>"

definition publication_ready :: "ExternalOdometryGateInput \<Rightarrow> bool" where
  "publication_ready i \<longleftrightarrow> xg_node_ready i \<and> xg_transport_ready i \<and> xg_timestamp_ready i \<and> xg_covariance_ready i \<and> xg_lio_valid i \<and>
     xg_public_frame_generation_valid i \<and> xg_lio_fresh i \<and> xg_frame_valid i \<and> xg_geometric_continuity_trusted i \<and>
     \<not> xg_geometric_jump_latched i \<and> xg_geometric_sample_admissible i"

definition evaluate_external_odometry_gate :: "ExternalOdometryGateInput \<Rightarrow> ExternalOdometryGateResult" where
  "evaluate_external_odometry_gate i =
     \<lparr>xr_node_ready = xg_node_ready i, xr_transport_ready = xg_transport_ready i, xr_timestamp_ready = xg_timestamp_ready i,
      xr_covariance_ready = xg_covariance_ready i, xr_public_frame_generation_valid = xg_public_frame_generation_valid i,
      xr_lio_valid = xg_lio_valid i, xr_lio_fresh = xg_lio_fresh i, xr_frame_valid = xg_frame_valid i,
      xr_geometric_continuity_trusted = xg_geometric_continuity_trusted i, xr_geometric_jump_latched = xg_geometric_jump_latched i,
      xr_publisher_ready = (xg_node_ready i \<and> xg_transport_ready i), xr_publication_ready = publication_ready i,
      xr_reason = (if publication_ready i then ''READY'' else if xg_geometric_jump_latched i then ''GEOMETRIC_JUMP_LATCHED''
        else if \<not> xg_geometric_sample_admissible i then ''GEOMETRIC_SAMPLE_NOT_ADMISSIBLE''
        else if \<not> xg_geometric_continuity_trusted i then ''GEOMETRIC_CONTINUITY_UNTRUSTED'' else if \<not> xg_lio_valid i then ''LIO_INVALID''
        else if \<not> xg_public_frame_generation_valid i then ''PUBLIC_FRAME_GENERATION_INVALID''
        else if \<not> xg_timestamp_ready i then ''TIMESTAMP_INVALID'' else if \<not> xg_covariance_ready i then ''COVARIANCE_INVALID''
        else if \<not> xg_lio_fresh i then ''LIO_ODOMETRY_STALE'' else if \<not> xg_frame_valid i then ''FRAME_INVALID''
        else if \<not> xg_transport_ready i then ''PX4_INPUT_TRANSPORT_NOT_READY'' else ''NODE_NOT_READY'')\<rparr>"

section \<open>Evaluation of concrete instances\<close>

interpretation b32: rounding_format binary32
  by unfold_locales (simp add: binary32_def)

lemma to_float_int [fp_simps]: "to_float (Fin 0) = Fin 0" "to_float (Fin 1) = Fin 1" 
  "(numeral n :: int) < 2 ^ 24 \<Longrightarrow> to_float (Fin (numeral n)) = Fin (numeral n)"
proof -
  have f: "unit_exponent binary32 \<le> 0" "precision binary32 = 24" "overflow_exponent binary32 = 128" by (simp_all add: binary32_def)
  show "to_float (Fin 0) = Fin 0" "to_float (Fin 1) = Fin 1" by (simp_all add: to_float_def fp_convert_def b32.fround_int [of 1, simplified f, simplified])
  show "to_float (Fin (numeral n)) = Fin (numeral n)" if "(numeral n :: int) < 2 ^ 24"
    using b32.fround_int [of "numeral n"] that by (simp add: to_float_def fp_convert_def f)
qed

lemma fround_minus_one [fp_simps]: "fround binary64 (- 1) = Fin (- 1)"
  using b64_int [of "- 1"] by simp

lemma not_below_minus [fp_simps]: "0 \<le> e \<Longrightarrow> \<not> fp_less (Fin 0) (fp_neg (dlit e))"
  using b64.fround_nonneg_cases [of e] by auto

end
