(* ===== verification/External_Bridge.thy ===== *)
theory External_Bridge
  imports External_Odometry
begin

text \<open>
  \<open>px4_external_odometry_bridge_node.cpp\<close>: the node that sends the estimator's odometry to PX4. Its two
  subscriptions are functions of the node's state; a published message is returned. The clock, the number of
  subscribers and Eigen are arguments; fields that only decide what is logged are left out.
\<close>

section \<open>Messages and state\<close>

record PropagatedOdometry =
  pd_odometry :: OdometryMessage
  pd_localization_epoch :: u64
  pd_sequence :: u64

record VehicleOdometry =
  px_timestamp :: u64
  px_timestamp_sample :: u64
  px_pose_frame :: PoseFrame
  px_velocity_frame :: VelocityFrame
  px_position :: vec3
  px_q :: quat
  px_velocity :: vec3
  px_angular_velocity :: vec3
  px_position_variance :: vec3
  px_orientation_variance :: vec3
  px_velocity_variance :: vec3
  px_reset_counter :: u8
  px_quality :: int

record ExternalBridge =
  xb_last_published :: "ExternalOdometryFrame option"
  xb_last_received :: "ExternalOdometryFrame option"
  xb_jump_continuity_state :: GeometricJumpContinuityState
  xb_timestamp_converter :: TimestampConverter
  xb_timestamp_mapping_mode :: TimestampMappingMode
  xb_jump_continuity_config :: GeometricJumpContinuityConfig
  xb_last_jump_observation :: GeometricJumpContinuityObservation
  xb_last_timestamp_result :: TimestampConversionResult
  xb_last_gate :: ExternalOdometryGateResult
  xb_health_max_age_ns :: i64
  xb_last_published_time_ns :: i64
  xb_last_sample_timestamp_ns :: i64
  xb_last_transport_timestamp_ns :: i64
  xb_published_count :: u64
  xb_gated_count :: u64
  xb_rejected_count :: u64
  xb_covariance_rejected_count :: u64
  xb_last_reset_counter :: u8
  xb_jump_latch :: GeometricJumpLatch
  xb_lio_public_frame_generation :: u64
  xb_highest_received_lio_epoch :: u64
  xb_highest_received_lio_sequence :: u64
  xb_last_lio_health_ns :: i64
  xb_last_lio_health_stamp_ns :: i64
  xb_node_ready :: bool
  xb_lio_valid :: bool
  xb_lio_covariance_valid :: bool
  xb_lio_public_frame_generation_valid :: bool
  xb_last_frame_valid :: bool
  xb_publication_ready :: bool
  xb_publication_active :: bool
  xb_last_rejection_reason :: string

record ExternalBridgeParameters =
  xp_max_age_s :: double
  xp_health_max_age_s :: double
  xp_jump :: GeometricJumpContinuityConfig
  xp_clock_domain :: string
  xp_use_sim_time :: bool

definition requireDurationNanoseconds :: "double \<Rightarrow> bool \<Rightarrow> i64 option" where
  "requireDurationNanoseconds seconds allow_zero =
     (case secondsToNanoseconds seconds of None \<Rightarrow> None | Some ns \<Rightarrow> if \<not> allow_zero \<and> ns \<le> 0 then None else Some ns)"

definition parameters_invalid :: "ExternalBridgeParameters \<Rightarrow> bool" where
  "parameters_invalid p \<longleftrightarrow> (let c = xp_jump p; bad = (\<lambda>v. \<not> isfinite v \<or> fp_le v (Fin 0)) in
     bad (xp_max_age_s p) \<or> bad (xp_health_max_age_s p) \<or> bad (jc_position_jump_margin_m c) \<or> bad (jc_orientation_jump_margin_rad c) \<or>
     bad (jc_maximum_expected_speed_mps c) \<or> bad (jc_maximum_expected_angular_rate_rad_s c) \<or> bad (jc_minimum_continuity_dt_s c) \<or>
     \<not> isfinite (jc_maximum_continuity_dt_s c) \<or> fp_less (jc_maximum_continuity_dt_s c) (jc_minimum_continuity_dt_s c))"

text \<open>The constructor; \<open>None\<close> is one of its exceptions.\<close>

definition makeExternalBridge :: "ExternalBridgeParameters \<Rightarrow> ExternalBridge option" where
  "makeExternalBridge p =
     (if parameters_invalid p then None
      else case requireDurationNanoseconds (xp_max_age_s p) False of None \<Rightarrow> None | Some max_age_ns \<Rightarrow>
      case requireDurationNanoseconds (xp_health_max_age_s p) False of None \<Rightarrow> None | Some health_max_age_ns \<Rightarrow>
      let mode = timestampMappingModeFor (xp_use_sim_time p) (xp_clock_domain p)
      in if mode = MappingUnresolved then None
         else case makeTimestampConverter max_age_ns of None \<Rightarrow> None | Some converter \<Rightarrow>
         Some \<lparr>xb_last_published = None, xb_last_received = None, xb_jump_continuity_state = initial_jump_state,
           xb_timestamp_converter = converter, xb_timestamp_mapping_mode = mode, xb_jump_continuity_config = xp_jump p,
           xb_last_jump_observation = default_jump_observation, xb_last_timestamp_result = default_conversion_result,
           xb_last_gate = default_gate_result, xb_health_max_age_ns = health_max_age_ns, xb_last_published_time_ns = 0,
           xb_last_sample_timestamp_ns = 0, xb_last_transport_timestamp_ns = 0, xb_published_count = 0, xb_gated_count = 0,
           xb_rejected_count = 0, xb_covariance_rejected_count = 0, xb_last_reset_counter = 0, xb_jump_latch = initial_jump_latch,
           xb_lio_public_frame_generation = 0, xb_highest_received_lio_epoch = 0, xb_highest_received_lio_sequence = 0,
           xb_last_lio_health_ns = 0, xb_last_lio_health_stamp_ns = 0, xb_node_ready = True, xb_lio_valid = False,
           xb_lio_covariance_valid = False, xb_lio_public_frame_generation_valid = False, xb_last_frame_valid = False,
           xb_publication_ready = False, xb_publication_active = False, xb_last_rejection_reason = ''NONE''\<rparr>)"

section \<open>Health\<close>

definition on_lio_health :: "EstimatorHealth \<Rightarrow> ExternalBridge \<Rightarrow> ExternalBridge" where
  "on_lio_health message s =
     (case externalLioHealthSnapshot message of None \<Rightarrow> s
      | Some health \<Rightarrow>
        if \<not> externalLioHealthIsNewer (Some health) (xb_last_lio_health_stamp_ns s) then s
        else let (changed, latch) = observePublicFrameGeneration (hl_public_frame_generation_valid health)
                   (hl_public_frame_generation health) (xb_jump_latch s);
                 s1 = s\<lparr>xb_last_lio_health_stamp_ns := hl_source_stamp_ns health, xb_jump_latch := latch\<rparr>;
                 s2 = (if changed then s1\<lparr>xb_last_published := None,
                         xb_jump_continuity_state := (xb_jump_continuity_state s1)\<lparr>js_continuity_trusted := False\<rparr>\<rparr> else s1)
             in s2\<lparr>xb_lio_public_frame_generation := hl_public_frame_generation health,
                  xb_lio_public_frame_generation_valid := hl_public_frame_generation_valid health, xb_lio_valid := hl_lio_valid health,
                  xb_lio_covariance_valid := hl_covariance_valid health, xb_last_lio_health_ns := hl_source_stamp_ns health\<rparr>)"

definition lio_health_fresh :: "i64 \<Rightarrow> ExternalBridge \<Rightarrow> bool" where
  "lio_health_fresh now_ns s =
     (if xb_last_lio_health_ns s \<le> 0 \<or> now_ns \<le> 0 then False
      else case checkedDifference now_ns (xb_last_lio_health_ns s) of
        None \<Rightarrow> False | Some age \<Rightarrow> age \<ge> 0 \<and> age \<le> xb_health_max_age_ns s)"

section \<open>Odometry\<close>

definition fits_float :: "vec3 \<Rightarrow> bool" where
  "fits_float v \<longleftrightarrow> isfinite (to_float (vx v)) \<and> isfinite (to_float (vy v)) \<and> isfinite (to_float (vz v))"

definition fits_px4_float :: "ExternalOdometryFrame \<Rightarrow> bool" where
  "fits_px4_float frame \<longleftrightarrow> (let q = xf_orientation_ned frame in
     fits_float (xf_position_ned frame) \<and> isfinite (to_float (qx q)) \<and> isfinite (to_float (qy q)) \<and> isfinite (to_float (qz q)) \<and>
     isfinite (to_float (qw q)) \<and> fits_float (xf_velocity_ned frame) \<and> fits_float (xf_angular_velocity_body_frd frame))"

definition vfloat :: "vec3 \<Rightarrow> vec3" where
  "vfloat v = \<lparr>vx = to_float (vx v), vy = to_float (vy v), vz = to_float (vz v)\<rparr>"

definition kTransportTimestampMappingGeneration :: u64 where
  "kTransportTimestampMappingGeneration = 1"

definition identity_rejected :: "ExternalBridge \<Rightarrow> ExternalBridge" where
  "identity_rejected s = s\<lparr>xb_rejected_count := xb_rejected_count s + 1, xb_last_frame_valid := False,
     xb_last_rejection_reason := ''PROPAGATED_STATE_IDENTITY_REJECTED'', xb_publication_ready := False, xb_publication_active := False\<rparr>"

definition frame_rejected :: "string \<Rightarrow> ExternalBridge \<Rightarrow> ExternalBridge" where
  "frame_rejected reason s = s\<lparr>xb_rejected_count := xb_rejected_count s + 1, xb_last_frame_valid := False,
     xb_last_rejection_reason := reason, xb_last_gate := default_gate_result,
     xb_jump_continuity_state := (xb_jump_continuity_state s)\<lparr>js_continuity_trusted := False\<rparr>,
     xb_publication_ready := False, xb_publication_active := False\<rparr>"

text \<open>The high-water mark of the source identity, advanced before the gates.\<close>

definition received_identity :: "PropagatedOdometry \<Rightarrow> ExternalBridge \<Rightarrow> ExternalBridge" where
  "received_identity message s =
     (let epoch_changed = (xb_highest_received_lio_epoch s \<noteq> 0 \<and> pd_localization_epoch message \<noteq> xb_highest_received_lio_epoch s);
          s1 = s\<lparr>xb_highest_received_lio_epoch := pd_localization_epoch message, xb_highest_received_lio_sequence := pd_sequence message\<rparr>
      in if epoch_changed
         then s1\<lparr>xb_last_published := None, xb_last_received := None, xb_jump_continuity_state := initial_jump_state,
                 xb_jump_latch := snd (observePublicFrameGeneration True (pd_localization_epoch message) (xb_jump_latch s1))\<rparr>
         else s1)"

definition public_generation :: "ExternalBridge \<Rightarrow> u64" where
  "public_generation s = (if xb_lio_public_frame_generation_valid s then xb_lio_public_frame_generation s else 0)"

text \<open>Timestamps, jump detection and latch of one frame.\<close>

definition assess_frame :: "eigen3 \<Rightarrow> i64 \<Rightarrow> ExternalOdometryFrame \<Rightarrow> ExternalBridge \<Rightarrow> ExternalBridge" where
  "assess_frame e now_ns frame s =
     (let (timing, converter) = convert_time (xf_timestamp_ns frame) now_ns (xb_timestamp_mapping_mode s)
            kTransportTimestampMappingGeneration (xb_timestamp_converter s);
          generation = public_generation s;
          generation_valid = (xb_lio_public_frame_generation_valid s \<and> generation > 0);
          source_valid = (xb_lio_valid s \<and> xf_frame_valid frame \<and> generation_valid);
          (observation, state) = observe_geometric_jump_continuity e frame source_valid generation_valid generation
            (xb_jump_continuity_config s) ((xb_jump_continuity_state s)\<lparr>js_last_received := xb_last_received s\<rparr>)
      in s\<lparr>xb_last_frame_valid := True, xb_last_rejection_reason := ''NONE'', xb_last_sample_timestamp_ns := xf_timestamp_ns frame,
           xb_last_transport_timestamp_ns := now_ns, xb_last_timestamp_result := timing, xb_timestamp_converter := converter,
           xb_jump_continuity_state := state, xb_last_jump_observation := observation, xb_last_received := js_last_received state,
           xb_jump_latch := snd (observeGeometricJump (jo_jumped observation) (xb_jump_latch s))\<rparr>)"

definition gate_input :: "i64 \<Rightarrow> bool \<Rightarrow> ExternalOdometryFrame \<Rightarrow> ExternalBridge \<Rightarrow> ExternalOdometryGateInput" where
  "gate_input now_ns transport_ready frame s =
     \<lparr>xg_node_ready = xb_node_ready s, xg_transport_ready = transport_ready, xg_timestamp_ready = cr_valid (xb_last_timestamp_result s),
      xg_covariance_ready = (xf_covariance_valid frame \<and> xb_lio_covariance_valid s),
      xg_public_frame_generation_valid = (xb_lio_public_frame_generation_valid s \<and> public_generation s > 0),
      xg_lio_valid = xb_lio_valid s, xg_lio_fresh = lio_health_fresh now_ns s, xg_frame_valid = xf_frame_valid frame,
      xg_geometric_continuity_trusted = js_continuity_trusted (xb_jump_continuity_state s),
      xg_geometric_jump_latched = gl_latched (xb_jump_latch s),
      xg_geometric_sample_admissible = jo_sample_admissible (xb_last_jump_observation s)\<rparr>"

definition vehicle_odometry :: "ExternalOdometryFrame \<Rightarrow> vec3 \<Rightarrow> vec3 \<Rightarrow> vec3 \<Rightarrow> ExternalBridge \<Rightarrow> VehicleOdometry" where
  "vehicle_odometry frame position_variance orientation_variance velocity_variance s =
     (let q = xf_orientation_ned frame
      in \<lparr>px_timestamp = cr_publication_time_us (xb_last_timestamp_result s),
          px_timestamp_sample = cr_measurement_time_us (xb_last_timestamp_result s), px_pose_frame = PoseNed, px_velocity_frame = VelocityNed,
          px_position = vfloat (xf_position_ned frame),
          px_q = \<lparr>qw = to_float (qw q), qx = to_float (qx q), qy = to_float (qy q), qz = to_float (qz q)\<rparr>,
          px_velocity = vfloat (xf_velocity_ned frame), px_angular_velocity = vfloat (xf_angular_velocity_body_frd frame),
          px_position_variance = position_variance, px_orientation_variance = orientation_variance, px_velocity_variance = velocity_variance,
          px_reset_counter = public_frame_generation_to_reset_counter (public_generation s), px_quality = (if xb_lio_valid s then 100 else 50)\<rparr>)"

definition publish_gated ::
    "i64 \<Rightarrow> bool \<Rightarrow> ExternalOdometryFrame \<Rightarrow> vec3 \<Rightarrow> vec3 \<Rightarrow> vec3 \<Rightarrow> ExternalBridge \<Rightarrow> VehicleOdometry option \<times> ExternalBridge" where
  "publish_gated now_ns transport_ready frame position_variance orientation_variance velocity_variance s =
     (let gate = evaluate_external_odometry_gate (gate_input now_ns transport_ready frame s);
          s1 = s\<lparr>xb_last_gate := gate, xb_publication_ready := xr_publication_ready gate, xb_publication_active := xr_publication_ready gate\<rparr>
      in if \<not> xb_publication_ready s1 then (None, s1\<lparr>xb_gated_count := xb_gated_count s1 + 1, xb_publication_active := False\<rparr>)
         else let output = vehicle_odometry frame position_variance orientation_variance velocity_variance s1
              in (Some output, s1\<lparr>xb_last_published := Some frame, xb_last_published_time_ns := xf_timestamp_ns frame,
                    xb_last_reset_counter := px_reset_counter output, xb_published_count := xb_published_count s1 + 1,
                    xb_publication_active := True\<rparr>))"

definition on_lio :: "eigen3 \<Rightarrow> i64 \<Rightarrow> bool \<Rightarrow> PropagatedOdometry \<Rightarrow> ExternalBridge \<Rightarrow> VehicleOdometry option \<times> ExternalBridge" where
  "on_lio e now_ns transport_ready message s =
     (if \<not> strictly_newer_source_identity (xb_highest_received_lio_epoch s) (xb_highest_received_lio_sequence s)
            (pd_localization_epoch message) (pd_sequence message)
      then (None, identity_rejected s)
      else let s1 = received_identity message s
           in case convert_ros_lio_odometry e (pd_odometry message) of
                None \<Rightarrow> (None, frame_rejected ''EXTERNAL_ODOMETRY_CONVERSION_REJECTED'' s1)
              | Some frame \<Rightarrow>
                if \<not> fits_px4_float frame then (None, frame_rejected ''EXTERNAL_ODOMETRY_NOT_FLOAT_REPRESENTABLE'' s1)
                else case (positive_variances_to_px4_float (xf_position_variance frame),
                           positive_variances_to_px4_float (xf_orientation_variance frame),
                           positive_variances_to_px4_float (xf_velocity_variance frame)) of
                  (Some pv, Some ov, Some vv) \<Rightarrow> publish_gated now_ns transport_ready frame pv ov vv (assess_frame e now_ns frame s1)
                | _ \<Rightarrow> (None, (frame_rejected ''COVARIANCE_NOT_FLOAT_REPRESENTABLE'' s1)
                          \<lparr>xb_covariance_rejected_count := xb_covariance_rejected_count s1 + 1\<rparr>))"

section \<open>Runs\<close>

datatype external_event = HealthEvent EstimatorHealth | LioEvent i64 bool PropagatedOdometry

fun external_apply :: "eigen3 \<Rightarrow> external_event \<Rightarrow> ExternalBridge \<Rightarrow> (PropagatedOdometry \<times> VehicleOdometry) option \<times> ExternalBridge" where
  "external_apply e (HealthEvent message) s = (None, on_lio_health message s)"
| "external_apply e (LioEvent now_ns transport_ready message) s =
     (let (out, t) = on_lio e now_ns transport_ready message s in (map_option (Pair message) out, t))"

fun external_run :: "eigen3 \<Rightarrow> external_event list \<Rightarrow> ExternalBridge \<Rightarrow> (PropagatedOdometry \<times> VehicleOdometry) list \<times> ExternalBridge" where
  "external_run e [] s = ([], s)"
| "external_run e (ev # evs) s =
     (let (out, t) = external_apply e ev s; (outs, u) = external_run e evs t in (case out of None \<Rightarrow> outs | Some x \<Rightarrow> x # outs, u))"

section \<open>Invariants\<close>

text \<open>The converter has only ever seen the one mapping generation of the transport.\<close>

definition converter_ok :: "ExternalBridge \<Rightarrow> bool" where
  "converter_ok s \<longleftrightarrow> (let c = xb_timestamp_converter s in
     tk_last_timestamp_mapping_generation c \<in> {None, Some kTransportTimestampMappingGeneration} \<and>
     (tk_last_timestamp_mapping_generation c = None \<longrightarrow> tk_last_measurement_time_us c = None \<and> tk_last_publication_time_us c = None))"

text \<open>A jump can only be latched once a generation is known to the latch.\<close>

definition latch_ok :: "ExternalBridge \<Rightarrow> bool" where
  "latch_ok s \<longleftrightarrow> (xb_lio_public_frame_generation_valid s \<or> gl_latched (xb_jump_latch s) \<longrightarrow> gl_generation_known (xb_jump_latch s))"

abbreviation "last_measurement s \<equiv> tk_last_measurement_time_us (xb_timestamp_converter s)"
abbreviation "last_publication s \<equiv> tk_last_publication_time_us (xb_timestamp_converter s)"

lemma received_frame [simp]:
  "xb_timestamp_converter (received_identity message s) = xb_timestamp_converter s"
  "xb_timestamp_mapping_mode (received_identity message s) = xb_timestamp_mapping_mode s"
  "xb_highest_received_lio_epoch (received_identity message s) = pd_localization_epoch message"
  "xb_highest_received_lio_sequence (received_identity message s) = pd_sequence message"
  "xb_lio_public_frame_generation_valid (received_identity message s) = xb_lio_public_frame_generation_valid s"
  "xb_lio_valid (received_identity message s) = xb_lio_valid s" "xb_last_lio_health_ns (received_identity message s) = xb_last_lio_health_ns s"
  "xb_health_max_age_ns (received_identity message s) = xb_health_max_age_ns s"
  "xb_lio_public_frame_generation (received_identity message s) = xb_lio_public_frame_generation s"
  "xb_lio_covariance_valid (received_identity message s) = xb_lio_covariance_valid s"
  by (simp_all add: received_identity_def Let_def)

lemma rejected_frame [simp]:
  "xb_timestamp_converter (frame_rejected reason s) = xb_timestamp_converter s" "xb_jump_latch (frame_rejected reason s) = xb_jump_latch s"
  "xb_lio_public_frame_generation_valid (frame_rejected reason s) = xb_lio_public_frame_generation_valid s"
  "xb_highest_received_lio_epoch (frame_rejected reason s) = xb_highest_received_lio_epoch s"
  "xb_highest_received_lio_sequence (frame_rejected reason s) = xb_highest_received_lio_sequence s"
  "xb_timestamp_converter (identity_rejected s) = xb_timestamp_converter s" "xb_jump_latch (identity_rejected s) = xb_jump_latch s"
  "xb_lio_public_frame_generation_valid (identity_rejected s) = xb_lio_public_frame_generation_valid s"
  "xb_highest_received_lio_epoch (identity_rejected s) = xb_highest_received_lio_epoch s"
  "xb_highest_received_lio_sequence (identity_rejected s) = xb_highest_received_lio_sequence s"
  by (simp_all add: frame_rejected_def identity_rejected_def)

text \<open>A quaternion, component by component, as \<open>float\<close>.\<close>

definition qfloat :: "quat \<Rightarrow> quat" where
  "qfloat q = \<lparr>qw = to_float (qw q), qx = to_float (qx q), qy = to_float (qy q), qz = to_float (qz q)\<rparr>"

lemma publish_frame:
  assumes "publish_gated now ready frame pv ov vv s = (out, t)"
  shows "xb_timestamp_converter t = xb_timestamp_converter s \<and> xb_jump_latch t = xb_jump_latch s \<and>
    xb_lio_public_frame_generation_valid t = xb_lio_public_frame_generation_valid s \<and>
    xb_highest_received_lio_epoch t = xb_highest_received_lio_epoch s \<and> xb_highest_received_lio_sequence t = xb_highest_received_lio_sequence s \<and>
    (\<forall>x. out = Some x \<longrightarrow> publication_ready (gate_input now ready frame s) \<and>
      px_timestamp_sample x = cr_measurement_time_us (xb_last_timestamp_result s) \<and>
      px_timestamp x = cr_publication_time_us (xb_last_timestamp_result s) \<and>
      px_pose_frame x = PoseNed \<and> px_velocity_frame x = VelocityNed \<and>
      px_position x = vfloat (xf_position_ned frame) \<and> px_velocity x = vfloat (xf_velocity_ned frame) \<and>
      px_q x = qfloat (xf_orientation_ned frame) \<and> px_angular_velocity x = vfloat (xf_angular_velocity_body_frd frame) \<and>
      px_position_variance x = pv \<and> px_orientation_variance x = ov \<and> px_velocity_variance x = vv \<and>
      px_reset_counter x = public_frame_generation_to_reset_counter (public_generation s))"
  using assms by (auto simp: publish_gated_def vehicle_odometry_def qfloat_def evaluate_external_odometry_gate_def public_generation_def Let_def
      split: if_splits)

text \<open>How the handler of the odometry can go.\<close>

lemma on_lio_cases:
  assumes "on_lio e now ready message s = (out, t)"
  obtains (identity) "t = identity_rejected s" "out = None"
  | (rejected) reason n where "t = frame_rejected reason (received_identity message s) \<or>
        t = (frame_rejected reason (received_identity message s))\<lparr>xb_covariance_rejected_count := n\<rparr>" "out = None"
      "strictly_newer_source_identity (xb_highest_received_lio_epoch s) (xb_highest_received_lio_sequence s)
         (pd_localization_epoch message) (pd_sequence message)"
  | (assessed) frame pv ov vv where "convert_ros_lio_odometry e (pd_odometry message) = Some frame" "fits_px4_float frame"
      "positive_variances_to_px4_float (xf_position_variance frame) = Some pv"
      "positive_variances_to_px4_float (xf_orientation_variance frame) = Some ov"
      "positive_variances_to_px4_float (xf_velocity_variance frame) = Some vv"
      "publish_gated now ready frame pv ov vv (assess_frame e now frame (received_identity message s)) = (out, t)"
      "strictly_newer_source_identity (xb_highest_received_lio_epoch s) (xb_highest_received_lio_sequence s)
         (pd_localization_epoch message) (pd_sequence message)"
proof (cases "strictly_newer_source_identity (xb_highest_received_lio_epoch s) (xb_highest_received_lio_sequence s)
    (pd_localization_epoch message) (pd_sequence message)")
  case False
  with assms identity show thesis by (simp add: on_lio_def)
next
  case newer: True
  show thesis
  proof (cases "convert_ros_lio_odometry e (pd_odometry message)")
    case None
    with newer assms have "t = frame_rejected ''EXTERNAL_ODOMETRY_CONVERSION_REJECTED'' (received_identity message s)" "out = None"
      by (simp_all add: on_lio_def Let_def)
    then show thesis using rejected newer by blast
  next
    case (Some frame)
    let ?pv = "positive_variances_to_px4_float (xf_position_variance frame)"
    let ?ov = "positive_variances_to_px4_float (xf_orientation_variance frame)"
    let ?vv = "positive_variances_to_px4_float (xf_velocity_variance frame)"
    show thesis
    proof (cases "fits_px4_float frame \<and> ?pv \<noteq> None \<and> ?ov \<noteq> None \<and> ?vv \<noteq> None")
      case True
      then obtain pv ov vv where v: "?pv = Some pv" "?ov = Some ov" "?vv = Some vv" by auto
      then have "publish_gated now ready frame pv ov vv (assess_frame e now frame (received_identity message s)) = (out, t)"
        using newer Some True assms by (simp add: on_lio_def Let_def)
      with newer Some True v assessed show thesis by blast
    next
      case False
      then have "(out = None) \<and> (\<exists>reason n. t = frame_rejected reason (received_identity message s) \<or>
          t = (frame_rejected reason (received_identity message s))\<lparr>xb_covariance_rejected_count := n\<rparr>)"
        using newer Some assms by (cases ?pv; cases ?ov; cases ?vv; cases "fits_px4_float frame") (auto simp: on_lio_def Let_def)
      then show thesis using rejected newer by blast
    qed
  qed
qed


text \<open>What an assessment does to the converter and to the latch.\<close>

lemma assess_effect:
  assumes "converter_ok s"
  shows "converter_ok (assess_frame e now frame s) \<and>
    tk_maximum_age_ns (xb_timestamp_converter (assess_frame e now frame s)) = tk_maximum_age_ns (xb_timestamp_converter s) \<and>
    (if cr_valid (xb_last_timestamp_result (assess_frame e now frame s))
     then (\<exists>mu pu. cr_measurement_time_us (xb_last_timestamp_result (assess_frame e now frame s)) = mu \<and>
       cr_publication_time_us (xb_last_timestamp_result (assess_frame e now frame s)) = pu \<and>
       \<bar>now - xf_timestamp_ns frame\<bar> \<le> tk_maximum_age_ns (xb_timestamp_converter s) \<and>
       last_measurement (assess_frame e now frame s) = Some mu \<and> last_publication (assess_frame e now frame s) = Some pu \<and>
       (\<forall>u. last_measurement s = Some u \<longrightarrow> u < mu) \<and> (\<forall>u. last_publication s = Some u \<longrightarrow> u \<le> pu))
     else last_measurement (assess_frame e now frame s) = last_measurement s \<and> last_publication (assess_frame e now frame s) = last_publication s)"
proof -
  obtain r c where rc: "convert_time (xf_timestamp_ns frame) now (xb_timestamp_mapping_mode s) kTransportTimestampMappingGeneration
      (xb_timestamp_converter s) = (r, c)" by (cases "convert_time (xf_timestamp_ns frame) now (xb_timestamp_mapping_mode s)
        kTransportTimestampMappingGeneration (xb_timestamp_converter s)") auto
  then have "xb_last_timestamp_result (assess_frame e now frame s) = r" "xb_timestamp_converter (assess_frame e now frame s) = c"
    by (simp_all add: assess_frame_def Let_def split: prod.splits)
  with convert_effect [OF rc] assms show ?thesis by (auto simp: converter_ok_def Let_def)
qed

lemma assess_frame_fields [simp]:
  "xb_lio_public_frame_generation_valid (assess_frame e now frame s) = xb_lio_public_frame_generation_valid s"
  "xb_lio_public_frame_generation (assess_frame e now frame s) = xb_lio_public_frame_generation s"
  "xb_highest_received_lio_epoch (assess_frame e now frame s) = xb_highest_received_lio_epoch s"
  "xb_highest_received_lio_sequence (assess_frame e now frame s) = xb_highest_received_lio_sequence s"
  "xb_lio_valid (assess_frame e now frame s) = xb_lio_valid s"
  "xb_lio_covariance_valid (assess_frame e now frame s) = xb_lio_covariance_valid s"
  "xb_last_lio_health_ns (assess_frame e now frame s) = xb_last_lio_health_ns s"
  "xb_health_max_age_ns (assess_frame e now frame s) = xb_health_max_age_ns s"
  by (simp_all add: assess_frame_def Let_def split: prod.splits)

lemma jump_needs_generation:
  assumes "jo_jumped (fst (observe_geometric_jump_continuity e frame source_valid generation_valid generation c s))"
  shows "generation_valid"
  using assms by (auto simp: observe_geometric_jump_continuity_def reseed_def default_jump_observation_def split: if_splits)

lemma assess_latch:
  shows "gl_latched (xb_jump_latch s) \<longrightarrow> xb_jump_latch (assess_frame e now frame s) = xb_jump_latch s"
    and "gl_generation_known (xb_jump_latch (assess_frame e now frame s)) = gl_generation_known (xb_jump_latch s)"
    and "gl_latched (xb_jump_latch (assess_frame e now frame s)) \<longrightarrow> gl_latched (xb_jump_latch s) \<or> xb_lio_public_frame_generation_valid s"
    and "jo_jumped (xb_last_jump_observation (assess_frame e now frame s)) \<longrightarrow> gl_latched (xb_jump_latch (assess_frame e now frame s))"
proof -
  let ?valid = "xb_lio_public_frame_generation_valid s \<and> public_generation s > 0"
  obtain o' st where os: "observe_geometric_jump_continuity e frame (xb_lio_valid s \<and> xf_frame_valid frame \<and> ?valid) ?valid (public_generation s)
      (xb_jump_continuity_config s) ((xb_jump_continuity_state s)\<lparr>js_last_received := xb_last_received s\<rparr>) = (o', st)"
    by (metis surj_pair)
  then have g: "jo_jumped o' \<longrightarrow> xb_lio_public_frame_generation_valid s" using jump_needs_generation by (metis fst_conv)
  from os have f: "xb_jump_latch (assess_frame e now frame s) = snd (observeGeometricJump (jo_jumped o') (xb_jump_latch s))"
    "xb_last_jump_observation (assess_frame e now frame s) = o'"
    by (simp_all add: assess_frame_def Let_def split: prod.splits)
  show "gl_latched (xb_jump_latch s) \<longrightarrow> xb_jump_latch (assess_frame e now frame s) = xb_jump_latch s"
    "gl_generation_known (xb_jump_latch (assess_frame e now frame s)) = gl_generation_known (xb_jump_latch s)"
    "gl_latched (xb_jump_latch (assess_frame e now frame s)) \<longrightarrow> gl_latched (xb_jump_latch s) \<or> xb_lio_public_frame_generation_valid s"
    "jo_jumped (xb_last_jump_observation (assess_frame e now frame s)) \<longrightarrow> gl_latched (xb_jump_latch (assess_frame e now frame s))"
    using g by (auto simp: f observeGeometricJump_def)
qed

section \<open>The published stream\<close>

text \<open>A message was published, with this input, no later than the state.\<close>

definition published_by :: "PropagatedOdometry \<times> VehicleOdometry \<Rightarrow> ExternalBridge \<Rightarrow> bool" where
  "published_by y s \<longleftrightarrow> pd_localization_epoch (fst y) \<noteq> 0 \<and>
     (pd_localization_epoch (fst y) < xb_highest_received_lio_epoch s \<or>
      pd_localization_epoch (fst y) = xb_highest_received_lio_epoch s \<and> pd_sequence (fst y) \<le> xb_highest_received_lio_sequence s) \<and>
     (\<exists>mu pu. last_measurement s = Some mu \<and> last_publication s = Some pu \<and> px_timestamp_sample (snd y) \<le> mu \<and> px_timestamp (snd y) \<le> pu)"

definition in_order :: "PropagatedOdometry \<times> VehicleOdometry \<Rightarrow> PropagatedOdometry \<times> VehicleOdometry \<Rightarrow> bool" where
  "in_order x y \<longleftrightarrow>
     (pd_localization_epoch (fst x) < pd_localization_epoch (fst y) \<or>
      pd_localization_epoch (fst x) = pd_localization_epoch (fst y) \<and> pd_sequence (fst x) < pd_sequence (fst y)) \<and>
     px_timestamp_sample (snd x) < px_timestamp_sample (snd y) \<and> px_timestamp (snd x) \<le> px_timestamp (snd y)"

lemma newer_identity:
  assumes "strictly_newer_source_identity e q e' q'" "a \<noteq> 0" "a < e \<or> a = e \<and> b \<le> q"
  shows "a < e' \<or> a = e' \<and> b < q'"
  using assms by (auto simp: strictly_newer_source_identity_def word_neq_0_conv split: if_splits)

lemma health_frame [simp]:
  "xb_timestamp_converter (on_lio_health m s) = xb_timestamp_converter s"
  "xb_highest_received_lio_epoch (on_lio_health m s) = xb_highest_received_lio_epoch s"
  "xb_highest_received_lio_sequence (on_lio_health m s) = xb_highest_received_lio_sequence s"
  "xb_health_max_age_ns (on_lio_health m s) = xb_health_max_age_ns s"
  by (simp_all add: on_lio_health_def Let_def split: option.splits prod.splits)

lemma on_lio_stream:
  assumes "on_lio e now ready message s = (out, t)" "converter_ok s"
  shows "converter_ok t \<and> tk_maximum_age_ns (xb_timestamp_converter t) = tk_maximum_age_ns (xb_timestamp_converter s) \<and>
    (\<forall>y. published_by y s \<longrightarrow> published_by y t) \<and>
    (\<forall>x. out = Some x \<longrightarrow> published_by (message, x) t \<and> (\<forall>y. published_by y s \<longrightarrow> in_order y (message, x)))"
  using assms(1)
proof (cases rule: on_lio_cases)
  case identity
  with assms(2) show ?thesis by (simp add: converter_ok_def published_by_def)
next
  case (rejected reason n)
  then have t: "xb_timestamp_converter t = xb_timestamp_converter s" "xb_highest_received_lio_epoch t = pd_localization_epoch message"
    "xb_highest_received_lio_sequence t = pd_sequence message" by auto
  have "published_by y t" if "published_by y s" for y
    using newer_identity [OF rejected(3), of "pd_localization_epoch (fst y)" "pd_sequence (fst y)"] that by (auto simp: published_by_def t)
  with assms(2) rejected(2) show ?thesis by (simp add: converter_ok_def t)
next
  case (assessed frame pv ov vv)
  let ?r = "received_identity message s"
  let ?a = "assess_frame e now frame ?r"
  have "converter_ok ?r" using assms(2) by (simp add: converter_ok_def)
  note a = assess_effect [OF this, of e now frame]
  note p = publish_frame [OF assessed(6)]
  have t: "xb_timestamp_converter t = xb_timestamp_converter ?a" "xb_highest_received_lio_epoch t = pd_localization_epoch message"
    "xb_highest_received_lio_sequence t = pd_sequence message" using p by simp_all
  have n: "pd_localization_epoch (fst y) < pd_localization_epoch message \<or>
      pd_localization_epoch (fst y) = pd_localization_epoch message \<and> pd_sequence (fst y) < pd_sequence message" if "published_by y s" for y
    using newer_identity [OF assessed(7), of "pd_localization_epoch (fst y)" "pd_sequence (fst y)"] that by (auto simp: published_by_def)
  have keep: "published_by y t" if y: "published_by y s" for y
  proof -
    obtain mu pu where u: "last_measurement s = Some mu" "last_publication s = Some pu" "px_timestamp_sample (snd y) \<le> mu"
      "px_timestamp (snd y) \<le> pu" using y by (auto simp: published_by_def)
    then have "\<exists>mu pu. last_measurement t = Some mu \<and> last_publication t = Some pu \<and> px_timestamp_sample (snd y) \<le> mu \<and> px_timestamp (snd y) \<le> pu"
      using a by (cases "cr_valid (xb_last_timestamp_result ?a)") (auto simp: t)
    with n [OF y] y show ?thesis by (auto simp: published_by_def t)
  qed
  have new: "published_by (message, x) t \<and> (\<forall>y. published_by y s \<longrightarrow> in_order y (message, x))" if x: "out = Some x" for x
  proof -
    from p x have v: "cr_valid (xb_last_timestamp_result ?a)"
      "px_timestamp_sample x = cr_measurement_time_us (xb_last_timestamp_result ?a)"
      "px_timestamp x = cr_publication_time_us (xb_last_timestamp_result ?a)"
      by (auto simp: publication_ready_def gate_input_def)
    have e: "pd_localization_epoch message \<noteq> 0" using assessed(7) by (auto simp: strictly_newer_source_identity_def)
    have "in_order y (message, x)" if y: "published_by y s" for y
    proof -
      obtain mu pu where u: "last_measurement s = Some mu" "last_publication s = Some pu" "px_timestamp_sample (snd y) \<le> mu"
        "px_timestamp (snd y) \<le> pu" using y by (auto simp: published_by_def)
      then have "px_timestamp_sample (snd y) < px_timestamp_sample x" "px_timestamp (snd y) \<le> px_timestamp x"
        using a v by auto
      with n [OF y] show ?thesis by (simp add: in_order_def)
    qed
    moreover have "published_by (message, x) t" using a v e by (auto simp: published_by_def t)
    ultimately show ?thesis by blast
  qed
  from a have "converter_ok t" "tk_maximum_age_ns (xb_timestamp_converter t) = tk_maximum_age_ns (xb_timestamp_converter s)"
    by (simp_all add: converter_ok_def t)
  with keep new show ?thesis by blast
qed

lemma external_apply_stream:
  assumes "external_apply e ev s = (out, t)" "converter_ok s"
  shows "converter_ok t \<and> tk_maximum_age_ns (xb_timestamp_converter t) = tk_maximum_age_ns (xb_timestamp_converter s) \<and>
    (\<forall>y. published_by y s \<longrightarrow> published_by y t) \<and>
    (\<forall>x. out = Some x \<longrightarrow> published_by x t \<and> (\<forall>y. published_by y s \<longrightarrow> in_order y x))"
proof (cases ev)
  case (HealthEvent m)
  with assms show ?thesis by (auto simp: converter_ok_def published_by_def)
next
  case (LioEvent now ready m)
  obtain o' t' where o: "on_lio e now ready m s = (o', t')" by (metis surj_pair)
  with assms(1) LioEvent have "t' = t" "out = map_option (Pair m) o'" by auto
  with on_lio_stream [OF o assms(2)] show ?thesis by auto
qed

lemma external_run_stream:
  assumes "converter_ok s" "external_run e evs s = (outs, u)"
  shows "sorted_wrt in_order outs \<and> (\<forall>y. published_by y s \<longrightarrow> (\<forall>x\<in>set outs. in_order y x)) \<and> converter_ok u \<and>
    tk_maximum_age_ns (xb_timestamp_converter u) = tk_maximum_age_ns (xb_timestamp_converter s)"
  using assms
proof (induction evs arbitrary: s outs)
  case (Cons ev evs)
  obtain out t where a: "external_apply e ev s = (out, t)" by (metis surj_pair)
  obtain outs' u' where r: "external_run e evs t = (outs', u')" by (metis surj_pair)
  with a Cons.prems(2) have o: "outs = (case out of None \<Rightarrow> outs' | Some x \<Rightarrow> x # outs')" "u' = u" by auto
  note st = external_apply_stream [OF a Cons.prems(1)]
  with Cons.IH [of t outs'] r o(2) have ih: "sorted_wrt in_order outs'" "\<forall>y. published_by y t \<longrightarrow> (\<forall>x\<in>set outs'. in_order y x)"
    "converter_ok u" "tk_maximum_age_ns (xb_timestamp_converter u) = tk_maximum_age_ns (xb_timestamp_converter t)" by auto
  with st show ?case by (cases out) (auto simp: o(1))
qed simp

lemma made_bridge:
  assumes "makeExternalBridge p = Some b"
  shows "converter_ok b \<and> latch_ok b \<and> \<not> gl_latched (xb_jump_latch b) \<and>
    requireDurationNanoseconds (xp_max_age_s p) False = Some (tk_maximum_age_ns (xb_timestamp_converter b)) \<and>
    requireDurationNanoseconds (xp_health_max_age_s p) False = Some (xb_health_max_age_ns b)"
  using assms by (auto simp: makeExternalBridge_def makeTimestampConverter_def converter_ok_def latch_ok_def initial_jump_latch_def Let_def
      split: if_splits option.splits)

text \<open>
  C22. Whatever odometry and health messages arrive in whatever order, the stream the node sends to the flight
  controller is ordered: of two messages sent, the later one comes from a later localization epoch, or from the
  same epoch and a later sequence number, its sample stamp is strictly later and its transport stamp is not
  earlier.
\<close>

theorem external_stream_monotone:
  assumes "makeExternalBridge p = Some b"
  shows "sorted_wrt (\<lambda>(m, x) (m', x').
      (pd_localization_epoch m < pd_localization_epoch m' \<or>
       pd_localization_epoch m = pd_localization_epoch m' \<and> pd_sequence m < pd_sequence m') \<and>
      px_timestamp_sample x < px_timestamp_sample x' \<and> px_timestamp x \<le> px_timestamp x') (fst (external_run e evs b))"
proof -
  obtain outs u where r: "external_run e evs b = (outs, u)" by (metis surj_pair)
  have "sorted_wrt in_order outs" using external_run_stream [OF _ r] made_bridge [OF assms] by blast
  then show ?thesis by (simp add: r in_order_def [abs_def] case_prod_unfold)
qed

section \<open>The latch\<close>

lemma observe_generation:
  "gl_generation_known (snd (observePublicFrameGeneration v g l)) \<longleftrightarrow> gl_generation_known l \<or> v \<and> g \<noteq> 0"
  "gl_latched (snd (observePublicFrameGeneration v g l)) \<Longrightarrow> gl_latched l"
  "\<lbrakk>gl_generation_known l; g \<le> gl_last_generation l\<rbrakk> \<Longrightarrow> snd (observePublicFrameGeneration v g l) = l"
  by (auto simp: observePublicFrameGeneration_def split: if_splits)

lemma health_snapshot:
  "externalLioHealthSnapshot m = Some h \<Longrightarrow>
    hl_public_frame_generation_valid h \<and> hl_public_frame_generation h = eh_localization_epoch m \<and> eh_localization_epoch m \<noteq> 0"
  by (auto simp: externalLioHealthSnapshot_def split: option.splits if_splits)

lemma health_latch:
  assumes "latch_ok s"
  shows "latch_ok (on_lio_health m s)"
    and "gl_latched (xb_jump_latch s) \<Longrightarrow> eh_localization_epoch m \<le> gl_last_generation (xb_jump_latch s) \<Longrightarrow>
      xb_jump_latch (on_lio_health m s) = xb_jump_latch s"
proof -
  have h: "on_lio_health m s = s \<or>
      xb_jump_latch (on_lio_health m s) = snd (observePublicFrameGeneration True (eh_localization_epoch m) (xb_jump_latch s)) \<and>
      eh_localization_epoch m \<noteq> 0"
  proof (cases "externalLioHealthSnapshot m")
    case None
    then show ?thesis by (simp add: on_lio_health_def)
  next
    case (Some h)
    show ?thesis
    proof (cases "externalLioHealthIsNewer (Some h) (xb_last_lio_health_stamp_ns s)")
      case True
      with Some health_snapshot [OF Some] have
        "xb_jump_latch (on_lio_health m s) = snd (observePublicFrameGeneration True (eh_localization_epoch m) (xb_jump_latch s))"
        by (simp add: on_lio_health_def Let_def case_prod_unfold)
      with health_snapshot [OF Some] show ?thesis by blast
    qed (simp add: on_lio_health_def Some)
  qed
  with assms show "latch_ok (on_lio_health m s)" by (auto simp: latch_ok_def observe_generation(1))
  show "xb_jump_latch (on_lio_health m s) = xb_jump_latch s"
    if "gl_latched (xb_jump_latch s)" "eh_localization_epoch m \<le> gl_last_generation (xb_jump_latch s)"
    using h that assms observe_generation(3) [OF _ that(2), of True] by (auto simp: latch_ok_def)
qed

lemma received_latch:
  shows "latch_ok s \<Longrightarrow> latch_ok (received_identity m s)"
    and "latch_ok s \<Longrightarrow> gl_latched (xb_jump_latch s) \<Longrightarrow> pd_localization_epoch m \<le> gl_last_generation (xb_jump_latch s) \<Longrightarrow>
      xb_jump_latch (received_identity m s) = xb_jump_latch s"
proof -
  have r: "xb_jump_latch (received_identity m s) \<in>
      {xb_jump_latch s, snd (observePublicFrameGeneration True (pd_localization_epoch m) (xb_jump_latch s))}"
    by (simp add: received_identity_def Let_def)
  then show "latch_ok s \<Longrightarrow> latch_ok (received_identity m s)"
    using observe_generation(1,2) by (auto simp: latch_ok_def)
  show "xb_jump_latch (received_identity m s) = xb_jump_latch s"
    if "latch_ok s" "gl_latched (xb_jump_latch s)" "pd_localization_epoch m \<le> gl_last_generation (xb_jump_latch s)"
    using r that observe_generation(3) [OF _ that(3), of True] by (auto simp: latch_ok_def)
qed

lemma on_lio_latch:
  assumes "on_lio e now ready m s = (out, t)" "latch_ok s"
  shows "latch_ok t \<and> (gl_latched (xb_jump_latch s) \<and> pd_localization_epoch m \<le> gl_last_generation (xb_jump_latch s) \<longrightarrow>
    out = None \<and> xb_jump_latch t = xb_jump_latch s)"
  using assms(1)
proof (cases rule: on_lio_cases)
  case identity
  with assms(2) show ?thesis by (simp add: latch_ok_def)
next
  case (rejected reason n)
  then have "xb_jump_latch t = xb_jump_latch (received_identity m s)"
    "xb_lio_public_frame_generation_valid t = xb_lio_public_frame_generation_valid (received_identity m s)" by auto
  with received_latch [OF assms(2), of m] rejected(2) show ?thesis by (auto simp: latch_ok_def)
next
  case (assessed frame pv ov vv)
  let ?r = "received_identity m s"
  let ?a = "assess_frame e now frame ?r"
  note p = publish_frame [OF assessed(6)]
  have r: "latch_ok ?r" by (rule received_latch(1) [OF assms(2)])
  then have "latch_ok ?a" using assess_latch(2,3) [of e now frame ?r] by (auto simp: latch_ok_def)
  then have "latch_ok t" using p by (simp add: latch_ok_def)
  moreover have "out = None \<and> xb_jump_latch t = xb_jump_latch s"
    if "gl_latched (xb_jump_latch s)" "pd_localization_epoch m \<le> gl_last_generation (xb_jump_latch s)"
  proof -
    have "xb_jump_latch ?a = xb_jump_latch s"
      using received_latch(2) [OF assms(2) that] assess_latch(1) [of ?r e now frame] that(1) by simp
    with p that(1) show ?thesis by (cases out) (auto simp: publication_ready_def gate_input_def)
  qed
  ultimately show ?thesis by blast
qed

fun event_epoch :: "external_event \<Rightarrow> u64" where
  "event_epoch (HealthEvent m) = eh_localization_epoch m"
| "event_epoch (LioEvent now ready m) = pd_localization_epoch m"

lemma external_apply_latch:
  assumes "external_apply e ev s = (out, t)" "latch_ok s"
  shows "latch_ok t \<and> (gl_latched (xb_jump_latch s) \<and> event_epoch ev \<le> gl_last_generation (xb_jump_latch s) \<longrightarrow>
    out = None \<and> xb_jump_latch t = xb_jump_latch s)"
proof (cases ev)
  case (HealthEvent m)
  with assms health_latch [OF assms(2), of m] show ?thesis by auto
next
  case (LioEvent now ready m)
  obtain o' t' where o: "on_lio e now ready m s = (o', t')" by (metis surj_pair)
  with assms(1) LioEvent have "t' = t" "out = map_option (Pair m) o'" by auto
  with on_lio_latch [OF o assms(2)] LioEvent show ?thesis by auto
qed

lemma external_run_latch_ok: "latch_ok s \<Longrightarrow> latch_ok (snd (external_run e evs s))"
proof (induction evs arbitrary: s)
  case (Cons ev evs)
  obtain out t where a: "external_apply e ev s = (out, t)" by (metis surj_pair)
  with external_apply_latch [OF a Cons.prems] Cons.IH [of t] show ?case by (simp add: case_prod_unfold Let_def)
qed simp

lemma latched_run:
  "latch_ok s \<Longrightarrow> gl_latched (xb_jump_latch s) \<Longrightarrow> \<forall>ev\<in>set evs. event_epoch ev \<le> gl_last_generation (xb_jump_latch s) \<Longrightarrow>
    fst (external_run e evs s) = [] \<and> xb_jump_latch (snd (external_run e evs s)) = xb_jump_latch s"
proof (induction evs arbitrary: s)
  case (Cons ev evs)
  obtain out t where a: "external_apply e ev s = (out, t)" by (metis surj_pair)
  from external_apply_latch [OF a Cons.prems(1)] Cons.prems have t: "out = None" "xb_jump_latch t = xb_jump_latch s" "latch_ok t" by auto
  with Cons.IH [of t] Cons.prems a show ?case by (simp add: case_prod_unfold Let_def)
qed simp

text \<open>
  C24. The node stops at a geometric jump and stays stopped: an odometry message whose frame jumps is not
  published and leaves the latch set, and from there nothing is published and the latch stays set while no
  message, health or odometry, names a later localization epoch than the one the latch knows, whatever else
  arrives.
\<close>

theorem jump_latch_holds:
  assumes "makeExternalBridge p = Some b" "on_lio e now ready m (snd (external_run e before b)) = (out, s)"
    "xb_last_frame_valid s" "jo_jumped (xb_last_jump_observation s)"
    "\<forall>ev\<in>set evs. event_epoch ev \<le> gl_last_generation (xb_jump_latch s)"
  shows "out = None \<and> gl_latched (xb_jump_latch s) \<and> fst (external_run e evs s) = [] \<and>
    gl_latched (xb_jump_latch (snd (external_run e evs s)))"
proof -
  let ?s0 = "snd (external_run e before b)"
  have ok: "latch_ok ?s0" using made_bridge [OF assms(1)] external_run_latch_ok by blast
  then have ok': "latch_ok s" using on_lio_latch [OF assms(2)] by blast
  have "out = None \<and> gl_latched (xb_jump_latch s)"
    using assms(2)
  proof (cases rule: on_lio_cases)
    case identity
    with assms(3) show ?thesis by (simp add: identity_rejected_def)
  next
    case (rejected reason n)
    with assms(3) show ?thesis by (auto simp: frame_rejected_def)
  next
    case (assessed frame pv ov vv)
    let ?a = "assess_frame e now frame (received_identity m ?s0)"
    have "xb_last_jump_observation s = xb_last_jump_observation ?a"
      using assessed(6) by (auto simp: publish_gated_def Let_def split: if_splits)
    then have "gl_latched (xb_jump_latch ?a)" using assess_latch(4) assms(4) by auto
    with publish_frame [OF assessed(6)] show ?thesis by (cases out) (auto simp: publication_ready_def gate_input_def)
  qed
  with latched_run [OF ok' _ assms(5)] show ?thesis by auto
qed

section \<open>What is published\<close>

lemma external_run_limits: "xb_health_max_age_ns (snd (external_run e evs s)) = xb_health_max_age_ns s"
proof (induction evs arbitrary: s)
  case (Cons ev evs)
  obtain out t where a: "external_apply e ev s = (out, t)" by (metis surj_pair)
  have "xb_health_max_age_ns t = xb_health_max_age_ns s"
  proof (cases ev)
    case (LioEvent now ready m)
    then obtain o' where "on_lio e now ready m s = (o', t)" using a by (auto split: prod.splits)
    then show ?thesis
    proof (cases rule: on_lio_cases)
      case (assessed frame pv ov vv)
      then show ?thesis by (auto simp: publish_gated_def Let_def split: if_splits)
    qed (auto simp: identity_rejected_def frame_rejected_def)
  qed (use a in auto)
  with Cons.IH [of t] a show ?case by (simp add: case_prod_unfold Let_def)
qed simp

lemma px4_variances:
  assumes "positive_variances_to_px4_float v = Some w"
  shows "w = vfloat v \<and> (\<forall>c\<in>{vx w, vy w, vz w}. isfinite c \<and> fp_less (Fin 0) c)"
proof -
  have c: "y = to_float x \<and> isfinite y \<and> fp_less (Fin 0) y" if "positive_variance_to_px4_float x = Some y" for x y
  proof -
    from that have "y = to_float x" "isfinite y" "\<not> fp_le y (Fin 0)"
      by (auto simp: positive_variance_to_px4_float_def Let_def split: if_splits)
    moreover from this(2,3) have "fp_less (Fin 0) y" by (cases y) auto
    ultimately show ?thesis by blast
  qed
  from assms show ?thesis by (auto simp: positive_variances_to_px4_float_def vfloat_def dest: c split: option.splits)
qed

text \<open>
  C23. A published message is what the source and the health allow: its identity is newer than every earlier one;
  it is declared in the NED frames; its position, its orientation (component by component, the real part of
  the message being the real part of the frame's quaternion), its velocity and its angular velocity are those
  of the converted frame rounded to float, and all of them fit a float; the variances
  are those of the frame, rounded to float, finite and positive; the frame's stamp is within the configured
  age of the clock on either side, the health that vouches for it is valid, not from the future and no older
  than configured, its reset counter is the low byte of the known generation, and no jump is latched.
\<close>

theorem external_publication_sound:
  assumes "makeExternalBridge p = Some b" "external_run e evs b = (outs, s)" "on_lio e now ready m s = (Some x, t)"
  shows "strictly_newer_source_identity (xb_highest_received_lio_epoch s) (xb_highest_received_lio_sequence s)
      (pd_localization_epoch m) (pd_sequence m) \<and>
    (\<exists>frame max_age health_age. convert_ros_lio_odometry e (pd_odometry m) = Some frame \<and>
      px_position x = vfloat (xf_position_ned frame) \<and> fits_float (xf_position_ned frame) \<and>
      px_velocity x = vfloat (xf_velocity_ned frame) \<and> fits_float (xf_velocity_ned frame) \<and>
      qw (px_q x) = to_float (qw (xf_orientation_ned frame)) \<and> qx (px_q x) = to_float (qx (xf_orientation_ned frame)) \<and>
      qy (px_q x) = to_float (qy (xf_orientation_ned frame)) \<and> qz (px_q x) = to_float (qz (xf_orientation_ned frame)) \<and>
      (\<forall>c\<in>{qw (px_q x), qx (px_q x), qy (px_q x), qz (px_q x)}. isfinite c) \<and>
      px_angular_velocity x = vfloat (xf_angular_velocity_body_frd frame) \<and> fits_float (xf_angular_velocity_body_frd frame) \<and>
      px_position_variance x = vfloat (xf_position_variance frame) \<and> px_velocity_variance x = vfloat (xf_velocity_variance frame) \<and>
      px_orientation_variance x = vfloat (xf_orientation_variance frame) \<and>
      requireDurationNanoseconds (xp_max_age_s p) False = Some max_age \<and> \<bar>now - xf_timestamp_ns frame\<bar> \<le> max_age \<and>
      requireDurationNanoseconds (xp_health_max_age_s p) False = Some health_age \<and>
      xb_last_lio_health_ns s \<le> now \<and> now \<le> xb_last_lio_health_ns s + health_age) \<and>
    (\<forall>c\<in>{vx (px_position_variance x), vy (px_position_variance x), vz (px_position_variance x),
        vx (px_orientation_variance x), vy (px_orientation_variance x), vz (px_orientation_variance x),
        vx (px_velocity_variance x), vy (px_velocity_variance x), vz (px_velocity_variance x)}. isfinite c \<and> fp_less (Fin 0) c) \<and>
    px_pose_frame x = PoseNed \<and> px_velocity_frame x = VelocityNed \<and>
    xb_lio_valid s \<and> xb_lio_covariance_valid s \<and> px_reset_counter x = ucast (xb_lio_public_frame_generation s mod 256) \<and>
    \<not> gl_latched (xb_jump_latch t) \<and> \<not> jo_jumped (xb_last_jump_observation t)"
  using assms(3)
proof (cases rule: on_lio_cases)
  case (assessed frame pv ov vv)
  let ?r = "received_identity m s"
  let ?a = "assess_frame e now frame ?r"
  note b = made_bridge [OF assms(1)]
  note u = external_run_stream [OF _ assms(2)] b
  have limits: "requireDurationNanoseconds (xp_max_age_s p) False = Some (tk_maximum_age_ns (xb_timestamp_converter s))"
    "requireDurationNanoseconds (xp_health_max_age_s p) False = Some (xb_health_max_age_ns s)"
    using u external_run_limits [of e evs b] assms(2) by simp_all
  have "converter_ok ?r" using u by (simp add: converter_ok_def)
  note a = assess_effect [OF this, of e now frame]
  note p = publish_frame [OF assessed(6)]
  then have g: "publication_ready (gate_input now ready frame ?a)" by blast
  then have age: "\<bar>now - xf_timestamp_ns frame\<bar> \<le> tk_maximum_age_ns (xb_timestamp_converter s)"
    using a by (auto simp: publication_ready_def gate_input_def)
  from g have health: "xb_lio_valid s" "xb_lio_covariance_valid s" "xb_lio_public_frame_generation_valid s" "\<not> gl_latched (xb_jump_latch ?a)"
    by (simp_all add: publication_ready_def gate_input_def)
  from g have "lio_health_fresh now ?a" by (simp add: publication_ready_def gate_input_def)
  then have fresh: "xb_last_lio_health_ns s \<le> now" "now \<le> xb_last_lio_health_ns s + xb_health_max_age_ns s"
    by (auto simp: lio_health_fresh_def checkedDifference_eq split: if_splits)
  have jump: "\<not> jo_jumped (xb_last_jump_observation t)"
    using health(4) assess_latch(4) [of e now frame ?r] assessed(6) by (auto simp: publish_gated_def Let_def split: if_splits)
  have fits: "fits_float (xf_position_ned frame)" "fits_float (xf_velocity_ned frame)" "fits_float (xf_angular_velocity_body_frd frame)"
    using assessed(2) by (simp_all add: fits_px4_float_def Let_def)
  have q: "px_q x = qfloat (xf_orientation_ned frame)" using p by simp
  have quaternion: "qw (px_q x) = to_float (qw (xf_orientation_ned frame))" "qx (px_q x) = to_float (qx (xf_orientation_ned frame))"
    "qy (px_q x) = to_float (qy (xf_orientation_ned frame))" "qz (px_q x) = to_float (qz (xf_orientation_ned frame))"
    by (simp_all add: q qfloat_def)
  then have finite_q: "\<forall>c\<in>{qw (px_q x), qx (px_q x), qy (px_q x), qz (px_q x)}. isfinite c"
    using assessed(2) by (simp add: fits_px4_float_def Let_def)
  note v = px4_variances [OF assessed(3)] px4_variances [OF assessed(4)] px4_variances [OF assessed(5)]
  have pq: "px_position_variance x = pv" "px_orientation_variance x = ov" "px_velocity_variance x = vv" using p by simp_all
  have variances: "\<forall>c\<in>{vx (px_position_variance x), vy (px_position_variance x), vz (px_position_variance x),
      vx (px_orientation_variance x), vy (px_orientation_variance x), vz (px_orientation_variance x),
      vx (px_velocity_variance x), vy (px_velocity_variance x), vz (px_velocity_variance x)}. isfinite c \<and> fp_less (Fin 0) c"
    using pq conjunct2 [OF v(1)] conjunct2 [OF v(2)] conjunct2 [OF v(3)] by simp
  have "px_reset_counter x = ucast (xb_lio_public_frame_generation s mod 256)"
    using p health(3) by (simp add: public_generation_def public_frame_generation_to_reset_counter_def)
  moreover have "px_position x = vfloat (xf_position_ned frame)" "px_velocity x = vfloat (xf_velocity_ned frame)"
    "px_position_variance x = vfloat (xf_position_variance frame)" "px_velocity_variance x = vfloat (xf_velocity_variance frame)"
    "px_orientation_variance x = vfloat (xf_orientation_variance frame)"
    "px_angular_velocity x = vfloat (xf_angular_velocity_body_frd frame)" "px_pose_frame x = PoseNed" "px_velocity_frame x = VelocityNed"
    using p v by simp_all
  moreover have "xb_jump_latch t = xb_jump_latch ?a" using p by blast
  ultimately show ?thesis
    using variances fits quaternion finite_q fresh age limits health jump assessed(1,7) by (intro conjI exI) (assumption | simp)+
qed simp_all

section \<open>A bridge in operation\<close>

text \<open>
  Eigen's inner products in one order of the additions, with rotations that are the identity and norms that are
  exact along the first axis; health of one second and two odometry messages.
\<close>

definition ex_external_parameters :: ExternalBridgeParameters where
  "ex_external_parameters = \<lparr>xp_max_age_s = Fin 1, xp_health_max_age_s = Fin 1,
     xp_jump = \<lparr>jc_position_jump_margin_m = Fin 1, jc_orientation_jump_margin_rad = Fin 1, jc_maximum_expected_speed_mps = Fin 1,
       jc_maximum_expected_angular_rate_rad_s = Fin 1, jc_minimum_continuity_dt_s = Fin 1, jc_maximum_continuity_dt_s = Fin 2\<rparr>,
     xp_clock_domain = ''simulation_time'', xp_use_sim_time = True\<rparr>"

definition ex_axis :: eigen3 where
  "ex_axis = ex_eigen3\<lparr>e3_norm := (\<lambda>v. fp_abs (vx v))\<rparr>"

definition ex_covariance :: "double list" where
  "ex_covariance = map (\<lambda>i. if i mod 7 = 0 then Fin 1 else Fin 0) [0..<36]"

definition ex_lio :: "int \<Rightarrow> double \<Rightarrow> OdometryMessage" where
  "ex_lio s y = \<lparr>om_stamp = \<lparr>sec = s, nanosec = 0\<rparr>, om_frame_id = ''lio_odom'', om_child_frame_id = ''base_link'', 
     om_position = \<lparr>vx = Fin 0, vy = y, vz = Fin 0\<rparr>, om_orientation = qidentity, om_linear = vzero, om_angular = vzero,
     om_pose_covariance = ex_covariance, om_twist_covariance = ex_covariance\<rparr>"

definition ex_frame :: "i64 \<Rightarrow> double \<Rightarrow> ExternalOdometryFrame" where
  "ex_frame ns y = \<lparr>xf_timestamp_ns = ns, xf_position_ned = \<lparr>vx = y, vy = Fin 0, vz = Fin 0\<rparr>, xf_orientation_ned = qidentity, xf_velocity_ned = vzero,
          xf_angular_velocity_body_frd = vzero, xf_position_variance = vconst (Fin 1), xf_orientation_variance = vconst (Fin 1),
          xf_velocity_variance = vconst (Fin 1),
          xf_frame_valid = True, xf_covariance_valid = True\<rparr>"

lemma ex_block: "covariance_block ex_covariance 0 = midentity" "covariance_block ex_covariance 3 = midentity"
  by (simp_all add: covariance_block_def ex_covariance_def midentity_def Let_def)

lemma ex_axis_simps: "e3_dot ex_axis = (\<lambda>a b. dadd (dadd (dmul (vx a) (vx b)) (dmul (vy a) (vy b))) (dmul (vz a) (vz b)))"
  "e3_norm ex_axis = (\<lambda>v. fp_abs (vx v))" "e3_inverse ex_axis = (\<lambda>m. m)" "e3_minEigenvalue ex_axis = (\<lambda>m. Some (Fin 0))"
  "e3_toRotationMatrix ex_axis = (\<lambda>q. midentity)"
  "e3_fromMatrix ex_axis = (\<lambda>m. qidentity)" "e3_normalized ex_axis = (\<lambda>q. q)" "e3_quatNorm ex_axis = (\<lambda>q. Fin 1)" "e3_quatSquaredNorm ex_axis = (\<lambda>q. Fin 1)"
  "e3_angularDistance ex_axis = (\<lambda>p q. Fin 0)"
  by (simp_all add: ex_axis_def ex_eigen3_def)

lemma ex_rotations: "mmul ex_axis c_flu_frd (mtranspose midentity) = c_flu_frd" "mmul ex_axis c_enu_ned midentity = c_enu_ned"
  "mmul ex_axis (mmul ex_axis c_enu_ned midentity) (mtranspose c_enu_ned) = midentity"
  "mmul ex_axis (mmul ex_axis c_flu_frd midentity) (mtranspose c_flu_frd) = midentity"
  by (simp_all add: mmul_def mapply_def mtranspose_def midentity_def c_enu_ned_def c_flu_frd_def ex_axis_simps fp_simps Let_def)

lemma ex_validated: "validated_block ex_axis ex_covariance 0 = Some midentity" "validated_block ex_axis ex_covariance 3 = Some midentity"
  by (simp_all add: validated_block_def ex_block Let_def ex_axis_simps kPsdTolerance_def fp_simps midentity_def mfinite_def vfinite_def asymmetric_def differ_def
    fp_sub_def kSymmetryTolerance_def positive_variance_def)

lemma ex_diagonal: 
 "transformed_covariance_diagonal ex_axis ex_covariance 0 c_enu_ned = Some (vconst (Fin 1))"
 "transformed_covariance_diagonal ex_axis ex_covariance 3 c_flu_frd = Some (vconst (Fin 1))"
  by (simp_all add: transformed_covariance_diagonal_def ex_validated ex_rotations Let_def del: ex_rotations(2))
   (simp_all add:  mfinite_def vfinite_def midentity_def c_enu_ned_def c_flu_frd_def positive_variance_def vconst_def)

lemma ex_converted:
  assumes "y \<in> {Fin 0, Fin 100}" "s \<in> {5, 6}"
  shows "convert_ros_lio_odometry ex_axis (ex_lio s y) = Some (ex_frame (s * 1000000000) y)"
proof -
  have p: "mapply ex_axis c_enu_ned \<lparr>vx = Fin 0, vy = y, vz = Fin 0\<rparr> = \<lparr>vx = y, vy = Fin 0, vz = Fin 0\<rparr>"
    "mapply ex_axis c_enu_ned vzero = vzero" "mapply ex_axis c_flu_frd vzero = vzero" "isfinite y"
    using assms(1) by (auto simp: mapply_def c_enu_ned_def c_flu_frd_def ex_axis_simps vzero_def fp_simps)
  have t: "rosTimeToNanoseconds \<lparr>sec = s, nanosec = 0\<rparr> = Some (s * 1000000000)" "0 < s"
    using assms(2) by (auto simp: rosTimeToNanoseconds_def time_consts i64_simps Let_def)
  have f: "external_frame ex_axis (ex_lio s y) (s * 1000000000) (vconst (Fin 1)) (vconst (Fin 1)) (vconst (Fin 1)) = ex_frame (s * 1000000000) y"
    using p by (simp add: external_frame_def ex_lio_def ex_axis_simps ex_rotations ex_frame_def Let_def vfinite_def qfinite_def qidentity_def vzero_def vconst_def)
  have "\<not> fp_less (Fin 1) (dlit (1 / 10 ^ 9))" unfolding nano_literal by simp
  then have "\<not> fp_less (Fin 1) (dlit (1 / 1000000000))" by simp
  then show ?thesis using t f
    by (simp add: convert_ros_lio_odometry_def) (simp add: ex_lio_def qfinite_def qidentity_def ex_axis_simps ex_rotations ex_diagonal ex_frame_def Let_def)
qed

definition ex_external_start :: ExternalBridge where
  "ex_external_start =
       \<lparr>xb_last_published = None, xb_last_received = None, xb_jump_continuity_state = initial_jump_state,
           xb_timestamp_converter = the (makeTimestampConverter 1000000000), xb_timestamp_mapping_mode = MappingSimulationIdentity, xb_jump_continuity_config = xp_jump ex_external_parameters,
           xb_last_jump_observation = default_jump_observation, xb_last_timestamp_result = default_conversion_result,
           xb_last_gate = default_gate_result, xb_health_max_age_ns = 1000000000, xb_last_published_time_ns = 0,
           xb_last_sample_timestamp_ns = 0, xb_last_transport_timestamp_ns = 0, xb_published_count = 0, xb_gated_count = 0,
           xb_rejected_count = 0, xb_covariance_rejected_count = 0, xb_last_reset_counter = 0, xb_jump_latch = initial_jump_latch,
           xb_lio_public_frame_generation = 0, xb_highest_received_lio_epoch = 0, xb_highest_received_lio_sequence = 0,
           xb_last_lio_health_ns = 0, xb_last_lio_health_stamp_ns = 0, xb_node_ready = True, xb_lio_valid = False,
           xb_lio_covariance_valid = False, xb_lio_public_frame_generation_valid = False, xb_last_frame_valid = False,
           xb_publication_ready = False, xb_publication_active = False, xb_last_rejection_reason = ''NONE''\<rparr>"

lemma ex_external_made: "makeExternalBridge ex_external_parameters = Some ex_external_start"
proof -
  have "requireDurationNanoseconds (Fin 1) False = Some 1000000000"
    by (simp add: requireDurationNanoseconds_def secondsToNanoseconds_Fin fp_simps i64_max_def)
  then show ?thesis
    by (simp add: makeExternalBridge_def parameters_invalid_def ex_external_parameters_def timestampMappingModeFor_def makeTimestampConverter_def ex_external_start_def Let_def)
qed

definition ex_health :: EstimatorHealth where
  "ex_health = \<lparr>eh_stamp = \<lparr>sec = 5, nanosec = 0\<rparr>, eh_localization_epoch = 1, eh_state = 2, eh_navigation_valid = True, eh_covariance_valid = True,
     eh_observability_valid = True, eh_correction_fresh = True, eh_propagation_valid = True\<rparr>"

definition ex_propagated :: "u64 \<Rightarrow> int \<Rightarrow> double \<Rightarrow> PropagatedOdometry" where
  "ex_propagated sequence s y = \<lparr>pd_odometry = ex_lio s y, pd_localization_epoch = 1, pd_sequence = sequence\<rparr>"

lemma ex_healthy: "on_lio_health ex_health ex_external_start = ex_external_start\<lparr>xb_last_lio_health_stamp_ns := 5000000000,
   xb_jump_latch := initial_jump_latch\<lparr>gl_generation_known := True, gl_last_generation := 1\<rparr>,
   xb_lio_public_frame_generation := 1, xb_lio_public_frame_generation_valid := True, xb_lio_valid := True, xb_lio_covariance_valid := True, xb_last_lio_health_ns := 5000000000\<rparr>"
proof -
  have "externalLioHealthSnapshot ex_health = Some \<lparr>hl_source_stamp_ns = 5000000000, hl_public_frame_generation = 1, hl_public_frame_generation_valid = True,
     hl_lio_valid = True, hl_covariance_valid = True\<rparr>"
    by (simp add: externalLioHealthSnapshot_def ex_health_def rosTimeToNanoseconds_def time_consts i64_simps Let_def)
  then show ?thesis
    by (simp add: on_lio_health_def externalLioHealthIsNewer_def observePublicFrameGeneration_def initial_jump_latch_def ex_external_start_def Let_def)
qed

lemma ex_floats: "fits_px4_float (ex_frame ns y)" if "y \<in> {Fin 0, Fin 100}"
  using that by (auto simp: fits_px4_float_def fits_float_def ex_frame_def qidentity_def vzero_def fp_simps Let_def)

lemma ex_variances: "positive_variances_to_px4_float (vconst (Fin 1)) = Some (vconst (Fin 1))"
  by (simp add: positive_variances_to_px4_float_def positive_variance_to_px4_float_def positive_variance_def vconst_def fp_simps Let_def)

lemma ex_on_lio:
  assumes "y \<in> {Fin 0, Fin 100}" "s \<in> {5, 6}" "strictly_newer_source_identity (xb_highest_received_lio_epoch b) (xb_highest_received_lio_sequence b) 1 q"
  shows "on_lio ex_axis now True (ex_propagated q s y) b = publish_gated now True (ex_frame (s * 1000000000) y) (vconst (Fin 1)) (vconst (Fin 1)) (vconst (Fin 1))
    (assess_frame ex_axis now (ex_frame (s * 1000000000) y) (received_identity (ex_propagated q s y) b))"
  using assms(3) ex_converted [OF assms(1,2)] ex_floats [OF assms(1)]
  by (simp add: on_lio_def ex_propagated_def Let_def) (simp add: ex_frame_def ex_variances)

lemma ex_config: "jump_config_valid (xp_jump ex_external_parameters)"
  by (simp add: jump_config_valid_def ex_external_parameters_def long_bound_def fp_convert_def double_max_def fp_simps Let_def)

lemma ex_valid: "external_frame_valid ex_axis (ex_frame (s * 1000000000) y)" if "y \<in> {Fin 0, Fin 100}" "0 < s"
  using that by (auto simp: external_frame_valid_def ex_frame_def vfinite_def vzero_def unit_quaternion_def qfinite_def qidentity_def ex_axis_simps fp_sub_def fp_simps)


lemma ex_frame_fields [simp]: "xf_timestamp_ns (ex_frame ns y) = ns" "xf_frame_valid (ex_frame ns y)" "xf_covariance_valid (ex_frame ns y)"
  by (simp_all add: ex_frame_def)

definition ex_converter :: TimestampConverter where
  "ex_converter = (adopt_generation 1 (the (makeTimestampConverter 1000000000)))
     \<lparr>tk_last_measurement_time_us := Some 5000000, tk_last_publication_time_us := Some 5000000\<rparr>"

lemma ex_conversions:
  "convert_time 5000000000 5000000000 MappingSimulationIdentity kTransportTimestampMappingGeneration (the (makeTimestampConverter 1000000000)) =
     (conversion_result MappingSimulationIdentity 1 5000000 5000000 0, ex_converter)"
  "convert_time 6000000000 6000000000 MappingSimulationIdentity kTransportTimestampMappingGeneration ex_converter =
     (conversion_result MappingSimulationIdentity 1 6000000 6000000 0,
      ex_converter\<lparr>tk_last_measurement_time_us := Some 6000000, tk_last_publication_time_us := Some 6000000\<rparr>)"
  by (simp_all add: convert_time_def convert_checked_def order_failure_def after_stamp_def kTransportTimestampMappingGeneration_def ex_converter_def
      makeTimestampConverter_def adopt_generation_def nanosecondsToMicroseconds_def time_consts checkedDifference_eq i64_simps Let_def)

lemma ex_jump:
  assumes "y \<in> {Fin 0, Fin 100}"
  shows "jo_jumped (fst (observe_geometric_jump_continuity ex_axis (ex_frame 6000000000 y) True True 1 (xp_jump ex_external_parameters)
      \<lparr>js_last_received = Some (ex_frame 5000000000 (Fin 0)), js_last_generation = 1, js_last_generation_valid = True, js_continuity_trusted = True\<rparr>))
    \<longleftrightarrow> y = Fin 100" (is ?jumped)
    "jo_sample_admissible (fst (observe_geometric_jump_continuity ex_axis (ex_frame 6000000000 y) True True 1 (xp_jump ex_external_parameters)
      \<lparr>js_last_received = Some (ex_frame 5000000000 (Fin 0)), js_last_generation = 1, js_last_generation_valid = True, js_continuity_trusted = True\<rparr>))"
    "js_continuity_trusted (snd (observe_geometric_jump_continuity ex_axis (ex_frame 6000000000 y) True True 1 (xp_jump ex_external_parameters)
      \<lparr>js_last_received = Some (ex_frame 5000000000 (Fin 0)), js_last_generation = 1, js_last_generation_valid = True, js_continuity_trusted = True\<rparr>))"
proof -
  have v: "external_frame_valid ex_axis (ex_frame 6000000000 y)" "external_frame_valid ex_axis (ex_frame 5000000000 (Fin 0))"
    using ex_valid [of y 6] ex_valid [of "Fin 0" 5] assms by simp_all
  have d: "dmul (fp_of_int binary64 1000000000) (dlit (1 / 10 ^ 9)) = Fin 1"
    using nano_second by (simp add: fp_of_int_def fp_simps)
  have b: "fp_convert binary64 (long_bound (Fin 1) (Fin 1) (Fin 1)) = Fin 2"
    by (simp add: long_bound_def fp_convert_def fp_simps)
  have o: "observe_geometric_jump_continuity ex_axis (ex_frame 6000000000 y) True True 1 (xp_jump ex_external_parameters)
      \<lparr>js_last_received = Some (ex_frame 5000000000 (Fin 0)), js_last_generation = 1, js_last_generation_valid = True, js_continuity_trusted = True\<rparr> =
    compare_frames ex_axis (ex_frame 5000000000 (Fin 0)) (ex_frame 6000000000 y) 1000000000 True 1 (xp_jump ex_external_parameters)
      \<lparr>js_last_received = Some (ex_frame 5000000000 (Fin 0)), js_last_generation = 1, js_last_generation_valid = True, js_continuity_trusted = True\<rparr>"
    using v by (simp add: observe_geometric_jump_continuity_def ex_config checkedDifference_eq i64_simps)
  have n: "fp_abs (vx (vsub (xf_position_ned (ex_frame 6000000000 y)) (xf_position_ned (ex_frame 5000000000 (Fin 0))))) = y"
    using assms by (auto simp: ex_frame_def vsub_def fp_sub_def fp_simps)
  show ?jumped "jo_sample_admissible (fst (observe_geometric_jump_continuity ex_axis (ex_frame 6000000000 y) True True 1 (xp_jump ex_external_parameters)
      \<lparr>js_last_received = Some (ex_frame 5000000000 (Fin 0)), js_last_generation = 1, js_last_generation_valid = True, js_continuity_trusted = True\<rparr>))"
    "js_continuity_trusted (snd (observe_geometric_jump_continuity ex_axis (ex_frame 6000000000 y) True True 1 (xp_jump ex_external_parameters)
      \<lparr>js_last_received = Some (ex_frame 5000000000 (Fin 0)), js_last_generation = 1, js_last_generation_valid = True, js_continuity_trusted = True\<rparr>))"
    unfolding o compare_frames_def d ex_axis_simps n using assms
    by (auto simp: ex_external_parameters_def b Let_def)
qed

definition ex_external_started :: ExternalBridge where
  "ex_external_started = snd (on_lio ex_axis 5000000000 True (ex_propagated 1 5 (Fin 0)) (on_lio_health ex_health ex_external_start))"

lemma ex_first:
  "fst (on_lio ex_axis 5000000000 True (ex_propagated 1 5 (Fin 0)) (on_lio_health ex_health ex_external_start)) \<noteq> None"
  "xb_jump_continuity_state ex_external_started = \<lparr>js_last_received = Some (ex_frame 5000000000 (Fin 0)), js_last_generation = 1, js_last_generation_valid = True, js_continuity_trusted = True\<rparr>"
  "xb_last_received ex_external_started = Some (ex_frame 5000000000 (Fin 0))" "xb_timestamp_converter ex_external_started = ex_converter"
  "xb_timestamp_mapping_mode ex_external_started = MappingSimulationIdentity" "xb_jump_continuity_config ex_external_started = xp_jump ex_external_parameters"
  "xb_jump_latch ex_external_started = initial_jump_latch\<lparr>gl_generation_known := True, gl_last_generation := 1\<rparr>"
  "xb_lio_public_frame_generation ex_external_started = 1" "xb_lio_public_frame_generation_valid ex_external_started" "xb_lio_valid ex_external_started"
  "xb_lio_covariance_valid ex_external_started" "xb_last_lio_health_ns ex_external_started = 5000000000" "xb_health_max_age_ns ex_external_started = 1000000000"
  "xb_node_ready ex_external_started" "xb_highest_received_lio_epoch ex_external_started = 1" "xb_highest_received_lio_sequence ex_external_started = 1"
proof -
  let ?f = "ex_frame 5000000000 (Fin 0)"
  define b where "b = on_lio_health ex_health ex_external_start"
  have b: "xb_highest_received_lio_epoch b = 0" "xb_highest_received_lio_sequence b = 0" "xb_timestamp_mapping_mode b = MappingSimulationIdentity"
    "xb_timestamp_converter b = the (makeTimestampConverter 1000000000)" "xb_lio_public_frame_generation_valid b" "xb_lio_public_frame_generation b = 1"
    "xb_lio_valid b" "xb_lio_covariance_valid b" "xb_last_lio_health_ns b = 5000000000" "xb_health_max_age_ns b = 1000000000" "xb_node_ready b"
    "xb_jump_continuity_config b = xp_jump ex_external_parameters" "xb_jump_continuity_state b = initial_jump_state" "xb_last_received b = None"
    "xb_jump_latch b = initial_jump_latch\<lparr>gl_generation_known := True, gl_last_generation := 1\<rparr>"
    unfolding b_def ex_healthy by (simp_all add: ex_external_start_def)
  let ?r = "b\<lparr>xb_highest_received_lio_epoch := 1, xb_highest_received_lio_sequence := 1\<rparr>"
  have j: "observe_geometric_jump_continuity ex_axis ?f True True 1 (xp_jump ex_external_parameters) initial_jump_state =
    reseed ?f True 1 JumpNoBaseline True initial_jump_state"
    using ex_valid [of "Fin 0" 5]
    by (simp add: observe_geometric_jump_continuity_def ex_config initial_jump_state_def)
  have i: "initial_jump_state\<lparr>js_last_received := None\<rparr> = initial_jump_state" by (simp add: initial_jump_state_def)
  let ?a = "?r\<lparr>xb_last_frame_valid := True, xb_last_rejection_reason := ''NONE'', xb_last_sample_timestamp_ns := 5000000000,
     xb_last_transport_timestamp_ns := 5000000000, xb_last_timestamp_result := conversion_result MappingSimulationIdentity 1 5000000 5000000 0, xb_timestamp_converter := ex_converter,
     xb_jump_continuity_state := \<lparr>js_last_received = Some ?f, js_last_generation = 1, js_last_generation_valid = True, js_continuity_trusted = True\<rparr>,
     xb_last_jump_observation := default_jump_observation\<lparr>jo_baseline_reseeded := True, jo_reason := JumpNoBaseline\<rparr>, xb_last_received := Some ?f,
     xb_jump_latch := initial_jump_latch\<lparr>gl_generation_known := True, gl_last_generation := 1\<rparr>\<rparr>"
  have a: "assess_frame ex_axis 5000000000 ?f ?r = ?a"
    by (simp add: assess_frame_def b public_generation_def ex_conversions i j)
      (simp add: reseed_def initial_jump_state_def default_jump_observation_def observeGeometricJump_def initial_jump_latch_def)
  have "publication_ready (gate_input 5000000000 True ?f ?a)"
    by (simp add: publication_ready_def gate_input_def b conversion_result_def public_generation_def lio_health_fresh_def checkedDifference_eq i64_simps
        default_jump_observation_def initial_jump_latch_def)
  moreover have "on_lio ex_axis 5000000000 True (ex_propagated 1 5 (Fin 0)) b =
      publish_gated 5000000000 True ?f (vconst (Fin 1)) (vconst (Fin 1)) (vconst (Fin 1)) ?a"
    using ex_on_lio [of "Fin 0" 5 b 1 5000000000] a
    by (simp add: b strictly_newer_source_identity_def received_identity_def ex_propagated_def)
  ultimately obtain x p n y g c where
    o: "on_lio ex_axis 5000000000 True (ex_propagated 1 5 (Fin 0)) b = (Some x, ?a\<lparr>xb_last_gate := g, xb_publication_ready := True,
         xb_last_published := p, xb_last_published_time_ns := n, xb_last_reset_counter := y, xb_published_count := c, xb_publication_active := True\<rparr>)"
    by (auto simp: publish_gated_def evaluate_external_odometry_gate_def Let_def)
  then show "fst (on_lio ex_axis 5000000000 True (ex_propagated 1 5 (Fin 0)) (on_lio_health ex_health ex_external_start)) \<noteq> None"
    by (simp add: b_def)
  from o have e: "ex_external_started = ?a\<lparr>xb_last_gate := g, xb_publication_ready := True,
         xb_last_published := p, xb_last_published_time_ns := n, xb_last_reset_counter := y, xb_published_count := c, xb_publication_active := True\<rparr>"
    by (simp add: ex_external_started_def b_def)
  show "xb_jump_continuity_state ex_external_started = \<lparr>js_last_received = Some ?f, js_last_generation = 1, js_last_generation_valid = True, js_continuity_trusted = True\<rparr>"
    "xb_last_received ex_external_started = Some ?f" "xb_timestamp_converter ex_external_started = ex_converter"
  "xb_timestamp_mapping_mode ex_external_started = MappingSimulationIdentity" "xb_jump_continuity_config ex_external_started = xp_jump ex_external_parameters"
  "xb_jump_latch ex_external_started = initial_jump_latch\<lparr>gl_generation_known := True, gl_last_generation := 1\<rparr>"
  "xb_lio_public_frame_generation ex_external_started = 1" "xb_lio_public_frame_generation_valid ex_external_started" "xb_lio_valid ex_external_started"
  "xb_lio_covariance_valid ex_external_started" "xb_last_lio_health_ns ex_external_started = 5000000000" "xb_health_max_age_ns ex_external_started = 1000000000"
  "xb_node_ready ex_external_started" "xb_highest_received_lio_epoch ex_external_started = 1" "xb_highest_received_lio_sequence ex_external_started = 1"
    by (simp_all add: e b)
qed

text \<open>The second message, one second later: at the same place it is published, a hundred metres off it jumps.\<close>

lemma ex_second:
  assumes "y \<in> {Fin 0, Fin 100}" "on_lio ex_axis 6000000000 True (ex_propagated 2 6 y) ex_external_started = (out, t)"
  shows "(out = None \<longleftrightarrow> y = Fin 100) \<and> (jo_jumped (xb_last_jump_observation t) \<longleftrightarrow> y = Fin 100) \<and> xb_last_frame_valid t \<and>
    gl_last_generation (xb_jump_latch t) = 1"
proof -
  let ?f = "ex_frame 6000000000 y"
  let ?r = "ex_external_started\<lparr>xb_highest_received_lio_epoch := 1, xb_highest_received_lio_sequence := 2\<rparr>"
  have o: "on_lio ex_axis 6000000000 True (ex_propagated 2 6 y) ex_external_started =
      publish_gated 6000000000 True ?f (vconst (Fin 1)) (vconst (Fin 1)) (vconst (Fin 1)) (assess_frame ex_axis 6000000000 ?f ?r)"
    using ex_on_lio [of y 6 ex_external_started 2 6000000000] assms(1)
    by (simp add: ex_first strictly_newer_source_identity_def received_identity_def ex_propagated_def)
  let ?s = "\<lparr>js_last_received = Some (ex_frame 5000000000 (Fin 0)), js_last_generation = 1, js_last_generation_valid = True, js_continuity_trusted = True\<rparr>"
  obtain ob st where j: "observe_geometric_jump_continuity ex_axis ?f True True 1 (xp_jump ex_external_parameters) ?s = (ob, st)"
    by (metis surj_pair)
  with ex_jump [OF assms(1)] have jj: "jo_jumped ob \<longleftrightarrow> y = Fin 100" "jo_sample_admissible ob" "js_continuity_trusted st" by simp_all
  let ?a = "assess_frame ex_axis 6000000000 ?f ?r"
  have a: "xb_last_jump_observation ?a = ob" "xb_jump_continuity_state ?a = st" "xb_last_frame_valid ?a"
    "xb_last_timestamp_result ?a = conversion_result MappingSimulationIdentity 1 6000000 6000000 0"
    "gl_latched (xb_jump_latch ?a) \<longleftrightarrow> y = Fin 100" "gl_last_generation (xb_jump_latch ?a) = 1" "xb_node_ready ?a"
    using jj(1) by (simp_all add: assess_frame_def ex_first public_generation_def ex_conversions j Let_def observeGeometricJump_def initial_jump_latch_def)
  have "publication_ready (gate_input 6000000000 True ?f ?a) \<longleftrightarrow> y \<noteq> Fin 100"
    using jj by (simp add: publication_ready_def gate_input_def a ex_first conversion_result_def public_generation_def lio_health_fresh_def
        checkedDifference_eq i64_simps)
  with assms(2) a jj show ?thesis unfolding o
    by (auto simp: publish_gated_def evaluate_external_odometry_gate_def Let_def split: if_splits)
qed


definition ex_events :: "external_event list" where
  "ex_events = [HealthEvent ex_health, LioEvent 5000000000 True (ex_propagated 1 5 (Fin 0))]"

lemma ex_events_run: "snd (external_run ex_axis ex_events ex_external_start) = ex_external_started"
  by (simp add: ex_events_def ex_external_started_def case_prod_unfold Let_def)

theorem external_stream_monotone_witness:
  "length (fst (external_run ex_axis (ex_events @ [LioEvent 6000000000 True (ex_propagated 2 6 (Fin 0))]) ex_external_start)) = 2 \<and>
   sorted_wrt (\<lambda>x y. px_timestamp_sample x < px_timestamp_sample y)
     (map snd (fst (external_run ex_axis (ex_events @ [LioEvent 6000000000 True (ex_propagated 2 6 (Fin 0))]) ex_external_start)))"
proof -
  let ?run = "fst (external_run ex_axis (ex_events @ [LioEvent 6000000000 True (ex_propagated 2 6 (Fin 0))]) ex_external_start)"
  obtain out t where o: "on_lio ex_axis 6000000000 True (ex_propagated 2 6 (Fin 0)) ex_external_started = (out, t)" by (metis surj_pair)
  then have "out \<noteq> None" using ex_second [OF _ o] by simp
  then have "length ?run = 2" using ex_first(1) o
    by (auto simp: ex_events_def case_prod_unfold Let_def ex_external_started_def)
  moreover have "sorted_wrt (\<lambda>x y. px_timestamp_sample x < px_timestamp_sample y) (map snd ?run)"
    unfolding sorted_wrt_map
    by (rule sorted_wrt_mono_rel [OF _ external_stream_monotone [OF ex_external_made]]) auto
  ultimately show ?thesis by blast
qed

theorem jump_latch_holds_witness:
  "\<exists>s. on_lio ex_axis 6000000000 True (ex_propagated 2 6 (Fin 100)) ex_external_started = (None, s) \<and> gl_latched (xb_jump_latch s) \<and>
     fst (external_run ex_axis [HealthEvent ex_health, LioEvent 6000000000 True (ex_propagated 3 6 (Fin 0))] s) = []"
proof -
  obtain out s where o: "on_lio ex_axis 6000000000 True (ex_propagated 2 6 (Fin 100)) ex_external_started = (out, s)" by (metis surj_pair)
  have e: "jo_jumped (xb_last_jump_observation s)" "xb_last_frame_valid s" "gl_last_generation (xb_jump_latch s) = 1"
    using ex_second [OF _ o] by simp_all
  have "\<forall>ev\<in>set [HealthEvent ex_health, LioEvent 6000000000 True (ex_propagated 3 6 (Fin 0))]. event_epoch ev \<le> gl_last_generation (xb_jump_latch s)"
    by (simp add: e ex_health_def ex_propagated_def)
  from jump_latch_holds [OF ex_external_made o [folded ex_events_run] e(2,1) this] o show ?thesis by blast
qed

theorem external_publication_sound_witness:
  "\<exists>x t. on_lio ex_axis 6000000000 True (ex_propagated 2 6 (Fin 0)) ex_external_started = (Some x, t) \<and>
     fp_less (Fin 0) (vx (px_position_variance x)) \<and> isfinite (qw (px_q x)) \<and> px_reset_counter x = 1 \<and> \<not> gl_latched (xb_jump_latch t)"
proof -
  obtain out t where o: "on_lio ex_axis 6000000000 True (ex_propagated 2 6 (Fin 0)) ex_external_started = (out, t)" by (metis surj_pair)
  then obtain x where "out = Some x" using ex_second [OF _ o] by auto
  with o have o: "on_lio ex_axis 6000000000 True (ex_propagated 2 6 (Fin 0)) ex_external_started = (Some x, t)" by simp
  obtain outs where "external_run ex_axis ex_events ex_external_start = (outs, ex_external_started)" using ex_events_run by (metis surj_pair snd_conv)
  from external_publication_sound [OF ex_external_made this o] o show ?thesis by (auto simp: ex_first)
qed

end
