(* ===== verification/Spec2Isabelle.thy ===== *)
theory Spec2Isabelle
  imports Command_Sampling Execution_State_Store Spsc_Queue Command_Contract Tracking_Experiment Mission_Progress
    World_Store Heading_Worker Px4_Odometry_Bridge External_Bridge
begin

text \<open>
  A verification development for the UAV navigation stack: the execution core, the contracts between its
  processes, the workers that feed it, the mission owner and the bridges to the flight controller.

  \<^bold>\<open>The program.\<close> A LiDAR-inertial estimator publishes kinematic states, a mapper publishes immutable world
  snapshots, a planner turns a mission waypoint into a candidate bundle (a main trajectory with certified
  backups), the execution core owns the one command that may fly, and a PX4 external mode consumes the
  sampled commands. The part that decides what may be flown is the execution package
  (\<open>src/execution/navigation_execution\<close>) with the contracts it shares with its neighbours
  (\<open>src/planning/navigation_planning\<close>, \<open>src/mapping/navigation_world_model\<close>, \<open>src/contracts\<close>,
  \<open>src/common\<close>). This development models that part, operation by operation.

  \<^bold>\<open>Theories and sources.\<close>

  \<^item> \<open>Nav_Prelude\<close>: widths of integers, shared pointers with identity (\<open>ptr\<close>), optional values, the
    binary search of \<open>std::lower_bound\<close>, and the locales \<open>transition_system\<close> (reachable states, runs) and
    \<open>versioned_store\<close> (a version that identifies a view until it wraps), which the stateful components
    interpret on their own operations.
  \<^item> \<open>Fp_Arith\<close>, \<open>Fp_Geometry\<close>: \<open>double\<close> and \<open>long double\<close> as rationals with infinities and NaN, rounded to
    nearest even with overflow and gradual underflow; the rounding laws are proved once in a locale over the
    format and interpreted for binary64 and the 80-bit format. Vectors of three doubles; the reductions of
    Eigen (norm, dot product), whose association order is not in these sources, are arguments (\<open>eigen\<close>).
  \<^item> \<open>Nav_Time\<close>: \<open>navigation_common/time.hpp\<close> -- conversions between nanoseconds, PX4 microseconds, ROS
    stamps and seconds, with their saturation and rounding.
  \<^item> \<open>Spsc_Queue\<close>: \<open>navigation_common/bounded_spsc_queue.hpp\<close> -- the ring buffer, whole and as interleaved
    atomic accesses of one producer and one consumer.
  \<^item> \<open>World_Model\<close>: cells, policies, snapshot identity, the abstract view and the predicates of
    \<open>world_model_view.hpp\<close>, \<open>goal_contract.hpp\<close> and \<open>world_commit_authorizer.hpp\<close>.
  \<^item> \<open>Candidate_Bundle\<close>: \<open>candidate_bundle.hpp\<close>, \<open>route_boundary.hpp\<close>, \<open>execution_anchor.hpp\<close>,
    \<open>planning_timing.hpp\<close> -- certificates, phases, the role schedule, sampling and anchors.
  \<^item> \<open>Execution_Lifecycle\<close>: \<open>execution_lifecycle.hpp\<close> and \<open>execution_recovery_state.hpp\<close>.
  \<^item> \<open>Execution_Authority\<close>, \<open>Authority_Invariants\<close>, \<open>Authority_Properties\<close>: \<open>execution_authority.hpp\<close>. The
    record \<open>authority\<close> is the state the class keeps under its mutex, each public method is one function of
    it, and a critical section is one step of the relation \<open>authority_step\<close>; work done outside the lock (the
    planner's validators, the two phases of a world publication) is an argument or a separate step.
  \<^item> \<open>Execution_Decisions\<close>: \<open>execution_decisions.hpp\<close>, \<open>certified_continuation.hpp\<close>,
    \<open>world_temporal_assessment.hpp\<close>, \<open>timestamp_freshness.hpp\<close>.
  \<^item> \<open>Command_Sampling\<close>: \<open>command_sampler.hpp\<close>, \<open>execution_state_gate.hpp\<close>.
  \<^item> \<open>Execution_State_Store\<close>: \<open>execution_state_store.hpp\<close>, \<open>execution_state_lease.hpp\<close>, \<open>kinematic_state.hpp\<close>.
  \<^item> \<open>Command_Contract\<close>, \<open>Tracking_Experiment\<close>: \<open>navigation_command_contract.hpp\<close>,
    \<open>execution_state_freshness.hpp\<close>, \<open>command_safety_contract.hpp\<close>, \<open>tracking_experiment.hpp\<close>.
  \<^item> \<open>Mission\<close>, \<open>Route_Progress\<close>, \<open>Mission_Progress\<close>: the package \<open>navigation_mission\<close> -- the mission
    contract and its loader over a parsed YAML document, route geometry and monotone progress, and the owner
    of waypoint acceptance.
  \<^item> \<open>World_Store\<close>: \<open>world_snapshot_store.hpp\<close> -- the publication gate of world snapshots, with the order in
    which the runtime's mapping callback publishes to the store and to the authority (\<open>system_step\<close>).
  \<^item> \<open>Observation_Accounting\<close>, \<open>Mapping_Worker\<close>: \<open>observation_accounting.hpp\<close>, \<open>mapping_worker.hpp\<close>;
    \<open>Planning_Worker\<close>: \<open>planning_worker.hpp\<close>, \<open>planning_supervisor.hpp\<close> and the planning key;
    \<open>Heading_Worker\<close>: \<open>heading_rebind_worker.hpp\<close> and the locale \<open>latest_only\<close> that both latest-only
    executors interpret. A worker is a record for the members under the mutex and a program point per
    thread; each critical section between two waits is one function, and the step relations interleave the
    worker thread, its callers and the shutdown.
  \<^item> \<open>Bridge_Time\<close>, \<open>Frame_Conversion\<close>, \<open>Reset_Compensator\<close>, \<open>Odometry_Buffer\<close>, \<open>Px4_Odometry_Bridge\<close>: the
    node of \<open>px4_odometry_bridge\<close> that turns PX4 odometry into ROS odometry -- time validation, the frame
    conventions of \<open>navigation_common\<close>, sign continuity, resets of the PX4 estimator, the sample history and
    the handlers.
  \<^item> \<open>External_Odometry\<close>, \<open>External_Bridge\<close>: the node that sends the estimator's odometry to PX4 --
    covariances, float conversion (binary32 is a third interpretation of the rounding locale), jump
    detection, the latch, the gate and the handlers, with runs of arbitrary messages (\<open>external_run\<close>). The
    products, decompositions and rotations of Eigen are the argument \<open>eigen3\<close>.

  \<^bold>\<open>What is shown.\<close> Every reachable state of the authority satisfies the class invariant; \<open>publishIfCurrent\<close>
  succeeds exactly for the active command of the requested goal while it is available, and that command is valid
  and bound to the current world; a failed lifecycle stays failed until a goal is admitted without retaining the
  command, the admission is reset or \<open>invalidate()\<close> is called, and these leave no command behind; a snapshot that is
  current identifies the state it was taken from; a transaction is consumed at most once by commits and stagings; a
  world publication either advances the world with the active command recertified or revokes it, and a world for
  which the retained command could not be recertified is not consumed. The sampler returns only finite points of the
  active bundle, inside its lease, or the end point of a trajectory whose lease and declared duration are over.
  Recovery is one-way, an emergency replaces a command at most once. The queue is a linearizable FIFO. An accepted
  command stream never regresses in its epochs, goal, world and stamps. The mission accepts waypoints in order, and none
  without measured samples that show the crossing or the stop; route progress never decreases and stays within
  the route. The world the active command is bound to is the published one, or the newer one that the publication
  holding the gate is about to store; a planner's commit sees the latest publication and knows whether anything was
  published since its validation. The workers run the latest request, account for every observation and request, map in
  stamp order, and a shutdown of the planner ends. The odometry sent to PX4 is ordered, fresh and finite, with the pose of
  the converted frame, and stops at a geometric jump until the estimator starts a new epoch; the time validator never
  accepts a regression within a generation; the sample history is sorted and bounded, and a query answers with a stored
  or an interpolated sample; the frame changes are exact involutions; and the node towards ROS, as written, never
  publishes. A mission document loads exactly as what its fields say, and loading is a left inverse of writing a valid
  mission. The time conversions are exact, monotone or saturating as documented.

  \<^bold>\<open>Bounds.\<close> There is no fuel: every loop of the modelled code is over a finite container and is a structural
  recursion, or has a termination proof (the binary search). Integers keep their width: \<open>u64\<close> and \<open>u32\<close> are
  words that wrap; \<open>i64\<close> values are integers, and the operations that could leave the range carry the range
  test of the source. Theorems that rely on a version not having wrapped around state the number of steps.

  \<^bold>\<open>Not modelled.\<close> The estimator (FAST-LIO with its vendored filter and tree), the vendored ROG-Map, the
  numerical trajectory optimiser, the ROS nodes that wire the components, launch files and simulation; for
  these the development states only the contracts the modelled code checks. Still open in the modelled
  packages: the geometric support searches of \<open>world_model_view.hpp\<close>.
\<close>

end
